(* ===== verification/Prelude.thy ===== *)
theory Prelude
  imports Complex_Main "HOL-Library.Word" "HOL-Library.Char_ord" "HOL-Library.List_Lexorder" "HOL-Library.Multiset"
begin

text \<open>
  Shared vocabulary of the development: results (Rust's \<open>Result\<close> as a sum, the error on the
  left), byte strings and the string functions of the Rust standard library the source uses, and
  the generic lemmas on them. A Rust \<open>String\<close> is its UTF-8 byte sequence, one \<open>char\<close> a byte, so
  that \<open>length\<close> is \<open>str::len\<close>. Character classes are the ASCII ones the source calls
  (\<open>is_ascii_alphanumeric\<close> and its kin); \<open>to_uppercase\<close> is modelled on ASCII letters, which is
  where the source uses it (HTTP method tokens).
\<close>

named_theorems result_simps \<open>unfolding of results and guards\<close>

section \<open>Results\<close>

type_synonym ('e, 'a) result = "'e + 'a"

definition r_bind :: "('e, 'a) result \<Rightarrow> ('a \<Rightarrow> ('e, 'b) result) \<Rightarrow> ('e, 'b) result" where
  "r_bind r f = (case r of Inl e \<Rightarrow> Inl e | Inr x \<Rightarrow> f x)"

definition is_ok :: "('e, 'a) result \<Rightarrow> bool" where
  "is_ok r = (case r of Inl _ \<Rightarrow> False | Inr _ \<Rightarrow> True)"

definition ok_or :: "'a option \<Rightarrow> 'e \<Rightarrow> ('e, 'a) result" where
  "ok_or x e = (case x of None \<Rightarrow> Inl e | Some v \<Rightarrow> Inr v)"

definition map_err :: "('e \<Rightarrow> 'f) \<Rightarrow> ('e, 'a) result \<Rightarrow> ('f, 'a) result" where
  "map_err f r = (case r of Inl e \<Rightarrow> Inl (f e) | Inr x \<Rightarrow> Inr x)"

text \<open>A loop over a list whose body may return early with an error.\<close>

fun check_all :: "('a \<Rightarrow> ('e, unit) result) \<Rightarrow> 'a list \<Rightarrow> ('e, unit) result" where
  "check_all f [] = Inr ()"
| "check_all f (x # xs) = (case f x of Inl e \<Rightarrow> Inl e | Inr _ \<Rightarrow> check_all f xs)"

text \<open>A loop over a list that threads a state and may return early with an error.\<close>

fun fold_r :: "('a \<Rightarrow> 's \<Rightarrow> ('e, 's) result) \<Rightarrow> 'a list \<Rightarrow> 's \<Rightarrow> ('e, 's) result" where
  "fold_r f [] s = Inr s"
| "fold_r f (x # xs) s = (case f x s of Inl e \<Rightarrow> Inl e | Inr s' \<Rightarrow> fold_r f xs s')"

text \<open>A loop over a list that collects results and may return early with an error.\<close>

fun map_r :: "('a \<Rightarrow> ('e, 'b) result) \<Rightarrow> 'a list \<Rightarrow> ('e, 'b list) result" where
  "map_r f [] = Inr []"
| "map_r f (x # xs) = r_bind (f x) (\<lambda>y. r_bind (map_r f xs) (\<lambda>ys. Inr (y # ys)))"

lemma r_bind_Inl [simp, result_simps]: "r_bind (Inl e) f = Inl e"
  by (simp add: r_bind_def)

lemma r_bind_Inr [simp, result_simps]: "r_bind (Inr x) f = f x"
  by (simp add: r_bind_def)

lemma r_bind_eq_Inr [result_simps]: "r_bind r f = Inr y \<longleftrightarrow> (\<exists>x. r = Inr x \<and> f x = Inr y)"
  by (cases r) auto

lemma r_bind_eq_Inl: "r_bind r f = Inl e \<longleftrightarrow> r = Inl e \<or> (\<exists>x. r = Inr x \<and> f x = Inl e)"
  by (cases r) auto

lemma is_ok_simps [simp, result_simps]: "is_ok (Inr x)" "\<not> is_ok (Inl e)"
  by (simp_all add: is_ok_def)

lemma is_ok_iff: "is_ok r \<longleftrightarrow> (\<exists>x. r = Inr x)"
  by (cases r) auto

lemma ok_or_simps [simp, result_simps]: "ok_or None e = Inl e" "ok_or (Some v) e = Inr v"
  by (simp_all add: ok_or_def)

lemma ok_or_eq_Inr [result_simps]: "ok_or x e = Inr v \<longleftrightarrow> x = Some v"
  by (cases x) auto

lemma map_err_simps [simp, result_simps]: "map_err f (Inl e) = Inl (f e)" "map_err f (Inr x) = Inr x"
  by (simp_all add: map_err_def)

lemma map_err_eq_Inr [result_simps]: "map_err f r = Inr x \<longleftrightarrow> r = Inr x"
  by (cases r) auto

lemma check_all_eq_Inr [result_simps]:
  "check_all f xs = Inr u \<longleftrightarrow> (\<forall>x \<in> set xs. f x = Inr ())"
proof (induction xs)
  case Nil
  show ?case by simp
next
  case (Cons x xs)
  then show ?case by (cases "f x") auto
qed

lemma check_all_ok: "is_ok (check_all f xs) \<longleftrightarrow> (\<forall>x \<in> set xs. is_ok (f x))"
  by (auto simp: is_ok_iff check_all_eq_Inr)

lemma check_all_first_error:
  assumes "check_all f xs = Inl e"
  shows "\<exists>ys x zs. xs = ys @ x # zs \<and> f x = Inl e \<and> (\<forall>y \<in> set ys. f y = Inr ())"
  using assms
proof (induction xs)
  case Nil
  then show ?case by simp
next
  case (Cons x xs)
  show ?case
  proof (cases "f x")
    case (Inl e')
    with Cons.prems have "f x = Inl e" by simp
    then have "x # xs = [] @ x # xs \<and> f x = Inl e \<and> (\<forall>y \<in> set []. f y = Inr ())" by simp
    then show ?thesis by blast
  next
    case (Inr u)
    with Cons.prems have "check_all f xs = Inl e" by simp
    with Cons.IH obtain ys z zs where
      "xs = ys @ z # zs" "f z = Inl e" "\<forall>y \<in> set ys. f y = Inr ()" by blast
    with Inr have "x # xs = (x # ys) @ z # zs \<and> f z = Inl e \<and> (\<forall>y \<in> set (x # ys). f y = Inr ())"
      by simp
    then show ?thesis by blast
  qed
qed

lemma map_r_total: "\<forall>x \<in> set xs. f x = Inr (g x) \<Longrightarrow> map_r f xs = Inr (map g xs)"
  by (induction xs) auto

lemma map_r_elem: "map_r f xs = Inr ys \<Longrightarrow> y \<in> set ys \<Longrightarrow> \<exists>x \<in> set xs. f x = Inr y"
  by (induction xs arbitrary: ys) (auto simp: r_bind_eq_Inr)

lemma list_all2_elem: "list_all2 P xs ys \<Longrightarrow> y \<in> set ys \<Longrightarrow> \<exists>x \<in> set xs. P x y"
  by (induction rule: list_all2_induct) auto

lemma map_r_length: "map_r f xs = Inr ys \<Longrightarrow> length ys = length xs"
  by (induction xs arbitrary: ys) (auto simp: r_bind_eq_Inr)

lemma fold_r_append:
  "fold_r f (xs @ ys) s = (case fold_r f xs s of Inl e \<Rightarrow> Inl e | Inr s' \<Rightarrow> fold_r f ys s')"
  by (induction xs arbitrary: s) (auto split: sum.splits)

lemma fold_r_invariant:
  assumes "fold_r f xs s = Inr s'" and "I s"
    and "\<And>x s s'. x \<in> set xs \<Longrightarrow> I s \<Longrightarrow> f x s = Inr s' \<Longrightarrow> I s'"
  shows "I s'"
  using assms
proof (induction xs arbitrary: s)
  case Nil
  then show ?case by simp
next
  case (Cons x xs)
  then obtain s1 where "f x s = Inr s1" "fold_r f xs s1 = Inr s'" by (auto split: sum.splits)
  with Cons show ?case by (metis list.set_intros(1, 2))
qed

section \<open>Byte strings\<close>

abbreviation dot :: char where "dot \<equiv> CHR ''.''"

abbreviation backslash :: char where "backslash \<equiv> CHR 0x5C"

definition starts_with :: "string \<Rightarrow> string \<Rightarrow> bool" where
  "starts_with s p = (take (length p) s = p)"

definition ends_with :: "string \<Rightarrow> string \<Rightarrow> bool" where
  "ends_with s p = starts_with (rev s) (rev p)"

definition strip_prefix :: "string \<Rightarrow> string \<Rightarrow> string option" where
  "strip_prefix s p = (if starts_with s p then Some (drop (length p) s) else None)"

text \<open>\<open>str::contains\<close> with a string pattern.\<close>

fun contains_str :: "string \<Rightarrow> string \<Rightarrow> bool" where
  "contains_str [] p = (p = [])"
| "contains_str (c # s) p = (starts_with (c # s) p \<or> contains_str s p)"

text \<open>\<open>str::split\<close> on one character: at least one segment, empty segments kept.\<close>

fun split_on :: "char \<Rightarrow> string \<Rightarrow> string list" where
  "split_on c [] = [[]]"
| "split_on c (x # xs) =
     (if x = c then [] # split_on c xs
      else (case split_on c xs of [] \<Rightarrow> [[x]] | s # ss \<Rightarrow> (x # s) # ss))"

text \<open>\<open>str::splitn(2, c)\<close>: one or two parts.\<close>

fun splitn2 :: "char \<Rightarrow> string \<Rightarrow> string list" where
  "splitn2 c [] = [[]]"
| "splitn2 c (x # xs) =
     (if x = c then [[], xs]
      else (case splitn2 c xs of [] \<Rightarrow> [[x]] | s # ss \<Rightarrow> (x # s) # ss))"

text \<open>\<open>str::replace\<close> of one character.\<close>

definition replace_char :: "char \<Rightarrow> string \<Rightarrow> string \<Rightarrow> string" where
  "replace_char c t s = concat (map (\<lambda>x. if x = c then t else [x]) s)"

lemma replace_char_simps [simp]:
  "replace_char c t [] = []"
  "replace_char c t (x # s) = (if x = c then t else [x]) @ replace_char c t s"
  by (simp_all add: replace_char_def)

fun join :: "string \<Rightarrow> string list \<Rightarrow> string" where
  "join sep [] = []"
| "join sep [s] = s"
| "join sep (s # t # ss) = s @ sep @ join sep (t # ss)"

definition is_ascii_digit :: "char \<Rightarrow> bool" where
  "is_ascii_digit c = (CHR ''0'' \<le> c \<and> c \<le> CHR ''9'')"

definition is_ascii_alphabetic :: "char \<Rightarrow> bool" where
  "is_ascii_alphabetic c =
     ((CHR ''a'' \<le> c \<and> c \<le> CHR ''z'') \<or> (CHR ''A'' \<le> c \<and> c \<le> CHR ''Z''))"

definition is_ascii_alphanumeric :: "char \<Rightarrow> bool" where
  "is_ascii_alphanumeric c = (is_ascii_alphabetic c \<or> is_ascii_digit c)"

definition ascii_upper :: "char \<Rightarrow> char" where
  "ascii_upper c = (if CHR ''a'' \<le> c \<and> c \<le> CHR ''z'' then char_of (of_char c - (32 :: nat)) else c)"

definition ascii_lower :: "char \<Rightarrow> char" where
  "ascii_lower c = (if CHR ''A'' \<le> c \<and> c \<le> CHR ''Z'' then char_of (of_char c + (32 :: nat)) else c)"

definition to_uppercase :: "string \<Rightarrow> string" where
  "to_uppercase s = map ascii_upper s"

text \<open>Decimal output of an unsigned integer and \<open>str::parse\<close> into a bounded one.\<close>

definition digit_char :: "nat \<Rightarrow> char" where
  "digit_char d = char_of (48 + d)"

fun show_nat :: "nat \<Rightarrow> string" where
  "show_nat n = (if n < 10 then [digit_char n] else show_nat (n div 10) @ [digit_char (n mod 10)])"

declare show_nat.simps [simp del]

definition show_int :: "int \<Rightarrow> string" where
  "show_int i = (if i < 0 then ''-'' @ show_nat (nat (- i)) else show_nat (nat i))"

fun digits_value :: "nat \<Rightarrow> string \<Rightarrow> nat option" where
  "digits_value acc [] = Some acc"
| "digits_value acc (c # cs) =
     (if is_ascii_digit c then digits_value (10 * acc + (of_char c - 48)) cs else None)"

definition parse_digits :: "string \<Rightarrow> nat option" where
  "parse_digits s = (if s = [] then None else digits_value 0 s)"

text \<open>
  \<open>str::split_whitespace\<close> on UTF-8: \<open>ws_prefix\<close> is the length of the white-space character at the start of a text,
  or 0.
\<close>

definition ws_prefix :: "string \<Rightarrow> nat" where
  "ws_prefix s =
     (let b = (\<lambda>i. if i < length s then (of_char (s ! i) :: nat) else 0) in
      if (9 \<le> b 0 \<and> b 0 \<le> 13) \<or> b 0 = 32 then 1
      else if b 0 = 0xC2 \<and> (b 1 = 0x85 \<or> b 1 = 0xA0) then 2
      else if b 0 = 0xE1 \<and> b 1 = 0x9A \<and> b 2 = 0x80 then 3
      else if b 0 = 0xE2 \<and> b 1 = 0x80 \<and> ((0x80 \<le> b 2 \<and> b 2 \<le> 0x8A) \<or> b 2 = 0xA8 \<or> b 2 = 0xA9 \<or> b 2 = 0xAF) then 3
      else if b 0 = 0xE2 \<and> b 1 = 0x81 \<and> b 2 = 0x9F then 3
      else if b 0 = 0xE3 \<and> b 1 = 0x80 \<and> b 2 = 0x80 then 3
      else 0)"

function split_ws :: "string \<Rightarrow> string \<Rightarrow> string list" where
  "split_ws cur s =
     (if s = [] then (if cur = [] then [] else [rev cur])
      else if ws_prefix s = 0 then split_ws (hd s # cur) (tl s)
      else (if cur = [] then [] else [rev cur]) @ split_ws [] (drop (ws_prefix s) s))"
  by pat_completeness auto
termination
  by (relation "measure (length \<circ> snd)") auto

definition split_whitespace :: "string \<Rightarrow> string list" where
  "split_whitespace s = split_ws [] s"

declare split_ws.simps [simp del]

text \<open>\<open>trim_end_matches\<close> with a character.\<close>

definition trim_end_char :: "char \<Rightarrow> string \<Rightarrow> string" where
  "trim_end_char c s = rev (dropWhile (\<lambda>x. x = c) (rev s))"

text \<open>\<open>s.parse::<u64>()\<close>: an optional plus sign, at least one digit, no overflow.\<close>

definition parse_u64 :: "string \<Rightarrow> nat option" where
  "parse_u64 s =
     (case parse_digits (if starts_with s ''+'' then tl s else s) of
        None \<Rightarrow> None
      | Some n \<Rightarrow> if n < 2 ^ 64 then Some n else None)"

text \<open>\<open>s.parse::<i64>()\<close>: an optional sign, at least one digit, within 64 bits.\<close>

definition parse_i64 :: "string \<Rightarrow> int option" where
  "parse_i64 s =
     (if starts_with s ''-'' then
        (case parse_digits (tl s) of
           None \<Rightarrow> None
         | Some n \<Rightarrow> if n \<le> 2 ^ 63 then Some (- int n) else None)
      else
        (case parse_digits (if starts_with s ''+'' then tl s else s) of
           None \<Rightarrow> None
         | Some n \<Rightarrow> if n < 2 ^ 63 then Some (int n) else None))"

text \<open>\<open>str::is_char_boundary\<close>: a UTF-8 continuation byte never starts a character.\<close>

definition is_char_boundary :: "string \<Rightarrow> nat \<Rightarrow> bool" where
  "is_char_boundary s i =
     (i = 0 \<or> i = length s \<or>
      (i < length s \<and> \<not> (128 \<le> (of_char (s ! i) :: nat) \<and> (of_char (s ! i) :: nat) < 192)))"

text \<open>\<open>Path::join\<close> on Unix: an absolute second path replaces the first.\<close>

definition path_join :: "string \<Rightarrow> string \<Rightarrow> string" where
  "path_join dir p =
     (if starts_with p ''/'' then p else if dir = [] \<or> ends_with dir ''/'' then dir @ p else dir @ ''/'' @ p)"

section \<open>Lemmas on byte strings\<close>

lemma starts_with_iff: "starts_with s p \<longleftrightarrow> (\<exists>t. s = p @ t)"
proof
  assume "starts_with s p"
  then have "take (length p) s = p" by (simp add: starts_with_def)
  then have "s = p @ drop (length p) s" by (metis append_take_drop_id)
  then show "\<exists>t. s = p @ t" by blast
qed (auto simp: starts_with_def)

lemma starts_with_append [simp]: "starts_with (p @ t) p"
  by (simp add: starts_with_def)

lemma starts_with_Nil [simp]: "starts_with s []"
  by (simp add: starts_with_def)

lemma ends_with_iff: "ends_with s p \<longleftrightarrow> (\<exists>t. s = t @ p)"
proof
  assume "ends_with s p"
  then obtain u where u: "rev s = rev p @ u" by (auto simp: ends_with_def starts_with_iff)
  have "s = rev (rev s)" by simp
  also have "\<dots> = rev u @ p" by (simp add: u)
  finally have "s = rev u @ p" .
  then show "\<exists>t. s = t @ p" by blast
qed (auto simp: ends_with_def starts_with_iff)

lemma ends_with_append [simp]: "ends_with (t @ p) p"
  by (auto simp: ends_with_iff)

lemma strip_prefix_Some: "strip_prefix s p = Some t \<longleftrightarrow> s = p @ t"
  by (auto simp: strip_prefix_def starts_with_iff)

lemma contains_str_iff: "contains_str s p \<longleftrightarrow> (\<exists>a b. s = a @ p @ b)"
proof (induction s)
  case Nil
  show ?case by auto
next
  case (Cons c s)
  have "contains_str (c # s) p \<longleftrightarrow> (\<exists>b. c # s = p @ b) \<or> (\<exists>a b. s = a @ p @ b)"
    using Cons by (simp add: starts_with_iff)
  also have "\<dots> \<longleftrightarrow> (\<exists>a b. c # s = a @ p @ b)"
  proof
    assume "(\<exists>b. c # s = p @ b) \<or> (\<exists>a b. s = a @ p @ b)"
    then show "\<exists>a b. c # s = a @ p @ b"
      by (metis append_Cons append_Nil)
  next
    assume "\<exists>a b. c # s = a @ p @ b"
    then obtain a b where ab: "c # s = a @ p @ b" by blast
    show "(\<exists>b. c # s = p @ b) \<or> (\<exists>a b. s = a @ p @ b)"
      using ab by (cases a) auto
  qed
  finally show ?case .
qed

lemma split_on_nonempty [simp]: "split_on c s \<noteq> []"
  by (induction s) (auto split: list.splits)

lemma split_on_segments: "seg \<in> set (split_on c s) \<Longrightarrow> c \<notin> set seg"
  by (induction s arbitrary: seg) (auto split: if_splits list.splits)

lemma split_on_absent: "c \<notin> set s \<Longrightarrow> split_on c s = [s]"
  by (induction s) auto

lemma join_split_on: "join [c] (split_on c s) = s"
proof (induction s)
  case Nil
  show ?case by simp
next
  case (Cons x s)
  obtain t ts where ts: "split_on c s = t # ts"
    by (cases "split_on c s") auto
  show ?case using Cons ts by (cases ts) auto
qed

lemma split_on_append_sep: "c \<notin> set s \<Longrightarrow> split_on c (s @ c # t) = s # split_on c t"
  by (induction s) auto

lemma split_on_append: "split_on c (a @ c # b) = split_on c a @ split_on c b"
  by (induction a) (auto split: list.splits)

lemma splitn2_absent: "c \<notin> set s \<Longrightarrow> splitn2 c s = [s]"
  by (induction s) auto

lemma splitn2_present: "c \<notin> set s \<Longrightarrow> splitn2 c (s @ c # t) = [s, t]"
  by (induction s) auto

lemma splitn2_two: "splitn2 c s = [a, b] \<longleftrightarrow> s = a @ c # b \<and> c \<notin> set a"
proof
  assume "splitn2 c s = [a, b]"
  then show "s = a @ c # b \<and> c \<notin> set a"
    by (induction s arbitrary: a) (auto split: if_splits list.splits)
qed (auto simp: splitn2_present)

lemma splitn2_length: "length (splitn2 c s) = (if c \<in> set s then 2 else 1)"
  by (induction s) (auto split: list.splits)

lemma of_char_digit_char [simp]: "d < 10 \<Longrightarrow> (of_char (digit_char d) :: nat) = 48 + d"
  by (simp add: digit_char_def)

lemma is_ascii_digit_digit_char [simp]: "d < 10 \<Longrightarrow> is_ascii_digit (digit_char d)"
  by (simp add: is_ascii_digit_def less_eq_char_def)

lemma digits_value_append:
  "digits_value acc (s @ t) = Option.bind (digits_value acc s) (\<lambda>v. digits_value v t)"
  by (induction s arbitrary: acc) auto

lemma show_nat_nonempty [simp]: "show_nat n \<noteq> []"
  by (subst show_nat.simps) simp

lemma digits_value_show_nat: "digits_value 0 (show_nat n) = Some n"
proof (induction n rule: show_nat.induct)
  case (1 n)
  show ?case
  proof (cases "n < 10")
    case True
    then show ?thesis by (subst show_nat.simps) simp
  next
    case False
    with "1.IH" have "digits_value 0 (show_nat (n div 10)) = Some (n div 10)" by simp
    with False show ?thesis by (subst show_nat.simps) (simp add: digits_value_append)
  qed
qed

lemma parse_digits_show_nat: "parse_digits (show_nat n) = Some n"
  by (simp add: parse_digits_def digits_value_show_nat)

lemma show_nat_digits: "c \<in> set (show_nat n) \<Longrightarrow> is_ascii_digit c"
proof (induction n rule: show_nat.induct)
  case (1 n)
  then show ?case
    by (cases "n < 10") (auto simp: show_nat.simps [of n])
qed

lemma show_nat_no_sign:
  assumes "\<not> is_ascii_digit c"
  shows "\<not> starts_with (show_nat n) [c]"
proof
  assume "starts_with (show_nat n) [c]"
  then have "c \<in> set (show_nat n)" by (auto simp: starts_with_iff)
  with assms show False by (auto dest: show_nat_digits)
qed

lemma parse_u64_show_nat: "n < 2 ^ 64 \<Longrightarrow> parse_u64 (show_nat n) = Some n"
  using show_nat_no_sign [of "CHR ''+''" n]
  by (simp add: parse_u64_def parse_digits_show_nat is_ascii_digit_def less_eq_char_def)

lemma show_nat_inject [simp]: "show_nat m = show_nat n \<longleftrightarrow> m = n"
  by (metis parse_digits_show_nat option.inject)

lemma parse_u64_bound: "parse_u64 s = Some n \<Longrightarrow> n < 2 ^ 64"
  by (auto simp: parse_u64_def split: option.splits if_splits)

section \<open>Sorting by a comparison\<close>

text \<open>\<open>sort_by\<close> of the standard library is stable: an element goes before the first that is not smaller.\<close>

fun insort_by :: "('a \<Rightarrow> 'a \<Rightarrow> bool) \<Rightarrow> 'a \<Rightarrow> 'a list \<Rightarrow> 'a list" where
  "insort_by lt x [] = [x]"
| "insort_by lt x (y # ys) = (if lt y x then y # insort_by lt x ys else x # y # ys)"

definition sort_by :: "('a \<Rightarrow> 'a \<Rightarrow> bool) \<Rightarrow> 'a list \<Rightarrow> 'a list" where
  "sort_by lt xs = foldr (insort_by lt) xs []"

lemma mset_insort_by [simp]: "mset (insort_by lt x ys) = add_mset x (mset ys)"
  by (induction ys) auto

lemma sort_by_simps: "sort_by lt [] = []" "sort_by lt (x # xs) = insort_by lt x (sort_by lt xs)"
  by (simp_all add: sort_by_def)

lemma mset_sort_by [simp]: "mset (sort_by lt xs) = mset xs"
  by (induction xs) (simp_all add: sort_by_def)

lemma set_sort_by [simp]: "set (sort_by lt xs) = set xs"
  by (metis mset_sort_by set_mset_mset)

locale strict_weak_order =
  fixes lt :: "'a \<Rightarrow> 'a \<Rightarrow> bool"
  assumes asym: "lt a b \<Longrightarrow> \<not> lt b a"
    and not_less_trans: "\<not> lt b a \<Longrightarrow> \<not> lt c b \<Longrightarrow> \<not> lt c a"
begin

lemma sorted_insort_by:
  "sorted_wrt (\<lambda>a b. \<not> lt b a) ys \<Longrightarrow> sorted_wrt (\<lambda>a b. \<not> lt b a) (insort_by lt x ys)"
proof (induction ys)
  case (Cons y ys)
  have "set (insort_by lt x ys) = insert x (set ys)"
    by (metis mset_insort_by set_mset_add_mset_insert set_mset_mset)
  then show ?case using Cons asym [of y x] not_less_trans [of y x] by (auto dest: asym)
qed simp

lemma sorted_sort_by: "sorted_wrt (\<lambda>a b. \<not> lt b a) (sort_by lt xs)"
  by (induction xs) (simp_all add: sort_by_simps sorted_insort_by)

lemma insort_by_filter:
  assumes "sorted_wrt (\<lambda>a b. \<not> lt b a) ys"
  shows "filter P (insort_by lt x ys) = (if P x then insort_by lt x (filter P ys) else filter P ys)"
  using assms
proof (induction ys)
  case (Cons y ys)
  have before: "insort_by lt x zs = x # zs" if "\<forall>z \<in> set zs. \<not> lt z x" for zs
    using that by (cases zs) auto
  show ?case
  proof (cases "lt y x")
    case False
    with Cons.prems have "\<forall>z \<in> set (filter P ys). \<not> lt z x" using not_less_trans [of y x] by auto
    with False show ?thesis using before by auto
  qed (use Cons in auto)
qed simp

text \<open>Stability: a subsequence is sorted alone as it is within the whole.\<close>

lemma filter_sort_by: "filter P (sort_by lt xs) = sort_by lt (filter P xs)"
  by (induction xs) (simp_all add: sort_by_simps insort_by_filter [OF sorted_sort_by])

end

lemma find_snoc: "find P (xs @ [x]) = (case find P xs of None \<Rightarrow> (if P x then Some x else None) | r \<Rightarrow> r)"
  by (induction xs) auto

lemma found: "find P xs = Some x \<Longrightarrow> x \<in> set xs \<and> P x"
  by (induction xs) (auto split: if_splits)

lemma mem_map_filter: "y \<in> set (List.map_filter f xs) \<longleftrightarrow> (\<exists>x \<in> set xs. f x = Some y)"
  by (force simp: List.map_filter_def)

lemma filter_map_same: "(\<And>x. x \<in> set xs \<Longrightarrow> P (f x) = P x) \<Longrightarrow> (\<And>x. x \<in> set xs \<Longrightarrow> P x \<Longrightarrow> f x = x) \<Longrightarrow> filter P (map f xs) = filter P xs"
  by (induction xs) auto

section \<open>Fallible operations on a state\<close>

text \<open>A fallible operation on a state, and the sequencing of such operations: an error leaves the sequence.\<close>

type_synonym ('e, 's, 'a) action = "'s \<Rightarrow> ('e, 'a) result \<times> 's"

definition s_bind :: "('e, 's, 'a) action \<Rightarrow> ('a \<Rightarrow> ('e, 's, 'b) action) \<Rightarrow> ('e, 's, 'b) action" where
  "s_bind f g s = (case f s of (Inl e, s') \<Rightarrow> (Inl e, s') | (Inr x, s') \<Rightarrow> g x s')"

definition s_return :: "'a \<Rightarrow> ('e, 's, 'a) action" where
  "s_return x s = (Inr x, s)"

definition s_fail :: "'e \<Rightarrow> ('e, 's, 'a) action" where
  "s_fail e s = (Inl e, s)"

text \<open>A check that does not look at the state.\<close>

definition s_check :: "('e, 'a) result \<Rightarrow> ('e, 's, 'a) action" where
  "s_check r s = (r, s)"

text \<open>A look at the state, with a result that may be an error.\<close>

definition s_get :: "('s \<Rightarrow> ('e, 'a) result) \<Rightarrow> ('e, 's, 'a) action" where
  "s_get f s = (f s, s)"

fun s_each :: "('a \<Rightarrow> ('e, 's, unit) action) \<Rightarrow> 'a list \<Rightarrow> ('e, 's, unit) action" where
  "s_each f [] = s_return ()"
| "s_each f (x # xs) = s_bind (f x) (\<lambda>_. s_each f xs)"

lemma s_bind_simps [simp, result_simps]:
  "s_bind (s_check (Inl e)) g s = (Inl e, s)"
  "s_bind (s_check (Inr x)) g s = g x s"
  "s_bind (s_return x) g s = g x s"
  "s_bind (s_fail e) g s = (Inl e, s)"
  by (simp_all add: s_bind_def s_check_def s_return_def s_fail_def)

lemma s_bind_ok:
  "s_bind f g s = (Inr y, s'') \<longleftrightarrow> (\<exists>x s'. f s = (Inr x, s') \<and> g x s' = (Inr y, s''))"
  by (auto simp: s_bind_def split: prod.splits sum.splits)

text \<open>
  \<open>moves R f\<close>: whatever \<open>f\<close> returns, it takes the state along \<open>R\<close>. For a preorder \<open>R\<close> (a frame, or the
  preservation of an invariant) this is closed under the sequencing of operations.
\<close>

definition moves :: "('s \<Rightarrow> 's \<Rightarrow> bool) \<Rightarrow> ('e, 's, 'a) action \<Rightarrow> bool" where
  "moves R f \<longleftrightarrow> (\<forall>s. R s (snd (f s)))"

lemma moves_snd: "moves R f \<Longrightarrow> f s = (r, s') \<Longrightarrow> R s s'"
  by (metis moves_def snd_conv)

locale state_order =
  fixes R :: "'s \<Rightarrow> 's \<Rightarrow> bool"
  assumes R_refl: "R s s"
    and R_trans: "R a b \<Longrightarrow> R b c \<Longrightarrow> R a c"
begin

lemma moves_check: "moves R (s_check r)"
  by (simp add: moves_def s_check_def R_refl)

lemma moves_return: "moves R (s_return x)"
  by (simp add: moves_def s_return_def R_refl)

lemma moves_fail: "moves R (s_fail e)"
  by (simp add: moves_def s_fail_def R_refl)

lemma moves_pure: "moves R (\<lambda>s. (f s, s))"
  by (simp add: moves_def R_refl)

lemma moves_get: "moves R (s_get f)"
  by (simp add: moves_def s_get_def R_refl)

lemma moves_bind:
  assumes "moves R f" and "\<And>x. moves R (g x)"
  shows "moves R (s_bind f g)"
  unfolding moves_def
proof
  fix s
  obtain r s' where f: "f s = (r, s')" by force
  then have "R s s'" using assms(1) by (metis moves_def snd_conv)
  with f assms(2) show "R s (snd (s_bind f g s))"
    by (auto simp: s_bind_def moves_def split: sum.splits intro: R_trans)
qed

text \<open>A check that fails ends the sequence, so what follows may rely on it.\<close>

lemma moves_checked: "(\<And>x. r = Inr x \<Longrightarrow> moves R (g x)) \<Longrightarrow> moves R (s_bind (s_check r) g)"
  by (cases r) (simp_all add: moves_def R_refl)

lemma moves_on_state: "(\<And>t. moves R (f t)) \<Longrightarrow> moves R (\<lambda>s. f s s)"
  by (simp add: moves_def)

lemma moves_if: "(b \<Longrightarrow> moves R f) \<Longrightarrow> (\<not> b \<Longrightarrow> moves R g) \<Longrightarrow> moves R (if b then f else g)"
  by simp

lemmas moves_intros = moves_check moves_return moves_fail moves_pure moves_get moves_bind

end

end
