(* ===== verification/Json.thy ===== *)
theory Json
  imports Prelude
begin

text \<open>
  The JSON values every component of the engine passes around (\<open>serde_json::Value\<close>). An object is
  \<open>serde_json::Map\<close> in its default build, a map ordered by key: here an association list whose
  keys are kept strictly increasing, so that equality of objects is equality of lists and
  iteration is in key order. A number is an unsigned or a negative 64-bit integer or a finite
  double, the latter by its value. The text form of a value (\<open>serde_json::to_string\<close>,
  \<open>from_str\<close>) belongs to the library and is a parameter wherever the source uses it.
\<close>

section \<open>Values\<close>

datatype jnumber = NPosInt nat | NNegInt int | NFloat rat

datatype json =
    JNull
  | JBool bool
  | JNumber jnumber
  | JString string
  | JArray "json list"
  | JObject "(string \<times> json) list"

type_synonym jobject = "(string \<times> json) list"

section \<open>Objects\<close>

fun obj_get :: "jobject \<Rightarrow> string \<Rightarrow> json option" where
  "obj_get [] k = None"
| "obj_get ((k', v) # xs) k = (if k' = k then Some v else obj_get xs k)"

fun obj_insert :: "string \<Rightarrow> json \<Rightarrow> jobject \<Rightarrow> jobject" where
  "obj_insert k v [] = [(k, v)]"
| "obj_insert k v ((k', v') # xs) =
     (if k = k' then (k, v) # xs
      else if k < k' then (k, v) # (k', v') # xs
      else (k', v') # obj_insert k v xs)"

definition obj_remove :: "string \<Rightarrow> jobject \<Rightarrow> jobject" where
  "obj_remove k xs = filter (\<lambda>e. fst e \<noteq> k) xs"

definition obj_keys :: "jobject \<Rightarrow> string list" where
  "obj_keys xs = map fst xs"

definition obj_contains :: "jobject \<Rightarrow> string \<Rightarrow> bool" where
  "obj_contains xs k = (obj_get xs k \<noteq> None)"

definition obj_wf :: "jobject \<Rightarrow> bool" where
  "obj_wf xs = sorted_wrt (<) (map fst xs)"

definition obj_of :: "(string \<times> json) list \<Rightarrow> jobject" where
  "obj_of es = fold (\<lambda>(k, v). obj_insert k v) es []"

text \<open>Accessors of \<open>serde_json::Value\<close>.\<close>

definition as_object :: "json \<Rightarrow> jobject option" where
  "as_object j = (case j of JObject o' \<Rightarrow> Some o' | _ \<Rightarrow> None)"

definition as_array :: "json \<Rightarrow> json list option" where
  "as_array j = (case j of JArray a \<Rightarrow> Some a | _ \<Rightarrow> None)"

definition as_str :: "json \<Rightarrow> string option" where
  "as_str j = (case j of JString s \<Rightarrow> Some s | _ \<Rightarrow> None)"

definition as_bool :: "json \<Rightarrow> bool option" where
  "as_bool j = (case j of JBool b \<Rightarrow> Some b | _ \<Rightarrow> None)"

definition is_null :: "json \<Rightarrow> bool" where
  "is_null j = (j = JNull)"

definition is_object :: "json \<Rightarrow> bool" where
  "is_object j = (case j of JObject _ \<Rightarrow> True | _ \<Rightarrow> False)"

definition json_get :: "json \<Rightarrow> string \<Rightarrow> json option" where
  "json_get j k = (case j of JObject o' \<Rightarrow> obj_get o' k | _ \<Rightarrow> None)"

text \<open>
  \<open>as_f64\<close>: an integer becomes the nearest double, ties to even. The double nearest to a natural number has
  53 significant bits.
\<close>

fun bit_length :: "nat \<Rightarrow> nat" where
  "bit_length n = (if n = 0 then 0 else Suc (bit_length (n div 2)))"

definition f64_of_nat :: "nat \<Rightarrow> rat" where
  "f64_of_nat n =
     (let k = bit_length n - 53; q = n div 2 ^ k; r = n mod 2 ^ k
      in of_nat ((if 2 ^ k < 2 * r \<or> 2 ^ k = 2 * r \<and> odd q then q + 1 else q) * 2 ^ k))"

definition as_f64 :: "json \<Rightarrow> rat option" where
  "as_f64 j =
     (case j of
        JNumber (NPosInt n) \<Rightarrow> Some (f64_of_nat n)
      | JNumber (NNegInt i) \<Rightarrow> Some (- f64_of_nat (nat (- i)))
      | JNumber (NFloat q) \<Rightarrow> Some q
      | _ \<Rightarrow> None)"

text \<open>The schema \<open>{"type": "object"}\<close> that the engine checks payloads against.\<close>

definition object_schema :: json where
  "object_schema = JObject [(''type'', JString ''object'')]"

section \<open>Laws of objects\<close>

lemma obj_get_insert: "obj_get (obj_insert k v xs) k' = (if k' = k then Some v else obj_get xs k')"
  by (induction xs) auto

lemma obj_get_remove: "obj_get (obj_remove k xs) k' = (if k' = k then None else obj_get xs k')"
  by (induction xs) (auto simp: obj_remove_def)

lemma obj_get_Some_key: "obj_get xs k = Some v \<Longrightarrow> (k, v) \<in> set xs"
  by (induction xs) (auto split: if_splits)

lemma obj_get_None_iff: "obj_get xs k = None \<longleftrightarrow> k \<notin> set (obj_keys xs)"
  by (induction xs) (auto simp: obj_keys_def split: if_splits)

lemma obj_keys_insert: "set (obj_keys (obj_insert k v xs)) = insert k (set (obj_keys xs))"
proof (rule set_eqI)
  fix a
  show "a \<in> set (obj_keys (obj_insert k v xs)) \<longleftrightarrow> a \<in> insert k (set (obj_keys xs))"
    using obj_get_None_iff [of "obj_insert k v xs" a] obj_get_None_iff [of xs a]
    by (auto simp: obj_get_insert split: if_splits)
qed

lemma obj_wf_insert:
  assumes "obj_wf xs"
  shows "obj_wf (obj_insert k v xs)"
  using assms
proof (induction xs)
  case Nil
  show ?case by (simp add: obj_wf_def)
next
  case (Cons e xs)
  obtain k' v' where e: "e = (k', v')" by force
  have wf: "obj_wf xs" and less: "\<forall>a \<in> fst ` set xs. k' < a"
    using Cons.prems e by (auto simp: obj_wf_def)
  show ?case
  proof (cases "k = k'")
    case True
    with Cons.prems e show ?thesis by (simp add: obj_wf_def)
  next
    case False
    show ?thesis
    proof (cases "k < k'")
      case True
      with Cons.prems e less False show ?thesis by (auto simp: obj_wf_def dest: less_trans)
    next
      case False
      with \<open>k \<noteq> k'\<close> have "k' < k" by auto
      moreover have "set (map fst (obj_insert k v xs)) = insert k (fst ` set xs)"
        using obj_keys_insert [of k v xs] by (simp add: obj_keys_def)
      ultimately show ?thesis
        using Cons.IH [OF wf] \<open>k \<noteq> k'\<close> False e less by (auto simp: obj_wf_def)
    qed
  qed
qed

lemma obj_wf_remove: "obj_wf xs \<Longrightarrow> obj_wf (obj_remove k xs)"
  by (induction xs) (auto simp: obj_wf_def obj_remove_def)

lemma obj_wf_Nil [simp]: "obj_wf []"
  by (simp add: obj_wf_def)

lemma obj_wf_of: "obj_wf (obj_of es)"
proof -
  have "obj_wf xs \<Longrightarrow> obj_wf (fold (\<lambda>(k, v). obj_insert k v) es xs)" for xs
    by (induction es arbitrary: xs) (auto simp: obj_wf_insert)
  then show ?thesis by (simp add: obj_of_def)
qed

lemma obj_wf_distinct: "obj_wf xs \<Longrightarrow> distinct (map fst xs)"
  by (induction xs) (auto simp: obj_wf_def)

text \<open>Two well-formed objects with the same lookups are the same list.\<close>

lemma obj_wf_ext:
  assumes "obj_wf xs" "obj_wf ys" "\<And>k. obj_get xs k = obj_get ys k"
  shows "xs = ys"
  using assms
proof (induction xs arbitrary: ys)
  case Nil
  show ?case
  proof (cases ys)
    case (Cons e ys')
    then show ?thesis using Nil.prems(3) [of "fst e"] by (cases e) simp
  qed simp
next
  case (Cons e xs)
  obtain k v where e: "e = (k, v)" by force
  obtain f ys' where ys: "ys = f # ys'"
    using Cons.prems(3) [of k] e by (cases ys) auto
  obtain k' v' where f: "f = (k', v')" by force
  have less: "\<forall>a \<in> set (obj_keys xs). k < a" "\<forall>a \<in> set (obj_keys ys'). k' < a"
    using Cons.prems(1,2) e f ys by (auto simp: obj_wf_def obj_keys_def)
  have "k = k'"
  proof (rule ccontr)
    assume neq: "k \<noteq> k'"
    have "obj_get ys' k = Some v" using Cons.prems(3) [of k] e f ys neq by simp
    then have "k' < k" using less(2) obj_get_None_iff [of ys' k] by (metis option.distinct(1))
    moreover have "obj_get xs k' = Some v'" using Cons.prems(3) [of k'] e f ys neq by simp
    then have "k < k'" using less(1) obj_get_None_iff [of xs k'] by (metis option.distinct(1))
    ultimately show False by simp
  qed
  with Cons.prems(3) [of k] e f ys have "v = v'" by simp
  have "obj_get xs a = obj_get ys' a" for a
  proof (cases "a = k")
    case True
    have "k \<notin> set (obj_keys xs)" "k \<notin> set (obj_keys ys')"
      using less \<open>k = k'\<close> by auto
    with True show ?thesis by (metis obj_get_None_iff)
  next
    case False
    with Cons.prems(3) [of a] e f ys \<open>k = k'\<close> show ?thesis by simp
  qed
  moreover have "obj_wf xs" "obj_wf ys'" using Cons.prems(1,2) ys by (auto simp: obj_wf_def)
  ultimately have "xs = ys'" using Cons.IH by blast
  with e f ys \<open>k = k'\<close> \<open>v = v'\<close> show ?case by simp
qed

section \<open>The map interface\<close>

text \<open>
  What the engine relies on from \<open>serde_json::Map\<close>: a finite map with insertion that overwrites
  and removal. Its clients only use these laws.
\<close>

locale string_map =
  fixes get :: "'m \<Rightarrow> string \<Rightarrow> 'v option"
    and ins :: "string \<Rightarrow> 'v \<Rightarrow> 'm \<Rightarrow> 'm"
    and del :: "string \<Rightarrow> 'm \<Rightarrow> 'm"
    and inv :: "'m \<Rightarrow> bool"
  assumes get_ins: "get (ins k v m) k' = (if k' = k then Some v else get m k')"
    and get_del: "get (del k m) k' = (if k' = k then None else get m k')"
    and inv_ins: "inv m \<Longrightarrow> inv (ins k v m)"
    and inv_del: "inv m \<Longrightarrow> inv (del k m)"
    and ext: "inv m \<Longrightarrow> inv n \<Longrightarrow> (\<And>k. get m k = get n k) \<Longrightarrow> m = n"
begin

lemma get_dels: "get (fold del ks m) k = (if k \<in> set ks then None else get m k)"
  by (induction ks arbitrary: m) (auto simp: get_del)

lemma inv_dels: "inv m \<Longrightarrow> inv (fold del ks m)"
  by (induction ks arbitrary: m) (auto simp: inv_del)

lemma get_inss_last:
  "get (fold (\<lambda>(k, v). ins k v) es m) k =
     (case map_of (rev es) k of None \<Rightarrow> get m k | Some v \<Rightarrow> Some v)"
proof (induction es arbitrary: m)
  case Nil
  show ?case by simp
next
  case (Cons e es)
  then show ?case by (cases e) (auto simp: get_ins map_add_def split: option.splits)
qed

lemma inv_inss: "inv m \<Longrightarrow> inv (fold (\<lambda>(k, v). ins k v) es m)"
  by (induction es arbitrary: m) (auto simp: inv_ins)

lemma ins_same: "inv m \<Longrightarrow> get m k = Some v \<Longrightarrow> ins k v m = m"
  by (rule ext) (auto simp: get_ins inv_ins)

lemma del_absent: "inv m \<Longrightarrow> get m k = None \<Longrightarrow> del k m = m"
  by (rule ext) (auto simp: get_del inv_del)

lemma ins_ins: "inv m \<Longrightarrow> ins k v (ins k w m) = ins k v m"
  by (rule ext) (auto simp: get_ins inv_ins)

lemma ins_commute: "inv m \<Longrightarrow> k \<noteq> l \<Longrightarrow> ins k v (ins l w m) = ins l w (ins k v m)"
  by (rule ext) (auto simp: get_ins inv_ins)

lemma del_ins: "inv m \<Longrightarrow> del k (ins k v m) = del k m"
  by (rule ext) (auto simp: get_ins get_del inv_ins inv_del)

end

interpretation jmap: string_map obj_get obj_insert obj_remove obj_wf
  by unfold_locales (auto simp: obj_get_insert obj_get_remove obj_wf_insert obj_wf_remove intro: obj_wf_ext)

lemmas obj_simps [simp] = obj_get_insert obj_get_remove

lemma json_get_simps [simp]:
  "json_get (JObject m) k = obj_get m k" "json_get JNull k = None" "json_get (JBool b) k = None"
  "json_get (JNumber n) k = None" "json_get (JString s) k = None" "json_get (JArray a) k = None"
  by (simp_all add: json_get_def)

lemma as_object_simps [simp]:
  "as_object (JObject m) = Some m" "as_object JNull = None" "as_object (JBool b) = None"
  "as_object (JNumber n) = None" "as_object (JString s) = None" "as_object (JArray a) = None"
  by (simp_all add: as_object_def)

lemma as_str_simps [simp]:
  "as_str (JString s) = Some s" "as_str JNull = None" "as_str (JBool b) = None"
  "as_str (JNumber n) = None" "as_str (JObject m) = None" "as_str (JArray a) = None"
  by (simp_all add: as_str_def)

lemma is_object_iff: "is_object j \<longleftrightarrow> (\<exists>m. j = JObject m)"
  by (cases j) (auto simp: is_object_def)

lemma as_object_eq_Some: "as_object j = Some m \<longleftrightarrow> j = JObject m"
  by (cases j) auto

lemma as_object_eq_None: "as_object j = None \<longleftrightarrow> \<not> is_object j"
  by (cases j) (auto simp: is_object_def)

lemma as_bool_eq_Some: "as_bool j = Some b \<longleftrightarrow> j = JBool b"
  by (cases j) (simp_all add: as_bool_def)

lemma as_str_eq_Some: "as_str j = Some s \<longleftrightarrow> j = JString s"
  by (cases j) auto

section \<open>Well-formed values\<close>

text \<open>Every object inside has distinct keys, as the parser and the map type guarantee.\<close>

fun json_wf :: "json \<Rightarrow> bool" where
  "json_wf (JArray js) = list_all json_wf js"
| "json_wf (JObject ob) = (distinct (map fst ob) \<and> list_all (\<lambda>(k, v). json_wf v) ob)"
| "json_wf _ = True"

lemma obj_get_distinct: "distinct (map fst ob) \<Longrightarrow> (k, v) \<in> set ob \<Longrightarrow> obj_get ob k = Some v"
  by (induction ob) force+

lemma json_wf_get: "json_wf j \<Longrightarrow> json_get j k = Some v \<Longrightarrow> json_wf v"
  by (auto simp: json_get_def list_all_iff dest!: obj_get_Some_key split: json.splits)

lemma size_obj_entry: "(k, v) \<in> set ob \<Longrightarrow> size v < size (JObject ob)"
  by (induction ob) auto

lemma size_json_get: "json_get j k = Some v \<Longrightarrow> size v < size j"
  by (cases j) (auto simp: json_get_def dest!: obj_get_Some_key size_obj_entry)

declare bit_length.simps [simp del]

end
