(* ===== verification/Engine_Error.thy ===== *)
theory Engine_Error
  imports Json
begin

text \<open>
  Errors of the engine. \<open>traits/src/error.rs\<close> classifies an error by a severity; a step executor
  sees an error only through the trait \<open>EngineError\<close> (its text, code, severity and module), which
  is the record \<open>engine_error\<close>. The plugin system's own errors follow
  \<open>plugin-system/src/error.rs\<close>.
\<close>

section \<open>Severity and the error trait\<close>

datatype severity = Fatal | Retryable | Warning

fun severity_to_string :: "severity \<Rightarrow> string" where
  "severity_to_string Fatal = ''Fatal''"
| "severity_to_string Retryable = ''Retryable''"
| "severity_to_string Warning = ''Warning''"

record engine_error =
  ee_message :: string
  ee_code :: string
  ee_severity :: severity
  ee_source_module :: string

section \<open>Errors of the plugin system\<close>

datatype plugin_error =
    DirectoryNotFound string
  | DirectoryScanFailed string
  | ManifestInvalid string
  | ManifestMissingField string string
  | WasmLoadFailed string
  | CapabilityViolation string
  | RuntimeCapabilityViolation string
  | ExecutionFailed string
  | Crash string
  | LifecycleError string
  | Io string

fun plugin_error_code :: "plugin_error \<Rightarrow> string" where
  "plugin_error_code (DirectoryNotFound _) = ''PLUGIN_001''"
| "plugin_error_code (DirectoryScanFailed _) = ''PLUGIN_002''"
| "plugin_error_code (ManifestInvalid _) = ''PLUGIN_003''"
| "plugin_error_code (ManifestMissingField _ _) = ''PLUGIN_004''"
| "plugin_error_code (WasmLoadFailed _) = ''PLUGIN_005''"
| "plugin_error_code (CapabilityViolation _) = ''CAP_001''"
| "plugin_error_code (RuntimeCapabilityViolation _) = ''CAP_002''"
| "plugin_error_code (ExecutionFailed _) = ''PLUGIN_007''"
| "plugin_error_code (Crash _) = ''PLUGIN_010''"
| "plugin_error_code (LifecycleError _) = ''PLUGIN_008''"
| "plugin_error_code (Io _) = ''PLUGIN_009''"

fun plugin_error_severity :: "plugin_error \<Rightarrow> severity" where
  "plugin_error_severity (DirectoryNotFound _) = Fatal"
| "plugin_error_severity (DirectoryScanFailed _) = Retryable"
| "plugin_error_severity (ManifestInvalid _) = Fatal"
| "plugin_error_severity (ManifestMissingField _ _) = Fatal"
| "plugin_error_severity (WasmLoadFailed _) = Fatal"
| "plugin_error_severity (CapabilityViolation _) = Fatal"
| "plugin_error_severity (RuntimeCapabilityViolation _) = Fatal"
| "plugin_error_severity (ExecutionFailed _) = Retryable"
| "plugin_error_severity (Crash _) = Fatal"
| "plugin_error_severity (LifecycleError _) = Fatal"
| "plugin_error_severity (Io _) = Retryable"

fun plugin_error_to_string :: "plugin_error \<Rightarrow> string" where
  "plugin_error_to_string (DirectoryNotFound s) = ''plugin directory not found: '' @ s"
| "plugin_error_to_string (DirectoryScanFailed s) = ''failed to read directory entry: '' @ s"
| "plugin_error_to_string (ManifestInvalid s) = ''invalid plugin manifest: '' @ s"
| "plugin_error_to_string (ManifestMissingField f p) =
     ''manifest missing required field '' @ [CHR 0x27] @ f @ [CHR 0x27] @ '' for plugin at '' @ p"
| "plugin_error_to_string (WasmLoadFailed s) = ''failed to load WASM binary: '' @ s"
| "plugin_error_to_string (CapabilityViolation s) = ''capability violation: '' @ s"
| "plugin_error_to_string (RuntimeCapabilityViolation s) = ''runtime capability violation: '' @ s"
| "plugin_error_to_string (ExecutionFailed s) = ''plugin execution failed: '' @ s"
| "plugin_error_to_string (Crash s) = ''plugin crashed: '' @ s"
| "plugin_error_to_string (LifecycleError s) = ''lifecycle error: '' @ s"
| "plugin_error_to_string (Io s) = ''I/O error: '' @ s"

text \<open>The trait object a plugin error becomes when it reaches the workflow engine.\<close>

definition plugin_error_as_engine_error :: "plugin_error \<Rightarrow> engine_error" where
  "plugin_error_as_engine_error e =
     \<lparr>ee_message = plugin_error_to_string e, ee_code = plugin_error_code e,
      ee_severity = plugin_error_severity e, ee_source_module = ''plugin-system''\<rparr>"

text \<open>A text in single quotes, as the source's messages print identifiers.\<close>

definition quoted :: "string \<Rightarrow> string" where
  "quoted s = [CHR 0x27] @ s @ [CHR 0x27]"

end
