(* ===== verification/Lifecycle.thy ===== *)
theory Lifecycle
  imports Engine_Error
begin

text \<open>
  The plugin lifecycle state machine of \<open>plugin-system/src/lifecycle.rs\<close>: six phases, single
  transitions, forced unload, and the bulk operations \<open>start_all\<close> and \<open>stop_all\<close>. The manager
  keeps a map from plugin id to phase and the registration order. Operations take the manager and
  return the new one; an error is a value.
\<close>

section \<open>States and the manager\<close>

datatype lifecycle_state = Discovered | Loaded | Initialized | Running | Stopped | Unloaded

fun lifecycle_state_to_string :: "lifecycle_state \<Rightarrow> string" where
  "lifecycle_state_to_string Discovered = ''Discovered''"
| "lifecycle_state_to_string Loaded = ''Loaded''"
| "lifecycle_state_to_string Initialized = ''Initialized''"
| "lifecycle_state_to_string Running = ''Running''"
| "lifecycle_state_to_string Stopped = ''Stopped''"
| "lifecycle_state_to_string Unloaded = ''Unloaded''"

fun next_state :: "lifecycle_state \<Rightarrow> lifecycle_state option" where
  "next_state Discovered = Some Loaded"
| "next_state Loaded = Some Initialized"
| "next_state Initialized = Some Running"
| "next_state Running = Some Stopped"
| "next_state Stopped = Some Unloaded"
| "next_state Unloaded = None"

definition can_transition_to :: "lifecycle_state \<Rightarrow> lifecycle_state \<Rightarrow> bool" where
  "can_transition_to s t = (next_state s = Some t)"

record lifecycle_manager =
  lm_plugins :: "string \<rightharpoonup> lifecycle_state"
  lm_order :: "string list"

definition lm_new :: lifecycle_manager where
  "lm_new = \<lparr>lm_plugins = Map.empty, lm_order = []\<rparr>"

definition register :: "string \<Rightarrow> lifecycle_manager \<Rightarrow> lifecycle_manager" where
  "register pid m =
     (if lm_plugins m pid = None
      then m\<lparr>lm_plugins := (lm_plugins m)(pid \<mapsto> Discovered), lm_order := lm_order m @ [pid]\<rparr>
      else m)"

definition plugin_state :: "lifecycle_manager \<Rightarrow> string \<Rightarrow> lifecycle_state option" where
  "plugin_state m pid = lm_plugins m pid"

definition not_registered :: "string \<Rightarrow> plugin_error" where
  "not_registered pid = LifecycleError (''plugin '' @ quoted pid @ '' not registered'')"

definition invalid_transition :: "string \<Rightarrow> lifecycle_state \<Rightarrow> lifecycle_state \<Rightarrow> plugin_error" where
  "invalid_transition pid s t =
     LifecycleError (''invalid transition for plugin '' @ quoted pid @ '': '' @
       lifecycle_state_to_string s @ '' -> '' @ lifecycle_state_to_string t)"

definition transition ::
  "string \<Rightarrow> lifecycle_state \<Rightarrow> lifecycle_manager \<Rightarrow>
     (plugin_error, lifecycle_state) result \<times> lifecycle_manager" where
  "transition pid target m =
     (case lm_plugins m pid of
        None \<Rightarrow> (Inl (not_registered pid), m)
      | Some s \<Rightarrow>
          if \<not> can_transition_to s target then (Inl (invalid_transition pid s target), m)
          else (Inr target, m\<lparr>lm_plugins := (lm_plugins m)(pid \<mapsto> target)\<rparr>))"

definition force_unload ::
  "string \<Rightarrow> lifecycle_manager \<Rightarrow> (plugin_error, unit) result \<times> lifecycle_manager" where
  "force_unload pid m =
     (case lm_plugins m pid of
        None \<Rightarrow> (Inl (not_registered pid), m)
      | Some _ \<Rightarrow> (Inr (), m\<lparr>lm_plugins := (lm_plugins m)(pid \<mapsto> Unloaded)\<rparr>))"

section \<open>Bulk operations\<close>

text \<open>
  The inner loop of the bulk operations: transition through the targets in turn; at the first
  error force the plugin to \<open>Unloaded\<close>, report the error and leave the loop.
\<close>

fun run_transitions ::
  "string \<Rightarrow> lifecycle_state list \<Rightarrow> lifecycle_manager \<Rightarrow>
     (string \<times> plugin_error) list \<times> lifecycle_manager" where
  "run_transitions pid [] m = ([], m)"
| "run_transitions pid (t # ts) m =
     (case transition pid t m of
        (Inl e, m') \<Rightarrow> ([(pid, e)], snd (force_unload pid m'))
      | (Inr _, m') \<Rightarrow> run_transitions pid ts m')"

text \<open>The outer loop: plugins that are not in the start phase are passed over.\<close>

fun run_all ::
  "lifecycle_state \<Rightarrow> lifecycle_state list \<Rightarrow> string list \<Rightarrow> lifecycle_manager \<Rightarrow>
     (string \<times> plugin_error) list \<times> lifecycle_manager" where
  "run_all from ts [] m = ([], m)"
| "run_all from ts (pid # pids) m =
     (if plugin_state m pid \<noteq> Some from then run_all from ts pids m
      else
        (let (errs, m') = run_transitions pid ts m;
             (errs', m'') = run_all from ts pids m'
         in (errs @ errs', m'')))"

definition start_all :: "lifecycle_manager \<Rightarrow> (string \<times> plugin_error) list \<times> lifecycle_manager" where
  "start_all m = run_all Discovered [Loaded, Initialized, Running] (lm_order m) m"

definition stop_all :: "lifecycle_manager \<Rightarrow> (string \<times> plugin_error) list \<times> lifecycle_manager" where
  "stop_all m = run_all Running [Stopped, Unloaded] (rev (lm_order m)) m"

definition all_states :: "lifecycle_manager \<Rightarrow> (string \<times> lifecycle_state) list" where
  "all_states m =
     List.map_filter (\<lambda>pid. map_option (\<lambda>s. (pid, s)) (lm_plugins m pid)) (lm_order m)"

section \<open>Invariant\<close>

text \<open>Every registered plugin occurs once in the registration order, and nothing else does.\<close>

definition lm_inv :: "lifecycle_manager \<Rightarrow> bool" where
  "lm_inv m \<longleftrightarrow> distinct (lm_order m) \<and> set (lm_order m) = dom (lm_plugins m)"

text \<open>The operations a client can call, as one step relation on managers.\<close>

inductive lm_step :: "lifecycle_manager \<Rightarrow> lifecycle_manager \<Rightarrow> bool" where
  lm_register: "lm_step m (register pid m)"
| lm_transition: "lm_step m (snd (transition pid t m))"
| lm_force_unload: "lm_step m (snd (force_unload pid m))"
| lm_start_all: "lm_step m (snd (start_all m))"
| lm_stop_all: "lm_step m (snd (stop_all m))"

inductive lm_reachable :: "lifecycle_manager \<Rightarrow> bool" where
  lm_start: "lm_reachable lm_new"
| lm_next: "lm_reachable m \<Longrightarrow> lm_step m m' \<Longrightarrow> lm_reachable m'"

text \<open>The position of a phase in the forward sequence.\<close>

fun phase :: "lifecycle_state \<Rightarrow> nat" where
  "phase Discovered = 0"
| "phase Loaded = 1"
| "phase Initialized = 2"
| "phase Running = 3"
| "phase Stopped = 4"
| "phase Unloaded = 5"

section \<open>Lemmas\<close>

lemma next_state_phase: "next_state s = Some t \<Longrightarrow> phase t = Suc (phase s)"
  by (cases s) auto

lemma transition_ok_iff:
  "fst (transition pid t m) = Inr t' \<longleftrightarrow>
     t' = t \<and> (\<exists>s. lm_plugins m pid = Some s \<and> next_state s = Some t)"
  by (auto simp: transition_def can_transition_to_def split: option.splits)

lemma transition_state:
  "snd (transition pid t m) =
     (if is_ok (fst (transition pid t m))
      then m\<lparr>lm_plugins := (lm_plugins m)(pid \<mapsto> t)\<rparr> else m)"
  by (auto simp: transition_def split: option.splits)

lemma transition_inv [intro]: "lm_inv m \<Longrightarrow> lm_inv (snd (transition pid t m))"
  by (auto simp: transition_def lm_inv_def split: option.splits)

lemma force_unload_inv [intro]: "lm_inv m \<Longrightarrow> lm_inv (snd (force_unload pid m))"
  by (auto simp: force_unload_def lm_inv_def split: option.splits)

lemma register_inv [intro]: "lm_inv m \<Longrightarrow> lm_inv (register pid m)"
  by (auto simp: register_def lm_inv_def)

text \<open>
  Any relation between managers that holds of single transitions and forced unloads, and is
  reflexive and transitive, holds of the bulk operations.
\<close>

lemma run_transitions_rel:
  assumes refl: "\<And>m. R m m" and trans: "\<And>a b c. R a b \<Longrightarrow> R b c \<Longrightarrow> R a c"
    and tr: "\<And>pid t m. R m (snd (transition pid t m))"
    and fu: "\<And>pid m. R m (snd (force_unload pid m))"
  shows "R m (snd (run_transitions pid ts m))"
proof (induction ts arbitrary: m)
  case Nil
  show ?case by (simp add: refl)
next
  case (Cons t ts)
  obtain r m' where r: "transition pid t m = (r, m')" by force
  have step: "R m m'" using tr [of m pid t] r by simp
  show ?case
  proof (cases r)
    case (Inl e)
    then show ?thesis using r step fu [of m' pid] trans by auto
  next
    case (Inr u)
    then show ?thesis using r step Cons.IH [of m'] trans by auto
  qed
qed

lemma run_all_rel:
  assumes refl: "\<And>m. R m m" and trans: "\<And>a b c. R a b \<Longrightarrow> R b c \<Longrightarrow> R a c"
    and tr: "\<And>pid t m. R m (snd (transition pid t m))"
    and fu: "\<And>pid m. R m (snd (force_unload pid m))"
  shows "R m (snd (run_all from ts pids m))"
proof (induction pids arbitrary: m)
  case Nil
  show ?case by (simp add: refl)
next
  case (Cons pid pids)
  obtain es m' where r: "run_transitions pid ts m = (es, m')" by force
  have "R m m'" using run_transitions_rel [of R m pid ts, OF refl trans tr fu] r by simp
  moreover have "R m' (snd (run_all from ts pids m'))" by (rule Cons.IH)
  ultimately have "R m (snd (run_all from ts pids m'))" by (rule trans)
  then show ?case using r Cons.IH [of m] by (auto split: prod.splits)
qed

lemma run_all_inv: "lm_inv m \<Longrightarrow> lm_inv (snd (run_all from ts pids m))"
  by (rule run_all_rel [of "\<lambda>m m'. lm_inv m \<longrightarrow> lm_inv m'", THEN mp]) auto

text \<open>A plugin's phase never decreases and a plugin never disappears.\<close>

definition advances :: "lifecycle_manager \<Rightarrow> lifecycle_manager \<Rightarrow> bool" where
  "advances m m' \<longleftrightarrow>
     (\<forall>pid s. lm_plugins m pid = Some s \<longrightarrow>
        (\<exists>s'. lm_plugins m' pid = Some s' \<and> phase s \<le> phase s'))"

lemma advances_refl: "advances m m"
  by (auto simp: advances_def)

lemma advances_trans: "advances a b \<Longrightarrow> advances b c \<Longrightarrow> advances a c"
  unfolding advances_def by (meson le_trans)

lemma phase_le_Unloaded: "phase s \<le> 5"
  by (cases s) auto

lemma transition_advances: "advances m (snd (transition pid t m))"
  by (auto simp: advances_def transition_def can_transition_to_def next_state_phase
      split: option.splits dest!: next_state_phase)

lemma force_unload_advances: "advances m (snd (force_unload pid m))"
  by (auto simp: advances_def force_unload_def phase_le_Unloaded split: option.splits)

lemma register_advances: "advances m (register pid m)"
  by (auto simp: advances_def register_def)

lemma run_all_advances: "advances m (snd (run_all from ts pids m))"
  by (rule run_all_rel)
    (auto intro: advances_refl advances_trans transition_advances force_unload_advances)

lemma lm_step_inv: "lm_step m m' \<Longrightarrow> lm_inv m \<Longrightarrow> lm_inv m'"
  by (induction rule: lm_step.induct) (auto simp: start_all_def stop_all_def run_all_inv)

lemma lm_step_advances: "lm_step m m' \<Longrightarrow> advances m m'"
  by (induction rule: lm_step.induct)
    (auto simp: start_all_def stop_all_def register_advances transition_advances
      force_unload_advances run_all_advances)

lemma lm_reachable_inv: "lm_reachable m \<Longrightarrow> lm_inv m"
proof (induction rule: lm_reachable.induct)
  case lm_start
  show ?case by (simp add: lm_inv_def lm_new_def)
next
  case (lm_next m m')
  then show ?case by (blast intro: lm_step_inv)
qed

text \<open>A chain of targets that follows the forward sequence is run without error.\<close>

fun chain_from :: "lifecycle_state \<Rightarrow> lifecycle_state list \<Rightarrow> bool" where
  "chain_from s [] = True"
| "chain_from s (t # ts) = (next_state s = Some t \<and> chain_from t ts)"

lemma run_transitions_chain:
  assumes "lm_plugins m pid = Some s" "chain_from s ts"
  shows "run_transitions pid ts m = ([], m\<lparr>lm_plugins := (lm_plugins m)(pid \<mapsto> last (s # ts))\<rparr>)"
  using assms
proof (induction ts arbitrary: s m)
  case Nil
  then show ?case by (simp add: fun_upd_idem)
next
  case (Cons t ts)
  define m' where "m' = m\<lparr>lm_plugins := (lm_plugins m)(pid \<mapsto> t)\<rparr>"
  have "transition pid t m = (Inr t, m')"
    using Cons.prems by (simp add: transition_def can_transition_to_def m'_def)
  moreover have "run_transitions pid ts m' =
      ([], m'\<lparr>lm_plugins := (lm_plugins m')(pid \<mapsto> last (t # ts))\<rparr>)"
    using Cons.prems by (intro Cons.IH) (auto simp: m'_def)
  ultimately show ?case by (auto simp: m'_def intro!: lifecycle_manager.equality)
qed

lemma run_all_chain:
  assumes "chain_from from ts" "ts \<noteq> []"
  shows "run_all from ts pids m =
    ([], m\<lparr>lm_plugins := (\<lambda>p. if p \<in> set pids \<and> lm_plugins m p = Some from
                              then Some (last ts) else lm_plugins m p)\<rparr>)"
proof (induction pids arbitrary: m)
  case Nil
  show ?case by simp
next
  case (Cons pid pids)
  show ?case
  proof (cases "lm_plugins m pid = Some from")
    case True
    define m' where "m' = m\<lparr>lm_plugins := (lm_plugins m)(pid \<mapsto> last ts)\<rparr>"
    have "run_transitions pid ts m = ([], m')"
      using run_transitions_chain [OF True assms(1)] assms(2) by (simp add: m'_def)
    with True have "run_all from ts (pid # pids) m = run_all from ts pids m'"
      by (simp add: plugin_state_def split: prod.splits)
    also have "\<dots> = ([], m'\<lparr>lm_plugins := (\<lambda>p. if p \<in> set pids \<and> lm_plugins m' p = Some from
                              then Some (last ts) else lm_plugins m' p)\<rparr>)"
      by (rule Cons.IH)
    also have "m'\<lparr>lm_plugins := (\<lambda>p. if p \<in> set pids \<and> lm_plugins m' p = Some from
                              then Some (last ts) else lm_plugins m' p)\<rparr> =
      m\<lparr>lm_plugins := (\<lambda>p. if p \<in> set (pid # pids) \<and> lm_plugins m p = Some from
                              then Some (last ts) else lm_plugins m p)\<rparr>"
      unfolding m'_def using True by (auto intro!: lifecycle_manager.equality)
    finally show ?thesis .
  next
    case False
    with Cons.IH [of m] show ?thesis by (auto simp: plugin_state_def fun_eq_iff)
  qed
qed

lemma in_order: "lm_inv m \<Longrightarrow> lm_plugins m p = Some s \<Longrightarrow> p \<in> set (lm_order m)"
  by (auto simp: lm_inv_def)

lemma start_all_eq:
  assumes "lm_inv m"
  shows "start_all m =
      ([], m\<lparr>lm_plugins := (\<lambda>p. if lm_plugins m p = Some Discovered then Some Running
                              else lm_plugins m p)\<rparr>)"
  unfolding start_all_def using in_order [OF assms] by (subst run_all_chain) (auto simp: fun_eq_iff)

lemma stop_all_eq:
  assumes "lm_inv m"
  shows "stop_all m =
      ([], m\<lparr>lm_plugins := (\<lambda>p. if lm_plugins m p = Some Running then Some Unloaded
                              else lm_plugins m p)\<rparr>)"
  unfolding stop_all_def using in_order [OF assms] by (subst run_all_chain) (auto simp: fun_eq_iff)

lemma start_all_inv: "lm_inv m \<Longrightarrow> lm_inv (snd (start_all m))"
  unfolding start_all_def by (rule run_all_inv)

section \<open>Properties\<close>

text \<open>
  C37: in every state reachable from a new manager by registration, transition, forced unload,
  \<open>start_all\<close> and \<open>stop_all\<close>, the registration order lists every registered plugin exactly once
  and no other id, and one more operation never moves a plugin back to an earlier phase or forgets
  it; in particular an unloaded plugin stays unloaded.
\<close>

theorem lifecycle_reachable_invariant:
  assumes "lm_reachable m" and "lm_step m m'"
  shows "lm_inv m \<and> lm_inv m' \<and> advances m m' \<and>
    (lm_plugins m pid = Some Unloaded \<longrightarrow> lm_plugins m' pid = Some Unloaded)"
proof -
  from assms(1) have inv: "lm_inv m" by (rule lm_reachable_inv)
  from assms(2) have adv: "advances m m'" by (rule lm_step_advances)
  have "lm_plugins m' pid = Some Unloaded" if un: "lm_plugins m pid = Some Unloaded"
  proof -
    from adv un obtain s where s: "lm_plugins m' pid = Some s" "5 \<le> phase s"
      unfolding advances_def by fastforce
    then show ?thesis by (cases s) auto
  qed
  with inv adv lm_step_inv [OF assms(2) inv] show ?thesis by blast
qed

theorem lifecycle_reachable_invariant_witness:
  "let m = snd (force_unload ''mail'' (register ''mail'' lm_new)) in
   lm_plugins m ''mail'' = Some Unloaded \<and> lm_inv (snd (start_all m)) \<and>
   advances m (snd (start_all m)) \<and> lm_plugins (snd (start_all m)) ''mail'' = Some Unloaded"
proof -
  define m where "m = snd (force_unload ''mail'' (register ''mail'' lm_new))"
  have "lm_reachable m"
    unfolding m_def by (rule lm_next [OF lm_next [OF lm_start lm_register] lm_force_unload])
  from lifecycle_reachable_invariant [OF this lm_start_all, of "''mail''"]
  show ?thesis by (simp add: Let_def m_def force_unload_def register_def lm_new_def)
qed

text \<open>
  \<open>start_all\<close> reports no error, takes exactly the plugins that were \<open>Discovered\<close> to
  \<open>Running\<close> and leaves every other plugin and the order alone; \<open>stop_all\<close> likewise takes exactly
  the \<open>Running\<close> plugins to \<open>Unloaded\<close>. So starting and then stopping a reachable manager leaves
  no plugin discovered or running.
\<close>

theorem start_stop_all:
  assumes "lm_inv m"
  shows "start_all m =
      ([], m\<lparr>lm_plugins := (\<lambda>p. if lm_plugins m p = Some Discovered then Some Running
                              else lm_plugins m p)\<rparr>) \<and>
    stop_all m =
      ([], m\<lparr>lm_plugins := (\<lambda>p. if lm_plugins m p = Some Running then Some Unloaded
                              else lm_plugins m p)\<rparr>) \<and>
    lm_plugins (snd (stop_all (snd (start_all m)))) p \<notin> {Some Discovered, Some Running}"
proof -
  have "lm_plugins (snd (stop_all (snd (start_all m)))) p \<notin> {Some Discovered, Some Running}"
    by (subst stop_all_eq [OF start_all_inv [OF assms]]) (simp add: start_all_eq [OF assms])
  with start_all_eq [OF assms] stop_all_eq [OF assms] show ?thesis by blast
qed

theorem start_stop_all_witness:
  "fst (start_all (register ''a'' lm_new)) = [] \<and>
   lm_plugins (snd (start_all (register ''a'' lm_new))) ''a'' = Some Running"
proof -
  have "lm_inv (register ''a'' lm_new)"
    by (rule register_inv) (simp add: lm_inv_def lm_new_def)
  from start_stop_all [OF this] show ?thesis by (simp add: register_def lm_new_def)
qed

end
