(* ===== verification/Workflow_Types.thy ===== *)
theory Workflow_Types
  imports Engine_Error
begin

text \<open>
  Data of the workflow engine: pipeline messages (\<open>types/src/pipeline.rs\<close>), workflow definitions
  and trigger contexts (\<open>workflow-engine/src/types.rs\<close>), the engine's errors
  (\<open>workflow-engine/src/error.rs\<close>) and the status codes at the transport boundary
  (\<open>types/src/workflow.rs\<close>). Timestamps are integers counting nanoseconds, UUIDs are their
  printed form. A canonical (CDM) payload is kept as its kind and its serialised value, which is
  all the engine ever looks at.
\<close>

section \<open>Pipeline messages\<close>

type_synonym uuid = string
type_synonym timestamp = int

record message_metadata =
  correlation_id :: uuid
  msg_source :: string
  msg_timestamp :: timestamp
  auth_context :: "json option"
  warnings :: "string list"

datatype cdm_kind =
    CdmEvent | CdmTask | CdmContact | CdmNote | CdmEmail | CdmFile | CdmCredential
  | CdmEventBatch | CdmTaskBatch | CdmContactBatch | CdmNoteBatch | CdmEmailBatch
  | CdmFileBatch | CdmCredentialBatch

fun cdm_collection :: "cdm_kind \<Rightarrow> string" where
  "cdm_collection CdmEvent = ''Event''"
| "cdm_collection CdmTask = ''Task''"
| "cdm_collection CdmContact = ''Contact''"
| "cdm_collection CdmNote = ''Note''"
| "cdm_collection CdmEmail = ''Email''"
| "cdm_collection CdmFile = ''File''"
| "cdm_collection CdmCredential = ''Credential''"
| "cdm_collection CdmEventBatch = ''EventBatch''"
| "cdm_collection CdmTaskBatch = ''TaskBatch''"
| "cdm_collection CdmContactBatch = ''ContactBatch''"
| "cdm_collection CdmNoteBatch = ''NoteBatch''"
| "cdm_collection CdmEmailBatch = ''EmailBatch''"
| "cdm_collection CdmFileBatch = ''FileBatch''"
| "cdm_collection CdmCredentialBatch = ''CredentialBatch''"

datatype typed_payload = Cdm cdm_kind json | Custom json

record pipeline_message =
  metadata :: message_metadata
  payload :: typed_payload

text \<open>
  Serialisation of a payload: both enums are adjacently tagged, with tags \<open>type\<close>/\<open>data\<close> and
  \<open>collection\<close>/\<open>value\<close>; \<open>SchemaValidated\<close> is transparent.
\<close>

fun cdm_to_value :: "cdm_kind \<Rightarrow> json \<Rightarrow> json" where
  "cdm_to_value k v = JObject (obj_of [(''collection'', JString (cdm_collection k)), (''value'', v)])"

fun payload_to_value :: "typed_payload \<Rightarrow> json" where
  "payload_to_value (Cdm k v) =
     JObject (obj_of [(''type'', JString ''Cdm''), (''data'', cdm_to_value k v)])"
| "payload_to_value (Custom v) = JObject (obj_of [(''type'', JString ''Custom''), (''data'', v)])"

text \<open>
  The schema validator is the \<open>jsonschema\<close> crate: compiling a schema gives an error text or a
  function that returns the text of the first error of an instance.
\<close>

type_synonym validator = "json \<Rightarrow> (string, unit) result"
type_synonym schema_compiler = "json \<Rightarrow> (string, validator) result"

text \<open>
  \<open>SchemaValidated::new\<close> for JSON values; the result is the text the error displays as, or the
  value.
\<close>

definition schema_validated_new ::
  "schema_compiler \<Rightarrow> json \<Rightarrow> json \<Rightarrow> (string, json) result" where
  "schema_validated_new validator_for value schema =
     (case validator_for schema of
        Inl e \<Rightarrow> Inl (''schema validation failed: invalid schema: '' @ e)
      | Inr validate \<Rightarrow>
          (case validate value of
             Inl e \<Rightarrow> Inl (''schema validation failed: '' @ e)
           | Inr _ \<Rightarrow> Inr value))"

section \<open>Workflow definitions\<close>

datatype execution_mode = Sync | Async

datatype validation_level = Strict | Edges | NoValidation

datatype error_strategy_type = Halt | Skip | Retry

datatype condition_operator = Equals | NotEquals | Exists | IsEmpty

datatype step_def =
    StepDef (sd_plugin: string) (sd_action: string)
      (sd_on_error: "error_strategy option") (sd_condition: "condition_def option")
and error_strategy =
    ErrorStrategy (es_strategy: error_strategy_type) (es_max_retries: "nat option")
      (es_fallback: "step_def option")
and condition_def =
    ConditionDef (cd_field: string) (cd_operator: condition_operator) (cd_value: json)
      (cd_then_steps: "step_def list") (cd_else_steps: "step_def list")

record trigger_def =
  tr_endpoint :: "string option"
  tr_event :: "string option"
  tr_schedule :: "string option"

record workflow_def =
  wf_id :: string
  wf_name :: string
  wf_description :: "string option"
  wf_mode :: execution_mode
  wf_validate :: validation_level
  wf_trigger :: trigger_def
  wf_steps :: "step_def list"

datatype trigger_context =
    TcEndpoint (tc_method: string) (tc_path: string) (tc_body: json) (tc_auth: "json option")
  | TcEvent (tc_name: string) (tc_payload: json)
  | TcSchedule (tc_workflow_id: string) (tc_fired_at: timestamp)

section \<open>Errors of the workflow engine\<close>

datatype workflow_error =
    DuplicateWorkflowId string string string
  | DuplicateEndpoint string string string
  | StepHalted nat string string string
  | ValidationFailed nat string
  | LoadFailed string string
  | InvalidDefinition string string
  | RetryExhausted nat string string nat string
  | EventBusError string
  | SchedulerError string
  | PluginExecutionError string string

fun workflow_error_to_string :: "workflow_error \<Rightarrow> string" where
  "workflow_error_to_string (DuplicateWorkflowId i f1 f2) =
     ''duplicate workflow ID '' @ quoted i @ '' found in '' @ quoted f1 @ '' and '' @ quoted f2"
| "workflow_error_to_string (DuplicateEndpoint e w1 w2) =
     ''duplicate endpoint trigger '' @ quoted e @ '' in workflows '' @ quoted w1 @
     '' and '' @ quoted w2"
| "workflow_error_to_string (StepHalted i p a c) =
     ''workflow halted at step '' @ show_nat i @ '' ('' @ p @ ''.'' @ a @ ''): '' @ c"
| "workflow_error_to_string (ValidationFailed i d) =
     ''schema validation failed at step '' @ show_nat i @ '': '' @ d"
| "workflow_error_to_string (LoadFailed f c) =
     ''failed to load workflow from '' @ quoted f @ '': '' @ c"
| "workflow_error_to_string (InvalidDefinition w r) =
     ''invalid workflow definition '' @ quoted w @ '': '' @ r"
| "workflow_error_to_string (RetryExhausted i p a n c) =
     ''step '' @ show_nat i @ '' ('' @ p @ ''.'' @ a @ '') failed after '' @ show_nat n @
     '' retries: '' @ c"
| "workflow_error_to_string (EventBusError s) = ''event bus error: '' @ s"
| "workflow_error_to_string (SchedulerError s) = ''scheduler error: '' @ s"
| "workflow_error_to_string (PluginExecutionError p c) =
     ''plugin execution error in '' @ quoted p @ '': '' @ c"

fun workflow_error_code :: "workflow_error \<Rightarrow> string" where
  "workflow_error_code (DuplicateWorkflowId _ _ _) = ''WORKFLOW_001''"
| "workflow_error_code (DuplicateEndpoint _ _ _) = ''WORKFLOW_002''"
| "workflow_error_code (StepHalted _ _ _ _) = ''WORKFLOW_003''"
| "workflow_error_code (ValidationFailed _ _) = ''WORKFLOW_004''"
| "workflow_error_code (LoadFailed _ _) = ''WORKFLOW_005''"
| "workflow_error_code (InvalidDefinition _ _) = ''WORKFLOW_006''"
| "workflow_error_code (RetryExhausted _ _ _ _ _) = ''WORKFLOW_007''"
| "workflow_error_code (EventBusError _) = ''WORKFLOW_008''"
| "workflow_error_code (SchedulerError _) = ''WORKFLOW_009''"
| "workflow_error_code (PluginExecutionError _ _) = ''WORKFLOW_010''"

fun workflow_error_severity :: "workflow_error \<Rightarrow> severity" where
  "workflow_error_severity (DuplicateWorkflowId _ _ _) = Fatal"
| "workflow_error_severity (DuplicateEndpoint _ _ _) = Fatal"
| "workflow_error_severity (StepHalted _ _ _ _) = Fatal"
| "workflow_error_severity (ValidationFailed _ _) = Fatal"
| "workflow_error_severity (LoadFailed _ _) = Fatal"
| "workflow_error_severity (InvalidDefinition _ _) = Fatal"
| "workflow_error_severity (RetryExhausted _ _ _ _ _) = Retryable"
| "workflow_error_severity (EventBusError _) = Retryable"
| "workflow_error_severity (SchedulerError _) = Retryable"
| "workflow_error_severity (PluginExecutionError _ _) = Retryable"

section \<open>Lemmas\<close>

text \<open>The payload envelope always has a \<open>data\<close> member, so the engine never falls back to the envelope.\<close>

fun payload_data :: "typed_payload \<Rightarrow> json" where
  "payload_data (Cdm k v) = cdm_to_value k v"
| "payload_data (Custom v) = v"

lemma payload_to_value_data [simp]:
  "json_get (payload_to_value p) ''data'' = Some (payload_data p)"
  by (cases p) (simp_all add: obj_of_def json_get_def)

end
