(* ===== verification/Loader.thy ===== *)
theory Loader
  imports Workflow_Types
begin

text \<open>
  Loading of workflow definitions and the trigger registry (\<open>workflow-engine/src/loader.rs\<close>) and
  the trigger checks of \<open>workflow-engine/src/triggers/mod.rs\<close>.

  The directory is a value: whether it is a directory, and its entries with the outcome of reading
  each file. The YAML parser and the cron parser are third-party and therefore parameters; the
  parser returns the \<open>workflows\<close> map of a file as the list in which the hash map iterates.
\<close>

section \<open>Validation\<close>

definition validate_event_name :: "string \<Rightarrow> string \<Rightarrow> (workflow_error, unit) result" where
  "validate_event_name event wid =
     (if event = [] then Inl (InvalidDefinition wid ''event name must not be empty'')
      else check_all
        (\<lambda>segment. if segment = []
           then Inl (InvalidDefinition wid (''event name '' @ quoted event @
             '' contains an empty segment; use dot-separated names like '' @ quoted ''domain.action''))
           else Inr ())
        (split_on dot event))"

definition nested_condition :: "string \<Rightarrow> nat \<Rightarrow> workflow_error" where
  "nested_condition wid index =
     InvalidDefinition wid (''step '' @ show_nat index @
       '' contains a nested condition inside a branch; only flat plugin steps are allowed in then/else branches'')"

definition validate_plugin_step :: "step_def \<Rightarrow> string \<Rightarrow> nat \<Rightarrow> (workflow_error, unit) result" where
  "validate_plugin_step step wid index =
     (if sd_plugin step = []
      then Inl (InvalidDefinition wid (''step '' @ show_nat index @ '' is missing a '' @ quoted ''plugin'' @ '' field''))
      else if sd_action step = []
      then Inl (InvalidDefinition wid (''step '' @ show_nat index @ '' is missing an '' @ quoted ''action'' @ '' field''))
      else Inr ())"

text \<open>
  The source recurses into a branch with \<open>inside_branch\<close> set, where a further condition is an
  error, so the recursion has two levels: \<open>validate_branch_step\<close> is the call inside a branch.
\<close>

definition validate_branch_step :: "string \<Rightarrow> nat \<times> step_def \<Rightarrow> (workflow_error, unit) result" where
  "validate_branch_step wid = (\<lambda>(index, step).
     case sd_condition step of
       Some _ \<Rightarrow> Inl (nested_condition wid index)
     | None \<Rightarrow> validate_plugin_step step wid index)"

definition validate_step :: "string \<Rightarrow> nat \<times> step_def \<Rightarrow> (workflow_error, unit) result" where
  "validate_step wid = (\<lambda>(index, step).
     case sd_condition step of
       Some c \<Rightarrow>
         r_bind (check_all (validate_branch_step wid) (enumerate 0 (cd_then_steps c)))
           (\<lambda>_. check_all (validate_branch_step wid) (enumerate 0 (cd_else_steps c)))
     | None \<Rightarrow> validate_plugin_step step wid index)"

definition validate_workflow :: "workflow_def \<Rightarrow> string \<Rightarrow> (workflow_error, unit) result" where
  "validate_workflow flow filename =
     (if wf_id flow = []
      then Inl (InvalidDefinition (''(unknown in '' @ filename @ '')'')
                  (''workflow is missing an '' @ quoted ''id'' @ '' field''))
      else if wf_steps flow = []
      then Inl (InvalidDefinition (wf_id flow) ''workflow must have at least one step'')
      else r_bind
        (case tr_event (wf_trigger flow) of
           Some event \<Rightarrow> validate_event_name event (wf_id flow)
         | None \<Rightarrow> Inr ())
        (\<lambda>_. check_all (validate_step (wf_id flow)) (enumerate 0 (wf_steps flow))))"

section \<open>Loading\<close>

record workflow_dir =
  wd_path :: string
  wd_is_dir :: bool
  wd_read_dir :: "(string, (string \<times> (string, string) result) option list) result"

record load_state =
  ls_workflows :: "workflow_def list"
  ls_id_sources :: "string \<rightharpoonup> string"
  ls_endpoint_sources :: "string \<rightharpoonup> string"

type_synonym yaml_parser = "string \<Rightarrow> (string, (string \<times> workflow_def) list) result"

text \<open>\<open>Path::extension\<close> of a file name: what follows the last dot, unless that dot comes first.\<close>

definition file_extension :: "string \<Rightarrow> string option" where
  "file_extension name =
     (let ext = rev (takeWhile (\<lambda>c. c \<noteq> dot) (rev name));
          stem = take (length name - length ext - 1) name
      in if dot \<in> set name \<and> stem \<noteq> [] then Some ext else None)"

definition is_yaml :: "string \<Rightarrow> bool" where
  "is_yaml name \<longleftrightarrow> file_extension name = Some ''yaml'' \<or> file_extension name = Some ''yml''"

text \<open>One definition of one file: the body of the inner loop.\<close>

definition with_id :: "string \<Rightarrow> workflow_def \<Rightarrow> workflow_def" where
  "with_id key flow = (if wf_id flow = [] then flow\<lparr>wf_id := key\<rparr> else flow)"

definition register_endpoint ::
  "workflow_def \<Rightarrow> load_state \<Rightarrow> (workflow_error, load_state) result" where
  "register_endpoint flow st =
     (case tr_endpoint (wf_trigger flow) of
        None \<Rightarrow> Inr st
      | Some endpoint \<Rightarrow>
          (case ls_endpoint_sources st endpoint of
             Some prev \<Rightarrow> Inl (DuplicateEndpoint endpoint prev (wf_id flow))
           | None \<Rightarrow> Inr (st\<lparr>ls_endpoint_sources := (ls_endpoint_sources st)(endpoint \<mapsto> wf_id flow)\<rparr>)))"

definition load_workflow ::
  "string \<Rightarrow> string \<times> workflow_def \<Rightarrow> load_state \<Rightarrow> (workflow_error, load_state) result" where
  "load_workflow filename = (\<lambda>(key, flow0) st.
     let flow = with_id key flow0
     in r_bind (validate_workflow flow filename)
       (\<lambda>_. case ls_id_sources st (wf_id flow) of
          Some prev \<Rightarrow> Inl (DuplicateWorkflowId (wf_id flow) prev filename)
        | None \<Rightarrow>
            r_bind (register_endpoint flow
                      (st\<lparr>ls_id_sources := (ls_id_sources st)(wf_id flow \<mapsto> filename)\<rparr>))
              (\<lambda>st'. Inr (st'\<lparr>ls_workflows := ls_workflows st' @ [flow]\<rparr>))))"

definition load_file ::
  "yaml_parser \<Rightarrow> string \<times> (string, string) result \<Rightarrow> load_state \<Rightarrow> (workflow_error, load_state) result" where
  "load_file parse = (\<lambda>(filename, contents) st.
     r_bind (map_err (LoadFailed filename) contents)
       (\<lambda>text. r_bind (map_err (LoadFailed filename) (parse text))
          (\<lambda>flows. fold_r (load_workflow filename) flows st)))"

definition workflow_files ::
  "(string \<times> (string, string) result) option list \<Rightarrow> (string \<times> (string, string) result) list" where
  "workflow_files entries =
     sort_key fst (filter (\<lambda>e. is_yaml (fst e)) (List.map_filter (\<lambda>e. e) entries))"

definition load_start :: load_state where
  "load_start = \<lparr>ls_workflows = [], ls_id_sources = Map.empty, ls_endpoint_sources = Map.empty\<rparr>"

definition load_workflows :: "yaml_parser \<Rightarrow> workflow_dir \<Rightarrow> (workflow_error, workflow_def list) result" where
  "load_workflows parse dir =
     (if \<not> wd_is_dir dir
      then Inl (LoadFailed (wd_path dir) ''workflow directory does not exist or is not a directory'')
      else r_bind (map_err (LoadFailed (wd_path dir)) (wd_read_dir dir))
        (\<lambda>entries. r_bind (fold_r (load_file parse) (workflow_files entries) load_start)
           (\<lambda>st. Inr (ls_workflows st))))"

section \<open>The trigger registry\<close>

datatype http_method = Get | Post | Put | Patch | Delete | Propfind | Report | Mkcalendar | Mkcol

definition parse_method :: "string \<Rightarrow> http_method option" where
  "parse_method s =
     (let u = to_uppercase s in
      if u = ''GET'' then Some Get else if u = ''POST'' then Some Post
      else if u = ''PUT'' then Some Put else if u = ''PATCH'' then Some Patch
      else if u = ''DELETE'' then Some Delete else if u = ''PROPFIND'' then Some Propfind
      else if u = ''REPORT'' then Some Report else if u = ''MKCALENDAR'' then Some Mkcalendar
      else if u = ''MKCOL'' then Some Mkcol else None)"

definition parse_endpoint :: "string \<Rightarrow> string \<Rightarrow> (workflow_error, http_method \<times> string) result" where
  "parse_endpoint endpoint wid =
     (case splitn2 (CHR '' '') endpoint of
        [meth, path] \<Rightarrow>
          (case parse_method meth of
             None \<Rightarrow> Inl (InvalidDefinition wid (''unsupported HTTP method '' @ quoted meth @ '' in endpoint trigger''))
           | Some m \<Rightarrow> Inr (m, path))
      | _ \<Rightarrow> Inl (InvalidDefinition wid (''endpoint trigger '' @ quoted endpoint @
               '' must be in '' @ quoted ''METHOD /path'' @ '' format'')))"

record 'sch trigger_registry =
  reg_endpoints :: "http_method \<times> string \<rightharpoonup> workflow_def"
  reg_events :: "string \<rightharpoonup> workflow_def list"
  reg_schedules :: "('sch \<times> workflow_def) list"

definition reg_empty :: "'sch trigger_registry" where
  "reg_empty = \<lparr>reg_endpoints = Map.empty, reg_events = Map.empty, reg_schedules = []\<rparr>"

definition add_endpoint ::
  "workflow_def \<Rightarrow> 'sch trigger_registry \<Rightarrow> (workflow_error, 'sch trigger_registry) result" where
  "add_endpoint flow reg =
     (case tr_endpoint (wf_trigger flow) of
        None \<Rightarrow> Inr reg
      | Some e \<Rightarrow> r_bind (parse_endpoint e (wf_id flow))
          (\<lambda>key. Inr (reg\<lparr>reg_endpoints := (reg_endpoints reg)(key \<mapsto> flow)\<rparr>)))"

definition add_event :: "workflow_def \<Rightarrow> 'sch trigger_registry \<Rightarrow> 'sch trigger_registry" where
  "add_event flow reg =
     (case tr_event (wf_trigger flow) of
        None \<Rightarrow> reg
      | Some e \<Rightarrow>
          (let old = (case reg_events reg e of None \<Rightarrow> [] | Some fs \<Rightarrow> fs)
           in reg\<lparr>reg_events := (reg_events reg)(e \<mapsto> old @ [flow])\<rparr>))"

definition add_schedule ::
  "(string \<Rightarrow> (string, 'sch) result) \<Rightarrow> workflow_def \<Rightarrow> 'sch trigger_registry \<Rightarrow>
     (workflow_error, 'sch trigger_registry) result" where
  "add_schedule parse_cron flow reg =
     (case tr_schedule (wf_trigger flow) of
        None \<Rightarrow> Inr reg
      | Some expr \<Rightarrow>
          r_bind (map_err (\<lambda>e. InvalidDefinition (wf_id flow)
                     (''invalid cron expression '' @ quoted expr @ '': '' @ e)) (parse_cron expr))
            (\<lambda>sch. Inr (reg\<lparr>reg_schedules := reg_schedules reg @ [(sch, flow)]\<rparr>)))"

definition add_workflow ::
  "(string \<Rightarrow> (string, 'sch) result) \<Rightarrow> workflow_def \<Rightarrow> 'sch trigger_registry \<Rightarrow>
     (workflow_error, 'sch trigger_registry) result" where
  "add_workflow parse_cron flow reg =
     r_bind (add_endpoint flow reg) (\<lambda>reg'. add_schedule parse_cron flow (add_event flow reg'))"

definition build ::
  "(string \<Rightarrow> (string, 'sch) result) \<Rightarrow> workflow_def list \<Rightarrow>
     (workflow_error, 'sch trigger_registry) result" where
  "build parse_cron flows = fold_r (add_workflow parse_cron) flows reg_empty"

definition find_endpoint :: "'sch trigger_registry \<Rightarrow> string \<Rightarrow> string \<Rightarrow> workflow_def option" where
  "find_endpoint reg meth path =
     (case parse_method meth of None \<Rightarrow> None | Some m \<Rightarrow> reg_endpoints reg (m, path))"

definition find_event :: "'sch trigger_registry \<Rightarrow> string \<Rightarrow> workflow_def list" where
  "find_event reg e = (case reg_events reg e of None \<Rightarrow> [] | Some fs \<Rightarrow> fs)"

definition get_schedules :: "'sch trigger_registry \<Rightarrow> ('sch \<times> workflow_def) list" where
  "get_schedules reg = reg_schedules reg"

section \<open>Trigger checks\<close>

definition segment_char :: "char \<Rightarrow> bool" where
  "segment_char c \<longleftrightarrow> is_ascii_alphanumeric c \<or> c = CHR ''-'' \<or> c = CHR ''_''"

definition check_event_trigger :: "string \<Rightarrow> string \<Rightarrow> (workflow_error, unit) result" where
  "check_event_trigger event wid =
     (let bad = (\<lambda>reason. Inl (InvalidDefinition wid reason))
      in if event = [] then bad ''event trigger name must not be empty''
      else if dot \<notin> set event
      then bad (''event trigger '' @ quoted event @ '' must be dot-separated (e.g., '' @
             quoted ''webhook.email.received'' @ '')'')
      else if starts_with event [dot] \<or> ends_with event [dot]
      then bad (''event trigger '' @ quoted event @ '' must not start or end with a dot'')
      else if contains_str event [dot, dot]
      then bad (''event trigger '' @ quoted event @ '' must not contain consecutive dots'')
      else check_all
        (\<lambda>segment. if segment = []
           then bad (''event trigger '' @ quoted event @ '' contains an empty segment'')
           else if \<not> list_all segment_char segment
           then bad (''event trigger '' @ quoted event @ '' segment '' @ quoted segment @
             '' contains invalid characters (only alphanumeric, hyphens, underscores allowed)'')
           else Inr ())
        (split_on dot event))"

definition validate_trigger :: "workflow_def \<Rightarrow> (workflow_error, unit) result" where
  "validate_trigger flow =
     (let tr = wf_trigger flow
      in if \<not> (tr_endpoint tr \<noteq> None \<or> tr_event tr \<noteq> None \<or> tr_schedule tr \<noteq> None)
         then Inl (InvalidDefinition (wf_id flow)
                ''workflow must declare at least one trigger (endpoint, event, or schedule)'')
         else (case tr_event tr of Some e \<Rightarrow> check_event_trigger e (wf_id flow) | None \<Rightarrow> Inr ()))"

definition validate_triggers :: "workflow_def list \<Rightarrow> (workflow_error, unit) result" where
  "validate_triggers flows = check_all validate_trigger flows"

definition resolve_endpoint ::
  "'sch trigger_registry \<Rightarrow> string \<Rightarrow> string \<Rightarrow> (workflow_error, workflow_def) result" where
  "resolve_endpoint reg meth path =
     ok_or (find_endpoint reg meth path)
       (InvalidDefinition [] (''no workflow registered for endpoint '' @ meth @ '' '' @ path))"

end
