(* ===== verification/Loader_Props.thy ===== *)
theory Loader_Props
  imports Loader
begin

text \<open>
  Correctness of the loader and the trigger registry: what a set of files must satisfy to be
  loaded, and what the registry answers for each kind of trigger.
\<close>

section \<open>Well-formed definitions\<close>

definition plugin_step_ok :: "step_def \<Rightarrow> bool" where
  "plugin_step_ok step \<longleftrightarrow> sd_plugin step \<noteq> [] \<and> sd_action step \<noteq> []"

text \<open>Branches are flat: a step of a branch is a plugin step without a condition of its own.\<close>

definition step_ok :: "step_def \<Rightarrow> bool" where
  "step_ok step \<longleftrightarrow>
     (case sd_condition step of
        None \<Rightarrow> plugin_step_ok step
      | Some c \<Rightarrow> \<forall>b \<in> set (cd_then_steps c) \<union> set (cd_else_steps c).
          sd_condition b = None \<and> plugin_step_ok b)"

definition event_name_ok :: "string \<Rightarrow> bool" where
  "event_name_ok event \<longleftrightarrow> [] \<notin> set (split_on dot event)"

definition workflow_ok :: "workflow_def \<Rightarrow> bool" where
  "workflow_ok flow \<longleftrightarrow>
     wf_id flow \<noteq> [] \<and> wf_steps flow \<noteq> [] \<and> list_all step_ok (wf_steps flow) \<and>
     (\<forall>event. tr_event (wf_trigger flow) = Some event \<longrightarrow> event_name_ok event)"

definition endpoints :: "workflow_def list \<Rightarrow> string list" where
  "endpoints flows = List.map_filter (\<lambda>f. tr_endpoint (wf_trigger f)) flows"

text \<open>What the loader accepts: well-formed definitions with distinct ids and endpoint strings.\<close>

definition acceptable :: "workflow_def list \<Rightarrow> bool" where
  "acceptable flows \<longleftrightarrow>
     distinct (map wf_id flows) \<and> distinct (endpoints flows) \<and> list_all workflow_ok flows"

lemma check_all_enumerate:
  assumes "\<And>i x. is_ok (f (i, x)) \<longleftrightarrow> P x"
  shows "is_ok (check_all f (enumerate n xs)) \<longleftrightarrow> list_all P xs"
proof -
  have "is_ok (check_all f (enumerate n xs)) \<longleftrightarrow> (\<forall>x \<in> set (map snd (enumerate n xs)). P x)"
    using assms by (auto simp: check_all_ok simp del: map_snd_enumerate)
  then show ?thesis by (simp add: list_all_iff)
qed

lemma is_ok_then: "is_ok (r_bind r (\<lambda>_. r')) \<longleftrightarrow> is_ok r \<and> is_ok r'"
  by (cases r) auto

lemma validate_event_name_ok: "is_ok (validate_event_name event wid) \<longleftrightarrow> event_name_ok event"
  by (auto simp: validate_event_name_def check_all_ok event_name_ok_def split: if_splits)

lemma validate_branch_step_ok:
  "is_ok (validate_branch_step wid (i, b)) \<longleftrightarrow> sd_condition b = None \<and> plugin_step_ok b"
  by (auto simp: validate_branch_step_def validate_plugin_step_def plugin_step_ok_def
      split: option.splits)

lemma validate_step_ok: "is_ok (validate_step wid (i, step)) \<longleftrightarrow> step_ok step"
proof (cases "sd_condition step")
  case None
  then show ?thesis
    by (simp add: validate_step_def validate_plugin_step_def step_ok_def plugin_step_ok_def)
next
  case (Some c)
  have branch: "is_ok (check_all (validate_branch_step wid) (enumerate 0 steps)) \<longleftrightarrow>
      (\<forall>b \<in> set steps. sd_condition b = None \<and> plugin_step_ok b)" for steps
    by (subst check_all_enumerate [where P = "\<lambda>b. sd_condition b = None \<and> plugin_step_ok b"])
      (simp_all add: validate_branch_step_ok list_all_iff)
  show ?thesis
    using Some by (auto simp add: validate_step_def step_ok_def is_ok_then branch)
qed

lemma validate_workflow_ok: "is_ok (validate_workflow flow fname) \<longleftrightarrow> workflow_ok flow"
proof -
  have steps: "is_ok (check_all (validate_step wid) (enumerate 0 steps)) \<longleftrightarrow> list_all step_ok steps"
    for wid steps
    by (rule check_all_enumerate) (rule validate_step_ok)
  show ?thesis
    by (cases "tr_event (wf_trigger flow)")
      (auto simp: validate_workflow_def workflow_ok_def is_ok_then steps validate_event_name_ok)
qed

section \<open>Loading\<close>

lemma endpoints_append [simp]: "endpoints (xs @ ys) = endpoints xs @ endpoints ys"
  by (simp add: endpoints_def List.map_filter_def)

lemma endpoints_single:
  "endpoints [flow] = (case tr_endpoint (wf_trigger flow) of None \<Rightarrow> [] | Some e \<Rightarrow> [e])"
  by (simp add: endpoints_def List.map_filter_def split: option.splits)

lemma acceptable_prefix: "acceptable (xs @ ys) \<Longrightarrow> acceptable xs"
  by (simp add: acceptable_def)

definition load_inv :: "load_state \<Rightarrow> bool" where
  "load_inv st \<longleftrightarrow> acceptable (ls_workflows st) \<and>
     dom (ls_id_sources st) = wf_id ` set (ls_workflows st) \<and>
     dom (ls_endpoint_sources st) = set (endpoints (ls_workflows st))"

text \<open>
  A loading step either accepts the new definitions and keeps the invariant, or the definitions
  loaded so far together with the new ones are not acceptable.
\<close>

definition load_outcome ::
  "load_state \<Rightarrow> workflow_def list \<Rightarrow> (workflow_error, load_state) result \<Rightarrow> bool" where
  "load_outcome st new r \<longleftrightarrow>
     (case r of
        Inl _ \<Rightarrow> \<not> acceptable (ls_workflows st @ new)
      | Inr st' \<Rightarrow> load_inv st' \<and> ls_workflows st' = ls_workflows st @ new)"

lemma load_inv_ids: "load_inv st \<Longrightarrow> (ls_id_sources st x = None) = (x \<notin> wf_id ` set (ls_workflows st))"
  by (metis domIff load_inv_def)

lemma load_inv_endpoints:
  "load_inv st \<Longrightarrow> (ls_endpoint_sources st e = None) = (e \<notin> set (endpoints (ls_workflows st)))"
  by (metis domIff load_inv_def)

lemma acceptable_snoc:
  "acceptable (flows @ [flow]) \<longleftrightarrow> acceptable flows \<and> workflow_ok flow \<and>
     wf_id flow \<notin> wf_id ` set flows \<and>
     (\<forall>e. tr_endpoint (wf_trigger flow) = Some e \<longrightarrow> e \<notin> set (endpoints flows))"
  by (auto simp: acceptable_def endpoints_single split: option.splits)

lemma load_workflow_outcome:
  assumes inv: "load_inv st"
  shows "load_outcome st [with_id key flow0] (load_workflow fname (key, flow0) st)"
proof -
  define flow where "flow = with_id key flow0"
  have accepted: "acceptable (ls_workflows st @ [flow]) \<longleftrightarrow> is_ok (validate_workflow flow fname) \<and>
      ls_id_sources st (wf_id flow) = None \<and>
      (\<forall>e. tr_endpoint (wf_trigger flow) = Some e \<longrightarrow> ls_endpoint_sources st e = None)"
    using inv load_inv_ids [OF inv] load_inv_endpoints [OF inv] validate_workflow_ok
    by (simp add: acceptable_snoc load_inv_def)
  show ?thesis
  proof (cases "acceptable (ls_workflows st @ [flow])")
    case False
    then have "\<not> is_ok (load_workflow fname (key, flow0) st)"
      unfolding accepted
      by (auto simp: load_workflow_def register_endpoint_def Let_def is_ok_iff r_bind_eq_Inr
          simp flip: flow_def split: option.splits)
    with False show ?thesis
      by (cases "load_workflow fname (key, flow0) st") (simp_all add: load_outcome_def flow_def)
  next
    case True
    note acc = True [unfolded accepted]
    from acc obtain u where "validate_workflow flow fname = Inr u" by (auto simp: is_ok_iff)
    with acc True inv show ?thesis
      by (cases "tr_endpoint (wf_trigger flow)")
        (simp_all add: load_outcome_def load_workflow_def register_endpoint_def Let_def load_inv_def
          endpoints_single flip: flow_def)
  qed
qed

text \<open>Outcomes compose along the loops over definitions and over files.\<close>

lemma load_outcome_then:
  assumes "load_inv st" "load_outcome st new r"
    and "\<And>st'. load_inv st' \<Longrightarrow> load_outcome st' rest (f st')"
  shows "load_outcome st (new @ rest) (r_bind r f)"
proof (cases r)
  case (Inl e)
  then show ?thesis
    using assms(2) acceptable_prefix [of "ls_workflows st @ new" rest] by (auto simp: load_outcome_def)
next
  case (Inr st')
  then show ?thesis using assms(2) assms(3) [of st'] by (auto simp: load_outcome_def split: sum.splits)
qed

lemma fold_r_Cons_bind: "fold_r f (x # xs) s = r_bind (f x s) (fold_r f xs)"
  by (simp add: r_bind_def split: sum.splits)

lemma load_outcome_refl: "load_inv st \<Longrightarrow> load_outcome st [] (Inr st)"
  by (simp add: load_outcome_def)

definition named_flows :: "(string \<times> workflow_def) list \<Rightarrow> workflow_def list" where
  "named_flows entries = map (\<lambda>(key, flow). with_id key flow) entries"

lemma load_flows_outcome:
  "load_inv st \<Longrightarrow> load_outcome st (named_flows flows) (fold_r (load_workflow fname) flows st)"
proof (induction flows arbitrary: st)
  case Nil
  then show ?case by (simp add: named_flows_def load_outcome_refl)
next
  case (Cons kf flows)
  obtain key flow where kf: "kf = (key, flow)" by force
  have "load_outcome st ([with_id key flow] @ named_flows flows)
      (r_bind (load_workflow fname (key, flow) st) (fold_r (load_workflow fname) flows))"
    using Cons load_workflow_outcome by (intro load_outcome_then) auto
  then show ?case by (simp add: kf named_flows_def fold_r_Cons_bind del: fold_r.simps)
qed

text \<open>The definitions of a file, if it can be read and parsed.\<close>

definition file_flows ::
  "yaml_parser \<Rightarrow> string \<times> (string, string) result \<Rightarrow> workflow_def list option" where
  "file_flows parse fname =
     (case snd fname of
        Inl _ \<Rightarrow> None
      | Inr text \<Rightarrow> (case parse text of Inl _ \<Rightarrow> None | Inr flows \<Rightarrow> Some (named_flows flows)))"

fun all_flows ::
  "yaml_parser \<Rightarrow> (string \<times> (string, string) result) list \<Rightarrow> workflow_def list option" where
  "all_flows parse [] = Some []"
| "all_flows parse (f # fs) =
     (case (file_flows parse f, all_flows parse fs) of
        (Some xs, Some ys) \<Rightarrow> Some (xs @ ys)
      | _ \<Rightarrow> None)"

lemma load_file_outcome:
  assumes "load_inv st"
  shows "case file_flows parse fname of
      None \<Rightarrow> \<exists>e. load_file parse fname st = Inl e
    | Some flows \<Rightarrow> load_outcome st flows (load_file parse fname st)"
proof -
  obtain name contents where f: "fname = (name, contents)" by force
  show ?thesis
    using load_flows_outcome [OF assms]
    by (auto simp: f load_file_def file_flows_def split: sum.splits option.splits)
qed

lemma load_files_outcome:
  "load_inv st \<Longrightarrow>
   (case all_flows parse files of
      None \<Rightarrow> \<exists>e. fold_r (load_file parse) files st = Inl e
    | Some flows \<Rightarrow> load_outcome st flows (fold_r (load_file parse) files st))"
proof (induction files arbitrary: st)
  case Nil
  then show ?case by (simp add: load_outcome_refl)
next
  case (Cons f fs)
  show ?case
  proof (cases "file_flows parse f")
    case None
    then obtain e where "load_file parse f st = Inl e"
      using load_file_outcome [OF Cons.prems, of parse f] by auto
    then show ?thesis using None by simp
  next
    case (Some xs)
    then have f: "load_outcome st xs (load_file parse f st)"
      using load_file_outcome [OF Cons.prems, of parse f] by simp
    show ?thesis
    proof (cases "all_flows parse fs")
      case None
      then show ?thesis
        using Some f Cons.IH
        by (cases "load_file parse f st") (auto simp: load_outcome_def)
    next
      case ys: (Some ys)
      have "load_outcome st (xs @ ys) (r_bind (load_file parse f st) (fold_r (load_file parse) fs))"
        using Cons.IH ys by (intro load_outcome_then [OF Cons.prems f]) auto
      then show ?thesis using Some ys by (simp add: fold_r_Cons_bind del: fold_r.simps)
    qed
  qed
qed

lemma load_start_inv: "load_inv load_start"
  by (simp add: load_inv_def load_start_def acceptable_def endpoints_def List.map_filter_def)

lemma load_workflows_char:
  "load_workflows parse dir = Inr flows \<longleftrightarrow>
     wd_is_dir dir \<and> (\<exists>entries. wd_read_dir dir = Inr entries \<and>
       all_flows parse (workflow_files entries) = Some flows) \<and> acceptable flows"
proof (cases "wd_is_dir dir \<and> is_ok (wd_read_dir dir)")
  case False
  then show ?thesis by (auto simp: load_workflows_def r_bind_eq_Inr map_err_eq_Inr is_ok_iff)
next
  case True
  then obtain entries where entries: "wd_read_dir dir = Inr entries" by (auto simp: is_ok_iff)
  define run where "run = fold_r (load_file parse) (workflow_files entries) load_start"
  have "load_workflows parse dir = r_bind run (\<lambda>st. Inr (ls_workflows st))"
    using True entries by (simp add: load_workflows_def run_def)
  moreover have "ls_workflows load_start = []" by (simp add: load_start_def)
  ultimately show ?thesis
    using True entries load_files_outcome [OF load_start_inv, of parse "workflow_files entries"]
    by (cases run) (auto simp: load_outcome_def load_inv_def simp flip: run_def split: option.splits)
qed

section \<open>The registry\<close>

text \<open>The key under which a definition's endpoint is registered.\<close>

definition endpoint_key :: "workflow_def \<Rightarrow> (http_method \<times> string) option" where
  "endpoint_key flow =
     (case tr_endpoint (wf_trigger flow) of
        None \<Rightarrow> None
      | Some e \<Rightarrow> (case parse_endpoint e (wf_id flow) of Inl _ \<Rightarrow> None | Inr key \<Rightarrow> Some key))"

definition schedule_entry ::
  "(string \<Rightarrow> (string, 'sch) result) \<Rightarrow> workflow_def \<Rightarrow> ('sch \<times> workflow_def) option" where
  "schedule_entry parse_cron flow =
     (case tr_schedule (wf_trigger flow) of
        None \<Rightarrow> None
      | Some expr \<Rightarrow> (case parse_cron expr of Inl _ \<Rightarrow> None | Inr sch \<Rightarrow> Some (sch, flow)))"

text \<open>The effect of adding one definition on the three tables.\<close>

lemma add_endpoint_ok:
  "add_endpoint flow reg = Inr reg' \<Longrightarrow>
     reg' = reg\<lparr>reg_endpoints := (case endpoint_key flow of None \<Rightarrow> reg_endpoints reg
                                | Some key \<Rightarrow> (reg_endpoints reg)(key \<mapsto> flow))\<rparr>"
  by (auto simp: add_endpoint_def endpoint_key_def r_bind_eq_Inr split: option.splits)

lemma add_schedule_ok:
  "add_schedule parse_cron flow reg = Inr reg' \<Longrightarrow>
     reg' = reg\<lparr>reg_schedules := reg_schedules reg @
              (case schedule_entry parse_cron flow of None \<Rightarrow> [] | Some x \<Rightarrow> [x])\<rparr>"
  by (auto simp: add_schedule_def schedule_entry_def r_bind_eq_Inr map_err_eq_Inr split: option.splits)

lemma add_event_tables [simp]:
  "reg_endpoints (add_event flow reg) = reg_endpoints reg"
  "reg_schedules (add_event flow reg) = reg_schedules reg"
  "find_event (add_event flow reg) e =
     find_event reg e @ (if tr_event (wf_trigger flow) = Some e then [flow] else [])"
  by (auto simp: add_event_def find_event_def Let_def split: option.splits)

lemma add_workflow_tables:
  assumes "add_workflow parse_cron flow reg = Inr reg'"
  shows "reg_endpoints reg' = (case endpoint_key flow of None \<Rightarrow> reg_endpoints reg
           | Some key \<Rightarrow> (reg_endpoints reg)(key \<mapsto> flow))"
    and "find_event reg' e = find_event reg e @
           (if tr_event (wf_trigger flow) = Some e then [flow] else [])"
    and "reg_schedules reg' = reg_schedules reg @
           (case schedule_entry parse_cron flow of None \<Rightarrow> [] | Some x \<Rightarrow> [x])"
proof -
  obtain r1 where "add_endpoint flow reg = Inr r1"
    and "add_schedule parse_cron flow (add_event flow r1) = Inr reg'"
    using assms by (auto simp: add_workflow_def r_bind_eq_Inr)
  note eqs = add_endpoint_ok [OF this(1)] add_schedule_ok [OF this(2)]
  have ev: "find_event reg' e = find_event (add_event flow r1) e" "find_event r1 e = find_event reg e"
    using eqs by (simp_all add: find_event_def)
  show "find_event reg' e = find_event reg e @
      (if tr_event (wf_trigger flow) = Some e then [flow] else [])"
    using ev by simp
  show "reg_endpoints reg' = (case endpoint_key flow of None \<Rightarrow> reg_endpoints reg
      | Some key \<Rightarrow> (reg_endpoints reg)(key \<mapsto> flow))"
    "reg_schedules reg' = reg_schedules reg @
      (case schedule_entry parse_cron flow of None \<Rightarrow> [] | Some x \<Rightarrow> [x])"
    using eqs by simp_all
qed

lemma build_tables:
  assumes "fold_r (add_workflow parse_cron) flows reg = Inr reg'"
  shows "reg_endpoints reg' key = (case find (\<lambda>f. endpoint_key f = Some key) (rev flows) of
            None \<Rightarrow> reg_endpoints reg key | Some f \<Rightarrow> Some f)"
    and "find_event reg' e = find_event reg e @ filter (\<lambda>f. tr_event (wf_trigger f) = Some e) flows"
    and "reg_schedules reg' = reg_schedules reg @ List.map_filter (schedule_entry parse_cron) flows"
  using assms
proof (induction flows arbitrary: reg)
  case (Cons flow flows)
  {
    case 1
    then obtain r1 where "add_workflow parse_cron flow reg = Inr r1"
      "fold_r (add_workflow parse_cron) flows r1 = Inr reg'" by (auto split: sum.splits)
    with Cons.IH(1) [of r1] show ?case
      by (auto simp: add_workflow_tables(1) find_snoc split: option.splits)
  next
    case 2
    then obtain r1 where "add_workflow parse_cron flow reg = Inr r1"
      "fold_r (add_workflow parse_cron) flows r1 = Inr reg'" by (auto split: sum.splits)
    with Cons.IH(2) [of r1] show ?case by (simp add: add_workflow_tables(2))
  next
    case 3
    then obtain r1 where "add_workflow parse_cron flow reg = Inr r1"
      "fold_r (add_workflow parse_cron) flows r1 = Inr reg'" by (auto split: sum.splits)
    with Cons.IH(3) [of r1] show ?case
      by (simp add: add_workflow_tables(3) List.map_filter_def split: option.splits)
  }
qed (simp_all add: List.map_filter_def)

lemma build_empty_tables: "reg_endpoints reg_empty = Map.empty" "find_event reg_empty e = []"
  "reg_schedules reg_empty = []"
  by (simp_all add: reg_empty_def find_event_def)

section \<open>Event names\<close>

lemma split_on_dots:
  assumes "event_name_ok event"
  shows "\<not> starts_with event [dot]" "\<not> ends_with event [dot]" "\<not> contains_str event [dot, dot]"
    "event \<noteq> []"
  using assms split_on_append [of dot "[]"] split_on_append [of dot _ "[]"]
    split_on_append [of dot _ "dot # _"]
  by (auto simp: event_name_ok_def starts_with_iff ends_with_iff contains_str_iff)

lemma split_on_length: "2 \<le> length (split_on c s) \<longleftrightarrow> c \<in> set s"
proof
  assume "2 \<le> length (split_on c s)"
  then show "c \<in> set s" using split_on_absent [of c s] by fastforce
next
  assume "c \<in> set s"
  then obtain a b where s: "s = a @ c # b" by (auto dest: split_list)
  have "Suc 0 \<le> length (split_on c a)" "Suc 0 \<le> length (split_on c b)"
    by (simp_all add: Suc_le_eq)
  then show "2 \<le> length (split_on c s)" unfolding s split_on_append length_append by linarith
qed

section \<open>Properties\<close>

text \<open>
  C13: the loader succeeds exactly when the directory can be listed, every YAML file can be read
  and parsed, and the definitions of all files together are acceptable: every definition is
  well-formed (with an id, at least one step, non-empty event name segments, flat branches and
  named plugins and actions), ids are distinct and endpoint strings are distinct. It then returns
  exactly these definitions, file by file in the order of the file names.
\<close>

theorem load_workflows_iff:
  "load_workflows parse dir = Inr flows \<longleftrightarrow>
     wd_is_dir dir \<and> (\<exists>entries. wd_read_dir dir = Inr entries \<and>
       all_flows parse (workflow_files entries) = Some flows) \<and> acceptable flows"
  by (rule load_workflows_char)

text \<open>
  A registry built from a list of definitions answers every lookup by the list. An event finds
  all definitions with that event trigger, in order; an endpoint finds the last definition whose
  trigger parses to that method and path, the method compared without case; the schedules are the
  definitions with a cron expression, parsed, in order.
\<close>

theorem registry_lookup:
  assumes "build parse_cron flows = Inr reg"
  shows "find_event reg e = filter (\<lambda>f. tr_event (wf_trigger f) = Some e) flows \<and>
    find_endpoint reg meth path =
      (case parse_method meth of
         None \<Rightarrow> None
       | Some m \<Rightarrow> find (\<lambda>f. endpoint_key f = Some (m, path)) (rev flows)) \<and>
    get_schedules reg = List.map_filter (schedule_entry parse_cron) flows"
  using build_tables [OF assms [unfolded build_def]]
  by (auto simp: find_endpoint_def get_schedules_def build_empty_tables split: option.splits)

definition sample_flow :: "string \<Rightarrow> string option \<Rightarrow> string option \<Rightarrow> workflow_def" where
  "sample_flow i endpoint event =
     \<lparr>wf_id = i, wf_name = i, wf_description = None, wf_mode = Sync, wf_validate = Edges,
      wf_trigger = \<lparr>tr_endpoint = endpoint, tr_event = event, tr_schedule = None\<rparr>,
      wf_steps = [StepDef ''p'' ''a'' None None]\<rparr>"

lemma sample_endpoints:
  "parse_method ''post'' = Some Post" "parse_endpoint ''post /x'' i = Inr (Post, ''/x'')"
  "parse_endpoint ''POST /x'' i = Inr (Post, ''/x'')"
proof -
  show "parse_method ''post'' = Some Post" by code_simp
  then show "parse_endpoint ''post /x'' i = Inr (Post, ''/x'')" by (simp add: parse_endpoint_def)
  have "parse_method ''POST'' = Some Post" by code_simp
  then show "parse_endpoint ''POST /x'' i = Inr (Post, ''/x'')" by (simp add: parse_endpoint_def)
qed

theorem registry_lookup_witness:
  "\<exists>reg. build (\<lambda>s. Inr s)
      [sample_flow ''a'' (Some ''POST /x'') (Some ''mail.new''), sample_flow ''b'' None (Some ''mail.new'')]
      = Inr reg \<and>
    find_event reg ''mail.new'' = [sample_flow ''a'' (Some ''POST /x'') (Some ''mail.new''),
      sample_flow ''b'' None (Some ''mail.new'')] \<and>
    find_endpoint reg ''post'' ''/x'' = Some (sample_flow ''a'' (Some ''POST /x'') (Some ''mail.new''))"
proof -
  let ?flows = "[sample_flow ''a'' (Some ''POST /x'') (Some ''mail.new''),
    sample_flow ''b'' None (Some ''mail.new'')]"
  have "is_ok (build (\<lambda>s. Inr s :: (string, string) result) ?flows)"
    by (simp add: build_def add_workflow_def add_endpoint_def add_event_def add_schedule_def
        sample_flow_def sample_endpoints)
  then obtain reg where reg: "build (\<lambda>s. Inr s :: (string, string) result) ?flows = Inr reg"
    by (auto simp: is_ok_iff)
  from registry_lookup [OF reg, of "''mail.new''" "''post''" "''/x''"] reg show ?thesis
    by (auto simp: sample_flow_def sample_endpoints endpoint_key_def)
qed

text \<open>
  The loader's test for duplicate endpoints compares the strings, while the registry is keyed by
  the parsed method. Two definitions with the endpoints \<open>POST /x\<close> and \<open>post /x\<close> are loaded together
  without an error, and the registry then never finds the first of them by an endpoint.
\<close>

theorem duplicate_endpoint_undetected:
  "\<exists>reg. acceptable [sample_flow ''a'' (Some ''POST /x'') None, sample_flow ''b'' (Some ''post /x'') None] \<and>
    build (\<lambda>s. Inr s) [sample_flow ''a'' (Some ''POST /x'') None, sample_flow ''b'' (Some ''post /x'') None]
      = Inr (reg :: string trigger_registry) \<and>
    (\<forall>meth path. find_endpoint reg meth path \<noteq> Some (sample_flow ''a'' (Some ''POST /x'') None))"
proof -
  let ?a = "sample_flow ''a'' (Some ''POST /x'') None" and ?b = "sample_flow ''b'' (Some ''post /x'') None"
  have "acceptable [?a, ?b]"
    by (simp add: acceptable_def endpoints_def List.map_filter_def workflow_ok_def step_ok_def
        plugin_step_ok_def sample_flow_def)
  moreover obtain reg where reg: "build (\<lambda>s. Inr s :: (string, string) result) [?a, ?b] = Inr reg"
    and ep: "reg_endpoints reg = [(Post, ''/x'') \<mapsto> ?b]"
    by (simp add: build_def add_workflow_def add_endpoint_def add_event_def add_schedule_def
        sample_flow_def sample_endpoints reg_empty_def)
  moreover have "?b \<noteq> ?a" by (simp add: sample_flow_def)
  ultimately show ?thesis
    by (intro exI [of _ reg]) (auto simp: find_endpoint_def ep split: option.splits)
qed

text \<open>
  An event trigger passes the start-up check exactly when its name has at least two
  dot-separated segments and every segment is a non-empty word of ASCII letters, digits, hyphens
  and underscores. In particular the name then also passes the loader's own, weaker test, and the
  separate tests for leading, trailing and double dots reject nothing the test of the segments would
  let through.
\<close>

theorem event_trigger_check:
  "is_ok (check_event_trigger event wid) \<longleftrightarrow>
     2 \<le> length (split_on dot event) \<and> is_ok (validate_event_name event wid) \<and>
     list_all (\<lambda>segment. segment \<noteq> [] \<and> list_all segment_char segment) (split_on dot event)"
proof (cases "event_name_ok event")
  case True
  then show ?thesis
    using split_on_dots [OF True]
    by (auto simp: check_event_trigger_def Let_def check_all_ok split_on_length list_all_iff
        validate_event_name_ok event_name_ok_def)
next
  case False
  then have "\<not> is_ok (check_event_trigger event wid)"
    by (auto simp: check_event_trigger_def Let_def check_all_ok event_name_ok_def)
  with False show ?thesis by (simp add: validate_event_name_ok)
qed

end
