(* ===== verification/Executor.thy ===== *)
theory Executor
  imports Workflow_Types
begin

text \<open>
  The pipeline executor of \<open>workflow-engine/src/executor.rs\<close>: building the initial message,
  validation, condition evaluation, one step with its error strategy (halt, skip, retry with
  backoff and fallback), lists of steps with branches, and a whole run with its execution log.

  Everything outside the executor is reached through the record \<open>runtime\<close>, whose operations thread
  a state \<open>'w\<close> of the outside world: the plugin executor (a trait object), the clock, the timer, fresh
  UUIDs, the event emitter, the \<open>jsonschema\<close> crate and the text serialiser. \<open>rt_overflow_checks\<close> says
  whether the build checks shifts for overflow (debug) or masks the shift amount (release). A panic
  of the source is the exit \<open>Panics\<close>. Log macros are left out, except that the execution log a run
  prints is part of its result.
\<close>

section \<open>The outside world\<close>

record 'w runtime =
  rt_execute :: "string \<Rightarrow> string \<Rightarrow> pipeline_message \<Rightarrow> 'w \<Rightarrow>
    (engine_error, pipeline_message) result \<times> 'w"
  rt_now :: "'w \<Rightarrow> timestamp \<times> 'w"
  rt_sleep :: "nat \<Rightarrow> 'w \<Rightarrow> 'w"
  rt_new_uuid :: "'w \<Rightarrow> uuid \<times> 'w"
  rt_emit :: "string \<Rightarrow> json \<Rightarrow> 'w \<Rightarrow> 'w"
  rt_validator_for :: schema_compiler
  rt_payload_text :: "typed_payload \<Rightarrow> string"
  rt_overflow_checks :: bool

datatype step_exit = Fails workflow_error | Panics string

section \<open>Logs\<close>

datatype execution_status = ExecCompleted | ExecFailed | ExecPartiallyFailed

datatype step_status = StepCompleted | StepFailed | StepSkipped | StepRetried

record step_error_log =
  sel_message :: string
  sel_code :: string
  sel_severity :: string
  sel_input_summary :: string

record step_log =
  sl_index :: nat
  sl_plugin_id :: string
  sl_action :: string
  sl_status :: step_status
  sl_duration_ms :: nat
  sl_error :: "step_error_log option"
  sl_retry_count :: "nat option"

record execution_log =
  el_workflow_id :: string
  el_trigger_type :: string
  el_trigger_value :: string
  el_started_at :: timestamp
  el_completed_at :: timestamp
  el_total_duration_ms :: nat
  el_status :: execution_status
  el_steps :: "step_log list"

text \<open>
  \<open>(end - start).num_milliseconds().max(0)\<close>: whole milliseconds, rounded towards zero, and
  never negative.
\<close>

definition duration_ms :: "timestamp \<Rightarrow> timestamp \<Rightarrow> nat" where
  "duration_ms start stop = nat (max 0 ((stop - start) div 1000000))"

section \<open>Messages\<close>

definition trigger_parts :: "trigger_context \<Rightarrow> string \<times> json \<times> json option" where
  "trigger_parts tc =
     (case tc of
        TcEndpoint meth path body auth \<Rightarrow> (''endpoint:'' @ meth @ '' '' @ path, body, auth)
      | TcEvent name pl \<Rightarrow> (''event:'' @ name, pl, None)
      | TcSchedule wid _ \<Rightarrow> (''schedule:'' @ wid, JObject [], None))"

definition build_initial_message ::
  "'w runtime \<Rightarrow> trigger_context \<Rightarrow> 'w \<Rightarrow> (workflow_error, pipeline_message) result \<times> 'w" where
  "build_initial_message rt tc w =
     (let (cid, w1) = rt_new_uuid rt w;
          (ts, w2) = rt_now rt w1;
          (src, value, auth) = trigger_parts tc
      in case schema_validated_new (rt_validator_for rt) value object_schema of
           Inl e \<Rightarrow> (Inl (PluginExecutionError ''workflow-engine'' e), w2)
         | Inr v \<Rightarrow>
             (Inr \<lparr>metadata = \<lparr>correlation_id = cid, msg_source = src, msg_timestamp = ts,
                                auth_context = auth, warnings = []\<rparr>,
                   payload = Custom v\<rparr>, w2))"

definition validate_message ::
  "schema_compiler \<Rightarrow> pipeline_message \<Rightarrow> nat \<Rightarrow> string \<Rightarrow> (workflow_error, unit) result" where
  "validate_message validator_for msg step_index ctx =
     (let payload_json = payload_to_value (payload msg);
          data = (case json_get payload_json ''data'' of Some d \<Rightarrow> d | None \<Rightarrow> payload_json)
      in case validator_for object_schema of
           Inl e \<Rightarrow> Inl (ValidationFailed step_index (''schema compilation error: '' @ e))
         | Inr validate \<Rightarrow>
             (case validate data of
                Inl e \<Rightarrow> Inl (ValidationFailed step_index (ctx @ '': '' @ e))
              | Inr _ \<Rightarrow> Inr ()))"

definition derive_trigger_info :: "workflow_def \<Rightarrow> string \<times> string" where
  "derive_trigger_info flow =
     (case tr_endpoint (wf_trigger flow) of
        Some e \<Rightarrow> (''endpoint'', e)
      | None \<Rightarrow>
          (case tr_event (wf_trigger flow) of
             Some e \<Rightarrow> (''event'', e)
           | None \<Rightarrow>
               (case tr_schedule (wf_trigger flow) of
                  Some s \<Rightarrow> (''schedule'', s)
                | None \<Rightarrow> (''unknown'', []))))"

text \<open>Slicing a text at a byte that is inside a character panics: the result is \<open>None\<close>.\<close>

definition summarize_input :: "'w runtime \<Rightarrow> pipeline_message \<Rightarrow> string option" where
  "summarize_input rt msg =
     (let text = rt_payload_text rt (payload msg)
      in if length text > 200
         then (if is_char_boundary text 200 then Some (take 200 text @ ''...'') else None)
         else Some text)"

section \<open>Conditions\<close>

fun get_path :: "json \<Rightarrow> string list \<Rightarrow> json option" where
  "get_path current [] = Some current"
| "get_path current (seg # segs) =
     (case json_get current seg of Some v \<Rightarrow> get_path v segs | None \<Rightarrow> None)"

definition resolve_field :: "pipeline_message \<Rightarrow> string \<Rightarrow> json option" where
  "resolve_field msg field =
     (let payload_value = payload_to_value (payload msg);
          root = (case json_get payload_value ''data'' of Some d \<Rightarrow> d | None \<Rightarrow> payload_value);
          path = (case strip_prefix field ''payload.'' of Some p \<Rightarrow> p | None \<Rightarrow> field)
      in get_path root (split_on dot path))"

definition evaluate_condition :: "condition_operator \<Rightarrow> json option \<Rightarrow> json \<Rightarrow> bool" where
  "evaluate_condition operator resolved comparison =
     (case operator of
        Equals \<Rightarrow> (case resolved of Some v \<Rightarrow> v = comparison | None \<Rightarrow> False)
      | NotEquals \<Rightarrow> (case resolved of Some v \<Rightarrow> v \<noteq> comparison | None \<Rightarrow> False)
      | Exists \<Rightarrow> resolved \<noteq> None
      | IsEmpty \<Rightarrow>
          (case resolved of
             None \<Rightarrow> True
           | Some v \<Rightarrow> is_null v
               \<or> (case as_str v of Some s \<Rightarrow> s = [] | None \<Rightarrow> False)
               \<or> (case as_array v of Some a \<Rightarrow> a = [] | None \<Rightarrow> False)))"

definition select_branch :: "condition_def \<Rightarrow> pipeline_message \<Rightarrow> step_def list" where
  "select_branch c msg =
     (if evaluate_condition (cd_operator c) (resolve_field msg (cd_field c)) (cd_value c)
      then cd_then_steps c else cd_else_steps c)"

section \<open>Retries\<close>

text \<open>\<open>1u64 << n\<close>: with overflow checks a shift by 64 or more panics, without them it is masked.\<close>

definition shl_u64 :: "bool \<Rightarrow> 64 word \<Rightarrow> nat \<Rightarrow> 64 word option" where
  "shl_u64 checks x n =
     (if n < 64 then Some (push_bit n x)
      else if checks then None else Some (push_bit (n mod 64) x))"

definition backoff_secs :: "bool \<Rightarrow> nat \<Rightarrow> 64 word option" where
  "backoff_secs checks attempt = map_option (\<lambda>x. min x 30) (shl_u64 checks 1 (attempt - 1))"

datatype retry_outcome =
    Succeeded pipeline_message nat
  | Exhausted engine_error
  | RetryPanic string

text \<open>The loop \<open>for attempt in 1..=max_retries\<close>; the first number is how many attempts are left.\<close>

fun retry_loop ::
  "'w runtime \<Rightarrow> step_def \<Rightarrow> pipeline_message \<Rightarrow> nat \<Rightarrow> nat \<Rightarrow> engine_error \<Rightarrow> 'w \<Rightarrow>
     retry_outcome \<times> 'w" where
  "retry_loop rt step msg 0 attempt last_error w = (Exhausted last_error, w)"
| "retry_loop rt step msg (Suc left) attempt last_error w =
     (case backoff_secs (rt_overflow_checks rt) attempt of
        None \<Rightarrow> (RetryPanic ''attempt to shift left with overflow'', w)
      | Some secs \<Rightarrow>
          (case rt_execute rt (sd_plugin step) (sd_action step) msg (rt_sleep rt (unat secs) w) of
             (Inr output, w') \<Rightarrow> (Succeeded output attempt, w')
           | (Inl retry_error, w') \<Rightarrow>
               retry_loop rt step msg left (Suc attempt) retry_error w'))"

definition max_retries_of :: "step_def \<Rightarrow> nat" where
  "max_retries_of step =
     (case sd_on_error step of
        None \<Rightarrow> 3
      | Some s \<Rightarrow> (case es_max_retries s of None \<Rightarrow> 3 | Some n \<Rightarrow> n))"

definition fallback_of :: "step_def \<Rightarrow> step_def option" where
  "fallback_of step = (case sd_on_error step of None \<Rightarrow> None | Some s \<Rightarrow> es_fallback s)"

text \<open>
  The strategy for a failed step: fatal errors halt, warnings are passed over (\<open>None\<close>), and for a
  retryable error the declared strategy wins, retry being the default.
\<close>

definition effective_strategy :: "step_def \<Rightarrow> engine_error \<Rightarrow> error_strategy_type option" where
  "effective_strategy step err =
     (case ee_severity err of
        Fatal \<Rightarrow> Some Halt
      | Warning \<Rightarrow> None
      | Retryable \<Rightarrow> (case sd_on_error step of None \<Rightarrow> Some Retry | Some s \<Rightarrow> Some (es_strategy s)))"

section \<open>Steps\<close>

text \<open>A log entry for a step that did not complete; taking the summary may panic.\<close>

definition error_log ::
  "'w runtime \<Rightarrow> nat \<Rightarrow> step_def \<Rightarrow> step_status \<Rightarrow> nat \<Rightarrow> pipeline_message \<Rightarrow> string \<Rightarrow> engine_error \<Rightarrow>
     nat option \<Rightarrow> step_log option" where
  "error_log rt index step status dur msg message err retries =
     map_option
       (\<lambda>summary. \<lparr>sl_index = index, sl_plugin_id = sd_plugin step, sl_action = sd_action step,
           sl_status = status, sl_duration_ms = dur,
           sl_error = Some \<lparr>sel_message = message, sel_code = ee_code err,
             sel_severity = severity_to_string (ee_severity err), sel_input_summary = summary\<rparr>,
           sl_retry_count = retries\<rparr>)
       (summarize_input rt msg)"

definition ok_log :: "nat \<Rightarrow> step_def \<Rightarrow> step_status \<Rightarrow> nat \<Rightarrow> nat option \<Rightarrow> step_log" where
  "ok_log index step status dur retries =
     \<lparr>sl_index = index, sl_plugin_id = sd_plugin step, sl_action = sd_action step,
      sl_status = status, sl_duration_ms = dur, sl_error = None, sl_retry_count = retries\<rparr>"

definition slice_panic :: string where
  "slice_panic = ''byte index 200 is not a char boundary''"

type_synonym 'w step_result = "(step_exit, pipeline_message) result \<times> step_log list \<times> 'w"

definition skip_warning :: "nat \<Rightarrow> step_def \<Rightarrow> engine_error \<Rightarrow> string" where
  "skip_warning index step err =
     ''step '' @ show_nat index @ '' ('' @ sd_plugin step @ ''.'' @ sd_action step @
     '') skipped: '' @ ee_message err"

definition push_warning :: "string \<Rightarrow> pipeline_message \<Rightarrow> pipeline_message" where
  "push_warning warning msg =
     msg\<lparr>metadata := (metadata msg)\<lparr>warnings := warnings (metadata msg) @ [warning]\<rparr>\<rparr>"

definition halt_step ::
  "'w runtime \<Rightarrow> nat \<Rightarrow> step_def \<Rightarrow> timestamp \<Rightarrow> pipeline_message \<Rightarrow> engine_error \<Rightarrow>
     step_log list \<Rightarrow> 'w \<Rightarrow> 'w step_result" where
  "halt_step rt index step start msg err logs w =
     (let (t, w') = rt_now rt w
      in case error_log rt index step StepFailed (duration_ms start t) msg (ee_message err) err None of
           None \<Rightarrow> (Inl (Panics slice_panic), logs, w')
         | Some l \<Rightarrow>
             (Inl (Fails (StepHalted index (sd_plugin step) (sd_action step) (ee_message err))),
              logs @ [l], w'))"

definition skip_step ::
  "'w runtime \<Rightarrow> nat \<Rightarrow> step_def \<Rightarrow> timestamp \<Rightarrow> pipeline_message \<Rightarrow> engine_error \<Rightarrow>
     step_log list \<Rightarrow> 'w \<Rightarrow> 'w step_result" where
  "skip_step rt index step start msg err logs w =
     (let (t, w') = rt_now rt w
      in case error_log rt index step StepSkipped (duration_ms start t) msg (ee_message err) err None of
           None \<Rightarrow> (Inl (Panics slice_panic), logs, w')
         | Some l \<Rightarrow> (Inr (push_warning (skip_warning index step err) msg), logs @ [l], w'))"

text \<open>The exit of a step whose retries, and fallback if it has one, have all failed.\<close>

definition exhaust_step ::
  "'w runtime \<Rightarrow> nat \<Rightarrow> step_def \<Rightarrow> timestamp \<Rightarrow> pipeline_message \<Rightarrow> string \<Rightarrow> engine_error \<Rightarrow>
     step_log list \<Rightarrow> 'w \<Rightarrow> 'w step_result" where
  "exhaust_step rt index step start msg cause last_error logs w =
     (let (t, w') = rt_now rt w
      in case error_log rt index step StepFailed (duration_ms start t) msg cause last_error
                (Some (max_retries_of step)) of
           None \<Rightarrow> (Inl (Panics slice_panic), logs, w')
         | Some l \<Rightarrow>
             (Inl (Fails (RetryExhausted index (sd_plugin step) (sd_action step)
                            (max_retries_of step) cause)),
              logs @ [l], w'))"

definition retry_step ::
  "'w runtime \<Rightarrow> nat \<Rightarrow> step_def \<Rightarrow> timestamp \<Rightarrow> pipeline_message \<Rightarrow> engine_error \<Rightarrow>
     step_log list \<Rightarrow> 'w \<Rightarrow> 'w step_result" where
  "retry_step rt index step start msg err logs w =
     (case retry_loop rt step msg (max_retries_of step) 1 err w of
        (RetryPanic p, w1) \<Rightarrow> (Inl (Panics p), logs, w1)
      | (Succeeded output n, w1) \<Rightarrow>
          (let (t, w2) = rt_now rt w1
           in (Inr output, logs @ [ok_log index step StepRetried (duration_ms start t) (Some n)], w2))
      | (Exhausted last_error, w1) \<Rightarrow>
          (case fallback_of step of
             None \<Rightarrow> exhaust_step rt index step start msg (ee_message last_error) last_error logs w1
           | Some fb \<Rightarrow>
               (case rt_execute rt (sd_plugin fb) (sd_action fb) msg w1 of
                  (Inr output, w2) \<Rightarrow> (Inr output, logs, w2)
                | (Inl fallback_error, w2) \<Rightarrow>
                    exhaust_step rt index step start msg
                      (''retries failed: '' @ ee_message last_error @
                       ''; fallback also failed: '' @ ee_message fallback_error)
                      last_error logs w2)))"

definition strict_context :: "nat \<Rightarrow> step_def \<Rightarrow> string" where
  "strict_context index step =
     ''strict validation after step '' @ show_nat index @ '' ('' @ sd_plugin step @ ''.'' @
     sd_action step @ '')''"

text \<open>One step without a condition.\<close>

definition execute_step ::
  "'w runtime \<Rightarrow> validation_level \<Rightarrow> step_def \<Rightarrow> pipeline_message \<Rightarrow> nat \<Rightarrow> step_log list \<Rightarrow> 'w \<Rightarrow>
     'w step_result" where
  "execute_step rt level step msg index logs w =
     (let (start, w1) = rt_now rt w
      in case rt_execute rt (sd_plugin step) (sd_action step) msg w1 of
           (Inr output, w2) \<Rightarrow>
             (let (t, w3) = rt_now rt w2;
                  logs' = logs @ [ok_log index step StepCompleted (duration_ms start t) None]
              in if level = Strict
                 then (case validate_message (rt_validator_for rt) output index
                              (strict_context index step) of
                         Inl e \<Rightarrow> (Inl (Fails e), logs', w3)
                       | Inr _ \<Rightarrow> (Inr output, logs', w3))
                 else (Inr output, logs', w3))
         | (Inl err, w2) \<Rightarrow>
             (case effective_strategy step err of
                None \<Rightarrow> (Inr msg, logs, w2)
              | Some Halt \<Rightarrow> halt_step rt index step start msg err logs w2
              | Some Skip \<Rightarrow> skip_step rt index step start msg err logs w2
              | Some Retry \<Rightarrow> retry_step rt index step start msg err logs w2))"

text \<open>Branch selection only ever picks a smaller list of steps.\<close>

lemma select_branch_size:
  "sd_condition step = Some c \<Longrightarrow> size_list size (select_branch c msg) < size step"
  by (cases step; cases c) (auto simp: select_branch_def)

function (sequential) execute_steps ::
  "'w runtime \<Rightarrow> validation_level \<Rightarrow> step_def list \<Rightarrow> pipeline_message \<Rightarrow> nat \<Rightarrow> step_log list \<Rightarrow>
     'w \<Rightarrow> 'w step_result" where
  "execute_steps rt level [] msg index logs w = (Inr msg, logs, w)"
| "execute_steps rt level (step # steps) msg index logs w =
     (case (case sd_condition step of
              Some c \<Rightarrow> execute_steps rt level (select_branch c msg) msg (index * 100) logs w
            | None \<Rightarrow> execute_step rt level step msg index logs w) of
        (Inl e, logs', w') \<Rightarrow> (Inl e, logs', w')
      | (Inr msg', logs', w') \<Rightarrow> execute_steps rt level steps msg' (Suc index) logs' w')"
  by pat_completeness auto

termination
  by (relation "measure (\<lambda>(rt, level, steps, msg, index, logs, w). size_list size steps)")
    (auto intro!: less_SucI trans_less_add1 select_branch_size)

section \<open>Runs\<close>

definition checks_edges :: "validation_level \<Rightarrow> bool" where
  "checks_edges level \<longleftrightarrow> level = Strict \<or> level = Edges"

text \<open>
  A run: the result, the execution log if the run came that far, and the world. A panic leaves the
  run before the log is printed.
\<close>

definition run_steps ::
  "'w runtime \<Rightarrow> workflow_def \<Rightarrow> pipeline_message \<Rightarrow> 'w \<Rightarrow>
     (step_exit, pipeline_message) result \<times> execution_log option \<times> 'w" where
  "run_steps rt flow msg w =
     (let (started, w1) = rt_now rt w;
          (ttype, tvalue) = derive_trigger_info flow
      in case (if checks_edges (wf_validate flow)
               then validate_message (rt_validator_for rt) msg 0 ''entry validation'' else Inr ()) of
           Inl e \<Rightarrow> (Inl (Fails e), None, w1)
         | Inr _ \<Rightarrow>
             (case execute_steps rt (wf_validate flow) (wf_steps flow) msg 0 [] w1 of
                (Inl (Panics p), logs, w2) \<Rightarrow> (Inl (Panics p), None, w2)
              | (r, logs, w2) \<Rightarrow>
                  (let (completed, w3) = rt_now rt w2;
                       skipped = (\<exists>l \<in> set logs. sl_status l = StepSkipped);
                       status = (case r of
                                   Inr _ \<Rightarrow> if skipped then ExecPartiallyFailed else ExecCompleted
                                 | Inl _ \<Rightarrow> ExecFailed);
                       elog = \<lparr>el_workflow_id = wf_id flow, el_trigger_type = ttype,
                               el_trigger_value = tvalue, el_started_at = started,
                               el_completed_at = completed,
                               el_total_duration_ms = duration_ms started completed,
                               el_status = status, el_steps = logs\<rparr>
                   in case r of
                        Inl e \<Rightarrow> (Inl e, Some elog, w3)
                      | Inr out \<Rightarrow>
                          (case (if checks_edges (wf_validate flow)
                                 then validate_message (rt_validator_for rt) out
                                        (length (wf_steps flow) - 1) ''exit validation''
                                 else Inr ()) of
                             Inl e \<Rightarrow> (Inl (Fails e), Some elog, w3)
                           | Inr _ \<Rightarrow> (Inr out, Some elog, w3)))))"

section \<open>Sequencing\<close>

text \<open>Continue with the next part of a pipeline unless the first part has left it.\<close>

definition and_then ::
  "'w step_result \<Rightarrow> (pipeline_message \<Rightarrow> step_log list \<Rightarrow> 'w \<Rightarrow> 'w step_result) \<Rightarrow> 'w step_result" where
  "and_then r k = (case r of (Inl e, l, w) \<Rightarrow> (Inl e, l, w) | (Inr m, l, w) \<Rightarrow> k m l w)"

lemma and_then_simps [simp]:
  "and_then (Inl e, l, w) k = (Inl e, l, w)"
  "and_then (Inr m, l, w) k = k m l w"
  by (simp_all add: and_then_def)

lemma and_then_assoc: "and_then (and_then r k) k' = and_then r (\<lambda>m l w. and_then (k m l w) k')"
  by (auto simp: and_then_def split: prod.splits sum.splits)

text \<open>The head of a list of steps: a branch or a single step.\<close>

definition head_step ::
  "'w runtime \<Rightarrow> validation_level \<Rightarrow> step_def \<Rightarrow> pipeline_message \<Rightarrow> nat \<Rightarrow> step_log list \<Rightarrow> 'w \<Rightarrow>
     'w step_result" where
  "head_step rt level step msg index logs w =
     (case sd_condition step of
        Some c \<Rightarrow> execute_steps rt level (select_branch c msg) msg (index * 100) logs w
      | None \<Rightarrow> execute_step rt level step msg index logs w)"

lemma execute_steps_Cons:
  "execute_steps rt level (step # steps) msg index logs w =
     and_then (head_step rt level step msg index logs w)
       (\<lambda>m l w. execute_steps rt level steps m (Suc index) l w)"
  by (simp add: and_then_def head_step_def)

declare execute_steps.simps(2) [simp del]

lemma steps_induct [case_names Nil Cons]:
  assumes "P []"
    and "\<And>step steps. (\<And>c msg. sd_condition step = Some c \<Longrightarrow> P (select_branch c msg)) \<Longrightarrow>
           P steps \<Longrightarrow> P (step # steps)"
  shows "P steps"
proof (induction steps rule: measure_induct_rule [of "size_list size"])
  case (less steps)
  show ?case
  proof (cases steps)
    case Nil
    then show ?thesis using assms(1) by simp
  next
    case (Cons step rest)
    have "P (select_branch c msg)" if "sd_condition step = Some c" for c msg
      using less select_branch_size [OF that, of msg] Cons by (simp add: less_SucI trans_less_add1)
    moreover have "P rest" using less Cons by simp
    ultimately show ?thesis using assms(2) Cons by simp
  qed
qed

lemma execute_steps_append:
  "execute_steps rt level (xs @ ys) msg index logs w =
     and_then (execute_steps rt level xs msg index logs w)
       (\<lambda>m l w. execute_steps rt level ys m (index + length xs) l w)"
proof (induction xs arbitrary: msg index logs w)
  case Nil
  show ?case by simp
next
  case (Cons x xs)
  show ?case
    by (simp only: append_Cons execute_steps_Cons and_then_assoc Cons.IH) simp
qed

text \<open>The log is only ever appended to, and does not influence the run.\<close>

definition prepend_logs :: "step_log list \<Rightarrow> 'w step_result \<Rightarrow> 'w step_result" where
  "prepend_logs logs r = (case r of (x, l, w) \<Rightarrow> (x, logs @ l, w))"

lemma prepend_logs_simps [simp]:
  "prepend_logs logs (x, l, w) = (x, logs @ l, w)"
  "prepend_logs logs (prepend_logs l' r) = prepend_logs (logs @ l') r"
  by (auto simp: prepend_logs_def split: prod.splits)

lemma exit_steps_logs:
  "halt_step rt index step start msg err logs w =
     prepend_logs logs (halt_step rt index step start msg err [] w)"
  "skip_step rt index step start msg err logs w =
     prepend_logs logs (skip_step rt index step start msg err [] w)"
  "exhaust_step rt index step start msg cause err logs w =
     prepend_logs logs (exhaust_step rt index step start msg cause err [] w)"
  by (simp_all add: halt_step_def skip_step_def exhaust_step_def Let_def
      split: prod.splits option.splits)

lemma retry_step_logs:
  "retry_step rt index step start msg err logs w =
     prepend_logs logs (retry_step rt index step start msg err [] w)"
  unfolding retry_step_def
  by (auto simp: Let_def intro: exit_steps_logs split: prod.splits retry_outcome.splits
      option.splits sum.splits)

lemma execute_step_logs:
  "execute_step rt level step msg index logs w =
     prepend_logs logs (execute_step rt level step msg index [] w)"
  unfolding execute_step_def Let_def
  by (auto intro: exit_steps_logs retry_step_logs split: prod.splits option.splits sum.splits
      error_strategy_type.splits)

lemma and_then_prepend:
  assumes "\<And>m l w. k m l w = prepend_logs l (k m [] w)"
  shows "and_then (prepend_logs logs r) k = prepend_logs logs (and_then r k)"
proof (cases r)
  case (fields x l w)
  show ?thesis
  proof (cases x)
    case (Inr m)
    then show ?thesis using fields assms [of m "logs @ l" w] assms [of m l w] by simp
  qed (simp add: fields)
qed

lemma execute_steps_logs:
  "execute_steps rt level steps msg index logs w =
     prepend_logs logs (execute_steps rt level steps msg index [] w)"
proof (induction steps arbitrary: msg index logs w rule: steps_induct)
  case Nil
  show ?case by simp
next
  case (Cons step steps)
  have head: "head_step rt level step msg index logs w =
      prepend_logs logs (head_step rt level step msg index [] w)"
  proof (cases "sd_condition step")
    case None
    then show ?thesis by (simp add: head_step_def) (rule execute_step_logs)
  next
    case (Some c)
    then show ?thesis by (simp add: head_step_def) (rule Cons(1) [OF Some])
  qed
  show ?case
    unfolding execute_steps_Cons head by (rule and_then_prepend) (rule Cons(2))
qed

section \<open>What the log says about the exit\<close>

definition no_failed :: "step_log list \<Rightarrow> bool" where
  "no_failed ls \<longleftrightarrow> (\<forall>l \<in> set ls. sl_status l \<noteq> StepFailed)"

definition failed_entry :: "nat \<Rightarrow> string \<Rightarrow> string \<Rightarrow> string \<Rightarrow> nat option \<Rightarrow> step_log \<Rightarrow> bool" where
  "failed_entry i p a cause n l \<longleftrightarrow>
     sl_status l = StepFailed \<and> sl_index l = i \<and> sl_plugin_id l = p \<and> sl_action l = a \<and>
     map_option sel_message (sl_error l) = Some cause \<and> sl_retry_count l = n"

text \<open>
  The log entries of a part of a pipeline agree with its exit: the only failed entry is the last
  one, it is there exactly when the part ended with a halt or with exhausted retries, and it carries
  the step, cause and retry count of the error.
\<close>

fun exit_logged :: "(step_exit, pipeline_message) result \<Rightarrow> step_log list \<Rightarrow> bool" where
  "exit_logged (Inr m) ls = no_failed ls"
| "exit_logged (Inl (Panics s)) ls = no_failed ls"
| "exit_logged (Inl (Fails (StepHalted i p a c))) ls =
     (ls \<noteq> [] \<and> no_failed (butlast ls) \<and> failed_entry i p a c None (last ls))"
| "exit_logged (Inl (Fails (RetryExhausted i p a n c))) ls =
     (ls \<noteq> [] \<and> no_failed (butlast ls) \<and> failed_entry i p a c (Some n) (last ls))"
| "exit_logged (Inl (Fails (ValidationFailed i d))) ls =
     (ls \<noteq> [] \<and> no_failed ls \<and> sl_index (last ls) = i \<and> sl_status (last ls) = StepCompleted)"
| "exit_logged (Inl (Fails _)) ls = False"

lemma no_failed_simps [simp]:
  "no_failed []" "no_failed (l # ls) \<longleftrightarrow> sl_status l \<noteq> StepFailed \<and> no_failed ls"
  "no_failed (xs @ ys) \<longleftrightarrow> no_failed xs \<and> no_failed ys"
  by (auto simp: no_failed_def)

lemma exit_logged_append: "no_failed xs \<Longrightarrow> exit_logged r ls \<Longrightarrow> exit_logged r (xs @ ls)"
  by (cases "(r, ls)" rule: exit_logged.cases) (auto simp: butlast_append)

definition result_logged :: "'w step_result \<Rightarrow> bool" where
  "result_logged r \<longleftrightarrow> exit_logged (fst r) (fst (snd r))"

lemma result_logged_pair [simp]: "result_logged (x, l, w) \<longleftrightarrow> exit_logged x l"
  by (simp add: result_logged_def)

lemma exit_steps_logged:
  "result_logged (halt_step rt index step start msg err [] w)"
  "result_logged (skip_step rt index step start msg err [] w)"
  "result_logged (exhaust_step rt index step start msg cause err [] w)"
  by (auto simp: result_logged_def halt_step_def skip_step_def exhaust_step_def Let_def
      error_log_def failed_entry_def split: prod.splits option.splits)

lemma retry_step_logged: "result_logged (retry_step rt index step start msg err [] w)"
  unfolding retry_step_def
  by (auto simp: Let_def ok_log_def intro: exit_steps_logged(3)
      split: prod.splits retry_outcome.splits option.splits sum.splits)

lemma validate_message_error:
  "validate_message vf msg i ctx = Inl e \<Longrightarrow> \<exists>d. e = ValidationFailed i d"
  by (auto simp: validate_message_def Let_def split: sum.splits)

lemma execute_step_logged: "result_logged (execute_step rt level step msg index [] w)"
  unfolding execute_step_def Let_def
  by (auto intro!: exit_steps_logged retry_step_logged
      simp: ok_log_def
      dest!: validate_message_error
      split: prod.splits option.splits sum.splits error_strategy_type.splits)

lemma and_then_logged:
  assumes "result_logged r" and "\<And>m w. result_logged (k m [] w)"
    and "\<And>m l w. k m l w = prepend_logs l (k m [] w)"
  shows "result_logged (and_then r k)"
proof (cases r)
  case (fields x l w)
  show ?thesis
  proof (cases x)
    case (Inl e)
    then show ?thesis using assms(1) fields by simp
  next
    case (Inr m)
    obtain x' l' w' where k: "k m [] w = (x', l', w')" by (metis prod_cases3)
    have "no_failed l" using assms(1) fields Inr by (simp add: result_logged_def)
    moreover have "exit_logged x' l'" using assms(2) [of m w] k by (simp add: result_logged_def)
    moreover have "k m l w = (x', l @ l', w')" using assms(3) [of m l w] k by simp
    ultimately show ?thesis using fields Inr by (simp add: result_logged_def exit_logged_append)
  qed
qed

lemma execute_steps_logged: "result_logged (execute_steps rt level steps msg index [] w)"
proof (induction steps arbitrary: msg index w rule: steps_induct)
  case Nil
  show ?case by (simp add: result_logged_def)
next
  case (Cons step steps)
  have "result_logged (head_step rt level step msg index [] w)"
    by (cases "sd_condition step") (simp_all add: head_step_def execute_step_logged Cons(1))
  then show ?case
    unfolding execute_steps_Cons
    by (rule and_then_logged) (rule Cons(2) execute_steps_logs)+
qed

section \<open>Validation\<close>

text \<open>
  What the engine relies on of the \<open>jsonschema\<close> crate: the schema \<open>{"type": "object"}\<close> compiles and
  accepts exactly the JSON objects.
\<close>

definition object_schema_spec :: "schema_compiler \<Rightarrow> bool" where
  "object_schema_spec vf \<longleftrightarrow>
     (\<exists>validate. vf object_schema = Inr validate \<and> (\<forall>v. is_ok (validate v) \<longleftrightarrow> is_object v))"

lemma validate_message_ok_iff:
  assumes "object_schema_spec vf"
  shows "is_ok (validate_message vf msg i ctx) \<longleftrightarrow> is_object (payload_data (payload msg))"
proof -
  obtain validate where v: "vf object_schema = Inr validate" "\<And>v. is_ok (validate v) \<longleftrightarrow> is_object v"
    using assms by (auto simp: object_schema_spec_def)
  show ?thesis
    using v(2) [of "payload_data (payload msg)"]
    by (simp add: validate_message_def v(1) is_ok_def split: sum.splits)
qed

lemma schema_validated_new_object:
  assumes "object_schema_spec vf"
  shows "is_ok (schema_validated_new vf x object_schema) \<longleftrightarrow> is_object x"
    and "schema_validated_new vf x object_schema = Inr v \<Longrightarrow> v = x \<and> is_object x"
proof -
  obtain validate where v: "vf object_schema = Inr validate" "\<And>v. is_ok (validate v) \<longleftrightarrow> is_object v"
    using assms by (auto simp: object_schema_spec_def)
  show "is_ok (schema_validated_new vf x object_schema) \<longleftrightarrow> is_object x"
    "schema_validated_new vf x object_schema = Inr v \<Longrightarrow> v = x \<and> is_object x"
    using v(2) [of x] by (auto simp: schema_validated_new_def v(1) is_ok_def split: sum.splits)
qed

end
