(* ===== verification/Executor_Props.thy ===== *)
theory Executor_Props
  imports Executor
begin

text \<open>
  Properties of the pipeline executor: what the log of a run says about its exit, edge validation,
  the effect of each severity and strategy, the effects (plugin calls and sleeps) of a step, and
  invariants of messages that a pipeline keeps whenever its plugins keep them (the locale
  \<open>pipeline_host\<close>).
\<close>

section \<open>Effects of a step\<close>

datatype effect = Call string string | Sleep nat

text \<open>A runtime that also records the plugin calls and the sleeps.\<close>

definition traced :: "'w runtime \<Rightarrow> ('w \<times> effect list) runtime" where
  "traced rt =
     \<lparr>rt_execute = (\<lambda>p a m (w, t). case rt_execute rt p a m w of (r, w') \<Rightarrow> (r, w', t @ [Call p a])),
      rt_now = (\<lambda>(w, t). case rt_now rt w of (n, w') \<Rightarrow> (n, w', t)),
      rt_sleep = (\<lambda>n (w, t). (rt_sleep rt n w, t @ [Sleep n])),
      rt_new_uuid = (\<lambda>(w, t). case rt_new_uuid rt w of (u, w') \<Rightarrow> (u, w', t)),
      rt_emit = (\<lambda>e j (w, t). (rt_emit rt e j w, t)),
      rt_validator_for = rt_validator_for rt,
      rt_payload_text = rt_payload_text rt,
      rt_overflow_checks = rt_overflow_checks rt\<rparr>"

lemma traced_simps [simp]:
  "rt_execute (traced rt) p a m (w, t) =
     (fst (rt_execute rt p a m w), snd (rt_execute rt p a m w), t @ [Call p a])"
  "rt_now (traced rt) (w, t) = (fst (rt_now rt w), snd (rt_now rt w), t)"
  "rt_sleep (traced rt) n (w, t) = (rt_sleep rt n w, t @ [Sleep n])"
  "rt_validator_for (traced rt) = rt_validator_for rt"
  "rt_payload_text (traced rt) = rt_payload_text rt"
  "rt_overflow_checks (traced rt) = rt_overflow_checks rt"
  by (simp_all add: traced_def split: prod.splits)

lemma summarize_input_traced [simp]: "summarize_input (traced rt) msg = summarize_input rt msg"
  by (simp add: summarize_input_def)

lemma error_log_traced [simp]:
  "error_log (traced rt) index step st d msg m err n = error_log rt index step st d msg m err n"
  by (simp add: error_log_def)

text \<open>The backoff before attempt \<open>n\<close> is one second, doubled each time, and at most 30.\<close>

definition backoff :: "nat \<Rightarrow> nat" where
  "backoff attempt = min (2 ^ (attempt - 1)) 30"

lemma backoff_secs_eq:
  assumes "attempt \<le> 64"
  shows "\<exists>x. backoff_secs checks attempt = Some x \<and> unat x = backoff attempt"
proof -
  define n where "n = attempt - 1"
  have n: "n < 64" using assms by (simp add: n_def)
  have "unat (push_bit n (1 :: 64 word)) = 2 ^ n"
    unfolding unsigned_push_bit_eq
    using power_strict_increasing [OF n, of "2 :: nat"]
    by (simp add: push_bit_eq_mult take_bit_nat_eq_self del: take_bit_of_exp)
  then have "unat (min (push_bit n (1 :: 64 word)) 30) = min (2 ^ n) 30"
    by (auto simp: min_def word_le_nat_alt)
  then show ?thesis
    using n by (simp add: backoff_secs_def shl_u64_def backoff_def n_def)
qed

lemma backoff_secs_le: "backoff_secs checks attempt = Some x \<Longrightarrow> unat x \<le> 30"
  by (auto simp: backoff_secs_def min_def word_le_nat_alt split: if_splits)

text \<open>The effects of the attempts \<open>from, ..., from + n - 1\<close>.\<close>

definition retry_effects :: "step_def \<Rightarrow> nat \<Rightarrow> nat \<Rightarrow> effect list" where
  "retry_effects step start n =
     concat (map (\<lambda>i. [Sleep (backoff i), Call (sd_plugin step) (sd_action step)]) [start ..< start + n])"

lemma retry_effects_0 [simp]: "retry_effects step start 0 = []"
  by (simp add: retry_effects_def)

lemma retry_effects_Suc:
  "retry_effects step start (Suc n) =
     Sleep (backoff start) # Call (sd_plugin step) (sd_action step) #
     retry_effects step (Suc start) n"
  by (simp add: retry_effects_def upt_conv_Cons [of start "Suc (start + n)"] del: upt_Suc)

fun retry_traced :: "step_def \<Rightarrow> nat \<Rightarrow> nat \<Rightarrow> retry_outcome \<Rightarrow> effect list \<Rightarrow> effect list \<Rightarrow> bool" where
  "retry_traced step start k (Succeeded m n) t t' =
     (start \<le> n \<and> n < start + k \<and> t' = t @ retry_effects step start (Suc n - start))"
| "retry_traced step start k (Exhausted e) t t' = (t' = t @ retry_effects step start k)"
| "retry_traced step start k (RetryPanic s) t t' = False"

lemma retry_loop_traced:
  assumes "start + k \<le> 65" "1 \<le> start"
  shows "retry_traced step start k
    (fst (retry_loop (traced rt) step msg k start err (w, t))) t
    (snd (snd (retry_loop (traced rt) step msg k start err (w, t))))"
  using assms
proof (induction k arbitrary: start err w t)
  case 0
  show ?case by simp
next
  case (Suc k)
  obtain x where x: "backoff_secs (rt_overflow_checks rt) start = Some x" "unat x = backoff start"
    using backoff_secs_eq [of start "rt_overflow_checks rt"] Suc.prems by auto
  obtain r w' where r: "rt_execute rt (sd_plugin step) (sd_action step) msg
      (rt_sleep rt (backoff start) w) = (r, w')" by force
  show ?case
  proof (cases r)
    case (Inr out)
    with x r show ?thesis by (simp add: retry_effects_Suc)
  next
    case (Inl e)
    define t1 where "t1 = t @ [Sleep (backoff start), Call (sd_plugin step) (sd_action step)]"
    define res where "res = retry_loop (traced rt) step msg k (Suc start) e (w', t1)"
    have eq: "retry_loop (traced rt) step msg (Suc k) start err (w, t) = res"
      using x r Inl by (simp add: res_def t1_def)
    have "retry_traced step (Suc start) k (fst res) t1 (snd (snd res))"
      unfolding res_def using Suc.prems by (intro Suc.IH) simp_all
    then show ?thesis
      unfolding eq
      by (cases "fst res") (auto simp: t1_def retry_effects_Suc Suc_diff_le)
  qed
qed

text \<open>Tracing changes nothing else.\<close>

lemma retry_loop_erase:
  "fst (retry_loop (traced rt) step msg k start err (w, t)) = fst (retry_loop rt step msg k start err w)"
  "fst (snd (retry_loop (traced rt) step msg k start err (w, t))) =
     snd (retry_loop rt step msg k start err w)"
  by (induction k arbitrary: start err w t) (simp_all split: option.splits prod.splits sum.splits)

lemma exit_steps_traced:
  "halt_step (traced rt) index step start msg err logs (w, t) =
     (case halt_step rt index step start msg err logs w of (r, l, w') \<Rightarrow> (r, l, w', t))"
  "skip_step (traced rt) index step start msg err logs (w, t) =
     (case skip_step rt index step start msg err logs w of (r, l, w') \<Rightarrow> (r, l, w', t))"
  "exhaust_step (traced rt) index step start msg cause err logs (w, t) =
     (case exhaust_step rt index step start msg cause err logs w of (r, l, w') \<Rightarrow> (r, l, w', t))"
  by (simp_all add: halt_step_def skip_step_def exhaust_step_def Let_def
      split: prod.splits option.splits)

text \<open>The number of plugin calls in a trace, and that no sleep in it exceeds 30 seconds.\<close>

definition calls :: "effect list \<Rightarrow> nat" where
  "calls t = length (filter (\<lambda>e. case e of Call _ _ \<Rightarrow> True | Sleep _ \<Rightarrow> False) t)"

definition short_sleeps :: "effect list \<Rightarrow> bool" where
  "short_sleeps t \<longleftrightarrow> (\<forall>n. Sleep n \<in> set t \<longrightarrow> n \<le> 30)"

lemma calls_simps [simp]:
  "calls [] = 0" "calls (Call p a # t) = Suc (calls t)" "calls (Sleep n # t) = calls t"
  "calls (t @ t') = calls t + calls t'"
  by (simp_all add: calls_def)

lemma short_sleeps_simps [simp]:
  "short_sleeps []" "short_sleeps (Call p a # t) \<longleftrightarrow> short_sleeps t"
  "short_sleeps (Sleep n # t) \<longleftrightarrow> n \<le> 30 \<and> short_sleeps t"
  "short_sleeps (t @ t') \<longleftrightarrow> short_sleeps t \<and> short_sleeps t'"
  by (auto simp: short_sleeps_def)

text \<open>\<open>extends k t t'\<close>: the trace grows by at most \<open>k\<close> calls and by short sleeps.\<close>

definition extends :: "nat \<Rightarrow> effect list \<Rightarrow> effect list \<Rightarrow> bool" where
  "extends k t t' \<longleftrightarrow> (\<exists>new. t' = t @ new \<and> calls new \<le> k \<and> short_sleeps new)"

lemma extends_refl [simp]: "extends k t t"
  by (simp add: extends_def)

lemma extends_trans: "extends j t t' \<Longrightarrow> extends k t' t'' \<Longrightarrow> extends (j + k) t t''"
  by (force simp: extends_def)

lemma extends_mono: "extends j t t' \<Longrightarrow> j \<le> k \<Longrightarrow> extends k t t'"
  by (auto simp: extends_def)

lemma extends_call: "extends 1 t (t @ [Call p a])"
  by (auto simp: extends_def)

lemma retry_loop_extends:
  "extends k t (snd (snd (retry_loop (traced rt) step msg k start err (w, t))))"
proof (induction k arbitrary: start err w t)
  case 0
  show ?case by simp
next
  case (Suc k)
  show ?case
  proof (cases "backoff_secs (rt_overflow_checks rt) start")
    case None
    then show ?thesis by simp
  next
    case (Some x)
    define t1 where "t1 = t @ [Sleep (unat x), Call (sd_plugin step) (sd_action step)]"
    have t1: "extends 1 t t1"
      using backoff_secs_le [OF Some] by (auto simp: extends_def t1_def)
    obtain r w' where r: "rt_execute rt (sd_plugin step) (sd_action step) msg
        (rt_sleep rt (unat x) w) = (r, w')" by force
    show ?thesis
    proof (cases r)
      case (Inr out)
      with Some r t1 show ?thesis by (simp add: t1_def extends_mono)
    next
      case (Inl e)
      have "extends k t1 (snd (snd (retry_loop (traced rt) step msg k (Suc start) e (w', t1))))"
        by (rule Suc.IH)
      from extends_trans [OF t1 this] show ?thesis using Some r Inl by (simp add: t1_def)
    qed
  qed
qed

lemma retry_step_extends:
  "extends (Suc (max_retries_of step)) t
     (snd (snd (snd (retry_step (traced rt) index step start msg err logs (w, t)))))"
proof -
  obtain out w1 t1 where loop: "retry_loop (traced rt) step msg (max_retries_of step) 1 err (w, t) =
      (out, w1, t1)" by (metis prod_cases3)
  have t1: "extends (max_retries_of step) t t1"
    using retry_loop_extends [of "max_retries_of step" t rt step msg 1 err w] loop by simp
  have call: "extends (Suc (max_retries_of step)) t (t1 @ [Call p a])" for p a
    using extends_trans [OF t1 extends_call] by simp
  show ?thesis
    using loop t1 call
    by (auto simp: retry_step_def Let_def exit_steps_traced intro: extends_mono
        split: retry_outcome.splits option.splits prod.splits sum.splits)
qed

lemma execute_step_extends:
  "extends (max_retries_of step + 2) t
     (snd (snd (snd (execute_step (traced rt) level step msg index logs (w, t)))))"
proof -
  define t1 where "t1 = t @ [Call (sd_plugin step) (sd_action step)]"
  have t1: "extends k t t1" if "1 \<le> k" for k
    using extends_mono [OF extends_call that] by (simp add: t1_def)
  have retry: "extends (max_retries_of step + 2) t
      (snd (snd (snd (retry_step (traced rt) index step start msg err logs (w', t1)))))" for w' start err
    using extends_trans [OF t1 [of 1] retry_step_extends] by simp
  show ?thesis
    using t1 retry
    by (simp add: execute_step_def Let_def exit_steps_traced flip: t1_def
        split: option.splits prod.splits sum.splits error_strategy_type.splits)
qed

section \<open>Invariants of messages\<close>

text \<open>
  A host whose plugin executor keeps a predicate of messages (given a predicate of the outside
  world, which it also keeps). Appending a warning must keep it too.
\<close>

definition settled ::
  "(pipeline_message \<Rightarrow> bool) \<Rightarrow> ('w \<Rightarrow> bool) \<Rightarrow> ('e, pipeline_message) result \<times> 'l \<times> 'w \<Rightarrow> bool" where
  "settled good ready res \<longleftrightarrow>
     ready (snd (snd res)) \<and> (\<forall>m. fst res = Inr m \<longrightarrow> good m)"

lemma settled_simps [simp]:
  "settled good ready (Inl e, l, w) \<longleftrightarrow> ready w"
  "settled good ready (Inr m, l, w) \<longleftrightarrow> ready w \<and> good m"
  by (auto simp: settled_def)

locale pipeline_host =
  fixes rt :: "'w runtime" and good :: "pipeline_message \<Rightarrow> bool" and ready :: "'w \<Rightarrow> bool"
  assumes execute_ready: "ready w \<Longrightarrow> good m \<Longrightarrow> ready (snd (rt_execute rt p a m w))"
    and execute_good: "ready w \<Longrightarrow> good m \<Longrightarrow> fst (rt_execute rt p a m w) = Inr m' \<Longrightarrow> good m'"
    and now_ready: "ready w \<Longrightarrow> ready (snd (rt_now rt w))"
    and sleep_ready: "ready w \<Longrightarrow> ready (rt_sleep rt n w)"
    and warning_good: "good m \<Longrightarrow> good (push_warning s m)"
begin

lemma execute_cases:
  assumes "ready w" "good m" "rt_execute rt p a m w = (r, w')"
  shows "ready w'" and "r = Inr m' \<Longrightarrow> good m'"
  using execute_ready [OF assms(1, 2), of p a] execute_good [OF assms(1, 2), of p a m'] assms(3)
  by auto

lemma now_cases: "ready w \<Longrightarrow> rt_now rt w = (t, w') \<Longrightarrow> ready w'"
  using now_ready [of w] by simp

lemma retry_loop_settled:
  assumes "ready w" "good msg" "retry_loop rt step msg k start err w = (r, w')"
  shows "ready w' \<and> (\<forall>m n. r = Succeeded m n \<longrightarrow> good m)"
  using assms
proof (induction k arbitrary: start err w)
  case 0
  then show ?case by auto
next
  case (Suc k)
  show ?case
  proof (cases "backoff_secs (rt_overflow_checks rt) start")
    case None
    with Suc.prems show ?thesis by auto
  next
    case (Some x)
    obtain r1 w1 where r1: "rt_execute rt (sd_plugin step) (sd_action step) msg
        (rt_sleep rt (unat x) w) = (r1, w1)" by force
    note run = execute_cases [OF sleep_ready [OF Suc.prems(1)] Suc.prems(2) r1]
    show ?thesis
      using Some r1 run Suc.IH [OF run(1) Suc.prems(2)] Suc.prems(3)
      by (cases r1) auto
  qed
qed

lemma exit_steps_settled:
  assumes "ready w" "good msg"
  shows "settled good ready (halt_step rt index step start msg err logs w)"
    and "settled good ready (skip_step rt index step start msg err logs w)"
    and "settled good ready (exhaust_step rt index step start msg cause err logs w)"
  using assms now_ready [OF assms(1)] warning_good
  by (auto simp: halt_step_def skip_step_def exhaust_step_def Let_def
      split: prod.splits option.splits)

lemma retry_step_settled:
  assumes "ready w" "good msg"
  shows "settled good ready (retry_step rt index step start msg err logs w)"
proof -
  obtain r w1 where loop: "retry_loop rt step msg (max_retries_of step) 1 err w = (r, w1)" by force
  note run = retry_loop_settled [OF assms loop]
  show ?thesis
  proof (cases r)
    case (Succeeded m n)
    then show ?thesis
      using loop run now_cases by (auto simp: retry_step_def Let_def split: prod.splits)
  next
    case (RetryPanic p)
    then show ?thesis using loop run by (simp add: retry_step_def)
  next
    case (Exhausted e)
    then show ?thesis
      using loop run exit_steps_settled(3) assms(2)
      by (auto simp: retry_step_def dest: execute_cases [OF _ assms(2)]
          split: option.splits prod.splits sum.splits)
  qed
qed

lemma execute_step_settled:
  assumes "ready w" "good msg"
  shows "settled good ready (execute_step rt level step msg index logs w)"
proof -
  obtain start w1 where now: "rt_now rt w = (start, w1)" by force
  have w1: "ready w1" using now_cases [OF assms(1) now] .
  obtain r w2 where ex: "rt_execute rt (sd_plugin step) (sd_action step) msg w1 = (r, w2)" by force
  note run = execute_cases [OF w1 assms(2) ex]
  show ?thesis
  proof (cases r)
    case (Inr out)
    then show ?thesis
      using now ex run now_cases [OF run(1)]
      by (auto simp: execute_step_def Let_def split: prod.splits sum.splits)
  next
    case (Inl err)
    then show ?thesis
      using now ex run(1) assms(2) exit_steps_settled [OF run(1) assms(2)]
        retry_step_settled [OF run(1) assms(2)]
      by (auto simp: execute_step_def Let_def split: option.splits error_strategy_type.splits)
  qed
qed

lemma execute_steps_settled:
  "ready w \<Longrightarrow> good msg \<Longrightarrow> settled good ready (execute_steps rt level steps msg index logs w)"
proof (induction steps arbitrary: msg index logs w rule: steps_induct)
  case Nil
  then show ?case by simp
next
  case (Cons step steps)
  obtain r l w' where head: "head_step rt level step msg index logs w = (r, l, w')"
    by (metis prod_cases3)
  have "settled good ready (head_step rt level step msg index logs w)"
    using Cons.prems execute_step_settled Cons(1)
    by (cases "sd_condition step") (simp_all add: head_step_def)
  then show ?case
    using head Cons(2) by (cases r) (simp_all add: execute_steps_Cons)
qed

lemma run_steps_settled:
  assumes "ready w" "good msg"
  shows "settled good ready (run_steps rt flow msg w)"
proof -
  obtain t w1 where now: "rt_now rt w = (t, w1)" by force
  have w1: "ready w1" using now_cases [OF assms(1) now] .
  obtain r l w2 where steps:
    "execute_steps rt (wf_validate flow) (wf_steps flow) msg 0 [] w1 = (r, l, w2)"
    by (metis prod_cases3)
  have "settled good ready (r, l, w2)"
    using execute_steps_settled [OF w1 assms(2), of "wf_validate flow" "wf_steps flow" 0 "[]"]
    unfolding steps .
  then show ?thesis
    using now steps w1 now_cases
    by (cases r) (auto simp: run_steps_def Let_def split: prod.splits sum.splits step_exit.splits)
qed

end

section \<open>Runs\<close>

lemma execute_steps_exit:
  assumes "execute_steps rt level steps msg index logs w = (r, logs', w')"
  shows "\<exists>new. logs' = logs @ new \<and> exit_logged r new"
proof -
  obtain r0 l0 w0 where "execute_steps rt level steps msg index [] w = (r0, l0, w0)"
    by (metis prod_cases3)
  then show ?thesis
    using execute_steps_logs [of rt level steps msg index logs w] assms
      execute_steps_logged [of rt level steps msg index w] by simp
qed

text \<open>The parts of a run that got as far as its execution log.\<close>

lemma run_steps_logE:
  assumes "run_steps rt flow msg w = (r, Some elog, w')"
  obtains r0 w1 w2 where
    "execute_steps rt (wf_validate flow) (wf_steps flow) msg 0 [] w1 = (r0, el_steps elog, w2)"
    and "\<And>p. r0 \<noteq> Inl (Panics p)"
    and "el_status elog =
      (case r0 of Inl _ \<Rightarrow> ExecFailed
       | Inr _ \<Rightarrow> if \<exists>l \<in> set (el_steps elog). sl_status l = StepSkipped
                 then ExecPartiallyFailed else ExecCompleted)"
    and "\<And>e. r0 = Inl e \<Longrightarrow> r = r0"
    and "\<And>out. r0 = Inr out \<Longrightarrow> r = r0 \<or> (\<exists>d. r = Inl (Fails (ValidationFailed (length (wf_steps flow) - 1) d)))"
  using assms
  by (fastforce simp: run_steps_def Let_def dest!: validate_message_error
      split: prod.splits sum.splits if_splits step_exit.splits)

section \<open>A scripted runtime\<close>

text \<open>
  A closed instance of the runtime, used to run the executor on concrete inputs: the world is the
  list of answers the plugins will give (the message itself once the list is used up), and the
  validator knows the one schema the executor uses.
\<close>

type_synonym script = "(engine_error, pipeline_message) result list"

definition scripted :: "script runtime" where
  "scripted =
     \<lparr>rt_execute = (\<lambda>p a m w. case w of [] \<Rightarrow> (Inr m, []) | r # w' \<Rightarrow> (r, w')),
      rt_now = (\<lambda>w. (0, w)), rt_sleep = (\<lambda>n w. w), rt_new_uuid = (\<lambda>w. (''0'', w)),
      rt_emit = (\<lambda>e j w. w),
      rt_validator_for = (\<lambda>s. Inr (\<lambda>v. if is_object v then Inr () else Inl ''not an object'')),
      rt_payload_text = (\<lambda>p. ''{}''), rt_overflow_checks = False\<rparr>"

definition custom_message :: "json \<Rightarrow> pipeline_message" where
  "custom_message v =
     \<lparr>metadata = \<lparr>correlation_id = ''c'', msg_source = ''event:x'', msg_timestamp = 0,
        auth_context = None, warnings = []\<rparr>, payload = Custom v\<rparr>"

definition plain_step :: "string \<Rightarrow> step_def" where
  "plain_step p = StepDef p ''run'' None None"

definition failure :: "severity \<Rightarrow> engine_error" where
  "failure sev = \<lparr>ee_message = ''boom'', ee_code = ''X'', ee_severity = sev, ee_source_module = ''m''\<rparr>"

definition plain_workflow :: "validation_level \<Rightarrow> step_def list \<Rightarrow> workflow_def" where
  "plain_workflow level steps =
     \<lparr>wf_id = ''w'', wf_name = ''w'', wf_description = None, wf_mode = Sync, wf_validate = level,
      wf_trigger = \<lparr>tr_endpoint = None, tr_event = Some ''x'', tr_schedule = None\<rparr>, wf_steps = steps\<rparr>"

lemma scripted_simps [simp]:
  "rt_execute scripted p a m [] = (Inr m, [])"
  "rt_execute scripted p a m (r # w) = (r, w)"
  "rt_now scripted w = (0, w)"
  "rt_sleep scripted n w = w"
  "rt_overflow_checks scripted = False"
  "rt_payload_text scripted pl = ''{}''"
  "rt_validator_for scripted sch = Inr (\<lambda>v. if is_object v then Inr () else Inl ''not an object'')"
  by (simp_all add: scripted_def)

lemma scripted_object_schema: "object_schema_spec (rt_validator_for scripted)"
  by (simp add: object_schema_spec_def)

lemma scripted_summary [simp]: "summarize_input scripted m = Some ''{}''"
  by (simp add: summarize_input_def)

section \<open>Properties\<close>

text \<open>
  C1: the log of any part of a pipeline is only appended to, and the new entries agree with how
  that part ended. A pipeline that goes through has no failed entry; one that halts or runs out of
  retries has exactly one, the last, which names the step, cause and retry count of the returned
  error; one that fails strict validation ends with the completed entry of the offending step. No
  other error comes out of the steps.
\<close>

theorem pipeline_log_agrees:
  assumes "execute_steps rt level steps msg index logs w = (r, logs', w')"
  shows "\<exists>new. logs' = logs @ new \<and> exit_logged r new"
  by (rule execute_steps_exit [OF assms])

theorem pipeline_log_agrees_witness:
  "\<exists>logs. execute_steps scripted Edges [plain_step ''a'', plain_step ''b''] (custom_message (JObject []))
         0 [] [Inr (custom_message JNull), Inl (failure Fatal)] =
       (Inl (Fails (StepHalted 1 ''b'' ''run'' ''boom'')), logs, []) \<and>
     exit_logged (Inl (Fails (StepHalted 1 ''b'' ''run'' ''boom''))) logs \<and> length logs = 2"
proof -
  have run: "execute_steps scripted Edges [plain_step ''a'', plain_step ''b''] (custom_message (JObject []))
      0 [] [Inr (custom_message JNull), Inl (failure Fatal)] =
    (Inl (Fails (StepHalted 1 ''b'' ''run'' ''boom'')),
     [ok_log 0 (plain_step ''a'') StepCompleted 0 None,
      \<lparr>sl_index = 1, sl_plugin_id = ''b'', sl_action = ''run'', sl_status = StepFailed,
       sl_duration_ms = 0, sl_error = Some \<lparr>sel_message = ''boom'', sel_code = ''X'',
         sel_severity = ''Fatal'', sel_input_summary = ''{}''\<rparr>, sl_retry_count = None\<rparr>], [])"
    by (simp add: execute_steps_Cons head_step_def execute_step_def plain_step_def
        effective_strategy_def failure_def halt_step_def error_log_def duration_ms_def)
  from pipeline_log_agrees [OF run] run show ?thesis by auto
qed

text \<open>
  The execution log of a run classifies it correctly. A run that returns a message is logged as
  completed or partially failed, the latter exactly when some step was skipped; a run logged as
  failed returns the error of its steps, and the log entries agree with it. The one case where the
  log says completed although the run returns an error is a failed exit validation, which happens
  after the log is written.
\<close>

theorem execution_log_status:
  assumes "run_steps rt flow msg w = (r, Some elog, w')"
  shows "(case r of
      Inr _ \<Rightarrow> no_failed (el_steps elog) \<and>
        el_status elog = (if \<exists>l \<in> set (el_steps elog). sl_status l = StepSkipped
                          then ExecPartiallyFailed else ExecCompleted)
    | Inl (Fails e) \<Rightarrow>
        el_status elog = ExecFailed \<and> exit_logged r (el_steps elog) \<or>
        el_status elog \<noteq> ExecFailed \<and> no_failed (el_steps elog) \<and>
        (\<exists>d. e = ValidationFailed (length (wf_steps flow) - 1) d)
    | Inl (Panics _) \<Rightarrow> False)"
proof (rule run_steps_logE [OF assms])
  fix r0 w1 w2
  assume steps: "execute_steps rt (wf_validate flow) (wf_steps flow) msg 0 [] w1 = (r0, el_steps elog, w2)"
    and nopanic: "\<And>p. r0 \<noteq> Inl (Panics p)"
    and status: "el_status elog =
      (case r0 of Inl _ \<Rightarrow> ExecFailed
       | Inr _ \<Rightarrow> if \<exists>l \<in> set (el_steps elog). sl_status l = StepSkipped
                 then ExecPartiallyFailed else ExecCompleted)"
    and err: "\<And>e. r0 = Inl e \<Longrightarrow> r = r0"
    and ok: "\<And>out. r0 = Inr out \<Longrightarrow> r = r0 \<or> (\<exists>d. r = Inl (Fails (ValidationFailed (length (wf_steps flow) - 1) d)))"
  have logged: "exit_logged r0 (el_steps elog)" using execute_steps_exit [OF steps] by simp
  show ?thesis
  proof (cases r0)
    case (Inl x)
    then show ?thesis using err nopanic logged status by (cases x) auto
  next
    case (Inr out)
    then show ?thesis using ok [OF Inr] logged status by auto
  qed
qed

theorem execution_log_status_witness:
  "\<exists>elog. run_steps scripted (plain_workflow Edges [plain_step ''a'']) (custom_message (JObject []))
       [Inr (custom_message JNull)] =
     (Inl (Fails (ValidationFailed 0 ''exit validation: not an object'')), Some elog, []) \<and>
     el_status elog = ExecCompleted \<and> no_failed (el_steps elog)"
proof -
  define elog where "elog = \<lparr>el_workflow_id = ''w'', el_trigger_type = ''event'', el_trigger_value = ''x'',
    el_started_at = 0, el_completed_at = 0, el_total_duration_ms = 0, el_status = ExecCompleted,
    el_steps = [ok_log 0 (plain_step ''a'') StepCompleted 0 None]\<rparr>"
  have run: "run_steps scripted (plain_workflow Edges [plain_step ''a'']) (custom_message (JObject []))
       [Inr (custom_message JNull)] =
     (Inl (Fails (ValidationFailed 0 ''exit validation: not an object'')), Some elog, [])"
    by (simp add: run_steps_def plain_workflow_def derive_trigger_info_def checks_edges_def
        validate_message_def custom_message_def is_object_def execute_steps_Cons head_step_def
        execute_step_def plain_step_def duration_ms_def ok_log_def elog_def obj_of_def)
  from execution_log_status [OF run] run show ?thesis by (auto simp: elog_def)
qed

text \<open>
  C40: with validation level \<open>Edges\<close> or \<open>Strict\<close>, a run only starts on a message whose data is a
  JSON object and only ever returns such a message; a message whose data is not an object is
  rejected before any plugin is called. With level \<open>None\<close> the run is the bare execution of its
  steps.
\<close>

theorem edge_validation:
  assumes "object_schema_spec (rt_validator_for rt)" and "wf_validate flow \<noteq> NoValidation"
  shows "(\<not> is_object (payload_data (payload msg)) \<longrightarrow>
      (\<exists>d. run_steps rt flow msg w =
        (Inl (Fails (ValidationFailed 0 d)), None, snd (rt_now rt w)))) \<and>
    (\<forall>out elog w'. run_steps rt flow msg w = (Inr out, elog, w') \<longrightarrow>
      is_object (payload_data (payload msg)) \<and> is_object (payload_data (payload out)))"
proof -
  have edges: "checks_edges (wf_validate flow)"
    using assms(2) by (cases "wf_validate flow") (auto simp: checks_edges_def)
  have ok: "is_object (payload_data (payload m))"
    if "validate_message (rt_validator_for rt) m i c = Inr u" for m i c u
    using validate_message_ok_iff [OF assms(1), of m i c] that by simp
  have bad: "\<exists>d. validate_message (rt_validator_for rt) m i c = Inl (ValidationFailed i d)"
    if "\<not> is_object (payload_data (payload m))" for m i c
    using validate_message_ok_iff [OF assms(1), of m i c] that
    by (cases "validate_message (rt_validator_for rt) m i c") (auto dest: validate_message_error)
  show ?thesis
    using edges bad [of msg 0 "''entry validation''"]
    by (auto simp: run_steps_def Let_def split: prod.splits sum.splits step_exit.splits dest: ok)
qed

theorem edge_validation_witness:
  "\<exists>d. run_steps scripted (plain_workflow Edges [plain_step ''a'']) (custom_message JNull) [] =
     (Inl (Fails (ValidationFailed 0 d)), None, [])"
  using edge_validation [OF scripted_object_schema, of "plain_workflow Edges [plain_step ''a'']"
      "custom_message JNull" "[]"]
  by (auto simp: plain_workflow_def custom_message_def is_object_def)



text \<open>
  A plugin error of severity \<open>Warning\<close> is passed over and a skipped step is passed over with a
  warning: the pipeline goes on with the step's own input, unchanged for a warning, and for a
  retryable error under the skip strategy with one warning appended and one log entry of status
  \<open>Skipped\<close>.
\<close>

theorem warning_and_skip_continue:
  assumes "sd_condition step = None"
    and "rt_now rt w = (start, w1)"
    and "rt_execute rt (sd_plugin step) (sd_action step) msg w1 = (Inl err, w2)"
    and "ee_severity err = Warning \<or>
      ee_severity err = Retryable \<and> map_option es_strategy (sd_on_error step) = Some Skip \<and>
      summarize_input rt msg = Some summary"
  shows "\<exists>new w3. execute_steps rt level (step # steps) msg index logs w =
      execute_steps rt level steps
        (if ee_severity err = Warning then msg
         else push_warning (skip_warning index step err) msg) (Suc index) (logs @ new) w3 \<and>
    map sl_status new = (if ee_severity err = Warning then [] else [StepSkipped])"
  using assms(4)
proof
  assume "ee_severity err = Warning"
  then show ?thesis
    using assms(1-3)
    by (intro exI [of _ "[]"]) (auto simp: execute_steps_Cons head_step_def execute_step_def
        effective_strategy_def Let_def)
next
  assume a: "ee_severity err = Retryable \<and> map_option es_strategy (sd_on_error step) = Some Skip \<and>
      summarize_input rt msg = Some summary"
  obtain t w3 where "rt_now rt w2 = (t, w3)" by force
  with a assms(2, 3) have "\<exists>l. sl_status l = StepSkipped \<and>
    execute_step rt level step msg index logs w =
       (Inr (push_warning (skip_warning index step err) msg), logs @ [l], w3)"
    by (auto simp: execute_step_def effective_strategy_def skip_step_def error_log_def Let_def)
  then obtain l where l: "sl_status l = StepSkipped"
    "execute_step rt level step msg index logs w =
       (Inr (push_warning (skip_warning index step err) msg), logs @ [l], w3)" by blast
  then show ?thesis
    using a assms(1) by (intro exI [of _ "[l]"]) (auto simp: execute_steps_Cons head_step_def)
qed

theorem warning_and_skip_continue_witness:
  "\<exists>new w3. execute_steps scripted Edges [plain_step ''a''] (custom_message JNull) 0 []
      [Inl (failure Warning)] = execute_steps scripted Edges [] (custom_message JNull) 1 new w3 \<and>
    new = []"
  using warning_and_skip_continue [of "plain_step ''a''" scripted "[Inl (failure Warning)]" 0
      "[Inl (failure Warning)]" "custom_message JNull" "failure Warning" "[]" "[]" Edges "[]" 0 "[]"]
  by (simp add: plain_step_def failure_def)



text \<open>
  Whatever the plugins answer, one step makes at most \<open>max_retries + 2\<close> plugin calls (the first
  call, the retries, and the fallback) and no sleep is longer than 30 seconds; the trace of effects
  is only extended.
\<close>

theorem step_effects_bounded:
  "\<exists>new. snd (snd (snd (execute_step (traced rt) level step msg index logs (w, t)))) = t @ new \<and>
     calls new \<le> max_retries_of step + 2 \<and> short_sleeps new"
  using execute_step_extends [of step t rt level msg index logs w] by (simp add: extends_def)

text \<open>
  The backoff shift is not guarded. From attempt 65 on a build with overflow checks panics and a
  release build starts again at one second, although the schedule is documented as exponential; the
  largest maximum for which the schedule is the intended one is 64.
\<close>

theorem backoff_wraps:
  "backoff_secs True 65 = None \<and> backoff_secs False 65 = Some 1 \<and>
   backoff_secs False 64 = Some 30 \<and> backoff_secs True 64 = Some 30"
  by (simp add: backoff_secs_def shl_u64_def)

text \<open>
  Strict validation does not cover retried steps. If the first call of a step fails with a
  retryable error and the first retry succeeds, its output is passed on whatever it is, also at
  level \<open>Strict\<close>, which is documented to validate after every step.
\<close>

theorem strict_skips_retried_output:
  assumes "sd_on_error step = None"
    and "rt_now rt w = (start, w1)"
    and "rt_execute rt (sd_plugin step) (sd_action step) msg w1 = (Inl err, w2)"
    and "ee_severity err = Retryable"
    and "rt_execute rt (sd_plugin step) (sd_action step) msg (rt_sleep rt 1 w2) = (Inr out, w3)"
  shows "fst (execute_step rt Strict step msg index logs w) = Inr out"
proof -
  have "max_retries_of step = 3" using assms(1) by (simp add: max_retries_of_def)
  moreover have "backoff_secs (rt_overflow_checks rt) 1 = Some 1"
    by (simp add: backoff_secs_def shl_u64_def)
  ultimately have "retry_loop rt step msg (max_retries_of step) 1 err w2 = (Succeeded out 1, w3)"
    using assms(5) by (simp add: numeral_3_eq_3)
  then show ?thesis
    using assms
    by (simp add: execute_step_def effective_strategy_def retry_step_def Let_def split: prod.splits)
qed

theorem strict_skips_retried_output_witness:
  "fst (execute_step scripted Strict (plain_step ''a'') (custom_message (JObject [])) 0 []
      [Inl (failure Retryable), Inr (custom_message JNull)]) = Inr (custom_message JNull) \<and>
   \<not> is_object (payload_data (payload (custom_message JNull)))"
  using strict_skips_retried_output [of "plain_step ''a''" scripted
      "[Inl (failure Retryable), Inr (custom_message JNull)]" 0
      "[Inl (failure Retryable), Inr (custom_message JNull)]" "custom_message (JObject [])"
      "failure Retryable" "[Inr (custom_message JNull)]" "custom_message JNull" "[]" 0 "[]"]
  by (simp add: plain_step_def failure_def custom_message_def is_object_def)

end
