(* ===== verification/Jobs.thy ===== *)
theory Jobs
  imports Executor_Props "HOL-Library.AList" "HOL-Library.Multiset"
begin

text \<open>
  Asynchronous execution of workflows: the job registry, the concurrency limit and the background
  tasks of \<open>PipelineExecutor\<close> (\<open>execute_workflow\<close>, \<open>execute_sync\<close>, \<open>execute_async\<close>, \<open>spawn\<close>, the
  cleanup) in \<open>workflow-engine/src/executor.rs\<close>.

  The registry is an association list. What a task does between two points where another task can
  interfere is a function on it; the step relation \<open>exec_step\<close> interleaves the tasks. A task is a
  value naming the code that is left to run. The outcome of a run is any outcome \<open>run_steps\<close> can
  have in some state of the outside world, so nothing is assumed about how the plugin calls of
  concurrent runs interleave.
\<close>

section \<open>The registry\<close>

datatype job_status = JobInProgress | JobCompleted | JobFailed string

record job_entry =
  je_status :: job_status
  je_response :: "pipeline_message option"
  je_created_at :: timestamp

type_synonym jobs = "(uuid \<times> job_entry) list"

definition job_status_of :: "jobs \<Rightarrow> uuid \<Rightarrow> job_status option" where
  "job_status_of jobs i = map_option je_status (map_of jobs i)"

definition job_entry_of :: "jobs \<Rightarrow> uuid \<Rightarrow> job_entry option" where
  "job_entry_of jobs i = map_of jobs i"

definition register_job :: "uuid \<Rightarrow> timestamp \<Rightarrow> jobs \<Rightarrow> jobs" where
  "register_job i created jobs =
     AList.update i \<lparr>je_status = JobInProgress, je_response = None, je_created_at = created\<rparr> jobs"

definition fail_job :: "uuid \<Rightarrow> timestamp \<Rightarrow> string \<Rightarrow> jobs \<Rightarrow> jobs" where
  "fail_job i created err jobs =
     AList.update i \<lparr>je_status = JobFailed err, je_response = None, je_created_at = created\<rparr> jobs"

definition complete_job :: "uuid \<Rightarrow> timestamp \<Rightarrow> pipeline_message \<Rightarrow> jobs \<Rightarrow> jobs" where
  "complete_job i created out jobs =
     AList.update i \<lparr>je_status = JobCompleted, je_response = Some out, je_created_at = created\<rparr> jobs"

text \<open>The number of removed entries, and the remaining registry.\<close>

definition cleanup_expired_jobs :: "timestamp \<Rightarrow> int \<Rightarrow> jobs \<Rightarrow> nat \<times> jobs" where
  "cleanup_expired_jobs now ttl jobs =
     (let kept = filter (\<lambda>(i, entry). now - je_created_at entry < ttl) jobs
      in (length jobs - length kept, kept))"

definition default_job_ttl :: int where
  "default_job_ttl = 3600 * 1000000000"

definition default_concurrency_limit :: nat where
  "default_concurrency_limit = 32"

section \<open>Events\<close>

definition completed_event :: "uuid \<Rightarrow> workflow_def \<Rightarrow> string \<times> json" where
  "completed_event i flow =
     (''workflow.completed'',
      JObject (obj_of [(''job_id'', JString i), (''workflow_id'', JString (wf_id flow))]))"

definition failed_event :: "uuid \<Rightarrow> workflow_def \<Rightarrow> string \<Rightarrow> string \<times> json" where
  "failed_event i flow err =
     (''workflow.failed'',
      JObject (obj_of [(''job_id'', JString i), (''workflow_id'', JString (wf_id flow)),
                       (''error'', JString err)]))"

section \<open>The caller's side\<close>

definition concurrency_closed :: string where
  "concurrency_closed = ''concurrency semaphore closed''"

text \<open>\<open>execute_sync\<close>, given whether the semaphore gives a permit (it does unless it is closed).\<close>

definition execute_sync ::
  "'w runtime \<Rightarrow> bool \<Rightarrow> workflow_def \<Rightarrow> pipeline_message \<Rightarrow> 'w \<Rightarrow>
     (step_exit, pipeline_message) result \<times> execution_log option \<times> 'w" where
  "execute_sync rt sem_closed flow msg w =
     (if sem_closed then (Inl (Fails (PluginExecutionError ''workflow-engine'' concurrency_closed)), None, w)
      else run_steps rt flow msg w)"

text \<open>The answer of \<open>execute_async\<close> once the background task has been started.\<close>

definition accepted_response ::
  "'w runtime \<Rightarrow> uuid \<Rightarrow> workflow_def \<Rightarrow> pipeline_message \<Rightarrow> 'w \<Rightarrow>
     (workflow_error, pipeline_message) result \<times> 'w" where
  "accepted_response rt i flow msg w =
     (let (ts, w') = rt_now rt w;
          value = JObject (obj_of [(''job_id'', JString i), (''workflow_id'', JString (wf_id flow)),
                                   (''status'', JString ''accepted'')])
      in case schema_validated_new (rt_validator_for rt) value object_schema of
           Inl e \<Rightarrow> (Inl (PluginExecutionError ''workflow-engine'' e), w')
         | Inr v \<Rightarrow>
             (Inr \<lparr>metadata = \<lparr>correlation_id = correlation_id (metadata msg),
                                msg_source = ''workflow-engine:async:'' @ wf_id flow,
                                msg_timestamp = ts, auth_context = auth_context (metadata msg),
                                warnings = []\<rparr>,
                   payload = Custom v\<rparr>, w'))"

text \<open>
  \<open>execute_async\<close> up to its return: the job is registered before the background task is started.
\<close>

definition execute_async ::
  "'w runtime \<Rightarrow> workflow_def \<Rightarrow> pipeline_message \<Rightarrow> jobs \<Rightarrow> 'w \<Rightarrow>
     (workflow_error, pipeline_message) result \<times> (uuid \<times> timestamp) \<times> jobs \<times> 'w" where
  "execute_async rt flow msg jobs w =
     (let (i, w1) = rt_new_uuid rt w;
          (created, w2) = rt_now rt w1;
          jobs' = register_job i created jobs;
          (r, w3) = accepted_response rt i flow msg w2
      in (r, (i, created), jobs', w3))"

section \<open>Tasks and their interleaving\<close>

datatype task =
    RegisterTask uuid timestamp
  | SpawnWaiting uuid timestamp trigger_context workflow_def
  | SpawnBuilding uuid timestamp trigger_context workflow_def
  | AsyncWaiting uuid timestamp pipeline_message workflow_def
  | Running uuid timestamp pipeline_message workflow_def
  | SyncRunning

text \<open>
  \<open>execute_workflow\<close> as its caller sees it: the result, the background task it has started if any,
  the registry and the world.
\<close>

definition execute_workflow ::
  "'w runtime \<Rightarrow> bool \<Rightarrow> workflow_def \<Rightarrow> pipeline_message \<Rightarrow> jobs \<Rightarrow> 'w \<Rightarrow>
     (step_exit, pipeline_message) result \<times> task option \<times> jobs \<times> 'w" where
  "execute_workflow rt sem_closed flow msg jobs w =
     (case wf_mode flow of
        Sync \<Rightarrow> (case execute_sync rt sem_closed flow msg w of (r, _, w') \<Rightarrow> (r, None, jobs, w'))
      | Async \<Rightarrow>
          (case execute_async rt flow msg jobs w of
             (r, (i, created), jobs', w') \<Rightarrow>
               (map_err Fails r, Some (AsyncWaiting i created msg flow), jobs', w')))"

text \<open>
  The state. \<open>xs_used\<close>, \<open>xs_spawned\<close>, \<open>xs_events\<close> and \<open>xs_panicked\<close> record what has happened: the job
  ids handed out (a fresh UUID is one that has not been), the ids handed out by \<open>spawn\<close>, the events
  emitted, and the jobs whose task panicked.
\<close>

record exec_state =
  xs_jobs :: jobs
  xs_permits :: nat
  xs_closed :: bool
  xs_tasks :: "task multiset"
  xs_used :: "uuid set"
  xs_events :: "(string \<times> json) list"
  xs_spawned :: "uuid set"
  xs_panicked :: "uuid set"

definition exec_start :: "nat \<Rightarrow> exec_state" where
  "exec_start limit =
     \<lparr>xs_jobs = [], xs_permits = limit, xs_closed = False, xs_tasks = {#}, xs_used = {},
      xs_events = [], xs_spawned = {}, xs_panicked = {}\<rparr>"

text \<open>What a background task does to the registry and the event stream when its run ends.\<close>

fun finish_run ::
  "uuid \<Rightarrow> timestamp \<Rightarrow> workflow_def \<Rightarrow> (step_exit, pipeline_message) result \<Rightarrow> exec_state \<Rightarrow> exec_state" where
  "finish_run i created flow (Inr out) s =
     s\<lparr>xs_jobs := complete_job i created out (xs_jobs s),
       xs_events := xs_events s @ [completed_event i flow]\<rparr>"
| "finish_run i created flow (Inl (Fails e)) s =
     s\<lparr>xs_jobs := fail_job i created (workflow_error_to_string e) (xs_jobs s),
       xs_events := xs_events s @ [failed_event i flow (workflow_error_to_string e)]\<rparr>"
| "finish_run i created flow (Inl (Panics p)) s = s\<lparr>xs_panicked := insert i (xs_panicked s)\<rparr>"

text \<open>Replace a task by the ones it turns into.\<close>

definition replace_task :: "task \<Rightarrow> task multiset \<Rightarrow> exec_state \<Rightarrow> exec_state" where
  "replace_task t ts s = s\<lparr>xs_tasks := xs_tasks s - {#t#} + ts\<rparr>"

definition take_permit :: "exec_state \<Rightarrow> exec_state" where
  "take_permit s = s\<lparr>xs_permits := xs_permits s - 1\<rparr>"

definition give_permit :: "exec_state \<Rightarrow> exec_state" where
  "give_permit s = s\<lparr>xs_permits := xs_permits s + 1\<rparr>"

inductive exec_step :: "'w runtime \<Rightarrow> int \<Rightarrow> exec_state \<Rightarrow> exec_state \<Rightarrow> bool"
  for rt :: "'w runtime" and ttl :: int where
  spawn:
    "i \<notin> xs_used s \<Longrightarrow>
     exec_step rt ttl s
       (s\<lparr>xs_used := insert i (xs_used s), xs_spawned := insert i (xs_spawned s),
          xs_tasks := xs_tasks s + {#RegisterTask i created, SpawnWaiting i created tc flow#}\<rparr>)"
| async:
    "i \<notin> xs_used s \<Longrightarrow>
     exec_step rt ttl s
       (s\<lparr>xs_used := insert i (xs_used s), xs_jobs := register_job i created (xs_jobs s),
          xs_tasks := xs_tasks s + {#AsyncWaiting i created msg flow#}\<rparr>)"
| register:
    "RegisterTask i created \<in># xs_tasks s \<Longrightarrow>
     exec_step rt ttl s
       (replace_task (RegisterTask i created) {#}
          (s\<lparr>xs_jobs := register_job i created (xs_jobs s)\<rparr>))"
| spawn_acquire:
    "SpawnWaiting i created tc flow \<in># xs_tasks s \<Longrightarrow> \<not> xs_closed s \<Longrightarrow> 0 < xs_permits s \<Longrightarrow>
     exec_step rt ttl s
       (replace_task (SpawnWaiting i created tc flow) {#SpawnBuilding i created tc flow#} (take_permit s))"
| spawn_closed:
    "SpawnWaiting i created tc flow \<in># xs_tasks s \<Longrightarrow> xs_closed s \<Longrightarrow>
     exec_step rt ttl s
       (replace_task (SpawnWaiting i created tc flow) {#}
          (s\<lparr>xs_jobs := fail_job i created concurrency_closed (xs_jobs s)\<rparr>))"
| spawn_built:
    "SpawnBuilding i created tc flow \<in># xs_tasks s \<Longrightarrow>
     build_initial_message rt tc w = (Inr msg, w') \<Longrightarrow>
     exec_step rt ttl s
       (replace_task (SpawnBuilding i created tc flow) {#Running i created msg flow#} s)"
| spawn_build_failed:
    "SpawnBuilding i created tc flow \<in># xs_tasks s \<Longrightarrow>
     build_initial_message rt tc w = (Inl e, w') \<Longrightarrow>
     exec_step rt ttl s
       (give_permit (replace_task (SpawnBuilding i created tc flow) {#}
          (finish_run i created flow (Inl (Fails e)) s)))"
| async_acquire:
    "AsyncWaiting i created msg flow \<in># xs_tasks s \<Longrightarrow> \<not> xs_closed s \<Longrightarrow> 0 < xs_permits s \<Longrightarrow>
     exec_step rt ttl s
       (replace_task (AsyncWaiting i created msg flow) {#Running i created msg flow#} (take_permit s))"
| async_closed:
    "AsyncWaiting i created msg flow \<in># xs_tasks s \<Longrightarrow> xs_closed s \<Longrightarrow>
     exec_step rt ttl s
       (replace_task (AsyncWaiting i created msg flow) {#}
          (s\<lparr>xs_jobs := fail_job i created concurrency_closed (xs_jobs s)\<rparr>))"
| finish:
    "Running i created msg flow \<in># xs_tasks s \<Longrightarrow> run_steps rt flow msg w = (r, elog, w') \<Longrightarrow>
     exec_step rt ttl s
       (give_permit (replace_task (Running i created msg flow) {#} (finish_run i created flow r s)))"
| sync_start:
    "\<not> xs_closed s \<Longrightarrow> 0 < xs_permits s \<Longrightarrow>
     exec_step rt ttl s (take_permit (s\<lparr>xs_tasks := xs_tasks s + {#SyncRunning#}\<rparr>))"
| sync_end:
    "SyncRunning \<in># xs_tasks s \<Longrightarrow>
     exec_step rt ttl s (give_permit (replace_task SyncRunning {#} s))"
| cleanup:
    "exec_step rt ttl s (s\<lparr>xs_jobs := snd (cleanup_expired_jobs now ttl (xs_jobs s))\<rparr>)"

inductive exec_reachable :: "'w runtime \<Rightarrow> int \<Rightarrow> nat \<Rightarrow> exec_state \<Rightarrow> bool"
  for rt :: "'w runtime" and ttl :: int and limit :: nat where
  start: "exec_reachable rt ttl limit (exec_start limit)"
| step: "exec_reachable rt ttl limit s \<Longrightarrow> exec_step rt ttl s s' \<Longrightarrow> exec_reachable rt ttl limit s'"

section \<open>Invariants\<close>

fun holds_permit :: "task \<Rightarrow> bool" where
  "holds_permit (SpawnBuilding _ _ _ _) = True"
| "holds_permit (Running _ _ _ _) = True"
| "holds_permit SyncRunning = True"
| "holds_permit _ = False"

fun worker_id :: "task \<Rightarrow> uuid option" where
  "worker_id (SpawnWaiting i _ _ _) = Some i"
| "worker_id (SpawnBuilding i _ _ _) = Some i"
| "worker_id (AsyncWaiting i _ _ _) = Some i"
| "worker_id (Running i _ _ _) = Some i"
| "worker_id _ = None"

fun register_id :: "task \<Rightarrow> uuid option" where
  "register_id (RegisterTask i _) = Some i"
| "register_id _ = None"

definition running :: "exec_state \<Rightarrow> nat" where
  "running s = size (filter_mset holds_permit (xs_tasks s))"

definition workers :: "uuid \<Rightarrow> exec_state \<Rightarrow> nat" where
  "workers i s = size (filter_mset (\<lambda>t. worker_id t = Some i) (xs_tasks s))"

definition registrars :: "uuid \<Rightarrow> exec_state \<Rightarrow> nat" where
  "registrars i s = size (filter_mset (\<lambda>t. register_id t = Some i) (xs_tasks s))"

text \<open>Counting the tasks with a property, for any way of replacing tasks.\<close>

lemma size_filter_replace:
  assumes "t \<in># ts"
  shows "size (filter_mset P (ts - {#t#} + ts')) + (if P t then 1 else 0) =
    size (filter_mset P ts) + size (filter_mset P ts')"
proof -
  obtain rest where "ts = add_mset t rest" using assms by (auto dest: multi_member_split)
  then show ?thesis by simp
qed

lemma state_simps [simp]:
  "xs_jobs (replace_task t ts s) = xs_jobs s" "xs_permits (replace_task t ts s) = xs_permits s"
  "xs_used (replace_task t ts s) = xs_used s" "xs_spawned (replace_task t ts s) = xs_spawned s"
  "xs_panicked (replace_task t ts s) = xs_panicked s" "xs_events (replace_task t ts s) = xs_events s"
  "xs_tasks (replace_task t ts s) = xs_tasks s - {#t#} + ts"
  "xs_jobs (take_permit s) = xs_jobs s" "xs_used (take_permit s) = xs_used s"
  "xs_spawned (take_permit s) = xs_spawned s" "xs_panicked (take_permit s) = xs_panicked s"
  "xs_tasks (take_permit s) = xs_tasks s" "xs_permits (take_permit s) = xs_permits s - 1"
  "xs_events (take_permit s) = xs_events s"
  "xs_jobs (give_permit s) = xs_jobs s" "xs_used (give_permit s) = xs_used s"
  "xs_spawned (give_permit s) = xs_spawned s" "xs_panicked (give_permit s) = xs_panicked s"
  "xs_tasks (give_permit s) = xs_tasks s" "xs_permits (give_permit s) = xs_permits s + 1"
  "xs_events (give_permit s) = xs_events s"
  by (simp_all add: replace_task_def take_permit_def give_permit_def)

lemma finish_run_simps [simp]:
  "xs_tasks (finish_run i c flow r s) = xs_tasks s" "xs_permits (finish_run i c flow r s) = xs_permits s"
  "xs_used (finish_run i c flow r s) = xs_used s" "xs_spawned (finish_run i c flow r s) = xs_spawned s"
  by (cases "(i, c, flow, r, s)" rule: finish_run.cases; simp)+

lemma exec_step_permits:
  "exec_step rt ttl s s' \<Longrightarrow> xs_permits s' + running s' = xs_permits s + running s"
proof (induction rule: exec_step.induct)
qed (auto simp: running_def dest!: multi_member_split)

text \<open>The entry of one job, as seen by the tasks.\<close>

lemma map_of_jobs [simp]:
  "map_of (register_job i c jobs) =
     (map_of jobs)(i \<mapsto> \<lparr>je_status = JobInProgress, je_response = None, je_created_at = c\<rparr>)"
  "map_of (fail_job i c e jobs) =
     (map_of jobs)(i \<mapsto> \<lparr>je_status = JobFailed e, je_response = None, je_created_at = c\<rparr>)"
  "map_of (complete_job i c out jobs) =
     (map_of jobs)(i \<mapsto> \<lparr>je_status = JobCompleted, je_response = Some out, je_created_at = c\<rparr>)"
  by (simp_all add: register_job_def fail_job_def complete_job_def update_conv')

definition keys_distinct :: "jobs \<Rightarrow> bool" where
  "keys_distinct jobs \<longleftrightarrow> distinct (map fst jobs)"

lemma keys_distinct_ops [simp]:
  "keys_distinct jobs \<Longrightarrow> keys_distinct (register_job i c jobs)"
  "keys_distinct jobs \<Longrightarrow> keys_distinct (fail_job i c e jobs)"
  "keys_distinct jobs \<Longrightarrow> keys_distinct (complete_job i c out jobs)"
  "keys_distinct jobs \<Longrightarrow> keys_distinct (snd (cleanup_expired_jobs now ttl jobs))"
  by (simp_all add: keys_distinct_def register_job_def fail_job_def complete_job_def distinct_update
      cleanup_expired_jobs_def Let_def distinct_map_filter)

lemma cleanup_lookup:
  assumes "keys_distinct jobs"
  shows "map_of (snd (cleanup_expired_jobs now ttl jobs)) i =
    (case map_of jobs i of
       Some e \<Rightarrow> if now - je_created_at e < ttl then Some e else None
     | None \<Rightarrow> None)"
  using assms
  by (induction jobs) (force simp: cleanup_expired_jobs_def keys_distinct_def Let_def
      split: option.splits if_splits dest: map_of_SomeD)+

text \<open>
  The invariant of the registry: ids in use are accounted for, at most one worker and one
  registration task per job, a job with a live worker is not finished, and an unfinished job that
  \<open>spawn\<close> did not create either has a live worker or has panicked.
\<close>

definition finished :: "job_status \<Rightarrow> bool" where
  "finished st \<longleftrightarrow> st \<noteq> JobInProgress"

definition job_inv :: "bool \<Rightarrow> bool \<Rightarrow> bool \<Rightarrow> nat \<Rightarrow> nat \<Rightarrow> job_entry option \<Rightarrow> bool" where
  "job_inv used spawned panicked nworkers nregistrars entry \<longleftrightarrow>
     (\<not> used \<longrightarrow> nworkers = 0 \<and> entry = None \<and> \<not> spawned) \<and> (\<not> spawned \<longrightarrow> nregistrars = 0) \<and> nworkers \<le> 1 \<and>
     (case entry of
        None \<Rightarrow> True
      | Some e \<Rightarrow> (0 < nworkers \<longrightarrow> \<not> finished (je_status e)) \<and>
          (\<not> spawned \<longrightarrow> \<not> finished (je_status e) \<longrightarrow> 0 < nworkers \<or> panicked))"

definition job_ok :: "exec_state \<Rightarrow> uuid \<Rightarrow> bool" where
  "job_ok s i \<longleftrightarrow> job_inv (i \<in> xs_used s) (i \<in> xs_spawned s) (i \<in> xs_panicked s)
     (workers i s) (registrars i s) (map_of (xs_jobs s) i)"

definition exec_inv :: "exec_state \<Rightarrow> bool" where
  "exec_inv s \<longleftrightarrow> keys_distinct (xs_jobs s) \<and> (\<forall>i. job_ok s i)"

lemma workers_pos: "t \<in># xs_tasks s \<Longrightarrow> worker_id t = Some i \<Longrightarrow> 0 < workers i s"
  by (auto simp: workers_def nonempty_has_size [symmetric] dest!: multi_member_split)

lemma registrars_pos: "t \<in># xs_tasks s \<Longrightarrow> register_id t = Some i \<Longrightarrow> 0 < registrars i s"
  by (auto simp: registrars_def nonempty_has_size [symmetric] dest!: multi_member_split)

lemma exec_start_inv: "exec_inv (exec_start limit)"
  by (simp add: exec_inv_def job_ok_def job_inv_def exec_start_def keys_distinct_def workers_def
      registrars_def)

lemma workers_replace:
  "t \<in># xs_tasks s \<Longrightarrow>
     workers i (replace_task t ts s) + (if worker_id t = Some i then 1 else 0) =
     workers i s + size (filter_mset (\<lambda>t. worker_id t = Some i) ts)"
  "t \<in># xs_tasks s \<Longrightarrow>
     registrars i (replace_task t ts s) + (if register_id t = Some i then 1 else 0) =
     registrars i s + size (filter_mset (\<lambda>t. register_id t = Some i) ts)"
  unfolding workers_def registrars_def state_simps by (rule size_filter_replace, assumption)+

lemma workers_cong [simp]:
  "workers i (take_permit s) = workers i s" "registrars i (take_permit s) = registrars i s"
  "workers i (give_permit s) = workers i s" "registrars i (give_permit s) = registrars i s"
  "workers i (s\<lparr>xs_jobs := j\<rparr>) = workers i s" "registrars i (s\<lparr>xs_jobs := j\<rparr>) = registrars i s"
  by (simp_all add: workers_def registrars_def)

text \<open>
  The two shapes of a step on a job: its worker moves on without touching the registry, or the worker
  ends and leaves a finished entry (or a panic).
\<close>

lemma inv_move:
  assumes "exec_inv s" "t \<in># xs_tasks s" "worker_id t = Some i" "worker_id t' = Some i"
    "register_id t = None" "register_id t' = None"
  shows "exec_inv (replace_task t {#t'#} s)"
proof -
  have same: "workers j (replace_task t {#t'#} s) = workers j s"
    "registrars j (replace_task t {#t'#} s) = registrars j s" for j
    using workers_replace [OF assms(2), of j "{#t'#}"] assms(3-6) by (auto split: if_splits)
  show ?thesis using assms(1) by (simp add: exec_inv_def job_ok_def same)
qed

lemma inv_take_permit [simp]: "exec_inv (take_permit s) \<longleftrightarrow> exec_inv s"
  by (simp add: exec_inv_def job_ok_def)

lemma inv_give_permit [simp]: "exec_inv (give_permit s) \<longleftrightarrow> exec_inv s"
  by (simp add: exec_inv_def job_ok_def)

lemma replace_take_permit: "replace_task t ts (take_permit s) = take_permit (replace_task t ts s)"
  by (simp add: replace_task_def take_permit_def)

lemma inv_end:
  assumes inv: "exec_inv s" and t: "t \<in># xs_tasks s" "worker_id t = Some i" "register_id t = None"
    and s': "xs_tasks s' = xs_tasks s" "xs_used s' = xs_used s" "xs_spawned s' = xs_spawned s"
      "keys_distinct (xs_jobs s')"
    and others: "\<And>j. j \<noteq> i \<Longrightarrow> map_of (xs_jobs s') j = map_of (xs_jobs s) j"
      "\<And>j. j \<noteq> i \<Longrightarrow> (j \<in> xs_panicked s') = (j \<in> xs_panicked s)"
    and entry: "i \<in> xs_panicked s' \<and> map_of (xs_jobs s') i = map_of (xs_jobs s) i \<or>
      (\<exists>e. map_of (xs_jobs s') i = Some e \<and> finished (je_status e))"
  shows "exec_inv (replace_task t {#} s')"
proof -
  have t': "t \<in># xs_tasks s'" using t s' by simp
  have eqs: "workers j s' = workers j s" "registrars j s' = registrars j s" for j
    using s' by (simp_all add: workers_def registrars_def)
  have ok: "job_ok s j" for j using inv by (simp add: exec_inv_def)
  have wi: "workers i s = 1"
    using ok [of i] workers_pos [OF t(1, 2)] by (auto simp: job_ok_def job_inv_def)
  have wr: "workers j (replace_task t {#} s') = (if j = i then 0 else workers j s)"
    "registrars j (replace_task t {#} s') = registrars j s" for j
    using workers_replace [OF t', of j "{#}"] t wi by (auto simp: eqs split: if_splits)
  have "job_ok (replace_task t {#} s') j" for j
    using ok [of j] wi others [of j] entry
    by (cases "j = i") (auto simp: job_ok_def job_inv_def wr s' split: option.splits)
  then show ?thesis using s' by (simp add: exec_inv_def)
qed

lemma finish_run_entry:
  assumes "exec_inv s"
  shows "keys_distinct (xs_jobs (finish_run i c flow r s))"
    and "j \<noteq> i \<Longrightarrow> map_of (xs_jobs (finish_run i c flow r s)) j = map_of (xs_jobs s) j"
    and "j \<noteq> i \<Longrightarrow> (j \<in> xs_panicked (finish_run i c flow r s)) = (j \<in> xs_panicked s)"
    and "i \<in> xs_panicked (finish_run i c flow r s) \<and>
        map_of (xs_jobs (finish_run i c flow r s)) i = map_of (xs_jobs s) i \<or>
      (\<exists>e. map_of (xs_jobs (finish_run i c flow r s)) i = Some e \<and> finished (je_status e))"
proof -
  have "keys_distinct (xs_jobs s)" using assms by (simp add: exec_inv_def)
  then show "keys_distinct (xs_jobs (finish_run i c flow r s))"
    by (cases "(i, c, flow, r, s)" rule: finish_run.cases) simp_all
qed (cases "(i, c, flow, r, s)" rule: finish_run.cases; simp add: finished_def)+

lemma inv_finish_run:
  assumes "exec_inv s" "t \<in># xs_tasks s" "worker_id t = Some i" "register_id t = None"
  shows "exec_inv (replace_task t {#} (finish_run i c flow r s))"
  by (rule inv_end [OF assms(1, 2) assms(3, 4)])
    (use finish_run_entry [OF assms(1), where i = i and c = c and flow = flow and r = r] in auto)

lemma inv_fail_job:
  assumes "exec_inv s" "t \<in># xs_tasks s" "worker_id t = Some i" "register_id t = None"
  shows "exec_inv (replace_task t {#} (s\<lparr>xs_jobs := fail_job i c e (xs_jobs s)\<rparr>))"
  by (rule inv_end [OF assms(1, 2) assms(3, 4)])
    (use assms(1) in \<open>auto simp: exec_inv_def finished_def\<close>)

lemma inv_new_job:
  assumes "exec_inv s" "i \<notin> xs_used s"
  shows "exec_inv (s\<lparr>xs_used := insert i (xs_used s), xs_spawned := insert i (xs_spawned s),
           xs_tasks := xs_tasks s + {#RegisterTask i c, SpawnWaiting i c tc flow#}\<rparr>)"
    and "exec_inv (s\<lparr>xs_used := insert i (xs_used s), xs_jobs := register_job i c (xs_jobs s),
           xs_tasks := xs_tasks s + {#AsyncWaiting i c msg flow#}\<rparr>)"
proof -
  have ok: "job_ok s j" for j using assms by (simp add: exec_inv_def)
  have kd: "keys_distinct (xs_jobs s)" using assms by (simp add: exec_inv_def)
  show "exec_inv (s\<lparr>xs_used := insert i (xs_used s), xs_spawned := insert i (xs_spawned s),
      xs_tasks := xs_tasks s + {#RegisterTask i c, SpawnWaiting i c tc flow#}\<rparr>)"
    unfolding exec_inv_def
  proof (intro conjI allI)
    fix j
    show "job_ok (s\<lparr>xs_used := insert i (xs_used s), xs_spawned := insert i (xs_spawned s),
        xs_tasks := xs_tasks s + {#RegisterTask i c, SpawnWaiting i c tc flow#}\<rparr>) j"
      using ok [of j] assms(2)
      by (cases "j = i") (auto simp: job_ok_def job_inv_def workers_def registrars_def)
  qed (simp add: kd)
  show "exec_inv (s\<lparr>xs_used := insert i (xs_used s), xs_jobs := register_job i c (xs_jobs s),
      xs_tasks := xs_tasks s + {#AsyncWaiting i c msg flow#}\<rparr>)"
    unfolding exec_inv_def
  proof (intro conjI allI)
    fix j
    show "job_ok (s\<lparr>xs_used := insert i (xs_used s), xs_jobs := register_job i c (xs_jobs s),
        xs_tasks := xs_tasks s + {#AsyncWaiting i c msg flow#}\<rparr>) j"
      using ok [of j] assms(2)
      by (cases "j = i") (auto simp: job_ok_def job_inv_def workers_def registrars_def finished_def)
  qed (simp add: kd)
qed

lemma inv_register:
  assumes "exec_inv s" "RegisterTask i c \<in># xs_tasks s"
  shows "exec_inv (replace_task (RegisterTask i c) {#} (s\<lparr>xs_jobs := register_job i c (xs_jobs s)\<rparr>))"
proof -
  let ?s = "s\<lparr>xs_jobs := register_job i c (xs_jobs s)\<rparr>"
  have ok: "job_ok s j" for j using assms by (simp add: exec_inv_def)
  have "0 < registrars i s" using registrars_pos [OF assms(2)] by simp
  then have sp: "i \<in> xs_spawned s" "i \<in> xs_used s"
    using ok [of i] by (auto simp: job_ok_def job_inv_def)
  have cnt: "workers j (replace_task (RegisterTask i c) {#} ?s) = workers j s"
    "registrars j (replace_task (RegisterTask i c) {#} ?s) + (if i = j then 1 else 0) = registrars j s" for j
    using workers_replace [of "RegisterTask i c" ?s j "{#}"] assms(2) by simp_all
  have "job_ok (replace_task (RegisterTask i c) {#} ?s) j" for j
    using ok [of j] sp cnt [of j]
    by (cases "j = i") (auto simp: job_ok_def job_inv_def finished_def)
  then show ?thesis using assms(1) by (simp add: exec_inv_def)
qed

lemma inv_sync:
  assumes "exec_inv s"
  shows "exec_inv (s\<lparr>xs_tasks := xs_tasks s + {#SyncRunning#}\<rparr>)"
    and "SyncRunning \<in># xs_tasks s \<Longrightarrow> exec_inv (replace_task SyncRunning {#} s)"
proof -
  show "exec_inv (s\<lparr>xs_tasks := xs_tasks s + {#SyncRunning#}\<rparr>)"
    using assms by (simp add: exec_inv_def job_ok_def workers_def registrars_def)
  assume t: "SyncRunning \<in># xs_tasks s"
  have "workers j (replace_task SyncRunning {#} s) = workers j s"
    "registrars j (replace_task SyncRunning {#} s) = registrars j s" for j
    using workers_replace [OF t, of j "{#}"] by simp_all
  then show "exec_inv (replace_task SyncRunning {#} s)"
    using assms by (simp add: exec_inv_def job_ok_def)
qed

lemma inv_cleanup:
  assumes "exec_inv s"
  shows "exec_inv (s\<lparr>xs_jobs := snd (cleanup_expired_jobs now ttl (xs_jobs s))\<rparr>)"
proof -
  have kd: "keys_distinct (xs_jobs s)" and ok: "\<And>j. job_ok s j" using assms by (auto simp: exec_inv_def)
  have "job_ok (s\<lparr>xs_jobs := snd (cleanup_expired_jobs now ttl (xs_jobs s))\<rparr>) j" for j
    using ok [of j] by (auto simp: job_ok_def job_inv_def cleanup_lookup [OF kd] split: option.splits)
  then show ?thesis using kd by (simp add: exec_inv_def)
qed

lemma exec_step_inv: "exec_step rt ttl s s' \<Longrightarrow> exec_inv s \<Longrightarrow> exec_inv s'"
proof (induction rule: exec_step.induct)
qed (auto simp: replace_take_permit inv_new_job [simplified] inv_cleanup inv_sync [simplified] intro: inv_register inv_fail_job
      inv_finish_run inv_move simp del: finish_run.simps)

lemma exec_reachable_inv:
  "exec_reachable rt ttl limit s \<Longrightarrow> exec_inv s \<and> xs_permits s + running s = limit"
proof (induction rule: exec_reachable.induct)
  case start
  show ?case using exec_start_inv by (simp add: exec_start_def running_def)
next
  case (step s s')
  then show ?case using exec_step_inv exec_step_permits [of rt ttl s s'] by auto
qed

lemma finished_entry:
  assumes "exec_inv s" "map_of (xs_jobs s) i = Some e" "finished (je_status e)"
  shows "t \<in># xs_tasks s \<Longrightarrow> worker_id t \<noteq> Some i" and "i \<in> xs_used s"
    and "i \<notin> xs_spawned s \<Longrightarrow> t \<in># xs_tasks s \<Longrightarrow> register_id t \<noteq> Some i"
proof -
  have ok: "job_ok s i" using assms(1) by (simp add: exec_inv_def)
  show "t \<in># xs_tasks s \<Longrightarrow> worker_id t \<noteq> Some i"
    using workers_pos [of t s i] ok assms by (auto simp: job_ok_def job_inv_def)
  show "i \<in> xs_used s" using ok assms by (auto simp: job_ok_def job_inv_def)
  show "i \<notin> xs_spawned s \<Longrightarrow> t \<in># xs_tasks s \<Longrightarrow> register_id t \<noteq> Some i"
    using registrars_pos [of t s i] ok by (auto simp: job_ok_def job_inv_def)
qed

lemma exec_step_finished:
  assumes "exec_step rt ttl s s'" "exec_inv s" "i \<notin> xs_spawned s"
    and "map_of (xs_jobs s) i = Some e" "finished (je_status e)"
  shows "map_of (xs_jobs s') i = Some e \<or> map_of (xs_jobs s') i = None"
  using assms
proof (induction rule: exec_step.induct)
  case (cleanup s now)
  then show ?case by (auto simp: exec_inv_def cleanup_lookup)
next
  case (finish j c msg flow s w r elog w')
  then have "j \<noteq> i" using finished_entry(1) by fastforce
  then show ?case using finish finish_run_entry(2) [of s i j c flow r] by simp
next
  case (spawn_build_failed j c tc flow s w err w')
  then have "j \<noteq> i" using finished_entry(1) by fastforce
  then show ?case using spawn_build_failed by simp
next
  case (register j c s)
  then have "j \<noteq> i" using finished_entry(3) by fastforce
  then show ?case using register by simp
next
  case (async j s c msg flow)
  then have "j \<noteq> i" using finished_entry(2) by fastforce
  then show ?case using async by simp
next
  case (spawn_closed j c tc flow s)
  then have "j \<noteq> i" using finished_entry(1) by fastforce
  then show ?case using spawn_closed by simp
next
  case (async_closed j c msg flow s)
  then have "j \<noteq> i" using finished_entry(1) by fastforce
  then show ?case using async_closed by simp
qed simp_all

section \<open>Properties\<close>

text \<open>
  C5: the concurrency limit. In every reachable state, whatever the interleaving of synchronous runs,
  asynchronous runs and spawned runs, the free permits and the tasks that are building a message or
  running steps add up to the limit; so never more than \<open>limit\<close> workflows run at once, and no permit
  is ever lost, also when a run fails or panics.
\<close>

theorem concurrency_limited:
  assumes "exec_reachable rt ttl limit s"
  shows "xs_permits s + running s = limit \<and> running s \<le> limit"
  using exec_reachable_inv [OF assms] by simp

theorem concurrency_limited_witness:
  "xs_permits (take_permit ((exec_start 1)\<lparr>xs_tasks := {#SyncRunning#}\<rparr>)) +
   running (take_permit ((exec_start 1)\<lparr>xs_tasks := {#SyncRunning#}\<rparr>)) = 1"
proof -
  have "exec_reachable scripted 0 1 (take_permit ((exec_start 1)\<lparr>xs_tasks := {#SyncRunning#}\<rparr>))"
    using exec_reachable.step [OF exec_reachable.start sync_start, of 1 scripted 0]
    by (simp add: exec_start_def)
  from concurrency_limited [OF this] show ?thesis by simp
qed

text \<open>
  C29: jobs of \<open>execute_async\<close>. In every reachable state, such a job is reported as in progress only
  while its background task is alive, unless that task panicked; and once it is completed or failed,
  no later step changes its entry, except that the cleanup may remove it.
\<close>

theorem async_job_lifecycle:
  assumes "exec_reachable rt ttl limit s" and "i \<notin> xs_spawned s"
    and "job_entry_of (xs_jobs s) i = Some e"
  shows "(je_status e = JobInProgress \<longrightarrow> 0 < workers i s \<or> i \<in> xs_panicked s) \<and>
    (\<forall>s'. je_status e \<noteq> JobInProgress \<longrightarrow> exec_step rt ttl s s' \<longrightarrow>
       job_entry_of (xs_jobs s') i = Some e \<or> job_entry_of (xs_jobs s') i = None)"
proof -
  have inv: "exec_inv s" using exec_reachable_inv [OF assms(1)] by simp
  then have "job_ok s i" by (simp add: exec_inv_def)
  then have "je_status e = JobInProgress \<longrightarrow> 0 < workers i s \<or> i \<in> xs_panicked s"
    using assms(2, 3) by (auto simp: job_ok_def job_inv_def finished_def job_entry_of_def)
  moreover have "job_entry_of (xs_jobs s') i = Some e \<or> job_entry_of (xs_jobs s') i = None"
    if "je_status e \<noteq> JobInProgress" "exec_step rt ttl s s'" for s'
    using exec_step_finished [OF that(2) inv assms(2)] assms(3) that(1)
    by (simp add: job_entry_of_def finished_def)
  ultimately show ?thesis by blast
qed

definition idle_flow :: workflow_def where
  "idle_flow = plain_workflow NoValidation []"

definition registered_state :: exec_state where
  "registered_state = (exec_start 1)\<lparr>xs_used := {''j''}, xs_jobs := register_job ''j'' 0 [],
     xs_tasks := {#AsyncWaiting ''j'' 0 (custom_message JNull) idle_flow#}\<rparr>"

theorem async_job_lifecycle_witness:
  "job_status_of (xs_jobs registered_state) ''j'' = Some JobInProgress \<and>
   (0 < workers ''j'' registered_state \<or> ''j'' \<in> xs_panicked registered_state)"
proof -
  have "exec_reachable scripted 0 1 registered_state"
    using exec_reachable.step [OF exec_reachable.start async, of "''j''" 1 scripted 0 0
        "custom_message JNull" idle_flow]
    by (simp add: exec_start_def registered_state_def)
  moreover have "job_entry_of (xs_jobs registered_state) ''j'' =
      Some \<lparr>je_status = JobInProgress, je_response = None, je_created_at = 0\<rparr>"
    by (simp add: registered_state_def job_entry_of_def)
  moreover have "''j'' \<notin> xs_spawned registered_state" by (simp add: registered_state_def exec_start_def)
  ultimately show ?thesis
    using async_job_lifecycle [of scripted 0 1 registered_state "''j''"]
    by (auto simp: job_status_of_def job_entry_of_def)
qed

text \<open>
  Jobs of \<open>spawn\<close> can lose their result. \<open>spawn\<close> registers the job in a task of its own, which may
  run after the workflow has already finished: there is a reachable state in which a spawned workflow
  has completed and announced its completion, no task is left, and the registry says that the job is
  still in progress.
\<close>

theorem spawn_overwrites_result:
  "\<exists>s. exec_reachable scripted 0 1 s \<and> xs_tasks s = {#} \<and>
     xs_events s = [completed_event ''j'' idle_flow] \<and>
     job_status_of (xs_jobs s) ''j'' = Some JobInProgress"
proof -
  let ?tc = "TcEvent ''x'' (JObject [])"
  obtain msg where msg: "build_initial_message scripted ?tc [] = (Inr msg, [])"
    by (simp add: build_initial_message_def trigger_parts_def schema_validated_new_def is_object_def
        scripted_def)
  obtain elog where run: "run_steps scripted idle_flow msg [] = (Inr msg, elog, [])"
    by (simp add: run_steps_def idle_flow_def plain_workflow_def derive_trigger_info_def checks_edges_def)
  define s1 where "s1 = (exec_start 1)\<lparr>xs_used := {''j''}, xs_spawned := {''j''},
    xs_tasks := {#RegisterTask ''j'' 0, SpawnWaiting ''j'' 0 ?tc idle_flow#}\<rparr>"
  define s2 where "s2 = replace_task (SpawnWaiting ''j'' 0 ?tc idle_flow)
    {#SpawnBuilding ''j'' 0 ?tc idle_flow#} (take_permit s1)"
  define s3 where "s3 = replace_task (SpawnBuilding ''j'' 0 ?tc idle_flow) {#Running ''j'' 0 msg idle_flow#} s2"
  define s4 where "s4 = give_permit (replace_task (Running ''j'' 0 msg idle_flow) {#}
    (finish_run ''j'' 0 idle_flow (Inr msg) s3))"
  define s5 where "s5 = replace_task (RegisterTask ''j'' 0) {#}
    (s4\<lparr>xs_jobs := register_job ''j'' 0 (xs_jobs s4)\<rparr>)"
  have r1: "exec_reachable scripted 0 1 s1"
    using exec_reachable.step [OF exec_reachable.start spawn, of "''j''" 1 scripted 0 0 ?tc idle_flow]
    by (simp add: exec_start_def s1_def)
  have r2: "exec_reachable scripted 0 1 s2"
    unfolding s2_def by (rule exec_reachable.step [OF r1 spawn_acquire]) (simp_all add: s1_def exec_start_def)
  have r3: "exec_reachable scripted 0 1 s3"
    unfolding s3_def
    by (rule exec_reachable.step [OF r2 spawn_built [OF _ msg]]) (simp add: s2_def s1_def)
  have r4: "exec_reachable scripted 0 1 s4"
    unfolding s4_def
    by (rule exec_reachable.step [OF r3 finish [OF _ run]]) (simp add: s3_def s2_def s1_def)
  have "exec_reachable scripted 0 1 s5"
    unfolding s5_def
    by (rule exec_reachable.step [OF r4 register]) (simp add: s4_def s3_def s2_def s1_def)
  then show ?thesis
    by (intro exI [of _ s5])
      (simp add: s5_def s4_def s3_def s2_def s1_def exec_start_def job_status_of_def)
qed

end
