(* ===== verification/Event_Bus.thy ===== *)
theory Event_Bus
  imports Jobs Loader_Props
begin

text \<open>
  The event bus (\<open>workflow-engine/src/event_bus.rs\<close>) and the entry point for endpoint requests
  (\<open>WorkflowEngine\<close> in \<open>workflow-engine/src/lib.rs\<close>). Emitting an event yields what is broadcast to
  subscribers (\<open>None\<close> if the event is dropped) and the tasks that are started, one for each matching
  workflow.
\<close>

section \<open>Events\<close>

record event =
  ev_name :: string
  ev_payload :: "json option"
  ev_source :: string
  ev_timestamp :: timestamp
  ev_depth :: nat

record 'sch event_bus =
  bus_registry :: "'sch trigger_registry"
  bus_max_depth :: nat

definition default_max_depth :: nat where
  "default_max_depth = 8"

definition bus_new :: "'sch trigger_registry \<Rightarrow> 'sch event_bus" where
  "bus_new reg = \<lparr>bus_registry = reg, bus_max_depth = default_max_depth\<rparr>"

definition bus_emit :: "'sch event_bus \<Rightarrow> event \<Rightarrow> event option \<times> (workflow_def \<times> trigger_context) list" where
  "bus_emit bus ev =
     (if bus_max_depth bus < ev_depth ev then (None, [])
      else
        (let matching = find_event (bus_registry bus) (ev_name ev);
             pl = (case ev_payload ev of Some p \<Rightarrow> p | None \<Rightarrow> JNull)
         in (Some ev, map (\<lambda>flow. (flow, TcEvent (ev_name ev) pl)) matching)))"

text \<open>The body of a started task; the second component of the result is a background job, if any.\<close>

definition event_task ::
  "'w runtime \<Rightarrow> bool \<Rightarrow> workflow_def \<times> trigger_context \<Rightarrow> jobs \<Rightarrow> 'w \<Rightarrow>
     (step_exit, pipeline_message) result \<times> task option \<times> jobs \<times> 'w" where
  "event_task rt sem_closed = (\<lambda>(flow, tc) jobs w.
     case build_initial_message rt tc w of
       (Inl e, w') \<Rightarrow> (Inl (Fails e), None, jobs, w')
     | (Inr msg, w') \<Rightarrow> execute_workflow rt sem_closed flow msg jobs w')"

definition system_event :: "string \<Rightarrow> json option \<Rightarrow> timestamp \<Rightarrow> event" where
  "system_event name pl now =
     \<lparr>ev_name = name, ev_payload = pl, ev_source = ''system'', ev_timestamp = now, ev_depth = 0\<rparr>"

definition emit_startup ::
  "'sch event_bus \<Rightarrow> timestamp \<Rightarrow> event option \<times> (workflow_def \<times> trigger_context) list" where
  "emit_startup bus now = bus_emit bus (system_event ''system.startup'' None now)"

definition emit_plugin_loaded ::
  "'sch event_bus \<Rightarrow> string \<Rightarrow> timestamp \<Rightarrow> event option \<times> (workflow_def \<times> trigger_context) list" where
  "emit_plugin_loaded bus pid now =
     bus_emit bus (system_event ''system.plugin.loaded''
       (Some (JObject (obj_of [(''plugin_id'', JString pid)]))) now)"

definition emit_plugin_failed ::
  "'sch event_bus \<Rightarrow> string \<Rightarrow> string \<Rightarrow> timestamp \<Rightarrow> event option \<times> (workflow_def \<times> trigger_context) list" where
  "emit_plugin_failed bus pid err now =
     bus_emit bus (system_event ''system.plugin.failed''
       (Some (JObject (obj_of [(''plugin_id'', JString pid), (''error'', JString err)]))) now)"

definition emit_workflow_completed ::
  "'sch event_bus \<Rightarrow> string \<Rightarrow> string \<Rightarrow> timestamp \<Rightarrow> event option \<times> (workflow_def \<times> trigger_context) list" where
  "emit_workflow_completed bus job status now =
     bus_emit bus (system_event ''system.workflow.completed''
       (Some (JObject (obj_of [(''job_id'', JString job), (''status'', JString status)]))) now)"

definition emit_workflow_failed ::
  "'sch event_bus \<Rightarrow> string \<Rightarrow> string \<Rightarrow> timestamp \<Rightarrow> event option \<times> (workflow_def \<times> trigger_context) list" where
  "emit_workflow_failed bus job err now =
     bus_emit bus (system_event ''system.workflow.failed''
       (Some (JObject (obj_of [(''job_id'', JString job), (''error'', JString err)]))) now)"

text \<open>The bus as the emitter handed to the executor, the scheduler and the plugin host functions.\<close>

definition emitter_emit ::
  "'sch event_bus \<Rightarrow> string \<Rightarrow> json \<Rightarrow> timestamp \<Rightarrow> event option \<times> (workflow_def \<times> trigger_context) list" where
  "emitter_emit bus name pl now = bus_emit bus (system_event name (Some pl) now)"

section \<open>Endpoint requests\<close>

definition has_endpoint :: "'sch trigger_registry \<Rightarrow> string \<Rightarrow> string \<Rightarrow> bool" where
  "has_endpoint reg meth path = (find_endpoint reg meth path \<noteq> None)"

definition handle_endpoint ::
  "'w runtime \<Rightarrow> bool \<Rightarrow> 'sch trigger_registry \<Rightarrow> string \<Rightarrow> string \<Rightarrow> json \<Rightarrow> json option \<Rightarrow> jobs \<Rightarrow> 'w \<Rightarrow>
     (step_exit, pipeline_message) result \<times> task option \<times> jobs \<times> 'w" where
  "handle_endpoint rt sem_closed reg meth path body auth jobs w =
     (case find_endpoint reg meth path of
        None \<Rightarrow>
          (Inl (Fails (InvalidDefinition [] (''no workflow registered for '' @ meth @ '' '' @ path))),
           None, jobs, w)
      | Some flow \<Rightarrow>
          (case build_initial_message rt (TcEndpoint meth path body auth) w of
             (Inl e, w') \<Rightarrow> (Inl (Fails e), None, jobs, w')
           | (Inr msg, w') \<Rightarrow> execute_workflow rt sem_closed flow msg jobs w'))"

section \<open>Lemmas\<close>

lemma build_initial_message_object:
  assumes "object_schema_spec (rt_validator_for rt)"
  shows "is_ok (fst (build_initial_message rt tc w)) \<longleftrightarrow> is_object (fst (snd (trigger_parts tc)))"
    and "build_initial_message rt tc w = (Inr msg, w') \<Longrightarrow>
      payload msg = Custom (fst (snd (trigger_parts tc))) \<and>
      msg_source (metadata msg) = fst (trigger_parts tc) \<and>
      auth_context (metadata msg) = snd (snd (trigger_parts tc)) \<and> warnings (metadata msg) = []"
  using schema_validated_new_object [OF assms, of "fst (snd (trigger_parts tc))"]
  by (auto simp: build_initial_message_def Let_def split: prod.splits sum.splits)

lemma build_initial_message_error:
  "build_initial_message rt tc w = (Inl e, w') \<Longrightarrow> \<exists>d. e = PluginExecutionError ''workflow-engine'' d"
  by (auto simp: build_initial_message_def Let_def split: prod.splits sum.splits)

section \<open>Properties\<close>

text \<open>
  Delivery of events. With a registry built from a list of workflow definitions, an event whose
  depth exceeds the maximum is neither broadcast nor does it start anything; any other event is
  broadcast and starts exactly one task for each definition with that event trigger, in the order
  of the list, with the event's name and payload.
\<close>

theorem event_delivery:
  assumes "build parse_cron flows = Inr reg"
  shows "bus_emit \<lparr>bus_registry = reg, bus_max_depth = d\<rparr> ev =
    (if d < ev_depth ev then (None, [])
     else (Some ev,
       map (\<lambda>flow. (flow, TcEvent (ev_name ev) (case ev_payload ev of Some p \<Rightarrow> p | None \<Rightarrow> JNull)))
         (filter (\<lambda>f. tr_event (wf_trigger f) = Some (ev_name ev)) flows)))"
  using build_tables(2) [OF assms [unfolded build_def], of "ev_name ev"]
  by (simp add: bus_emit_def build_empty_tables)

theorem event_delivery_witness:
  "\<exists>reg :: string trigger_registry.
     build (\<lambda>s. Inr s) [sample_flow ''a'' None (Some ''mail.new'')] = Inr reg \<and>
     snd (bus_emit (bus_new reg) (system_event ''mail.new'' (Some (JObject [])) 0)) =
       [(sample_flow ''a'' None (Some ''mail.new''), TcEvent ''mail.new'' (JObject []))]"
proof -
  let ?flows = "[sample_flow ''a'' None (Some ''mail.new'')]"
  obtain reg where reg: "build (\<lambda>s. Inr s :: (string, string) result) ?flows = Inr reg"
    by (simp add: build_def add_workflow_def add_endpoint_def add_event_def add_schedule_def sample_flow_def)
  from event_delivery [OF reg, of 8 "system_event ''mail.new'' (Some (JObject [])) 0"] reg show ?thesis
    by (auto simp: bus_new_def default_max_depth_def system_event_def sample_flow_def)
qed

text \<open>
  Loop prevention does not reach cascades. Every event that comes from the executor, from the
  scheduler or from a plugin goes through the emitter interface, which builds it with depth 0; so
  none of them is ever dropped, whatever the maximum depth, and however long the chain of workflows
  that led to it.
\<close>

theorem emitted_events_never_dropped:
  "fst (emitter_emit bus name pl now) = Some (system_event name (Some pl) now) \<and>
   map fst (snd (emitter_emit bus name pl now)) = find_event (bus_registry bus) name"
  by (simp add: emitter_emit_def bus_emit_def system_event_def Let_def comp_def)

text \<open>
  An event without a payload starts no run. The payload of the trigger is then \<open>null\<close>, which the
  object schema rejects, so the task ends with an error before any step is executed, and no job is
  registered. This is the case of every workflow triggered by \<open>system.startup\<close>, which is emitted
  without a payload.
\<close>

theorem startup_runs_nothing:
  assumes "object_schema_spec (rt_validator_for rt)"
    and "(flow, tc) \<in> set (snd (emit_startup bus now))"
  shows "\<exists>d. event_task rt sem_closed (flow, tc) jobs w =
    (Inl (Fails (PluginExecutionError ''workflow-engine'' d)), None, jobs,
     snd (rt_now rt (snd (rt_new_uuid rt w))))"
proof -
  have "tc = TcEvent ''system.startup'' JNull"
    using assms(2) by (auto simp: emit_startup_def bus_emit_def system_event_def Let_def split: if_splits)
  then have "\<not> is_ok (fst (build_initial_message rt tc w))"
    by (simp add: build_initial_message_object [OF assms(1)] trigger_parts_def is_object_def)
  then obtain e where e: "build_initial_message rt tc w = (Inl e, snd (build_initial_message rt tc w))"
    by (cases "fst (build_initial_message rt tc w)") (auto simp: prod_eq_iff)
  obtain d where "e = PluginExecutionError ''workflow-engine'' d"
    using build_initial_message_error [OF e] by blast
  moreover have "snd (build_initial_message rt tc w) = snd (rt_now rt (snd (rt_new_uuid rt w)))"
    by (simp add: build_initial_message_def Let_def split: prod.splits sum.splits)
  ultimately show ?thesis using e by (auto simp: event_task_def)
qed

definition startup_bus :: "string event_bus" where
  "startup_bus = bus_new (add_event (sample_flow ''a'' None (Some ''system.startup'')) reg_empty)"

theorem startup_runs_nothing_witness:
  "snd (emit_startup startup_bus 0) =
     [(sample_flow ''a'' None (Some ''system.startup''), TcEvent ''system.startup'' JNull)] \<and>
   (\<exists>d. fst (event_task scripted False
       (sample_flow ''a'' None (Some ''system.startup''), TcEvent ''system.startup'' JNull) [] []) =
     Inl (Fails (PluginExecutionError ''workflow-engine'' d)))"
proof -
  have emit: "snd (emit_startup startup_bus 0) =
     [(sample_flow ''a'' None (Some ''system.startup''), TcEvent ''system.startup'' JNull)]"
    by (simp add: emit_startup_def startup_bus_def bus_new_def default_max_depth_def bus_emit_def
        system_event_def find_event_def add_event_def reg_empty_def sample_flow_def)
  then show ?thesis
    using startup_runs_nothing [OF scripted_object_schema, of "sample_flow ''a'' None (Some ''system.startup'')"
        "TcEvent ''system.startup'' JNull" startup_bus 0 False "[]" "[]"] by auto
qed

text \<open>
  An endpoint request. Unknown endpoints and bodies that are not JSON objects are answered with
  an error, without running a step and without touching the registry of jobs; otherwise the workflow
  found for the method and path runs on a message that carries the body, the caller's identity and
  the source \<open>endpoint:METHOD path\<close>.
\<close>

theorem endpoint_request:
  assumes "object_schema_spec (rt_validator_for rt)"
  shows "(if \<not> has_endpoint reg meth path \<or> \<not> is_object body
    then \<exists>e w'. handle_endpoint rt sem_closed reg meth path body auth jobs w =
           (Inl (Fails e), None, jobs, w')
    else \<exists>flow msg w'. find_endpoint reg meth path = Some flow \<and>
           payload msg = Custom body \<and> auth_context (metadata msg) = auth \<and>
           msg_source (metadata msg) = ''endpoint:'' @ meth @ '' '' @ path \<and>
           handle_endpoint rt sem_closed reg meth path body auth jobs w =
             execute_workflow rt sem_closed flow msg jobs w')"
proof (cases "find_endpoint reg meth path")
  case None
  then show ?thesis by (simp add: handle_endpoint_def has_endpoint_def)
next
  case (Some flow)
  obtain r w' where b: "build_initial_message rt (TcEndpoint meth path body auth) w = (r, w')" by force
  have ok: "is_ok r \<longleftrightarrow> is_object body"
    using build_initial_message_object(1) [OF assms, of "TcEndpoint meth path body auth" w] b
    by (simp add: trigger_parts_def)
  show ?thesis
  proof (cases r)
    case (Inl e)
    then show ?thesis using Some b ok by (simp add: handle_endpoint_def)
  next
    case (Inr msg)
    then show ?thesis
      using Some b ok build_initial_message_object(2) [OF assms, of "TcEndpoint meth path body auth" w msg w']
      by (auto simp: handle_endpoint_def has_endpoint_def trigger_parts_def)
  qed
qed

theorem endpoint_request_witness:
  "\<exists>e w'. handle_endpoint scripted False (reg_empty :: string trigger_registry) ''GET'' ''/x''
      (JObject []) None [] [] = (Inl (Fails e), None, [], w')"
  using endpoint_request [OF scripted_object_schema, of "reg_empty :: string trigger_registry" "''GET''" "''/x''"
      "JObject []" False None "[]" "[]"]
  by (simp add: has_endpoint_def find_endpoint_def reg_empty_def split: option.splits if_splits)

end
