(* ===== verification/Scheduler.thy ===== *)
theory Scheduler
  imports Event_Bus
begin

text \<open>
  The cron scheduler (\<open>workflow-engine/src/scheduler.rs\<close>): one loop per scheduled workflow, all
  sharing a tracker of workflows in progress. The loops run concurrently; a step of the relation
  \<open>sched_step\<close> is what one loop does between two points where it waits. The cron crate is the
  parameter \<open>upcoming\<close> (the next firing time of a schedule after a given time, if any). A run is any
  run \<open>run_steps\<close> allows; for an asynchronous workflow the loop only starts it, and the run goes on
  in the background.
\<close>

section \<open>The tracker\<close>

type_synonym tracker = "string set"

definition try_start :: "string \<Rightarrow> tracker \<Rightarrow> bool \<times> tracker" where
  "try_start wid t = (wid \<notin> t, insert wid t)"

definition tracker_finish :: "string \<Rightarrow> tracker \<Rightarrow> tracker" where
  "tracker_finish wid t = t - {wid}"

definition is_in_progress :: "string \<Rightarrow> tracker \<Rightarrow> bool" where
  "is_in_progress wid t \<longleftrightarrow> wid \<in> t"

section \<open>The loops\<close>

datatype loop_phase = Waiting | Firing timestamp | Executing timestamp pipeline_message | Ended

text \<open>
  The state: the tracker, the phase of each loop, the ids of workflows running in the background, the
  events emitted, and how many ticks were skipped because the tracker reported an overlap.
\<close>

record sched_state =
  ss_tracker :: tracker
  ss_phases :: "loop_phase list"
  ss_background :: "string multiset"
  ss_events :: "(string \<times> json) list"
  ss_skipped :: nat

definition sched_start :: "('sch \<times> workflow_def) list \<Rightarrow> sched_state" where
  "sched_start loops =
     \<lparr>ss_tracker = {}, ss_phases = map (\<lambda>_. Waiting) loops, ss_background = {#}, ss_events = [],
      ss_skipped = 0\<rparr>"

definition schedule_failed :: "workflow_def \<Rightarrow> workflow_error \<Rightarrow> string \<Rightarrow> string \<times> json" where
  "schedule_failed flow e fired =
     (''workflow.schedule.failed'',
      JObject (obj_of [(''workflow_id'', JString (wf_id flow)),
                       (''error'', JString (workflow_error_to_string e)), (''fired_at'', JString fired)]))"

definition set_phase :: "nat \<Rightarrow> loop_phase \<Rightarrow> sched_state \<Rightarrow> sched_state" where
  "set_phase k ph s = s\<lparr>ss_phases := (ss_phases s)[k := ph]\<rparr>"

text \<open>The tick of a loop, after its sleep: skip, or take the workflow.\<close>

definition tick :: "nat \<Rightarrow> workflow_def \<Rightarrow> timestamp \<Rightarrow> sched_state \<Rightarrow> sched_state" where
  "tick k flow fired s =
     (case try_start (wf_id flow) (ss_tracker s) of
        (True, t) \<Rightarrow> set_phase k (Firing fired) (s\<lparr>ss_tracker := t\<rparr>)
      | (False, t) \<Rightarrow> s\<lparr>ss_tracker := t, ss_skipped := ss_skipped s + 1\<rparr>)"

text \<open>The end of a tick: the failure event if the message or the run failed, then \<open>finish\<close>.\<close>

definition tick_end ::
  "(timestamp \<Rightarrow> string) \<Rightarrow> nat \<Rightarrow> workflow_def \<Rightarrow> timestamp \<Rightarrow> workflow_error option \<Rightarrow> sched_state \<Rightarrow> sched_state" where
  "tick_end rfc3339 k flow fired err s =
     set_phase k Waiting
       (s\<lparr>ss_tracker := tracker_finish (wf_id flow) (ss_tracker s),
          ss_events := ss_events s @
            (case err of None \<Rightarrow> [] | Some e \<Rightarrow> [schedule_failed flow e (rfc3339 fired)])\<rparr>)"

inductive sched_step ::
  "'w runtime \<Rightarrow> ('sch \<Rightarrow> timestamp \<Rightarrow> timestamp option) \<Rightarrow> (timestamp \<Rightarrow> string) \<Rightarrow>
     ('sch \<times> workflow_def) list \<Rightarrow> sched_state \<Rightarrow> sched_state \<Rightarrow> bool"
  for rt :: "'w runtime" and upcoming rfc3339 loops where
  loop_ends:
    "k < length loops \<Longrightarrow> ss_phases s ! k = Waiting \<Longrightarrow> upcoming (fst (loops ! k)) now = None \<Longrightarrow>
     sched_step rt upcoming rfc3339 loops s (set_phase k Ended s)"
| loop_tick:
    "k < length loops \<Longrightarrow> ss_phases s ! k = Waiting \<Longrightarrow> upcoming (fst (loops ! k)) now = Some next \<Longrightarrow>
     sched_step rt upcoming rfc3339 loops s (tick k (snd (loops ! k)) fired s)"
| loop_build_failed:
    "k < length loops \<Longrightarrow> ss_phases s ! k = Firing fired \<Longrightarrow>
     build_initial_message rt (TcSchedule (wf_id (snd (loops ! k))) fired) w = (Inl e, w') \<Longrightarrow>
     sched_step rt upcoming rfc3339 loops s (tick_end rfc3339 k (snd (loops ! k)) fired (Some e) s)"
| loop_fire:
    "k < length loops \<Longrightarrow> ss_phases s ! k = Firing fired \<Longrightarrow>
     build_initial_message rt (TcSchedule (wf_id (snd (loops ! k))) fired) w = (Inr msg, w') \<Longrightarrow>
     sched_step rt upcoming rfc3339 loops s (set_phase k (Executing fired msg) s)"
| loop_run:
    "k < length loops \<Longrightarrow> ss_phases s ! k = Executing fired msg \<Longrightarrow> wf_mode (snd (loops ! k)) = Sync \<Longrightarrow>
     execute_sync rt sem_closed (snd (loops ! k)) msg w = (r, elog, w') \<Longrightarrow>
     r = Inr out \<and> err = None \<or> r = Inl (Fails e) \<and> err = Some e \<Longrightarrow>
     sched_step rt upcoming rfc3339 loops s (tick_end rfc3339 k (snd (loops ! k)) fired err s)"
| loop_run_panics:
    "k < length loops \<Longrightarrow> ss_phases s ! k = Executing fired msg \<Longrightarrow> wf_mode (snd (loops ! k)) = Sync \<Longrightarrow>
     execute_sync rt sem_closed (snd (loops ! k)) msg w = (Inl (Panics p), elog, w') \<Longrightarrow>
     sched_step rt upcoming rfc3339 loops s (set_phase k Ended s)"
| loop_start_async:
    "k < length loops \<Longrightarrow> ss_phases s ! k = Executing fired msg \<Longrightarrow> wf_mode (snd (loops ! k)) = Async \<Longrightarrow>
     execute_async rt (snd (loops ! k)) msg jobs w = (r, job, jobs', w') \<Longrightarrow>
     r = Inr out \<and> err = None \<or> r = Inl e \<and> err = Some e \<Longrightarrow>
     sched_step rt upcoming rfc3339 loops s
       (tick_end rfc3339 k (snd (loops ! k)) fired err
          (s\<lparr>ss_background := ss_background s + {#wf_id (snd (loops ! k))#}\<rparr>))"
| background_ends:
    "wid \<in># ss_background s \<Longrightarrow>
     sched_step rt upcoming rfc3339 loops s (s\<lparr>ss_background := ss_background s - {#wid#}\<rparr>)"

inductive sched_reachable ::
  "'w runtime \<Rightarrow> ('sch \<Rightarrow> timestamp \<Rightarrow> timestamp option) \<Rightarrow> (timestamp \<Rightarrow> string) \<Rightarrow>
     ('sch \<times> workflow_def) list \<Rightarrow> sched_state \<Rightarrow> bool"
  for rt :: "'w runtime" and upcoming rfc3339 loops where
  sched_init: "sched_reachable rt upcoming rfc3339 loops (sched_start loops)"
| sched_more:
    "sched_reachable rt upcoming rfc3339 loops s \<Longrightarrow> sched_step rt upcoming rfc3339 loops s s' \<Longrightarrow>
     sched_reachable rt upcoming rfc3339 loops s'"

section \<open>Invariant\<close>

text \<open>A loop is busy from a tick it takes until it finishes it.\<close>

fun busy :: "loop_phase \<Rightarrow> bool" where
  "busy (Firing _) = True"
| "busy (Executing _ _) = True"
| "busy _ = False"

text \<open>
  With distinct workflow ids: the id of a busy loop is in the tracker, the id of a waiting loop is not,
  and no tick has been skipped.
\<close>

definition sched_inv :: "('sch \<times> workflow_def) list \<Rightarrow> sched_state \<Rightarrow> bool" where
  "sched_inv loops s \<longleftrightarrow>
     length (ss_phases s) = length loops \<and> ss_skipped s = 0 \<and>
     (\<forall>k < length loops. let wid = wf_id (snd (loops ! k)); ph = ss_phases s ! k in
        (busy ph \<longrightarrow> wid \<in> ss_tracker s) \<and> (ph = Waiting \<longrightarrow> wid \<notin> ss_tracker s))"

definition loop_ids :: "('sch \<times> workflow_def) list \<Rightarrow> string list" where
  "loop_ids loops = map (\<lambda>l. wf_id (snd l)) loops"

lemma loop_ids_distinct:
  assumes "distinct (loop_ids loops)" "j < length loops" "k < length loops" "j \<noteq> k"
  shows "wf_id (snd (loops ! j)) \<noteq> wf_id (snd (loops ! k))"
  using assms unfolding loop_ids_def by (metis (no_types, lifting) length_map nth_eq_iff_index_eq nth_map)

lemma sched_start_inv: "sched_inv loops (sched_start loops)"
  by (simp add: sched_inv_def sched_start_def)

lemma sched_inv_set_phase:
  assumes "sched_inv loops s" "k < length loops" "busy (ss_phases s ! k)" "ph \<noteq> Waiting"
  shows "sched_inv loops (set_phase k ph s)"
  using assms by (auto simp: sched_inv_def set_phase_def Let_def nth_list_update)

lemma sched_inv_ended:
  assumes "sched_inv loops s" shows "sched_inv loops (set_phase k Ended s)"
  using assms
  by (cases "k < length loops")
    (auto simp: sched_inv_def set_phase_def Let_def nth_list_update split: if_splits)

lemma sched_inv_tick:
  assumes "distinct (loop_ids loops)" "sched_inv loops s" "k < length loops"
    "ss_phases s ! k = Waiting"
  shows "sched_inv loops (tick k (snd (loops ! k)) fired s)"
  using assms(2-4) loop_ids_distinct [OF assms(1) _ assms(3)]
  by (auto simp: sched_inv_def tick_def try_start_def set_phase_def Let_def nth_list_update)

lemma sched_inv_tick_end:
  assumes "distinct (loop_ids loops)" "sched_inv loops s" "k < length loops"
    "busy (ss_phases s ! k)"
  shows "sched_inv loops (tick_end rfc k (snd (loops ! k)) fired err (s\<lparr>ss_background := b\<rparr>))"
  using assms(2-4) loop_ids_distinct [OF assms(1) _ assms(3)]
  by (auto simp: sched_inv_def tick_end_def tracker_finish_def set_phase_def Let_def nth_list_update)

lemma sched_inv_background: "sched_inv loops (s\<lparr>ss_background := b\<rparr>) \<longleftrightarrow> sched_inv loops s"
  by (simp add: sched_inv_def)

lemma sched_step_inv:
  assumes "sched_step rt upcoming rfc3339 loops s s'" "distinct (loop_ids loops)" "sched_inv loops s"
  shows "sched_inv loops s'"
  using assms
proof (induction rule: sched_step.induct)
  case (loop_build_failed k s fired w e w')
  then show ?case using sched_inv_tick_end [of loops s k rfc3339 fired "Some e" "ss_background s"] by simp
next
  case (loop_run k s fired msg sem_closed w r elog w' out err e)
  then show ?case using sched_inv_tick_end [of loops s k rfc3339 fired err "ss_background s"] by simp
qed (simp_all add: sched_inv_ended sched_inv_tick sched_inv_tick_end sched_inv_background
    sched_inv_set_phase)

lemma sched_reachable_inv:
  assumes "sched_reachable rt upcoming rfc3339 loops s" "distinct (loop_ids loops)"
  shows "sched_inv loops s"
  using assms
proof (induction rule: sched_reachable.induct)
  case sched_init
  show ?case by (rule sched_start_inv)
next
  case (sched_more s s')
  then show ?case using sched_step_inv by blast
qed

text \<open>Only asynchronous workflows run in the background.\<close>

definition background_inv :: "('sch \<times> workflow_def) list \<Rightarrow> sched_state \<Rightarrow> bool" where
  "background_inv loops s \<longleftrightarrow>
     (\<forall>wid \<in># ss_background s. \<exists>k < length loops. wid = wf_id (snd (loops ! k)) \<and>
        wf_mode (snd (loops ! k)) = Async)"

lemma tick_background [simp]:
  "ss_background (tick k flow fired s) = ss_background s"
  "ss_background (tick_end rfc k flow fired err s) = ss_background s"
  "ss_background (set_phase k ph s) = ss_background s"
  by (simp_all add: tick_def try_start_def tick_end_def set_phase_def split: bool.splits)

lemma sched_step_background:
  "sched_step rt upcoming rfc3339 loops s s' \<Longrightarrow> background_inv loops s \<Longrightarrow> background_inv loops s'"
  by (induction rule: sched_step.induct)
    (auto simp: background_inv_def dest: in_diffD)

lemma sched_reachable_background:
  "sched_reachable rt upcoming rfc3339 loops s \<Longrightarrow> background_inv loops s"
proof (induction rule: sched_reachable.induct)
  case sched_init
  show ?case by (simp add: background_inv_def sched_start_def)
next
  case (sched_more s s')
  then show ?case using sched_step_background by blast
qed

text \<open>The schedules of a registry keep the ids of the definitions, in order.\<close>

lemma schedule_entry_id: "schedule_entry parse_cron f = Some (sch, g) \<Longrightarrow> g = f"
  by (auto simp: schedule_entry_def split: option.splits sum.splits)

lemma loop_ids_filter:
  "loop_ids (List.map_filter (schedule_entry parse_cron) flows) =
     map wf_id (filter (\<lambda>f. schedule_entry parse_cron f \<noteq> None) flows)"
  by (induction flows) (auto simp: loop_ids_def List.map_filter_def dest: schedule_entry_id)

lemma loop_ids_schedules:
  "distinct (map wf_id flows) \<Longrightarrow> distinct (loop_ids (List.map_filter (schedule_entry parse_cron) flows))"
  unfolding loop_ids_filter by (rule distinct_map_filter)

lemma loaded_loops_distinct:
  assumes "load_workflows parse dir = Inr flows" "build parse_cron flows = Inr reg"
  shows "distinct (loop_ids (get_schedules reg))"
proof -
  have "distinct (map wf_id flows)"
    using assms(1) by (simp add: load_workflows_char acceptable_def)
  then show ?thesis
    using build_tables(3) [OF assms(2) [unfolded build_def]] loop_ids_schedules [of flows parse_cron]
    by (simp add: get_schedules_def build_empty_tables)
qed

section \<open>Properties\<close>


definition nightly :: "execution_mode \<Rightarrow> workflow_def" where
  "nightly mode = \<lparr>wf_id = ''n'', wf_name = ''n'', wf_description = None, wf_mode = mode,
     wf_validate = NoValidation,
     wf_trigger = \<lparr>tr_endpoint = None, tr_event = None, tr_schedule = Some ''0 2 * * *''\<rparr>,
     wf_steps = [StepDef ''p'' ''a'' None None]\<rparr>"


text \<open>
  Asynchronous workflows do overlap. The loop returns as soon as the background run has been
  started and takes the id out of the tracker, so the next tick starts a second run: there is a
  reachable state in which two runs of the same scheduled workflow are in progress.
\<close>

theorem async_scheduled_runs_overlap:
  "\<exists>s. sched_reachable scripted (\<lambda>_ t. Some t) (\<lambda>_. []) [(''0 2 * * *'', nightly Async)] s \<and>
     ss_background s = {#''n'', ''n''#}"
proof -
  let ?loops = "[(''0 2 * * *'', nightly Async)]"
  let ?R = "sched_reachable scripted (\<lambda>_ t. Some t) (\<lambda>_. []) ?loops"
  have one_round: "\<exists>s'. ?R s' \<and> ss_phases s' = [Waiting] \<and> ss_tracker s' = {} \<and>
      ss_background s' = ss_background s + {#''n''#}"
    if s: "?R s" "ss_phases s = [Waiting]" "ss_tracker s = {}" for s
  proof -
    obtain msg where msg: "build_initial_message scripted (TcSchedule ''n'' 0) [] = (Inr msg, [])"
      by (simp add: build_initial_message_def trigger_parts_def schema_validated_new_def is_object_def
          scripted_def)
    obtain out job jobs where run: "execute_async scripted (nightly Async) msg [] [] = (Inr out, job, jobs, [])"
      by (simp add: execute_async_def accepted_response_def schema_validated_new_def is_object_def
          scripted_def)
    define s1 where "s1 = tick 0 (nightly Async) 0 s"
    define s2 where "s2 = set_phase 0 (Executing 0 msg) s1"
    define s3 where "s3 = tick_end (\<lambda>_. []) 0 (nightly Async) 0 None
      (s2\<lparr>ss_background := ss_background s2 + {#wf_id (nightly Async)#}\<rparr>)"
    have s1: "ss_phases s1 = [Firing 0]" "ss_tracker s1 = {''n''}" "ss_background s1 = ss_background s"
      using s by (simp_all add: s1_def tick_def try_start_def set_phase_def nightly_def)
    have s2: "ss_phases s2 = [Executing 0 msg]" "ss_tracker s2 = {''n''}" "ss_background s2 = ss_background s"
      using s1 by (simp_all add: s2_def set_phase_def)
    have s3: "ss_phases s3 = [Waiting]" "ss_tracker s3 = {}" "ss_background s3 = ss_background s + {#''n''#}"
      using s2 by (simp_all add: s3_def tick_end_def set_phase_def tracker_finish_def nightly_def)
    have "?R s1"
      using sched_more [OF s(1) loop_tick [of 0 ?loops s "\<lambda>_ t. Some t" 0 0 scripted "\<lambda>_. []" 0]] s
      by (simp add: s1_def)
    then have "?R s2"
      using sched_more [OF _ loop_fire [of 0 ?loops s1 0 scripted "[]" msg "[]"]] s1 msg
      by (simp add: s2_def nightly_def)
    then have "?R s3"
      using sched_more [OF _ loop_start_async [of 0 ?loops s2 0 msg scripted "[]" "[]" "Inr out" job jobs "[]" out None]]
        s2 run by (simp add: s3_def nightly_def)
    with s3 show ?thesis by blast
  qed
  have "?R (sched_start ?loops)" by (rule sched_init)
  then obtain s1 where s1: "?R s1" "ss_phases s1 = [Waiting]" "ss_tracker s1 = {}" "ss_background s1 = {#''n''#}"
    using one_round [of "sched_start ?loops"] by (auto simp: sched_start_def)
  then obtain s2 where "?R s2" "ss_background s2 = {#''n'', ''n''#}"
    using one_round [of s1] by auto
  then show ?thesis by blast
qed

end
