(* ===== verification/Storage_Types.thy ===== *)
theory Storage_Types
  imports Engine_Error
begin

text \<open>
  The storage contract: errors, queries and the adapter traits (\<open>traits/src/storage.rs\<close>,
  \<open>traits/src/blob.rs\<close>) and the router that sits in front of the adapters
  (\<open>traits/src/storage_router.rs\<close>). An adapter is a record of operations that thread its state \<open>'s\<close>.
  A timeout of the router is decided by the parameter \<open>deadline\<close>: \<open>None\<close> if the operation returns in
  time; \<open>Some b\<close> if it does not, where \<open>b\<close> says whether the abandoned operation still took effect (the
  adapters run their work on a blocking thread that is not interrupted).
\<close>

section \<open>Errors\<close>

datatype storage_error =
    NotFound string string
  | AlreadyExists string string
  | SValidationFailed string "string option"
  | PermissionDenied string
  | SchemaConflict string string
  | Timeout string
  | ConnectionFailed string
  | UnsupportedOperation string
  | Internal string
  | InvalidKey string
  | TransactionFailed string

fun storage_error_to_string :: "storage_error \<Rightarrow> string" where
  "storage_error_to_string (NotFound c i) = ''not found: '' @ c @ ''/'' @ i"
| "storage_error_to_string (AlreadyExists c i) = ''already exists: '' @ c @ ''/'' @ i"
| "storage_error_to_string (SValidationFailed m (Some f)) =
     ''validation failed on '' @ quoted f @ '': '' @ m"
| "storage_error_to_string (SValidationFailed m None) = ''validation failed: '' @ m"
| "storage_error_to_string (PermissionDenied m) = ''permission denied: '' @ m"
| "storage_error_to_string (SchemaConflict c m) = ''schema conflict on '' @ quoted c @ '': '' @ m"
| "storage_error_to_string (Timeout m) = ''timeout: '' @ m"
| "storage_error_to_string (ConnectionFailed m) = ''connection failed: '' @ m"
| "storage_error_to_string (UnsupportedOperation m) = ''unsupported operation: '' @ m"
| "storage_error_to_string (Internal m) = ''internal error: '' @ m"
| "storage_error_to_string (InvalidKey m) = ''invalid key: '' @ m"
| "storage_error_to_string (TransactionFailed m) = ''transaction failed: '' @ m"

fun is_retryable :: "storage_error \<Rightarrow> bool" where
  "is_retryable (Timeout _) = True"
| "is_retryable (ConnectionFailed _) = True"
| "is_retryable (TransactionFailed _) = True"
| "is_retryable _ = False"

section \<open>Queries\<close>

datatype filter_operator =
  FEq | FNe | FGt | FGte | FLt | FLte | FIn | FNotIn | FContains | FStartsWith | FExists

datatype filter_node =
    FAnd "filter_node list"
  | FOr "filter_node list"
  | FNot filter_node
  | Comparison (cmp_field: string) (cmp_operator: filter_operator) (cmp_value: json)

datatype sort_direction = Asc | Desc

record sort_field =
  sf_field :: string
  sf_direction :: sort_direction

record pagination =
  pg_limit :: nat
  pg_cursor :: "string option"

record query_descriptor =
  qd_collection :: string
  qd_filter :: "filter_node option"
  qd_sort :: "sort_field list"
  qd_pagination :: pagination
  qd_fields :: "string list option"
  qd_text_search :: "string option"

record document_list =
  dl_documents :: "json list"
  dl_total_count :: nat
  dl_next_cursor :: "string option"

section \<open>Blobs\<close>

definition blob_key_error :: "string \<Rightarrow> storage_error" where
  "blob_key_error msg = SValidationFailed msg (Some ''key'')"

definition blob_key_new :: "string \<Rightarrow> (storage_error, string) result" where
  "blob_key_new key =
     (if starts_with key ''/'' then Inl (blob_key_error (''blob key must not start with '' @ quoted ''/''))
      else if contains_str key ''..'' then Inl (blob_key_error (''blob key must not contain '' @ quoted ''..''))
      else
        (let segments = split_on (CHR ''/'') key
         in if length segments < 3
            then Inl (blob_key_error ''blob key must have at least 3 segments (plugin_id/context/filename)'')
            else if list_ex (\<lambda>s. s = []) segments
            then Inl (blob_key_error ''blob key must not contain empty segments'')
            else Inr key))"

record blob_input =
  bi_data :: string
  bi_content_type :: "string option"
  bi_metadata :: "(string \<times> string) list"

record blob_meta =
  bm_key :: string
  bm_size_bytes :: nat
  bm_content_type :: string
  bm_checksum :: string
  bm_created_at :: int
  bm_metadata :: "(string \<times> string) list"

section \<open>Health and capabilities\<close>

datatype health_status = Healthy | Degraded | Unhealthy

record health_check =
  hc_name :: string
  hc_status :: health_status
  hc_message :: "string option"

record health_report =
  hr_status :: health_status
  hr_message :: "string option"
  hr_checks :: "health_check list"

record adapter_capabilities =
  ac_indexing :: bool
  ac_transactions :: bool
  ac_full_text_search :: bool
  ac_watch :: bool
  ac_batch_operations :: bool
  ac_encryption :: bool

record required_capabilities =
  rc_transactions :: bool
  rc_full_text_search :: bool
  rc_watch :: bool
  rc_batch_operations :: bool
  rc_encryption :: bool

section \<open>Collections\<close>

datatype field_type =
  TString | TInteger | TFloat | TBoolean | TDateTime | TUuid | TJson | TArray | TObject

record field_descriptor =
  fd_name :: string
  fd_type :: field_type
  fd_required :: bool

record collection_descriptor =
  cd_name :: string
  cd_plugin_id :: string
  cd_fields :: "field_descriptor list"
  cd_indexes :: "string list"

section \<open>Adapters\<close>

type_synonym ('s, 'a) sop = "(storage_error, 's, 'a) action"

record 's doc_adapter =
  da_get :: "string \<Rightarrow> string \<Rightarrow> ('s, json) sop"
  da_create :: "string \<Rightarrow> json \<Rightarrow> ('s, json) sop"
  da_update :: "string \<Rightarrow> string \<Rightarrow> json \<Rightarrow> ('s, json) sop"
  da_partial_update :: "string \<Rightarrow> string \<Rightarrow> json \<Rightarrow> ('s, json) sop"
  da_delete :: "string \<Rightarrow> string \<Rightarrow> ('s, unit) sop"
  da_query :: "query_descriptor \<Rightarrow> ('s, document_list) sop"
  da_count :: "string \<Rightarrow> filter_node option \<Rightarrow> ('s, nat) sop"
  da_batch_create :: "string \<Rightarrow> json list \<Rightarrow> ('s, json list) sop"
  da_batch_update :: "string \<Rightarrow> (string \<times> json) list \<Rightarrow> ('s, json list) sop"
  da_batch_delete :: "string \<Rightarrow> string list \<Rightarrow> ('s, unit) sop"
  da_migrate :: "collection_descriptor \<Rightarrow> ('s, unit) sop"
  da_health :: "('s, health_report) sop"
  da_capabilities :: adapter_capabilities

record 's blob_adapter =
  ba_store :: "string \<Rightarrow> blob_input \<Rightarrow> ('s, blob_meta) sop"
  ba_retrieve :: "string \<Rightarrow> ('s, string \<times> blob_meta) sop"
  ba_delete :: "string \<Rightarrow> ('s, unit) sop"
  ba_exists :: "string \<Rightarrow> ('s, bool) sop"
  ba_copy :: "string \<Rightarrow> string \<Rightarrow> ('s, blob_meta) sop"
  ba_list :: "string \<Rightarrow> ('s, blob_meta list) sop"
  ba_metadata :: "string \<Rightarrow> ('s, blob_meta) sop"
  ba_health :: "('s, health_report) sop"

section \<open>The router\<close>

record timeout_config =
  tc_document_read_ms :: nat
  tc_document_write_ms :: nat
  tc_blob_read_ms :: nat
  tc_blob_write_ms :: nat

definition default_timeouts :: timeout_config where
  "default_timeouts = \<lparr>tc_document_read_ms = 5000, tc_document_write_ms = 10000,
     tc_blob_read_ms = 10000, tc_blob_write_ms = 30000\<rparr>"

record 's storage_router =
  sr_doc :: "'s doc_adapter"
  sr_blob :: "'s blob_adapter"
  sr_timeouts :: timeout_config
  sr_deadline :: "string \<Rightarrow> 's \<Rightarrow> bool option"

definition with_timeout :: "'s storage_router \<Rightarrow> nat \<Rightarrow> string \<Rightarrow> ('s, 'a) sop \<Rightarrow> ('s, 'a) sop" where
  "with_timeout r ms op_name f s =
     (case sr_deadline r op_name s of
        None \<Rightarrow> f s
      | Some took_effect \<Rightarrow>
          (Inl (Timeout (op_name @ '' timed out after '' @ show_nat ms @ ''ms'')),
           if took_effect then snd (f s) else s))"

definition router_doc_get :: "'s storage_router \<Rightarrow> string \<Rightarrow> string \<Rightarrow> ('s, json) sop" where
  "router_doc_get r c i = with_timeout r (tc_document_read_ms (sr_timeouts r)) ''doc_get'' (da_get (sr_doc r) c i)"

definition router_doc_query :: "'s storage_router \<Rightarrow> query_descriptor \<Rightarrow> ('s, document_list) sop" where
  "router_doc_query r q = with_timeout r (tc_document_read_ms (sr_timeouts r)) ''doc_query'' (da_query (sr_doc r) q)"

definition router_doc_count :: "'s storage_router \<Rightarrow> string \<Rightarrow> filter_node option \<Rightarrow> ('s, nat) sop" where
  "router_doc_count r c f = with_timeout r (tc_document_read_ms (sr_timeouts r)) ''doc_count'' (da_count (sr_doc r) c f)"

definition router_doc_create :: "'s storage_router \<Rightarrow> string \<Rightarrow> json \<Rightarrow> ('s, json) sop" where
  "router_doc_create r c d = with_timeout r (tc_document_write_ms (sr_timeouts r)) ''doc_create'' (da_create (sr_doc r) c d)"

definition router_doc_update :: "'s storage_router \<Rightarrow> string \<Rightarrow> string \<Rightarrow> json \<Rightarrow> ('s, json) sop" where
  "router_doc_update r c i d = with_timeout r (tc_document_write_ms (sr_timeouts r)) ''doc_update'' (da_update (sr_doc r) c i d)"

definition router_doc_partial_update :: "'s storage_router \<Rightarrow> string \<Rightarrow> string \<Rightarrow> json \<Rightarrow> ('s, json) sop" where
  "router_doc_partial_update r c i d =
     with_timeout r (tc_document_write_ms (sr_timeouts r)) ''doc_partial_update'' (da_partial_update (sr_doc r) c i d)"

definition router_doc_delete :: "'s storage_router \<Rightarrow> string \<Rightarrow> string \<Rightarrow> ('s, unit) sop" where
  "router_doc_delete r c i = with_timeout r (tc_document_write_ms (sr_timeouts r)) ''doc_delete'' (da_delete (sr_doc r) c i)"

definition router_doc_batch_create :: "'s storage_router \<Rightarrow> string \<Rightarrow> json list \<Rightarrow> ('s, json list) sop" where
  "router_doc_batch_create r c ds =
     with_timeout r (tc_document_write_ms (sr_timeouts r)) ''doc_batch_create'' (da_batch_create (sr_doc r) c ds)"

definition router_doc_batch_update :: "'s storage_router \<Rightarrow> string \<Rightarrow> (string \<times> json) list \<Rightarrow> ('s, json list) sop" where
  "router_doc_batch_update r c us =
     with_timeout r (tc_document_write_ms (sr_timeouts r)) ''doc_batch_update'' (da_batch_update (sr_doc r) c us)"

definition router_doc_batch_delete :: "'s storage_router \<Rightarrow> string \<Rightarrow> string list \<Rightarrow> ('s, unit) sop" where
  "router_doc_batch_delete r c is =
     with_timeout r (tc_document_write_ms (sr_timeouts r)) ''doc_batch_delete'' (da_batch_delete (sr_doc r) c is)"

definition router_doc_migrate :: "'s storage_router \<Rightarrow> collection_descriptor \<Rightarrow> ('s, unit) sop" where
  "router_doc_migrate r d =
     with_timeout r (tc_document_write_ms (sr_timeouts r)) ''doc_migrate'' (da_migrate (sr_doc r) d)"

definition router_blob_retrieve :: "'s storage_router \<Rightarrow> string \<Rightarrow> ('s, string \<times> blob_meta) sop" where
  "router_blob_retrieve r k = with_timeout r (tc_blob_read_ms (sr_timeouts r)) ''blob_retrieve'' (ba_retrieve (sr_blob r) k)"

definition router_blob_exists :: "'s storage_router \<Rightarrow> string \<Rightarrow> ('s, bool) sop" where
  "router_blob_exists r k = with_timeout r (tc_blob_read_ms (sr_timeouts r)) ''blob_exists'' (ba_exists (sr_blob r) k)"

definition router_blob_list :: "'s storage_router \<Rightarrow> string \<Rightarrow> ('s, blob_meta list) sop" where
  "router_blob_list r p = with_timeout r (tc_blob_read_ms (sr_timeouts r)) ''blob_list'' (ba_list (sr_blob r) p)"

definition router_blob_metadata :: "'s storage_router \<Rightarrow> string \<Rightarrow> ('s, blob_meta) sop" where
  "router_blob_metadata r k = with_timeout r (tc_blob_read_ms (sr_timeouts r)) ''blob_metadata'' (ba_metadata (sr_blob r) k)"

definition router_blob_store :: "'s storage_router \<Rightarrow> string \<Rightarrow> blob_input \<Rightarrow> ('s, blob_meta) sop" where
  "router_blob_store r k b = with_timeout r (tc_blob_write_ms (sr_timeouts r)) ''blob_store'' (ba_store (sr_blob r) k b)"

definition router_blob_copy :: "'s storage_router \<Rightarrow> string \<Rightarrow> string \<Rightarrow> ('s, blob_meta) sop" where
  "router_blob_copy r k k' = with_timeout r (tc_blob_write_ms (sr_timeouts r)) ''blob_copy'' (ba_copy (sr_blob r) k k')"

definition router_blob_delete :: "'s storage_router \<Rightarrow> string \<Rightarrow> ('s, unit) sop" where
  "router_blob_delete r k = with_timeout r (tc_blob_write_ms (sr_timeouts r)) ''blob_delete'' (ba_delete (sr_blob r) k)"

definition worst_status :: "health_status \<Rightarrow> health_status \<Rightarrow> health_status" where
  "worst_status a b =
     (if a = Unhealthy \<or> b = Unhealthy then Unhealthy
      else if a = Degraded \<or> b = Degraded then Degraded else Healthy)"

fun health_status_to_string :: "health_status \<Rightarrow> string" where
  "health_status_to_string Healthy = ''Healthy''"
| "health_status_to_string Degraded = ''Degraded''"
| "health_status_to_string Unhealthy = ''Unhealthy''"

text \<open>Both adapters are asked; the error of the document adapter comes first.\<close>

definition router_health :: "'s storage_router \<Rightarrow> ('s, health_report) sop" where
  "router_health r s =
     (let (doc, s1) = da_health (sr_doc r) s;
          (blob, s2) = ba_health (sr_blob r) s1
      in (r_bind doc (\<lambda>d. r_bind blob (\<lambda>b.
            Inr \<lparr>hr_status = worst_status (hr_status d) (hr_status b),
                 hr_message = Some (''document: '' @ health_status_to_string (hr_status d) @
                   '', blob: '' @ health_status_to_string (hr_status b)),
                 hr_checks = hr_checks d @ hr_checks b\<rparr>)), s2))"

datatype startup_error =
    UnknownDocumentAdapter string
  | UnknownBlobAdapter string
  | CapabilityMismatch string
  | HealthCheckFailed string
  | ConfigError string

definition check_capabilities ::
  "adapter_capabilities \<Rightarrow> required_capabilities \<Rightarrow> (startup_error, unit) result" where
  "check_capabilities actual req =
     (let missing =
        (if rc_transactions req \<and> \<not> ac_transactions actual then [''transactions''] else []) @
        (if rc_full_text_search req \<and> \<not> ac_full_text_search actual then [''full_text_search''] else []) @
        (if rc_watch req \<and> \<not> ac_watch actual then [''watch''] else []) @
        (if rc_batch_operations req \<and> \<not> ac_batch_operations actual then [''batch_operations''] else []) @
        (if rc_encryption req \<and> \<not> ac_encryption actual then [''encryption''] else [])
      in if missing = [] then Inr ()
         else Inl (CapabilityMismatch (''adapter missing required capabilities: '' @ join '', '' missing)))"

record storage_config =
  cfg_document_adapter :: string
  cfg_blob_adapter :: string
  cfg_timeouts :: timeout_config
  cfg_required :: required_capabilities

definition router_from_config ::
  "(string \<Rightarrow> 's doc_adapter option) \<Rightarrow> (string \<Rightarrow> 's blob_adapter option) \<Rightarrow> (string \<Rightarrow> 's \<Rightarrow> bool option) \<Rightarrow>
     storage_config \<Rightarrow> 's \<Rightarrow> (startup_error, 's storage_router) result \<times> 's" where
  "router_from_config resolve_doc resolve_blob deadline cfg s =
     (case ok_or (resolve_doc (cfg_document_adapter cfg)) (UnknownDocumentAdapter (cfg_document_adapter cfg)) of
        Inl e \<Rightarrow> (Inl e, s)
      | Inr doc \<Rightarrow>
          (case ok_or (resolve_blob (cfg_blob_adapter cfg)) (UnknownBlobAdapter (cfg_blob_adapter cfg)) of
             Inl e \<Rightarrow> (Inl e, s)
           | Inr blob \<Rightarrow>
               (case check_capabilities (da_capabilities doc) (cfg_required cfg) of
                  Inl e \<Rightarrow> (Inl e, s)
                | Inr _ \<Rightarrow>
                    (let r = \<lparr>sr_doc = doc, sr_blob = blob, sr_timeouts = cfg_timeouts cfg, sr_deadline = deadline\<rparr>
                     in case router_health r s of
                          (Inl e, s') \<Rightarrow> (Inl (HealthCheckFailed (storage_error_to_string e)), s')
                        | (Inr h, s') \<Rightarrow>
                            if hr_status h = Unhealthy
                            then (Inl (HealthCheckFailed (''storage unhealthy: '' @
                                    (case hr_message h of Some m \<Rightarrow> m | None \<Rightarrow> []))), s')
                            else (Inr r, s')))))"

section \<open>Lemmas\<close>

lemma with_timeout_in_time: "sr_deadline r op s = None \<Longrightarrow> with_timeout r ms op f s = f s"
  by (simp add: with_timeout_def)

lemma with_timeout_state:
  assumes "with_timeout r ms op f s = (x, s')"
  shows "s' = s \<or> s' = snd (f s)"
  using assms by (auto simp: with_timeout_def split: option.splits if_splits)

lemma with_timeout_ok:
  "with_timeout r ms op f s = (Inr x, s') \<Longrightarrow> f s = (Inr x, s')"
  by (auto simp: with_timeout_def split: option.splits)

lemma worst_status_unhealthy: "worst_status a b = Unhealthy \<longleftrightarrow> a = Unhealthy \<or> b = Unhealthy"
  by (cases a; cases b) (simp_all add: worst_status_def)

lemma check_capabilities_ok:
  "is_ok (check_capabilities a r) \<longleftrightarrow>
     (rc_transactions r \<longrightarrow> ac_transactions a) \<and> (rc_full_text_search r \<longrightarrow> ac_full_text_search a) \<and>
     (rc_watch r \<longrightarrow> ac_watch a) \<and> (rc_batch_operations r \<longrightarrow> ac_batch_operations a) \<and>
     (rc_encryption r \<longrightarrow> ac_encryption a)"
  by (simp add: check_capabilities_def Let_def)

lemma blob_key_new_ok:
  "blob_key_new key = Inr k \<longleftrightarrow>
     k = key \<and> \<not> contains_str key ''..'' \<and> 3 \<le> length (split_on (CHR ''/'') key) \<and>
     [] \<notin> set (split_on (CHR ''/'') key)"
proof -
  have "[] \<in> set (split_on (CHR ''/'') key)" if "starts_with key ''/''"
    using that by (cases key) (auto simp: starts_with_def)
  then show ?thesis by (auto simp: blob_key_new_def Let_def list_ex_iff)
qed

section \<open>Contracts\<close>

context state_order
begin

lemma moves_with_timeout:
  assumes "moves R f"
  shows "moves R (with_timeout r ms op f)"
  using assms by (auto simp: moves_def with_timeout_def R_refl split: option.splits)

end

text \<open>
  What the layers above rely on in a document adapter. \<open>view s c\<close> is the content of a collection;
  \<open>text_ok\<close> says that the adapter reads back the text it has written. An operation on one collection
  leaves the others alone; a document that has been created is there under its id, unless the database
  fails; and a created document has the fields it was given, the system fields apart.
\<close>

definition elsewhere :: "('s \<Rightarrow> string \<Rightarrow> 'v) \<Rightarrow> string \<Rightarrow> 's \<Rightarrow> 's \<Rightarrow> bool" where
  "elsewhere view c s s' \<longleftrightarrow> (\<forall>c'. c' \<noteq> c \<longrightarrow> view s' c' = view s c')"

locale document_store =
  fixes da :: "'s doc_adapter" and view :: "'s \<Rightarrow> string \<Rightarrow> 'v" and text_ok :: bool
  assumes get_frame: "moves (elsewhere view c) (da_get da c i)"
    and create_frame: "moves (elsewhere view c) (da_create da c d)"
    and update_frame: "moves (elsewhere view c) (da_update da c i d)"
    and delete_frame: "moves (elsewhere view c) (da_delete da c i)"
    and query_frame: "moves (elsewhere view (qd_collection q)) (da_query da q)"
    and count_frame: "moves (elsewhere view c) (da_count da c f)"
    and get_created: "da_create da c d s = (Inr d', s') \<Longrightarrow> json_get d' ''id'' = Some (JString i) \<Longrightarrow>
      fst (da_get da c i s') = Inr d' \<or> (\<exists>m. fst (da_get da c i s') = Inl (Internal m))"
    and create_fields: "text_ok \<Longrightarrow> da_create da c (JObject ob) s = (Inr d', s') \<Longrightarrow>
      \<exists>ob'. d' = JObject ob' \<and>
        (\<forall>k. k \<notin> {''id'', ''created_at'', ''updated_at''} \<longrightarrow> obj_get ob' k = obj_get ob k) \<and>
        (\<forall>i. obj_get ob ''id'' = Some (JString i) \<longrightarrow> obj_get ob' ''id'' = Some (JString i))"

section \<open>Properties\<close>

text \<open>
  A router comes up only on usable adapters. If the start-up sequence returns a router, then both
  adapter names were resolved, the document adapter has every required capability, and neither adapter
  reported itself unhealthy.
\<close>

theorem router_startup:
  assumes "router_from_config resolve_doc resolve_blob deadline cfg s = (Inr r, s')"
  shows "resolve_doc (cfg_document_adapter cfg) = Some (sr_doc r) \<and>
    resolve_blob (cfg_blob_adapter cfg) = Some (sr_blob r) \<and>
    is_ok (check_capabilities (da_capabilities (sr_doc r)) (cfg_required cfg)) \<and>
    (\<exists>d b s1. da_health (sr_doc r) s = (Inr d, s1) \<and> ba_health (sr_blob r) s1 = (Inr b, s') \<and>
       hr_status d \<noteq> Unhealthy \<and> hr_status b \<noteq> Unhealthy)"
  using assms
  by (auto simp: router_from_config_def router_health_def ok_or_def Let_def r_bind_eq_Inr
      r_bind_eq_Inl worst_status_unhealthy split: option.splits sum.splits prod.splits if_splits)

definition idle_doc_adapter :: "unit doc_adapter" where
  "idle_doc_adapter =
     \<lparr>da_get = (\<lambda>c i. s_fail (NotFound c i)), da_create = (\<lambda>c d. s_return d),
      da_update = (\<lambda>c i d. s_return d), da_partial_update = (\<lambda>c i d. s_return d),
      da_delete = (\<lambda>c i. s_return ()),
      da_query = (\<lambda>q. s_return \<lparr>dl_documents = [], dl_total_count = 0, dl_next_cursor = None\<rparr>),
      da_count = (\<lambda>c f. s_return 0), da_batch_create = (\<lambda>c ds. s_return ds),
      da_batch_update = (\<lambda>c us. s_return []), da_batch_delete = (\<lambda>c is. s_return ()),
      da_migrate = (\<lambda>d. s_return ()),
      da_health = s_return \<lparr>hr_status = Healthy, hr_message = None, hr_checks = []\<rparr>,
      da_capabilities = \<lparr>ac_indexing = False, ac_transactions = True, ac_full_text_search = False,
        ac_watch = False, ac_batch_operations = True, ac_encryption = False\<rparr>\<rparr>"

definition idle_blob_adapter :: "'s blob_adapter" where
  "idle_blob_adapter =
     \<lparr>ba_store = (\<lambda>k b. s_fail (Internal [])), ba_retrieve = (\<lambda>k. s_fail (NotFound [] k)),
      ba_delete = (\<lambda>k. s_return ()), ba_exists = (\<lambda>k. s_return False),
      ba_copy = (\<lambda>k k'. s_fail (NotFound [] k)), ba_list = (\<lambda>p. s_return []),
      ba_metadata = (\<lambda>k. s_fail (NotFound [] k)),
      ba_health = s_return \<lparr>hr_status = Degraded, hr_message = None, hr_checks = []\<rparr>\<rparr>"

definition sample_config :: storage_config where
  "sample_config = \<lparr>cfg_document_adapter = ''sqlite'', cfg_blob_adapter = ''fs'',
     cfg_timeouts = default_timeouts,
     cfg_required = \<lparr>rc_transactions = True, rc_full_text_search = False, rc_watch = False,
       rc_batch_operations = False, rc_encryption = False\<rparr>\<rparr>"

theorem router_startup_witness:
  "\<exists>r. router_from_config (\<lambda>n. Some idle_doc_adapter) (\<lambda>n. Some idle_blob_adapter) (\<lambda>_ _. None)
      sample_config () = (Inr r, ()) \<and>
    is_ok (check_capabilities (da_capabilities (sr_doc r)) (cfg_required sample_config))"
proof -
  obtain r where r: "router_from_config (\<lambda>n. Some idle_doc_adapter) (\<lambda>n. Some idle_blob_adapter) (\<lambda>_ _. None)
      sample_config () = (Inr r, ())"
    by (simp add: router_from_config_def check_capabilities_def router_health_def worst_status_def
        sample_config_def idle_doc_adapter_def idle_blob_adapter_def s_return_def)
  from router_startup [OF r] r show ?thesis by blast
qed

text \<open>
  Blob keys. A string is a blob key exactly when it has at least three \<open>/\<close>-separated segments, none
  of them empty, and nowhere contains two dots in a row; in particular a key has no leading or trailing
  slash and no path traversal.
\<close>

theorem blob_key_valid:
  "is_ok (blob_key_new key) \<longleftrightarrow>
     \<not> contains_str key ''..'' \<and> 3 \<le> length (split_on (CHR ''/'') key) \<and>
     list_all (\<lambda>seg. seg \<noteq> []) (split_on (CHR ''/'') key)"
  using blob_key_new_ok [of key] by (auto simp: is_ok_iff list_all_iff)

end
