(* ===== verification/Index_Hints.thy ===== *)
theory Index_Hints
  imports Engine_Error "HOL-Library.Multiset"
begin

text \<open>
  Index hints of collections (\<open>traits/src/index_hints.rs\<close>): reading them from a manifest and merging a
  plugin's hints with the defaults of the canonical collections. The error is its message.
\<close>

section \<open>Parsing\<close>

record index_hint =
  ih_fields :: "string list"
  ih_unique :: bool
  ih_name :: "string option"

definition hint_at :: "nat \<Rightarrow> string" where
  "hint_at i = ''indexes['' @ show_nat i @ '']''"

fun parse_fields :: "nat \<Rightarrow> nat \<Rightarrow> json list \<Rightarrow> (string, string list) result" where
  "parse_fields i j [] = Inr []"
| "parse_fields i j (f # fs) =
     r_bind (ok_or (as_str f) (hint_at i @ ''.fields['' @ show_nat j @ '']: must be a string''))
       (\<lambda>s. r_bind (parse_fields i (Suc j) fs) (\<lambda>ss. Inr (s # ss)))"

definition parse_hint :: "nat \<Rightarrow> json \<Rightarrow> (string, index_hint) result" where
  "parse_hint i entry =
     r_bind (ok_or (json_get entry ''fields'') (hint_at i @ '': missing required field '' @ quoted ''fields'')) (\<lambda>fields_val.
       r_bind (ok_or (as_array fields_val) (hint_at i @ '': '' @ quoted ''fields'' @ '' must be an array'')) (\<lambda>fields_arr.
         if fields_arr = [] then Inl (hint_at i @ '': '' @ quoted ''fields'' @ '' must not be empty'')
         else r_bind (parse_fields i 0 fields_arr) (\<lambda>fs.
           r_bind (case json_get entry ''unique'' of
               Some v \<Rightarrow> ok_or (as_bool v) (hint_at i @ '': '' @ quoted ''unique'' @ '' must be a boolean'')
             | None \<Rightarrow> Inr False) (\<lambda>unique.
             Inr \<lparr>ih_fields = fs, ih_unique = unique, ih_name = Option.bind (json_get entry ''name'') as_str\<rparr>))))"

fun parse_hints :: "nat \<Rightarrow> json list \<Rightarrow> (string, index_hint list) result" where
  "parse_hints i [] = Inr []"
| "parse_hints i (e # es) =
     r_bind (parse_hint i e) (\<lambda>h. r_bind (parse_hints (Suc i) es) (\<lambda>hs. Inr (h # hs)))"

definition parse_index_hints :: "json \<Rightarrow> (string, index_hint list) result" where
  "parse_index_hints manifest_collection =
     (case json_get manifest_collection ''indexes'' of
        None \<Rightarrow> Inr []
      | Some v \<Rightarrow>
          if is_null v then Inr []
          else r_bind (ok_or (as_array v) ''indexes must be an array'') (parse_hints 0))"

text \<open>The derived serialisation of a hint; a missing name is left out.\<close>

definition index_hint_to_value :: "index_hint \<Rightarrow> json" where
  "index_hint_to_value h =
     JObject (obj_of ([(''fields'', JArray (map JString (ih_fields h))), (''unique'', JBool (ih_unique h))] @
       (case ih_name h of Some n \<Rightarrow> [(''name'', JString n)] | None \<Rightarrow> [])))"

section \<open>Merging\<close>

definition hint_key :: "index_hint \<Rightarrow> string list" where
  "hint_key h = sort (ih_fields h)"

definition merge_index_hints :: "index_hint list \<Rightarrow> index_hint list \<Rightarrow> index_hint list" where
  "merge_index_hints cdm_hints plugin_hints =
     filter (\<lambda>h. hint_key h \<notin> set (map hint_key plugin_hints)) cdm_hints @ plugin_hints"

section \<open>Lemmas\<close>

lemma parse_fields_strings: "parse_fields i j (map JString ss) = Inr ss"
  by (induction ss arbitrary: j) simp_all

lemma parse_hint_to_value:
  assumes "ih_fields h \<noteq> []"
  shows "parse_hint i (index_hint_to_value h) = Inr h"
  using assms
  by (cases "ih_name h")
    (auto simp: parse_hint_def index_hint_to_value_def obj_of_def json_get_def obj_get_insert parse_fields_strings
      as_array_def as_bool_def)

lemma parse_hints_to_value:
  "\<forall>h \<in> set hs. ih_fields h \<noteq> [] \<Longrightarrow> parse_hints i (map index_hint_to_value hs) = Inr hs"
  by (induction hs arbitrary: i) (simp_all add: parse_hint_to_value)

lemma parse_hint_nonempty: "parse_hint i e = Inr h \<Longrightarrow> ih_fields h \<noteq> []"
proof -
  have len: "parse_fields i j fs = Inr ss \<Longrightarrow> length ss = length fs" for j fs ss
    by (induction fs arbitrary: j ss) (auto simp: r_bind_eq_Inr)
  show "parse_hint i e = Inr h \<Longrightarrow> ih_fields h \<noteq> []"
    by (auto simp: parse_hint_def r_bind_eq_Inr split: if_splits dest!: len)
qed

lemma parse_hints_nonempty: "parse_hints i es = Inr hs \<Longrightarrow> h \<in> set hs \<Longrightarrow> ih_fields h \<noteq> []"
  by (induction es arbitrary: i hs) (auto simp: r_bind_eq_Inr parse_hint_nonempty)

lemma parse_index_hints_nonempty: "parse_index_hints m = Inr hs \<Longrightarrow> h \<in> set hs \<Longrightarrow> ih_fields h \<noteq> []"
  by (auto simp: parse_index_hints_def r_bind_eq_Inr parse_hints_nonempty split: option.splits if_splits)

section \<open>Properties\<close>

text \<open>
  Index hints round trip, and merging gives precedence to the plugin. Hints with fields are read back
  from their serialisation; every hint that is read has a field; a merge contains all of the plugin's
  hints and of the defaults exactly those whose set of fields (with multiplicity, in any order) no
  hint of the plugin has.
\<close>

theorem index_hints_round_trip_and_merge:
  "((\<forall>h \<in> set hs. ih_fields h \<noteq> []) \<longrightarrow>
      parse_index_hints (JObject [(''indexes'', JArray (map index_hint_to_value hs))]) = Inr hs) \<and>
   (\<forall>m hs h. parse_index_hints m = Inr hs \<longrightarrow> h \<in> set hs \<longrightarrow> ih_fields h \<noteq> []) \<and>
   (h \<in> set (merge_index_hints cdm plugin) \<longleftrightarrow>
      h \<in> set plugin \<or> (h \<in> set cdm \<and> (\<forall>p \<in> set plugin. mset (ih_fields p) \<noteq> mset (ih_fields h))))"
proof (intro conjI)
  show "(\<forall>h \<in> set hs. ih_fields h \<noteq> []) \<longrightarrow>
      parse_index_hints (JObject [(''indexes'', JArray (map index_hint_to_value hs))]) = Inr hs"
    by (simp add: parse_index_hints_def json_get_def is_null_def as_array_def parse_hints_to_value)
  show "\<forall>m hs h. parse_index_hints m = Inr hs \<longrightarrow> h \<in> set hs \<longrightarrow> ih_fields h \<noteq> []"
    using parse_index_hints_nonempty by blast
  have "hint_key p = hint_key h \<longleftrightarrow> mset (ih_fields p) = mset (ih_fields h)" for p
    unfolding hint_key_def by (metis mset_sort properties_for_sort sorted_sort)
  then show "h \<in> set (merge_index_hints cdm plugin) \<longleftrightarrow>
      h \<in> set plugin \<or> (h \<in> set cdm \<and> (\<forall>p \<in> set plugin. mset (ih_fields p) \<noteq> mset (ih_fields h)))"
    unfolding merge_index_hints_def by (auto simp: image_iff) metis+
qed

theorem index_hints_round_trip_and_merge_witness:
  "parse_index_hints (JObject [(''indexes'', JArray [index_hint_to_value
     \<lparr>ih_fields = [''email''], ih_unique = True, ih_name = Some ''by_email''\<rparr>])]) =
   Inr [\<lparr>ih_fields = [''email''], ih_unique = True, ih_name = Some ''by_email''\<rparr>]"
  using index_hints_round_trip_and_merge
    [of "[\<lparr>ih_fields = [''email''], ih_unique = True, ih_name = Some ''by_email''\<rparr>]" undefined "[]" "[]"]
  by simp

end
