(* ===== verification/Schema_Registry.thy ===== *)
theory Schema_Registry
  imports Storage_Types Index_Hints
begin

text \<open>
  The schema registry of \<open>traits/src/schema.rs\<close>: registration of collections and the validation of a
  document before it is written. JSON parsing and the JSON-Schema crate are parameters: compiling a
  schema gives an error text or the function that lists the errors of an instance. The UUIDs and the
  timestamp \<open>validate_write\<close> draws are arguments; the texts of the seven embedded schemas are a
  parameter too.
\<close>

section \<open>The registry\<close>

datatype schema_error =
    InvalidSchema string string
  | SchemaValidationFailed string string
  | ImmutableField string
  | NamespaceViolation string string

fun schema_error_to_string :: "schema_error \<Rightarrow> string" where
  "schema_error_to_string (InvalidSchema c m) = ''invalid schema for collection '' @ quoted c @ '': '' @ m"
| "schema_error_to_string (SchemaValidationFailed c m) =
     ''validation failed for collection '' @ quoted c @ '': '' @ m"
| "schema_error_to_string (ImmutableField f) =
     ''immutable field '' @ quoted f @ '' cannot be changed on update''"
| "schema_error_to_string (NamespaceViolation p n) =
     ''namespace violation: plugin '' @ quoted p @ '' cannot write to ext.'' @ n"

type_synonym error_list = "json \<Rightarrow> string list"
type_synonym schema_compile = "json \<Rightarrow> (string, error_list) result"
type_synonym json_parser = "string \<Rightarrow> (string, json) result"

record collection_schema =
  cs_collection :: string
  cs_plugin_id :: string
  cs_validator :: "error_list option"
  cs_extension_validator :: "error_list option"
  cs_strict :: bool
  cs_index_hints :: "index_hint list"

record schema_registry =
  sg_cdm_validators :: "string \<rightharpoonup> error_list"
  sg_cdm_values :: "string \<rightharpoonup> json"
  sg_collections :: "string \<times> string \<rightharpoonup> collection_schema"
  sg_schema_values :: "string \<times> string \<rightharpoonup> json"

definition sg_new :: schema_registry where
  "sg_new = \<lparr>sg_cdm_validators = Map.empty, sg_cdm_values = Map.empty,
     sg_collections = Map.empty, sg_schema_values = Map.empty\<rparr>"

definition canonical_collections :: "string list" where
  "canonical_collections =
     [''events'', ''tasks'', ''contacts'', ''notes'', ''emails'', ''files'', ''credentials'']"

definition is_canonical :: "string \<Rightarrow> bool" where
  "is_canonical c = (c \<in> set canonical_collections)"

text \<open>
  The texts are those of the embedded files, in the order of the canonical collections. Schemas loaded
  before the first failure stay in the registry.
\<close>

definition load_cdm_schema ::
  "json_parser \<Rightarrow> schema_compile \<Rightarrow> string \<times> string \<Rightarrow> schema_registry \<Rightarrow> (schema_error, schema_registry) result" where
  "load_cdm_schema parse compile = (\<lambda>(name, raw) reg.
     r_bind (map_err (\<lambda>e. InvalidSchema name (''invalid JSON: '' @ e)) (parse raw))
       (\<lambda>v. r_bind (map_err (\<lambda>e. InvalidSchema name (''failed to compile: '' @ e)) (compile v))
          (\<lambda>validator. Inr (reg\<lparr>sg_cdm_validators := (sg_cdm_validators reg)(name \<mapsto> validator),
                                sg_cdm_values := (sg_cdm_values reg)(name \<mapsto> v)\<rparr>))))"

fun load_cdm_loop ::
  "json_parser \<Rightarrow> schema_compile \<Rightarrow> (string \<times> string) list \<Rightarrow> schema_registry \<Rightarrow>
     (schema_error, unit) result \<times> schema_registry" where
  "load_cdm_loop parse compile [] reg = (Inr (), reg)"
| "load_cdm_loop parse compile (entry # rest) reg =
     (case load_cdm_schema parse compile entry reg of
        Inl e \<Rightarrow> (Inl e, reg)
      | Inr reg' \<Rightarrow> load_cdm_loop parse compile rest reg')"

definition load_cdm_schemas ::
  "json_parser \<Rightarrow> schema_compile \<Rightarrow> string list \<Rightarrow> schema_registry \<Rightarrow> (schema_error, unit) result \<times> schema_registry" where
  "load_cdm_schemas parse compile texts reg =
     load_cdm_loop parse compile (zip canonical_collections texts) reg"

text \<open>Resolution of a schema reference: the validator, and the registry with a custom schema's value.\<close>

definition resolve_schema ::
  "json_parser \<Rightarrow> schema_compile \<Rightarrow> string \<Rightarrow> string \<Rightarrow> string option \<Rightarrow> schema_registry \<Rightarrow>
     (schema_error, error_list option \<times> schema_registry) result" where
  "resolve_schema parse compile pid c schema_ref reg =
     (case schema_ref of
        None \<Rightarrow> Inr (None, reg)
      | Some s \<Rightarrow>
          if starts_with s ''cdm:'' then
            (let cdm_name = drop 4 s
             in r_bind (ok_or (sg_cdm_values reg cdm_name)
                          (InvalidSchema c (''unknown CDM schema '' @ quoted cdm_name)))
                  (\<lambda>v. r_bind (map_err (\<lambda>e. InvalidSchema c (''failed to compile CDM schema: '' @ e)) (compile v))
                     (\<lambda>validator. Inr (Some validator, reg))))
          else
            r_bind (map_err (\<lambda>e. InvalidSchema c (''invalid schema JSON: '' @ e)) (parse s))
              (\<lambda>v. r_bind (map_err (\<lambda>e. InvalidSchema c (''failed to compile schema: '' @ e)) (compile v))
                 (\<lambda>validator. Inr (Some validator,
                    reg\<lparr>sg_schema_values := (sg_schema_values reg)((pid, c) \<mapsto> v)\<rparr>))))"

definition resolve_extension ::
  "json_parser \<Rightarrow> schema_compile \<Rightarrow> string \<Rightarrow> string option \<Rightarrow> (schema_error, error_list option) result" where
  "resolve_extension parse compile c ext =
     (case ext of
        None \<Rightarrow> Inr None
      | Some s \<Rightarrow>
          r_bind (map_err (\<lambda>e. InvalidSchema c (''invalid extension schema JSON: '' @ e)) (parse s))
            (\<lambda>v. r_bind (map_err (\<lambda>e. InvalidSchema c (''failed to compile extension schema: '' @ e)) (compile v))
               (\<lambda>validator. Inr (Some validator))))"

text \<open>
  The result is the outcome and the registry: the value of a custom schema has already been stored when
  the extension schema turns out to be invalid.
\<close>

definition register_plugin_collection ::
  "json_parser \<Rightarrow> schema_compile \<Rightarrow> string \<Rightarrow> string \<Rightarrow> string option \<Rightarrow> string option \<Rightarrow> bool \<Rightarrow>
     index_hint list \<Rightarrow> schema_registry \<Rightarrow> (schema_error, unit) result \<times> schema_registry" where
  "register_plugin_collection parse compile pid c schema_ref ext strict index_hints reg =
     (case resolve_schema parse compile pid c schema_ref reg of
        Inl e \<Rightarrow> (Inl e, reg)
      | Inr (validator, reg') \<Rightarrow>
          (case resolve_extension parse compile c ext of
             Inl e \<Rightarrow> (Inl e, reg')
           | Inr ext_validator \<Rightarrow>
               (Inr (), reg'\<lparr>sg_collections := (sg_collections reg')((pid, c) \<mapsto>
                  \<lparr>cs_collection = c, cs_plugin_id = pid, cs_validator = validator,
                   cs_extension_validator = ext_validator, cs_strict = strict,
                   cs_index_hints = index_hints\<rparr>)\<rparr>)))"

definition get_collection :: "schema_registry \<Rightarrow> string \<Rightarrow> string \<Rightarrow> collection_schema option" where
  "get_collection reg pid c = sg_collections reg (pid, c)"

section \<open>Validation of a write\<close>

definition extract_property_keys :: "json \<Rightarrow> string list option" where
  "extract_property_keys v =
     (case as_object v of
        None \<Rightarrow> None
      | Some o1 \<Rightarrow>
          (case obj_get o1 ''properties'' of
             None \<Rightarrow> None
           | Some p \<Rightarrow> map_option obj_keys (as_object p)))"

definition get_schema_properties :: "schema_registry \<Rightarrow> string \<Rightarrow> string \<Rightarrow> string list option" where
  "get_schema_properties reg pid c =
     (case sg_cdm_values reg c of
        Some v \<Rightarrow> extract_property_keys v
      | None \<Rightarrow>
          (case sg_schema_values reg (pid, c) of
             Some v \<Rightarrow> extract_property_keys v
           | None \<Rightarrow> None))"

definition generate_id :: "bool \<Rightarrow> string \<Rightarrow> jobject \<Rightarrow> jobject" where
  "generate_id is_create fresh ob =
     (if is_create \<and> \<not> obj_contains ob ''id'' then obj_insert ''id'' (JString fresh) ob else ob)"

definition check_immutable_field :: "string \<Rightarrow> jobject \<Rightarrow> jobject \<Rightarrow> (schema_error, unit) result" where
  "check_immutable_field field ob old =
     (case (obj_get ob field, obj_get old field) of
        (Some n, Some b) \<Rightarrow> if n \<noteq> b then Inl (ImmutableField field) else Inr ()
      | _ \<Rightarrow> Inr ())"

definition check_immutable :: "bool \<Rightarrow> json option \<Rightarrow> jobject \<Rightarrow> (schema_error, unit) result" where
  "check_immutable is_create existing ob =
     (if is_create then Inr ()
      else
        (case Option.bind existing as_object of
           None \<Rightarrow> Inr ()
         | Some old \<Rightarrow> r_bind (check_immutable_field ''id'' ob old)
                        (\<lambda>_. check_immutable_field ''created_at'' ob old)))"

text \<open>The namespaces below one of the two extension fields must be the plugin's own.\<close>

definition check_namespaces :: "string \<Rightarrow> string \<Rightarrow> jobject \<Rightarrow> (schema_error, unit) result" where
  "check_namespaces field pid ob =
     (case Option.bind (obj_get ob field) as_object of
        None \<Rightarrow> Inr ()
      | Some ext \<Rightarrow>
          check_all (\<lambda>ns. if ns \<noteq> pid then Inl (NamespaceViolation pid ns) else Inr ()) (obj_keys ext))"

definition system_fields :: "string list" where
  "system_fields = [''id'', ''created_at'', ''updated_at'', ''ext'', ''extensions'']"

definition check_strict ::
  "schema_registry \<Rightarrow> collection_schema \<Rightarrow> string \<Rightarrow> string \<Rightarrow> jobject \<Rightarrow> (schema_error, unit) result" where
  "check_strict reg schema pid c ob =
     (if \<not> cs_strict schema then Inr ()
      else
        (case get_schema_properties reg pid c of
           None \<Rightarrow> Inr ()
         | Some props \<Rightarrow>
             check_all
               (\<lambda>key. if key \<in> set system_fields then Inr ()
                  else if key \<notin> set props
                  then Inl (SchemaValidationFailed c (''strict mode: unknown field '' @ quoted key @
                         '' not defined in schema''))
                  else Inr ())
               (obj_keys ob)))"

definition extension_data :: "string \<Rightarrow> jobject \<Rightarrow> json option" where
  "extension_data pid ob =
     (let under = (\<lambda>field. Option.bind (Option.bind (obj_get ob field) as_object) (\<lambda>e. obj_get e pid))
      in case under ''ext'' of Some d \<Rightarrow> Some d | None \<Rightarrow> under ''extensions'')"

definition check_extension :: "collection_schema \<Rightarrow> string \<Rightarrow> string \<Rightarrow> jobject \<Rightarrow> (schema_error, unit) result" where
  "check_extension schema pid c ob =
     (case (cs_extension_validator schema, extension_data pid ob) of
        (Some v, Some d) \<Rightarrow>
          (case v d of
             [] \<Rightarrow> Inr ()
           | e # _ \<Rightarrow> Inl (SchemaValidationFailed c (''extension validation: '' @ e)))
      | _ \<Rightarrow> Inr ())"

definition restore :: "string \<Rightarrow> json option \<Rightarrow> jobject \<Rightarrow> jobject" where
  "restore field saved ob = (case saved of Some v \<Rightarrow> obj_insert field v ob | None \<Rightarrow> ob)"

definition strip_system :: "jobject \<Rightarrow> jobject" where
  "strip_system ob = obj_remove ''updated_at'' (obj_remove ''created_at'' (obj_remove ''id'' ob))"

text \<open>The document the validator sees: system fields replaced by placeholders.\<close>

definition with_placeholders :: "json \<Rightarrow> string \<Rightarrow> jobject \<Rightarrow> jobject" where
  "with_placeholders i ts ob =
     obj_insert ''updated_at'' (JString ts) (obj_insert ''created_at'' (JString ts)
       (obj_insert ''id'' i ob))"

definition validate_write ::
  "schema_registry \<Rightarrow> string \<times> string \<Rightarrow> string \<Rightarrow> string \<Rightarrow> string \<Rightarrow> json \<Rightarrow> bool \<Rightarrow> json option \<Rightarrow>
     (schema_error, json) result" where
  "validate_write reg uuids ts c pid document is_create existing =
     r_bind (ok_or (sg_collections reg (pid, c))
               (SchemaValidationFailed c (''no schema registered for plugin '' @ quoted pid @
                  '' collection '' @ quoted c)))
       (\<lambda>schema. case cs_validator schema of
          None \<Rightarrow> Inr document
        | Some validator \<Rightarrow>
            r_bind (ok_or (as_object document)
                      (SchemaValidationFailed c ''document must be a JSON object''))
              (\<lambda>ob0. let ob1 = generate_id is_create (fst uuids) ob0 in
                 r_bind (check_immutable is_create existing ob1)
                   (\<lambda>_. let saved_id = obj_get ob1 ''id''; saved_ca = obj_get ob1 ''created_at'';
                            saved_ua = obj_get ob1 ''updated_at''; ob2 = strip_system ob1 in
                      r_bind (check_namespaces ''ext'' pid ob2)
                        (\<lambda>_. r_bind (check_namespaces ''extensions'' pid ob2)
                           (\<lambda>_. let placeholder = (case saved_id of Some i \<Rightarrow> i | None \<Rightarrow> JString (snd uuids));
                                    ob3 = with_placeholders placeholder ts ob2 in
                              case validator (JObject ob3) of
                                e # _ \<Rightarrow> Inl (SchemaValidationFailed c e)
                              | [] \<Rightarrow>
                                  r_bind (check_strict reg schema pid c ob3)
                                    (\<lambda>_. r_bind (check_extension schema pid c ob3)
                                       (\<lambda>_. Inr (JObject (restore ''updated_at'' saved_ua
                                              (restore ''created_at'' saved_ca
                                                (restore ''id'' saved_id ob3)))))))))))"

section \<open>Lemmas\<close>

lemma check_namespaces_ok:
  "check_namespaces field pid ob = Inr u \<longleftrightarrow>
     (\<forall>ext. Option.bind (obj_get ob field) as_object = Some ext \<longrightarrow> set (obj_keys ext) \<subseteq> {pid})"
  by (auto simp: check_namespaces_def check_all_eq_Inr split: option.splits if_splits)

lemma check_immutable_field_ok:
  "check_immutable_field field ob old = Inr u \<longleftrightarrow>
     (\<forall>n b. obj_get ob field = Some n \<longrightarrow> obj_get old field = Some b \<longrightarrow> n = b)"
  by (auto simp: check_immutable_field_def split: option.splits)

lemma strip_system_get:
  "obj_get (strip_system ob) k = (if k \<in> {''id'', ''created_at'', ''updated_at''} then None else obj_get ob k)"
  by (simp add: strip_system_def)

lemma with_placeholders_get:
  "k \<notin> {''id'', ''created_at'', ''updated_at''} \<Longrightarrow> obj_get (with_placeholders i ts ob) k = obj_get ob k"
  by (simp add: with_placeholders_def)

lemma restore_get:
  "obj_get (restore field saved ob) k = (if k = field \<and> saved \<noteq> None then saved else obj_get ob k)"
  by (simp add: restore_def split: option.splits)

lemma generate_id_get: "k \<noteq> ''id'' \<Longrightarrow> obj_get (generate_id b u ob) k = obj_get ob k"
  by (simp add: generate_id_def)

lemma generate_id_id: "obj_get ob ''id'' = Some i \<Longrightarrow> obj_get (generate_id b u ob) ''id'' = Some i"
  using obj_get_None_iff [of ob "''id''"] by (auto simp: generate_id_def obj_contains_def)

text \<open>What a successful validation against a schema has gone through.\<close>

lemma validate_writeE:
  assumes "validate_write reg uuids ts c pid document is_create existing = Inr doc'"
    and "sg_collections reg (pid, c) = Some schema" "cs_validator schema = Some validator"
  obtains ob ob1 ob3 where "document = JObject ob" "ob1 = generate_id is_create (fst uuids) ob"
    and "check_immutable is_create existing ob1 = Inr ()"
    and "check_namespaces ''ext'' pid (strip_system ob1) = Inr ()"
    and "check_namespaces ''extensions'' pid (strip_system ob1) = Inr ()"
    and "ob3 = with_placeholders
      (case obj_get ob1 ''id'' of Some i \<Rightarrow> i | None \<Rightarrow> JString (snd uuids)) ts (strip_system ob1)"
    and "validator (JObject ob3) = []" and "check_strict reg schema pid c ob3 = Inr ()"
    and "check_extension schema pid c ob3 = Inr ()"
    and "doc' = JObject (restore ''updated_at'' (obj_get ob1 ''updated_at'')
      (restore ''created_at'' (obj_get ob1 ''created_at'') (restore ''id'' (obj_get ob1 ''id'') ob3)))"
proof -
  obtain ob where ob: "document = JObject ob"
    using assms by (auto simp: validate_write_def r_bind_eq_Inr ok_or_eq_Inr as_object_eq_Some)
  show ?thesis
    by (rule that [OF ob refl _ _ _ refl])
      (use assms ob in \<open>auto simp: validate_write_def r_bind_eq_Inr Let_def split: list.splits\<close>)
qed

section \<open>Properties\<close>


definition sample_registry :: schema_registry where
  "sample_registry = sg_new\<lparr>sg_collections := [(''p'', ''notes'') \<mapsto>
     \<lparr>cs_collection = ''notes'', cs_plugin_id = ''p'', cs_validator = Some (\<lambda>_. []),
      cs_extension_validator = None, cs_strict = False, cs_index_hints = []\<rparr>]\<rparr>"


text \<open>
  Validation does not alter a document's own fields. The document returned by a successful
  validation has every field of the input with the same value, and has no further field except the
  three system fields \<open>id\<close>, \<open>created_at\<close> and \<open>updated_at\<close>.
\<close>

theorem validation_keeps_fields:
  assumes "validate_write reg uuids ts c pid (JObject ob) is_create existing = Inr doc'"
  shows "\<exists>ob'. doc' = JObject ob' \<and>
    (\<forall>k v. obj_get ob k = Some v \<longrightarrow> obj_get ob' k = Some v) \<and>
    (\<forall>k. obj_get ob k = None \<longrightarrow> k \<notin> {''id'', ''created_at'', ''updated_at''} \<longrightarrow> obj_get ob' k = None)"
proof -
  obtain schema where schema: "sg_collections reg (pid, c) = Some schema"
    using assms by (auto simp: validate_write_def r_bind_eq_Inr ok_or_eq_Inr)
  show ?thesis
  proof (cases "cs_validator schema")
    case None
    then have "doc' = JObject ob" using assms schema by (simp add: validate_write_def)
    then show ?thesis by simp
  next
    case (Some validator)
    show ?thesis
    proof (rule validate_writeE [OF assms schema Some])
      fix ob' ob1 ob3
      assume e: "JObject ob = JObject ob'" "ob1 = generate_id is_create (fst uuids) ob'"
        "ob3 = with_placeholders (case obj_get ob1 ''id'' of Some i \<Rightarrow> i | None \<Rightarrow> JString (snd uuids)) ts
           (strip_system ob1)"
        and d: "doc' = JObject (restore ''updated_at'' (obj_get ob1 ''updated_at'')
          (restore ''created_at'' (obj_get ob1 ''created_at'') (restore ''id'' (obj_get ob1 ''id'') ob3)))"
      have other: "obj_get ob3 k = obj_get ob k" if "k \<notin> {''id'', ''created_at'', ''updated_at''}" for k
        using that e by (simp add: with_placeholders_get strip_system_get generate_id_get)
      have kept: "obj_get ob1 k = Some v" if "obj_get ob k = Some v" for k v
        using that e generate_id_id [of ob v] by (cases "k = ''id''") (auto simp: generate_id_get)
      let ?ob = "restore ''updated_at'' (obj_get ob1 ''updated_at'')
          (restore ''created_at'' (obj_get ob1 ''created_at'') (restore ''id'' (obj_get ob1 ''id'') ob3))"
      have "obj_get ?ob k = Some v" if "obj_get ob k = Some v" for k v
        using kept [OF that] other [of k] that
        by (cases "k \<in> {''id'', ''created_at'', ''updated_at''}") (auto simp: restore_get)
      moreover have "obj_get ?ob k = None"
        if "obj_get ob k = None" "k \<notin> {''id'', ''created_at'', ''updated_at''}" for k
        using other [OF that(2)] that by (simp add: restore_get)
      ultimately show ?thesis unfolding d by blast
    qed
  qed
qed

theorem validation_keeps_fields_witness:
  "\<exists>ob'. validate_write sample_registry (''u'', ''v'') ''t'' ''notes'' ''p''
      (JObject [(''title'', JString ''x'')]) True None = Inr (JObject ob') \<and>
    obj_get ob' ''title'' = Some (JString ''x'')"
proof -
  obtain doc' where d: "validate_write sample_registry (''u'', ''v'') ''t'' ''notes'' ''p''
      (JObject [(''title'', JString ''x'')]) True None = Inr doc'"
    by (simp add: validate_write_def sample_registry_def check_immutable_def check_namespaces_def
        generate_id_def obj_contains_def obj_keys_def strip_system_def obj_remove_def check_strict_def
        check_extension_def)
  from validation_keeps_fields [OF d] obtain ob' where "doc' = JObject ob'"
    and "\<forall>k v. obj_get [(''title'', JString ''x'')] k = Some v \<longrightarrow> obj_get ob' k = Some v" by blast
  moreover have "obj_get [(''title'', JString ''x'')] ''title'' = Some (JString ''x'')" by simp
  ultimately show ?thesis using d by blast
qed

text \<open>
  Strict mode is lost for renamed canonical collections. A plugin that registers a collection under
  its own name with a \<open>cdm:\<close> reference and strict mode gets no strict check at all: for every registry
  without a stored value for that collection, any set of additional fields passes.
\<close>

theorem strict_mode_lost_for_cdm_reference:
  assumes "register_plugin_collection parse compile pid c (Some (''cdm:'' @ name)) None True hints reg = (Inr (), reg')"
    and "sg_cdm_values reg c = None" and "sg_schema_values reg (pid, c) = None"
  shows "\<exists>schema. get_collection reg' pid c = Some schema \<and> cs_strict schema \<and>
    check_strict reg' schema pid c ob = Inr ()"
proof -
  have "starts_with (''cdm:'' @ name) ''cdm:''" by (rule starts_with_append)
  then have "\<exists>schema. get_collection reg' pid c = Some schema \<and> cs_strict schema \<and>
    get_schema_properties reg' pid c = None"
    using assms
    by (auto simp: register_plugin_collection_def resolve_schema_def resolve_extension_def Let_def
        r_bind_eq_Inr r_bind_eq_Inl get_collection_def get_schema_properties_def split: sum.splits)
  then show ?thesis by (auto simp: check_strict_def)
qed

theorem strict_mode_lost_for_cdm_reference_witness:
  "\<exists>reg' schema. register_plugin_collection (\<lambda>_. Inl []) (\<lambda>_. Inr (\<lambda>_. [])) ''p'' ''my_notes'' (Some (''cdm:'' @ ''notes''))
      None True [] (sg_new\<lparr>sg_cdm_values := [''notes'' \<mapsto> JObject []]\<rparr>) = (Inr (), reg') \<and>
    get_collection reg' ''p'' ''my_notes'' = Some schema \<and> cs_strict schema \<and>
    check_strict reg' schema ''p'' ''my_notes'' [(''unknown'', JNull)] = Inr ()"
proof -
  let ?reg = "sg_new\<lparr>sg_cdm_values := [''notes'' \<mapsto> JObject []]\<rparr>"
  obtain reg' where r: "register_plugin_collection (\<lambda>_. Inl []) (\<lambda>_. Inr (\<lambda>_. [])) ''p'' ''my_notes''
      (Some (''cdm:'' @ ''notes'')) None True [] ?reg = (Inr (), reg')"
    by (simp add: register_plugin_collection_def resolve_schema_def resolve_extension_def starts_with_def)
  from strict_mode_lost_for_cdm_reference [OF r, of "[(''unknown'', JNull)]"] r show ?thesis
    by (auto simp: sg_new_def)
qed

end
