(* ===== verification/Crypto.thy ===== *)
theory Crypto
  imports Json
begin

text \<open>
  The crypto package (\<open>crypto/src\<close>): AES-256-GCM with the nonce in front of the ciphertext,
  HKDF-derived keys per credential and per domain, HMAC tags in hex, passphrase-derived keys. The
  algorithms themselves are third-party crates and enter as the record \<open>crypto_lib\<close>; a draw from the
  operating system's random generator is an argument. Bytes are characters, so byte strings and keys
  are values of type \<open>string\<close>.
\<close>

section \<open>The primitives\<close>

record crypto_lib =
  cl_seal :: "string \<Rightarrow> string \<Rightarrow> string \<Rightarrow> (string, string) result"
  cl_open :: "string \<Rightarrow> string \<Rightarrow> string \<Rightarrow> (string, string) result"
  cl_hkdf :: "string option \<Rightarrow> string \<Rightarrow> string \<Rightarrow> string"
  cl_hmac :: "string \<Rightarrow> string \<Rightarrow> string"
  cl_b64_encode :: "string \<Rightarrow> string"
  cl_b64_decode :: "string \<Rightarrow> (string, string) result"
  cl_hex_encode :: "string \<Rightarrow> string"
  cl_hex_decode :: "string \<Rightarrow> (string, string) result"
  cl_json_to_vec :: "json \<Rightarrow> (string, string) result"
  cl_json_from_slice :: "string \<Rightarrow> (string, json) result"
  cl_argon2_params :: "nat \<Rightarrow> nat \<Rightarrow> nat \<Rightarrow> (string, unit) result"
  cl_argon2 :: "nat \<Rightarrow> nat \<Rightarrow> nat \<Rightarrow> string \<Rightarrow> string \<Rightarrow> (string, string) result"

datatype crypto_error =
    EncryptionFailed string
  | DecryptionFailed string
  | KeyDerivationFailed string
  | HmacVerificationFailed
  | InvalidKeyLength

fun crypto_error_to_string :: "crypto_error \<Rightarrow> string" where
  "crypto_error_to_string (EncryptionFailed s) = ''encryption failed: '' @ s"
| "crypto_error_to_string (DecryptionFailed s) = ''decryption failed: '' @ s"
| "crypto_error_to_string (KeyDerivationFailed s) = ''key derivation failed: '' @ s"
| "crypto_error_to_string HmacVerificationFailed = ''HMAC verification failed''"
| "crypto_error_to_string InvalidKeyLength = ''invalid key length: expected 32 bytes''"

section \<open>Encryption\<close>

definition nonce_size :: nat where
  "nonce_size = 12"

definition encrypt :: "crypto_lib \<Rightarrow> string \<Rightarrow> string \<Rightarrow> string \<Rightarrow> (crypto_error, string) result" where
  "encrypt lib nonce key plaintext =
     r_bind (map_err EncryptionFailed (cl_seal lib key nonce plaintext))
       (\<lambda>ciphertext. Inr (nonce @ ciphertext))"

definition decrypt :: "crypto_lib \<Rightarrow> string \<Rightarrow> string \<Rightarrow> (crypto_error, string) result" where
  "decrypt lib key ciphertext =
     (if length ciphertext < nonce_size
      then Inl (DecryptionFailed ''ciphertext too short to contain nonce'')
      else map_err DecryptionFailed
        (cl_open lib key (take nonce_size ciphertext) (drop nonce_size ciphertext)))"

section \<open>Credentials\<close>

definition credential_hkdf_info :: string where
  "credential_hkdf_info = ''life-engine-credential-encryption-v1''"

definition derive_credential_key :: "crypto_lib \<Rightarrow> string \<Rightarrow> string \<Rightarrow> string" where
  "derive_credential_key lib master credential_id =
     cl_hkdf lib (Some credential_id) master credential_hkdf_info"

definition encrypt_claims ::
  "crypto_lib \<Rightarrow> string \<Rightarrow> string \<Rightarrow> string \<Rightarrow> json \<Rightarrow> (crypto_error, string) result" where
  "encrypt_claims lib nonce master credential_id claims =
     r_bind (map_err (\<lambda>e. EncryptionFailed (''failed to serialize claims: '' @ e)) (cl_json_to_vec lib claims))
       (\<lambda>plaintext. r_bind (encrypt lib nonce (derive_credential_key lib master credential_id) plaintext)
          (\<lambda>ciphertext. Inr (cl_b64_encode lib ciphertext)))"

definition decrypt_claims ::
  "crypto_lib \<Rightarrow> string \<Rightarrow> string \<Rightarrow> string \<Rightarrow> (crypto_error, json) result" where
  "decrypt_claims lib master credential_id encoded =
     r_bind (map_err (\<lambda>e. DecryptionFailed (''invalid base64: '' @ e)) (cl_b64_decode lib encoded))
       (\<lambda>ciphertext. r_bind (decrypt lib (derive_credential_key lib master credential_id) ciphertext)
          (\<lambda>plaintext. map_err (\<lambda>e. DecryptionFailed (''failed to deserialize claims: '' @ e))
             (cl_json_from_slice lib plaintext)))"

section \<open>Domains\<close>

definition derive_domain_key :: "crypto_lib \<Rightarrow> string \<Rightarrow> string \<Rightarrow> string" where
  "derive_domain_key lib secret domain = cl_hkdf lib None secret domain"

definition domain_encrypt :: "crypto_lib \<Rightarrow> string \<Rightarrow> string \<Rightarrow> string \<Rightarrow> (crypto_error, string) result" where
  "domain_encrypt lib nonce data key =
     (if length key \<noteq> 32 then Inl InvalidKeyLength else encrypt lib nonce key data)"

definition domain_decrypt :: "crypto_lib \<Rightarrow> string \<Rightarrow> string \<Rightarrow> (crypto_error, string) result" where
  "domain_decrypt lib data key =
     (if length key \<noteq> 32 then Inl InvalidKeyLength else decrypt lib key data)"

definition hmac_sign :: "crypto_lib \<Rightarrow> string \<Rightarrow> string \<Rightarrow> string" where
  "hmac_sign lib key data = cl_hmac lib key data"

definition hmac_verify :: "crypto_lib \<Rightarrow> string \<Rightarrow> string \<Rightarrow> string \<Rightarrow> bool" where
  "hmac_verify lib key data tag = (tag = cl_hmac lib key data)"

definition domain_hmac :: "crypto_lib \<Rightarrow> string \<Rightarrow> string \<Rightarrow> string" where
  "domain_hmac lib key data = cl_hex_encode lib (hmac_sign lib key data)"

definition domain_hmac_verify :: "crypto_lib \<Rightarrow> string \<Rightarrow> string \<Rightarrow> string \<Rightarrow> bool" where
  "domain_hmac_verify lib key data hex_tag =
     (case cl_hex_decode lib hex_tag of
        Inr tag \<Rightarrow> hmac_verify lib key data tag
      | Inl _ \<Rightarrow> False)"

section \<open>Passphrases\<close>

record argon2_params =
  ap_memory_kib :: nat
  ap_iterations :: nat
  ap_parallelism :: nat

definition default_argon2_params :: argon2_params where
  "default_argon2_params = \<lparr>ap_memory_kib = 65536, ap_iterations = 3, ap_parallelism = 4\<rparr>"

definition derive_key_with_params ::
  "crypto_lib \<Rightarrow> string \<Rightarrow> string \<Rightarrow> argon2_params \<Rightarrow> (crypto_error, string) result" where
  "derive_key_with_params lib passphrase salt p =
     r_bind (map_err KeyDerivationFailed
               (cl_argon2_params lib (ap_memory_kib p) (ap_iterations p) (ap_parallelism p)))
       (\<lambda>_. map_err KeyDerivationFailed
          (cl_argon2 lib (ap_memory_kib p) (ap_iterations p) (ap_parallelism p) passphrase salt))"

definition derive_key :: "crypto_lib \<Rightarrow> string \<Rightarrow> string \<Rightarrow> (crypto_error, string) result" where
  "derive_key lib passphrase salt = derive_key_with_params lib passphrase salt default_argon2_params"

section \<open>What the primitives promise\<close>

text \<open>
  Documented behaviour of the crates: opening what was sealed under the same key and nonce gives the
  plaintext, base64 and hex decode what they encoded, and parsing serialised JSON gives it back.
\<close>

definition aead_correct :: "crypto_lib \<Rightarrow> bool" where
  "aead_correct lib \<longleftrightarrow>
     (\<forall>key nonce p c. cl_seal lib key nonce p = Inr c \<longrightarrow> cl_open lib key nonce c = Inr p)"

definition codecs_correct :: "crypto_lib \<Rightarrow> bool" where
  "codecs_correct lib \<longleftrightarrow>
     (\<forall>b. cl_b64_decode lib (cl_b64_encode lib b) = Inr b) \<and>
     (\<forall>b. cl_hex_decode lib (cl_hex_encode lib b) = Inr b) \<and>
     (\<forall>j b. cl_json_to_vec lib j = Inr b \<longrightarrow> cl_json_from_slice lib b = Inr j)"

lemma decrypt_encrypt:
  assumes "aead_correct lib" "length nonce = nonce_size" "encrypt lib nonce key p = Inr c"
  shows "decrypt lib key c = Inr p"
  using assms by (auto simp: encrypt_def decrypt_def aead_correct_def r_bind_eq_Inr map_err_eq_Inr)

lemma decrypt_encrypt_claims:
  assumes "aead_correct lib" "codecs_correct lib" "length nonce = nonce_size"
    and "encrypt_claims lib nonce master i claims = Inr c"
  shows "decrypt_claims lib master i c = Inr claims"
proof -
  obtain p b where "cl_json_to_vec lib claims = Inr p"
    and b: "encrypt lib nonce (derive_credential_key lib master i) p = Inr b"
    and "c = cl_b64_encode lib b"
    using assms(4) by (auto simp: encrypt_claims_def r_bind_eq_Inr map_err_eq_Inr)
  with decrypt_encrypt [OF assms(1, 3) b] assms(2) show ?thesis
    by (simp add: decrypt_claims_def codecs_correct_def)
qed

text \<open>
  A closed instance of the primitives, to run the package on concrete inputs: a tag made of the key in
  front of the plaintext, identity codecs, and a serialiser that knows a single value.
\<close>

definition sample_lib :: crypto_lib where
  "sample_lib =
     \<lparr>cl_seal = (\<lambda>key nonce p. Inr (key @ p)),
      cl_open = (\<lambda>key nonce c. case strip_prefix c key of Some p \<Rightarrow> Inr p | None \<Rightarrow> Inl ''aead::Error''),
      cl_hkdf = (\<lambda>salt ikm info. ikm @ info @ (case salt of Some s \<Rightarrow> s | None \<Rightarrow> [])),
      cl_hmac = (\<lambda>key d. key @ d), cl_b64_encode = (\<lambda>b. b), cl_b64_decode = Inr,
      cl_hex_encode = (\<lambda>b. b), cl_hex_decode = Inr,
      cl_json_to_vec = (\<lambda>j. if j = JNull then Inr ''null'' else Inl ''unsupported''),
      cl_json_from_slice = (\<lambda>b. if b = ''null'' then Inr JNull else Inl ''unsupported''),
      cl_argon2_params = (\<lambda>m t p. Inr ()), cl_argon2 = (\<lambda>m t p pw salt. Inr (pw @ salt))\<rparr>"

lemma sample_lib_laws: "aead_correct sample_lib" "codecs_correct sample_lib"
  by (auto simp: aead_correct_def codecs_correct_def sample_lib_def strip_prefix_def split: if_splits)

section \<open>Properties\<close>

text \<open>
  Encryption round trips. Whatever key, nonce and plaintext, decrypting an encryption under the
  same key gives the plaintext; claims encrypted for a credential decrypt to the same claims under the
  same master key and credential id; and an input shorter than a nonce is rejected without touching
  the cipher.
\<close>

theorem crypto_round_trip:
  assumes "aead_correct lib" and "codecs_correct lib" and "length nonce = nonce_size"
  shows "(\<forall>c. encrypt lib nonce key p = Inr c \<longrightarrow> decrypt lib key c = Inr p) \<and>
    (\<forall>c. encrypt_claims lib nonce master i claims = Inr c \<longrightarrow> decrypt_claims lib master i c = Inr claims) \<and>
    (length short < nonce_size \<longrightarrow>
      decrypt lib key short = Inl (DecryptionFailed ''ciphertext too short to contain nonce''))"
  using decrypt_encrypt [OF assms(1, 3)] decrypt_encrypt_claims [OF assms]
  by (auto simp: decrypt_def)

theorem crypto_round_trip_witness:
  "\<exists>c. encrypt_claims sample_lib ''twelve bytes'' ''k'' ''cred-1'' JNull = Inr c \<and>
     decrypt_claims sample_lib ''k'' ''cred-1'' c = Inr JNull"
proof -
  have "length ''twelve bytes'' = nonce_size" by (simp add: nonce_size_def)
  moreover obtain c where "encrypt_claims sample_lib ''twelve bytes'' ''k'' ''cred-1'' JNull = Inr c"
    by (simp add: encrypt_claims_def encrypt_def sample_lib_def)
  ultimately show ?thesis
    using crypto_round_trip [OF sample_lib_laws, of "''twelve bytes''" _ _ "''k''" "''cred-1''" JNull "[]"]
    by blast
qed

end
