(* ===== verification/Sqlite_Filter.thy ===== *)
theory Sqlite_Filter
  imports Storage_Types
begin

text \<open>
  From query descriptors to SQL text (\<open>storage-sqlite/src/document.rs\<close>, the helpers above the adapter):
  \<open>WhereBuilder\<close>, the conversion of JSON values to bind values, cursors and the \<open>ORDER BY\<close> clause. The
  text form of a JSON value (\<open>Value::to_string\<close>) and base64 belong to libraries and are parameters.
\<close>

section \<open>Bind values\<close>

datatype sql_value = SqlText string | SqlInt int | SqlReal rat | SqlBool bool | SqlNull

fun json_value_to_boxed_sql :: "(json \<Rightarrow> string) \<Rightarrow> json \<Rightarrow> sql_value" where
  "json_value_to_boxed_sql display (JString s) = SqlText s"
| "json_value_to_boxed_sql display (JNumber (NPosInt n)) =
     (if n < 2 ^ 63 then SqlInt (int n) else SqlReal (f64_of_nat n))"
| "json_value_to_boxed_sql display (JNumber (NNegInt i)) = SqlInt i"
| "json_value_to_boxed_sql display (JNumber (NFloat q)) = SqlReal q"
| "json_value_to_boxed_sql display (JBool b) = SqlBool b"
| "json_value_to_boxed_sql display JNull = SqlNull"
| "json_value_to_boxed_sql display (JArray xs) = SqlText (display (JArray xs))"
| "json_value_to_boxed_sql display (JObject ob) = SqlText (display (JObject ob))"

definition json_value_to_string :: "(json \<Rightarrow> string) \<Rightarrow> json \<Rightarrow> string" where
  "json_value_to_string display v = (case v of JString s \<Rightarrow> s | _ \<Rightarrow> display v)"

section \<open>The WHERE builder\<close>

record where_builder =
  wb_bind_values :: "sql_value list"
  wb_param_idx :: nat

definition where_builder_new :: "nat \<Rightarrow> where_builder" where
  "where_builder_new start_idx = \<lparr>wb_bind_values = [], wb_param_idx = start_idx\<rparr>"

definition push_bind :: "sql_value \<Rightarrow> where_builder \<Rightarrow> where_builder" where
  "push_bind v wb = wb\<lparr>wb_bind_values := wb_bind_values wb @ [v], wb_param_idx := wb_param_idx wb + 1\<rparr>"

definition placeholder :: "nat \<Rightarrow> string" where
  "placeholder i = ''?'' @ show_nat i"

fun bind_all :: "(json \<Rightarrow> string) \<Rightarrow> json list \<Rightarrow> where_builder \<Rightarrow> string list \<times> where_builder" where
  "bind_all display [] wb = ([], wb)"
| "bind_all display (v # vs) wb =
     (let r = bind_all display vs (push_bind (json_value_to_boxed_sql display v) wb)
      in (placeholder (wb_param_idx wb) # fst r, snd r))"

fun sql_op :: "filter_operator \<Rightarrow> string" where
  "sql_op FEq = ''=''"
| "sql_op FNe = ''!=''"
| "sql_op FGt = ''>''"
| "sql_op FGte = ''>=''"
| "sql_op FLt = ''<''"
| "sql_op FLte = ''<=''"
| "sql_op _ = []"

definition json_extract_sql :: "nat \<Rightarrow> string" where
  "json_extract_sql i = ''json_extract(data, '' @ placeholder i @ '')''"

definition build_comparison ::
  "(json \<Rightarrow> string) \<Rightarrow> string \<Rightarrow> filter_operator \<Rightarrow> json \<Rightarrow> where_builder \<Rightarrow> string \<times> where_builder" where
  "build_comparison display field op v wb =
     (let path_idx = wb_param_idx wb;
          wb1 = push_bind (SqlText (''$.'' @ field)) wb;
          val_idx = wb_param_idx wb1
      in case op of
           FExists \<Rightarrow> (json_extract_sql path_idx @ '' IS NOT NULL'', wb1)
         | FIn \<Rightarrow>
             (case as_array v of
                Some arr \<Rightarrow>
                  if arr = [] then (''1=0'', wb1)
                  else (let (ps, wb2) = bind_all display arr wb1
                        in (json_extract_sql path_idx @ '' IN ('' @ join '', '' ps @ '')'', wb2))
              | None \<Rightarrow> (''1=0'', wb1))
         | FNotIn \<Rightarrow>
             (case as_array v of
                Some arr \<Rightarrow>
                  if arr = [] then (''1=1'', wb1)
                  else (let (ps, wb2) = bind_all display arr wb1
                        in (json_extract_sql path_idx @ '' NOT IN ('' @ join '', '' ps @ '')'', wb2))
              | None \<Rightarrow> (''1=1'', wb1))
         | FContains \<Rightarrow>
             (json_extract_sql path_idx @ '' LIKE '' @ placeholder val_idx,
              push_bind (SqlText (''%'' @ json_value_to_string display v @ ''%'')) wb1)
         | FStartsWith \<Rightarrow>
             (json_extract_sql path_idx @ '' LIKE '' @ placeholder val_idx,
              push_bind (SqlText (json_value_to_string display v @ ''%'')) wb1)
         | _ \<Rightarrow>
             (json_extract_sql path_idx @ '' '' @ sql_op op @ '' '' @ placeholder val_idx,
              push_bind (json_value_to_boxed_sql display v) wb1))"

fun build_where :: "(json \<Rightarrow> string) \<Rightarrow> filter_node \<Rightarrow> where_builder \<Rightarrow> string \<times> where_builder"
and build_where_children :: "(json \<Rightarrow> string) \<Rightarrow> filter_node list \<Rightarrow> where_builder \<Rightarrow> string list \<times> where_builder"
where
  "build_where display (FAnd children) wb =
     (if children = [] then (''1=1'', wb)
      else (let (parts, wb') = build_where_children display children wb
            in (''('' @ join '' AND '' parts @ '')'', wb')))"
| "build_where display (FOr children) wb =
     (if children = [] then (''1=0'', wb)
      else (let (parts, wb') = build_where_children display children wb
            in (''('' @ join '' OR '' parts @ '')'', wb')))"
| "build_where display (FNot child) wb =
     (let (inner, wb') = build_where display child wb in (''NOT ('' @ inner @ '')'', wb'))"
| "build_where display (Comparison field op v) wb = build_comparison display field op v wb"
| "build_where_children display [] wb = ([], wb)"
| "build_where_children display (c # cs) wb =
     (let r = build_where display c wb; rs = build_where_children display cs (snd r)
      in (fst r # fst rs, snd rs))"

section \<open>Sorting and cursors\<close>

definition sort_part :: "sort_field \<Rightarrow> string" where
  "sort_part s = ''json_extract(data, '' @ quoted (''$.'' @ sf_field s) @ '') '' @
     (case sf_direction s of Asc \<Rightarrow> ''ASC'' | Desc \<Rightarrow> ''DESC'')"

definition order_by :: "sort_field list \<Rightarrow> string" where
  "order_by ss = (if ss = [] then [] else '' ORDER BY '' @ join '', '' (map sort_part ss))"

definition encode_cursor :: "(string \<Rightarrow> string) \<Rightarrow> nat \<Rightarrow> string" where
  "encode_cursor b64 offset = b64 (show_nat offset)"

definition decode_cursor :: "(string \<Rightarrow> string option) \<Rightarrow> string \<Rightarrow> (storage_error, nat) result" where
  "decode_cursor unb64 cursor =
     (case unb64 cursor of
        None \<Rightarrow> Inl (SValidationFailed ''invalid pagination cursor'' None)
      | Some bytes \<Rightarrow> ok_or (parse_u64 bytes) (SValidationFailed ''invalid pagination cursor'' None))"

section \<open>Lemmas\<close>

lemma decode_encode_cursor:
  assumes "\<And>b. unb64 (b64 b) = Some b" "n < 2 ^ 64"
  shows "decode_cursor unb64 (encode_cursor b64 n) = Inr n"
  using assms by (simp add: decode_cursor_def encode_cursor_def parse_u64_show_nat)

text \<open>The builder only appends bind values, and the next free index counts them.\<close>

definition wb_extends :: "where_builder \<Rightarrow> where_builder \<Rightarrow> bool" where
  "wb_extends wb wb' \<longleftrightarrow>
     (\<exists>vs. wb_bind_values wb' = wb_bind_values wb @ vs \<and> wb_param_idx wb' = wb_param_idx wb + length vs)"

lemma wb_extends_refl [simp]: "wb_extends wb wb"
  by (simp add: wb_extends_def)

lemma wb_extends_trans: "wb_extends a b \<Longrightarrow> wb_extends b c \<Longrightarrow> wb_extends a c"
  by (auto simp: wb_extends_def)

lemma wb_extends_push [simp]: "wb_extends wb (push_bind v wb)"
  by (simp add: wb_extends_def push_bind_def)

lemma push_bind_idx [simp]: "wb_param_idx (push_bind v wb) = wb_param_idx wb + 1"
  by (simp add: push_bind_def)

lemma wb_extends_push2: "wb_extends wb (push_bind v (push_bind w wb))"
  by (rule wb_extends_trans [OF wb_extends_push wb_extends_push])

lemma wb_extends_bind_all: "wb_extends wb (snd (bind_all display vs wb))"
proof (induction vs arbitrary: wb)
  case (Cons v vs)
  show ?case
    using wb_extends_trans [OF wb_extends_push Cons.IH] by (simp add: Let_def)
qed simp

lemma wb_extends_comparison: "wb_extends wb (snd (build_comparison display field op v wb))"
  by (cases op) (auto simp: build_comparison_def Let_def case_prod_unfold split: option.splits
      intro: wb_extends_trans [OF wb_extends_push] wb_extends_bind_all wb_extends_push2)

lemma wb_extends_build:
  "wb_extends wb (snd (build_where display node wb))"
  "wb_extends wb (snd (build_where_children display nodes wb))"
  by (induction display node wb and display nodes wb rule: build_where_build_where_children.induct)
    (auto simp: case_prod_unfold Let_def wb_extends_comparison intro: wb_extends_trans)

text \<open>A filter with every field name and every compared value blanked out.\<close>

fun blank :: "filter_node \<Rightarrow> filter_node" where
  "blank (FAnd cs) = FAnd (map blank cs)"
| "blank (FOr cs) = FOr (map blank cs)"
| "blank (FNot c) = FNot (blank c)"
| "blank (Comparison field op v) =
     Comparison [] op (case as_array v of Some arr \<Rightarrow> JArray (map (\<lambda>_. JNull) arr) | None \<Rightarrow> JNull)"

lemma bind_all_blank:
  "wb_param_idx wb = wb_param_idx wb' \<Longrightarrow>
   fst (bind_all display vs wb) = fst (bind_all display' (map (\<lambda>_. JNull) vs) wb') \<and>
   wb_param_idx (snd (bind_all display vs wb)) = wb_param_idx (snd (bind_all display' (map (\<lambda>_. JNull) vs) wb'))"
proof (induction vs arbitrary: wb wb')
  case (Cons v vs)
  then show ?case
    using Cons.IH [of "push_bind (json_value_to_boxed_sql display v) wb" "push_bind SqlNull wb'"]
    by (simp add: Let_def)
qed simp

lemma comparison_blank:
  assumes "wb_param_idx wb = wb_param_idx wb'"
  shows "fst (build_comparison display field op v wb) =
      fst (build_where display' (blank (Comparison field op v)) wb') \<and>
    wb_param_idx (snd (build_comparison display field op v wb)) =
      wb_param_idx (snd (build_where display' (blank (Comparison field op v)) wb'))"
proof -
  let ?path = "\<lambda>f. SqlText (''$.'' @ f)"
  have push: "wb_param_idx (push_bind (?path field) wb) = wb_param_idx (push_bind (?path []) wb')"
    using assms by simp
  show ?thesis
    using assms bind_all_blank [OF push, of display _ display']
    by (cases op) (auto simp: build_comparison_def Let_def case_prod_unfold as_array_def split: json.splits)
qed

lemma build_blank:
  "wb_param_idx wb = wb_param_idx wb' \<Longrightarrow>
    fst (build_where display node wb) = fst (build_where display' (blank node) wb') \<and>
    wb_param_idx (snd (build_where display node wb)) = wb_param_idx (snd (build_where display' (blank node) wb'))"
  "wb_param_idx wb = wb_param_idx wb' \<Longrightarrow>
    fst (build_where_children display nodes wb) = fst (build_where_children display' (map blank nodes) wb') \<and>
    wb_param_idx (snd (build_where_children display nodes wb)) =
      wb_param_idx (snd (build_where_children display' (map blank nodes) wb'))"
proof (induction display node wb and display nodes wb arbitrary: wb' and wb' rule: build_where_build_where_children.induct)
  case (4 display field op v wb)
  then show ?case using comparison_blank [of wb wb' display field op v display'] by simp
next
  case (6 display c cs wb)
  have "wb_param_idx (snd (build_where display c wb)) = wb_param_idx (snd (build_where display' (blank c) wb'))"
    using 6(1) [OF 6(3)] by blast
  from 6(2) [OF refl this] 6(1) [OF 6(3)] show ?case by (simp add: Let_def)
qed (auto simp: case_prod_unfold Let_def)

section \<open>Properties\<close>

text \<open>
  Filters are parameterised. The SQL text that a filter is translated to does not depend on any
  field name or value in it: blanking them all out, and changing how values print, gives the same text.
  And the builder's next free index stays ahead of its bind values by the index it started from, so
  every bind value has the number its placeholder shows.
\<close>

theorem filters_are_parameterised:
  "fst (build_where display node (where_builder_new i)) = fst (build_where display' (blank node) (where_builder_new i)) \<and>
   wb_param_idx (snd (build_where display node (where_builder_new i))) =
     i + length (wb_bind_values (snd (build_where display node (where_builder_new i))))"
  using build_blank(1) [of "where_builder_new i" "where_builder_new i" display node display']
    wb_extends_build(1) [of "where_builder_new i" display node]
  by (auto simp: wb_extends_def where_builder_new_def)

text \<open>
  Sort fields are not. The field name of a sort key stands in the SQL text as it is, so two
  descriptors that differ only in a sort field have different texts, and a quote in the name ends the
  string literal: the name \<open>x') ASC LIMIT 1 --\<close> yields text in which the rest of the statement is a
  comment.
\<close>

theorem sort_fields_are_spliced:
  "(sort_part \<lparr>sf_field = f, sf_direction = d\<rparr> = sort_part \<lparr>sf_field = g, sf_direction = d\<rparr> \<longleftrightarrow> f = g) \<and>
   starts_with (order_by [\<lparr>sf_field = ''x'' @ [CHR 0x27] @ '') ASC LIMIT 1 --'', sf_direction = Asc\<rparr>])
     ('' ORDER BY json_extract(data, '' @ quoted ''$.x'' @ '') ASC LIMIT 1 --'')"
  by (auto simp: sort_part_def quoted_def order_by_def starts_with_def)

end
