(* ===== verification/Sqlite_Document.thy ===== *)
theory Sqlite_Document
  imports Sqlite_Filter
begin

text \<open>
  The document adapter over SQLite (\<open>storage-sqlite/src/document.rs\<close>). The tables the adapter touches
  are the state: the rows of \<open>plugin_data\<close> in insertion order (its primary key is the id alone, see
  \<open>schema.rs\<close>), the \<open>schema_versions\<close> table and the names of the indexes. The statements with a fixed
  text are translated; a query, whose text is built at run time, is handed to the database as text.
  The environment \<open>sqlite_env\<close> holds what the adapter takes from libraries: the text form of JSON,
  base64, fresh ids and the clock (by the number of draws so far), the evaluation of query texts, and
  \<open>se_fault\<close>, which says whether a statement fails in the database (also a poisoned lock).
\<close>

section \<open>State and environment\<close>

record sql_row =
  row_id :: string
  row_plugin_id :: string
  row_collection :: string
  row_data :: string
  row_version :: int
  row_created_at :: string
  row_updated_at :: string

record sqlite_db =
  db_rows :: "sql_row list"
  db_schema_versions :: "string \<times> string \<rightharpoonup> nat \<times> string"
  db_indexes :: "string list"
  db_draws :: nat

record sqlite_env =
  se_to_string :: "json \<Rightarrow> (string, string) result"
  se_from_str :: "string \<Rightarrow> (string, json) result"
  se_display :: "json \<Rightarrow> string"
  se_b64 :: "string \<Rightarrow> string"
  se_unb64 :: "string \<Rightarrow> string option"
  se_uuid :: "nat \<Rightarrow> string"
  se_now :: "nat \<Rightarrow> string"
  se_select :: "string \<Rightarrow> sql_value list \<Rightarrow> sql_row list \<Rightarrow> (string, (string, sql_row) result list) result"
  se_count :: "string \<Rightarrow> sql_value list \<Rightarrow> sql_row list \<Rightarrow> (string, nat) result"
  se_journal_mode :: "sqlite_db \<Rightarrow> (string, string) result"
  se_fault :: "string \<Rightarrow> sqlite_db \<Rightarrow> string option"

definition db_tick :: "sqlite_db \<Rightarrow> sqlite_db" where
  "db_tick db = db\<lparr>db_draws := Suc (db_draws db)\<rparr>"

text \<open>The failure point of a statement, and the error the adapter makes of the database's message.\<close>

definition stmt :: "sqlite_env \<Rightarrow> string \<Rightarrow> (string \<Rightarrow> storage_error) \<Rightarrow> (sqlite_db, unit) sop" where
  "stmt env text wrap db = (case se_fault env text db of None \<Rightarrow> (Inr (), db) | Some e \<Rightarrow> (Inl (wrap e), db))"

definition lock_conn :: "sqlite_env \<Rightarrow> (sqlite_db, unit) sop" where
  "lock_conn env = stmt env ''lock'' (\<lambda>e. Internal (''lock poisoned: '' @ e))"

section \<open>Helpers\<close>

definition validate_identifier :: "string \<Rightarrow> (storage_error, unit) result" where
  "validate_identifier name =
     (if name = [] then Inl (SValidationFailed ''collection name must not be empty'' None)
      else if \<not> list_all (\<lambda>c. is_ascii_alphanumeric c \<or> c \<in> set ''_-.'') name
      then Inl (SValidationFailed (''invalid collection name: '' @ name) None)
      else Inr ())"

definition row_to_document ::
  "sqlite_env \<Rightarrow> string \<Rightarrow> string \<Rightarrow> string \<Rightarrow> string \<Rightarrow> (storage_error, json) result" where
  "row_to_document env i data_json created_at updated_at =
     r_bind (map_err (\<lambda>e. Internal (''corrupt JSON in database: '' @ e)) (se_from_str env data_json))
       (\<lambda>doc. Inr (case doc of
          JObject ob \<Rightarrow> JObject (obj_insert ''updated_at'' (JString updated_at)
            (obj_insert ''created_at'' (JString created_at) (obj_insert ''id'' (JString i) ob)))
        | _ \<Rightarrow> doc))"

definition strip_system_fields :: "json \<Rightarrow> json" where
  "strip_system_fields doc =
     (case doc of
        JObject ob \<Rightarrow> JObject (obj_remove ''updated_at'' (obj_remove ''created_at'' (obj_remove ''id'' ob)))
      | _ \<Rightarrow> doc)"

definition document_id :: "sqlite_env \<Rightarrow> json \<Rightarrow> sqlite_db \<Rightarrow> string" where
  "document_id env doc db =
     (case Option.bind (json_get doc ''id'') as_str of Some i \<Rightarrow> i | None \<Rightarrow> se_uuid env (db_draws db))"

text \<open>JSON merge patch.\<close>

function json_merge_patch :: "json \<Rightarrow> json \<Rightarrow> json"
and merge_entries :: "jobject \<Rightarrow> jobject \<Rightarrow> jobject" where
  "json_merge_patch target patch =
     (case patch of
        JObject patch_obj \<Rightarrow> JObject (merge_entries (case target of JObject t \<Rightarrow> t | _ \<Rightarrow> []) patch_obj)
      | _ \<Rightarrow> patch)"
| "merge_entries target [] = target"
| "merge_entries target ((key, v) # rest) =
     merge_entries
       (if is_null v then obj_remove key target
        else obj_insert key
          (json_merge_patch (case obj_get target key of Some t \<Rightarrow> t | None \<Rightarrow> JNull) v) target)
       rest"
  by pat_completeness auto
termination
  by (relation "measure (\<lambda>x. case x of Inl (_, p) \<Rightarrow> 2 * size p | Inr (_, ps) \<Rightarrow> 2 * size (JObject ps) - 1)")
    auto

section \<open>Statements\<close>

definition is_row :: "string \<Rightarrow> string \<Rightarrow> sql_row \<Rightarrow> bool" where
  "is_row c i r \<longleftrightarrow> row_collection r = c \<and> row_id r = i"

definition find_row :: "string \<Rightarrow> string \<Rightarrow> sqlite_db \<Rightarrow> sql_row option" where
  "find_row c i db = List.find (is_row c i) (db_rows db)"

definition unique_violation :: string where
  "unique_violation = ''UNIQUE constraint failed: plugin_data.id''"

definition insert_row :: "sqlite_env \<Rightarrow> (string \<Rightarrow> storage_error) \<Rightarrow> sql_row \<Rightarrow> (sqlite_db, unit) sop" where
  "insert_row env wrap r =
     s_bind (stmt env ''INSERT INTO plugin_data'' wrap)
       (\<lambda>_ db. if row_id r \<in> set (map row_id (db_rows db)) then (Inl (wrap unique_violation), db)
          else (Inr (), db\<lparr>db_rows := db_rows db @ [r]\<rparr>))"

definition touch_row :: "string \<Rightarrow> string \<Rightarrow> string \<Rightarrow> string \<Rightarrow> sql_row \<Rightarrow> sql_row" where
  "touch_row c i data_json now r =
     (if is_row c i r then r\<lparr>row_data := data_json, row_version := row_version r + 1, row_updated_at := now\<rparr>
      else r)"

definition update_rows ::
  "sqlite_env \<Rightarrow> string \<Rightarrow> string \<Rightarrow> string \<Rightarrow> string \<Rightarrow> (sqlite_db, nat) sop" where
  "update_rows env c i data_json now =
     s_bind (stmt env ''UPDATE plugin_data'' Internal)
       (\<lambda>_ db. (Inr (length (filter (is_row c i) (db_rows db))),
          db\<lparr>db_rows := map (touch_row c i data_json now) (db_rows db)\<rparr>))"

definition delete_rows :: "sqlite_env \<Rightarrow> string \<Rightarrow> string list \<Rightarrow> (sqlite_db, nat) sop" where
  "delete_rows env c is =
     s_bind (stmt env ''DELETE FROM plugin_data'' Internal)
       (\<lambda>_ db. (Inr (length (filter (\<lambda>r. row_collection r = c \<and> row_id r \<in> set is) (db_rows db))),
          db\<lparr>db_rows := filter (\<lambda>r. \<not> (row_collection r = c \<and> row_id r \<in> set is)) (db_rows db)\<rparr>))"

text \<open>A transaction that is dropped without a commit is rolled back.\<close>

definition transaction :: "sqlite_env \<Rightarrow> (sqlite_db, 'a) sop \<Rightarrow> (sqlite_db, 'a) sop" where
  "transaction env body =
     s_bind (stmt env ''BEGIN'' TransactionFailed)
       (\<lambda>_ db. case s_bind body (\<lambda>x. s_bind (stmt env ''COMMIT'' TransactionFailed) (\<lambda>_. s_return x)) db of
          (Inl e, db') \<Rightarrow> (Inl e, db'\<lparr>db_rows := db_rows db\<rparr>)
        | (Inr x, db') \<Rightarrow> (Inr x, db'))"

section \<open>Operations on a single document\<close>

definition sqlite_get :: "sqlite_env \<Rightarrow> string \<Rightarrow> string \<Rightarrow> (sqlite_db, json) sop" where
  "sqlite_get env c i =
     s_bind (s_check (validate_identifier c)) (\<lambda>_. s_bind (lock_conn env) (\<lambda>_.
       s_bind (stmt env ''SELECT id, data, created_at, updated_at'' Internal) (\<lambda>_ db.
         case find_row c i db of
           Some r \<Rightarrow> (row_to_document env (row_id r) (row_data r) (row_created_at r) (row_updated_at r), db)
         | None \<Rightarrow> (Inl (NotFound c i), db))))"

definition sqlite_create :: "sqlite_env \<Rightarrow> string \<Rightarrow> string \<Rightarrow> json \<Rightarrow> (sqlite_db, json) sop" where
  "sqlite_create env plugin_id c document =
     s_bind (s_check (validate_identifier c)) (\<lambda>_. s_bind (lock_conn env) (\<lambda>_ db.
       (let i = document_id env document db;
            now = se_now env (db_draws db)
        in s_bind (s_check (map_err Internal (se_to_string env (strip_system_fields document)))) (\<lambda>data_json.
             s_bind (stmt env ''SELECT EXISTS'' Internal) (\<lambda>_ db.
               if find_row c i db \<noteq> None then (Inl (AlreadyExists c i), db)
               else s_bind (insert_row env Internal
                      \<lparr>row_id = i, row_plugin_id = plugin_id, row_collection = c, row_data = data_json,
                       row_version = 1, row_created_at = now, row_updated_at = now\<rparr>)
                    (\<lambda>_. s_check (row_to_document env i data_json now now)) db)) (db_tick db))))"

text \<open>An update and the read of the creation time that follows it, shared by \<open>update\<close> and \<open>batch_update\<close>.\<close>

definition update_one :: "sqlite_env \<Rightarrow> string \<Rightarrow> string \<Rightarrow> json \<Rightarrow> string \<Rightarrow> (sqlite_db, json) sop" where
  "update_one env c i document now =
     s_bind (s_check (map_err Internal (se_to_string env (strip_system_fields document)))) (\<lambda>data_json.
       s_bind (update_rows env c i data_json now) (\<lambda>rows.
         if rows = 0 then s_fail (NotFound c i)
         else s_bind (stmt env ''SELECT created_at'' Internal) (\<lambda>_ db.
           case find_row c i db of
             Some r \<Rightarrow> (row_to_document env i data_json (row_created_at r) now, db)
           | None \<Rightarrow> (Inl (Internal ''Query returned no rows''), db))))"

definition sqlite_update :: "sqlite_env \<Rightarrow> string \<Rightarrow> string \<Rightarrow> json \<Rightarrow> (sqlite_db, json) sop" where
  "sqlite_update env c i document =
     s_bind (s_check (validate_identifier c)) (\<lambda>_. s_bind (lock_conn env) (\<lambda>_ db.
       update_one env c i document (se_now env (db_draws db)) (db_tick db)))"

definition sqlite_partial_update :: "sqlite_env \<Rightarrow> string \<Rightarrow> string \<Rightarrow> json \<Rightarrow> (sqlite_db, json) sop" where
  "sqlite_partial_update env c i patch =
     s_bind (s_check (validate_identifier c)) (\<lambda>_. s_bind (lock_conn env) (\<lambda>_.
       s_bind (stmt env ''SELECT data, created_at'' Internal) (\<lambda>_ db.
         case find_row c i db of
           None \<Rightarrow> (Inl (NotFound c i), db)
         | Some r \<Rightarrow>
             s_bind (s_check (map_err (\<lambda>e. Internal (''corrupt JSON in database: '' @ e))
                 (se_from_str env (row_data r)))) (\<lambda>doc db.
               (let now = se_now env (db_draws db)
                in s_bind (s_check (map_err Internal
                       (se_to_string env (strip_system_fields (json_merge_patch doc patch))))) (\<lambda>data_json.
                     s_bind (update_rows env c i data_json now) (\<lambda>_.
                       s_check (row_to_document env i data_json (row_created_at r) now))) (db_tick db))) db)))"

definition sqlite_delete :: "sqlite_env \<Rightarrow> string \<Rightarrow> string \<Rightarrow> (sqlite_db, unit) sop" where
  "sqlite_delete env c i =
     s_bind (s_check (validate_identifier c)) (\<lambda>_. s_bind (lock_conn env) (\<lambda>_.
       s_bind (delete_rows env c [i]) (\<lambda>rows.
         if rows = 0 then s_fail (NotFound c i) else s_return ())))"

section \<open>Queries\<close>

definition select_base :: string where
  "select_base = ''SELECT id, data, created_at, updated_at FROM plugin_data WHERE collection = ?1''"

definition count_base :: string where
  "count_base = ''SELECT COUNT(*) FROM plugin_data WHERE collection = ?1''"

text \<open>The statement so far and its bind values, with the filter's clause appended.\<close>

definition with_filter ::
  "sqlite_env \<Rightarrow> string \<Rightarrow> string \<Rightarrow> filter_node option \<Rightarrow> string \<times> sql_value list" where
  "with_filter env base c flt =
     (case flt of
        None \<Rightarrow> (base, [SqlText c])
      | Some f \<Rightarrow>
          (let (clause, wb) = build_where (se_display env) f (where_builder_new 2)
           in (base @ '' AND '' @ clause, SqlText c # wb_bind_values wb)))"

definition project :: "string list option \<Rightarrow> json \<Rightarrow> json" where
  "project flds doc =
     (case (flds, doc) of
        (Some fs, JObject ob) \<Rightarrow> JObject (filter (\<lambda>(k, _). k \<in> set fs) ob)
      | _ \<Rightarrow> doc)"

definition max_page :: nat where
  "max_page = 1000"

definition limit_offset :: "nat \<Rightarrow> nat \<Rightarrow> string" where
  "limit_offset limit offset = '' LIMIT '' @ show_nat limit @ '' OFFSET '' @ show_nat offset"

definition load_row :: "sqlite_env \<Rightarrow> string list option \<Rightarrow> (string, sql_row) result \<Rightarrow> (storage_error, json) result" where
  "load_row env flds row =
     r_bind (map_err Internal row) (\<lambda>r.
       r_bind (row_to_document env (row_id r) (row_data r) (row_created_at r) (row_updated_at r))
         (\<lambda>doc. Inr (project flds doc)))"

text \<open>The cursor after a page; \<open>u64\<close> addition, wrapping as in a release build.\<close>

definition next_cursor :: "sqlite_env \<Rightarrow> nat \<Rightarrow> nat \<Rightarrow> nat \<Rightarrow> string option" where
  "next_cursor env offset limit total_count =
     (let upto = (offset + limit) mod 2 ^ 64
      in if upto < total_count then Some (encode_cursor (se_b64 env) upto) else None)"

definition sqlite_query :: "sqlite_env \<Rightarrow> query_descriptor \<Rightarrow> (sqlite_db, document_list) sop" where
  "sqlite_query env q =
     s_bind (s_check (validate_identifier (qd_collection q))) (\<lambda>_. s_bind (lock_conn env) (\<lambda>_ db.
       (let (sql, binds) = with_filter env select_base (qd_collection q) (qd_filter q);
            count_sql = count_base @
              (if qd_filter q \<noteq> None then (case strip_prefix sql select_base of Some t \<Rightarrow> t | None \<Rightarrow> []) else [])
        in s_bind (s_check (map_err (\<lambda>e. Internal (''count query failed: '' @ e))
               (se_count env count_sql binds (db_rows db)))) (\<lambda>total_count.
             s_bind (s_check (case pg_cursor (qd_pagination q) of
                 None \<Rightarrow> Inr 0 | Some cur \<Rightarrow> decode_cursor (se_unb64 env) cur)) (\<lambda>offset.
               (let limit = min (pg_limit (qd_pagination q)) max_page;
                    full = sql @ order_by (qd_sort q) @ limit_offset limit offset
                in s_bind (stmt env full (\<lambda>e. Internal (''query prepare failed: '' @ e))) (\<lambda>_.
                     s_bind (s_check (map_err (\<lambda>e. Internal (''query execution failed: '' @ e))
                         (se_select env full binds (db_rows db)))) (\<lambda>rows.
                       s_bind (s_check (map_r (load_row env (qd_fields q)) rows)) (\<lambda>documents.
                         s_return \<lparr>dl_documents = documents, dl_total_count = total_count,
                           dl_next_cursor = next_cursor env offset limit total_count\<rparr>)))))) db)))"

definition sqlite_count :: "sqlite_env \<Rightarrow> string \<Rightarrow> filter_node option \<Rightarrow> (sqlite_db, nat) sop" where
  "sqlite_count env c flt =
     s_bind (s_check (validate_identifier c)) (\<lambda>_. s_bind (lock_conn env) (\<lambda>_ db.
       (let (sql, binds) = with_filter env count_base c flt
        in (map_err (\<lambda>e. Internal (''count query failed: '' @ e)) (se_count env sql binds (db_rows db)), db))))"

section \<open>Batches\<close>

definition batch_insert_error :: "string \<Rightarrow> string \<Rightarrow> string \<Rightarrow> storage_error" where
  "batch_insert_error c i e =
     (if contains_str e ''UNIQUE constraint'' then AlreadyExists c i else Internal e)"

fun batch_create_loop ::
  "sqlite_env \<Rightarrow> string \<Rightarrow> string \<Rightarrow> string \<Rightarrow> json list \<Rightarrow> (sqlite_db, json list) sop" where
  "batch_create_loop env plugin_id c now [] = s_return []"
| "batch_create_loop env plugin_id c now (document # rest) =
     (\<lambda>db.
       let i = document_id env document db
       in s_bind (s_check (map_err Internal (se_to_string env (strip_system_fields document)))) (\<lambda>data_json.
            s_bind (insert_row env (batch_insert_error c i)
                \<lparr>row_id = i, row_plugin_id = plugin_id, row_collection = c, row_data = data_json,
                 row_version = 1, row_created_at = now, row_updated_at = now\<rparr>) (\<lambda>_.
              s_bind (s_check (row_to_document env i data_json now now)) (\<lambda>doc.
                s_bind (batch_create_loop env plugin_id c now rest) (\<lambda>docs. s_return (doc # docs))))) (db_tick db))"

definition sqlite_batch_create :: "sqlite_env \<Rightarrow> string \<Rightarrow> string \<Rightarrow> json list \<Rightarrow> (sqlite_db, json list) sop" where
  "sqlite_batch_create env plugin_id c documents =
     s_bind (s_check (validate_identifier c)) (\<lambda>_. s_bind (lock_conn env) (\<lambda>_.
       transaction env (\<lambda>db. batch_create_loop env plugin_id c (se_now env (db_draws db)) documents (db_tick db))))"

fun batch_update_loop ::
  "sqlite_env \<Rightarrow> string \<Rightarrow> string \<Rightarrow> (string \<times> json) list \<Rightarrow> (sqlite_db, json list) sop" where
  "batch_update_loop env c now [] = s_return []"
| "batch_update_loop env c now ((i, document) # rest) =
     s_bind (update_one env c i document now) (\<lambda>doc.
       s_bind (batch_update_loop env c now rest) (\<lambda>docs. s_return (doc # docs)))"

definition sqlite_batch_update ::
  "sqlite_env \<Rightarrow> string \<Rightarrow> (string \<times> json) list \<Rightarrow> (sqlite_db, json list) sop" where
  "sqlite_batch_update env c updates =
     s_bind (s_check (validate_identifier c)) (\<lambda>_. s_bind (lock_conn env) (\<lambda>_.
       transaction env (\<lambda>db. batch_update_loop env c (se_now env (db_draws db)) updates (db_tick db))))"

definition sqlite_batch_delete :: "sqlite_env \<Rightarrow> string \<Rightarrow> string list \<Rightarrow> (sqlite_db, unit) sop" where
  "sqlite_batch_delete env c is =
     s_bind (s_check (validate_identifier c)) (\<lambda>_.
       if is = [] then s_return ()
       else s_bind (lock_conn env) (\<lambda>_.
         transaction env (s_bind (delete_rows env c is) (\<lambda>deleted.
           if deleted \<noteq> length is
           then s_fail (Internal (''batch_delete expected to delete '' @ show_nat (length is) @
                  '' rows but deleted '' @ show_nat deleted))
           else s_return ()))))"

section \<open>Migration and health\<close>

definition index_word :: "string \<Rightarrow> string" where
  "index_word = map (\<lambda>ch. if ch \<in> set ''.-'' then CHR ''_'' else ch)"

definition index_name :: "collection_descriptor \<Rightarrow> string \<Rightarrow> string" where
  "index_name d hint =
     ''idx_'' @ index_word (cd_plugin_id d) @ ''_'' @ index_word (cd_name d) @ ''_'' @ index_word hint"

fun create_indexes :: "sqlite_env \<Rightarrow> collection_descriptor \<Rightarrow> string list \<Rightarrow> (sqlite_db, unit) sop" where
  "create_indexes env d [] = s_return ()"
| "create_indexes env d (hint # rest) =
     (if \<not> list_all (\<lambda>ch. is_ascii_alphanumeric ch \<or> ch \<in> set ''_.'') hint then create_indexes env d rest
      else
        s_bind (stmt env (''CREATE INDEX IF NOT EXISTS '' @ index_name d hint @
            '' ON plugin_data(collection, json_extract(data, '' @ quoted (''$.'' @ hint) @ ''))'')
          (\<lambda>e. Internal (''index creation failed: '' @ e))) (\<lambda>_ db.
            create_indexes env d rest (db\<lparr>db_indexes := List.insert (index_name d hint) (db_indexes db)\<rparr>)))"

definition sqlite_migrate :: "sqlite_env \<Rightarrow> collection_descriptor \<Rightarrow> (sqlite_db, unit) sop" where
  "sqlite_migrate env d =
     s_bind (s_check (validate_identifier (cd_name d))) (\<lambda>_. s_bind (lock_conn env) (\<lambda>_ db.
       (let now = se_now env (db_draws db)
        in s_bind (stmt env ''INSERT INTO schema_versions'' Internal) (\<lambda>_ db.
             create_indexes env d (cd_indexes d)
               (db\<lparr>db_schema_versions := (db_schema_versions db)((cd_plugin_id d, cd_name d) \<mapsto>
                    (case db_schema_versions db (cd_plugin_id d, cd_name d) of
                       None \<Rightarrow> (1, now) | Some (v, _) \<Rightarrow> (v, now)))\<rparr>)) (db_tick db))))"

definition probe :: "sqlite_env \<Rightarrow> sqlite_db \<Rightarrow> string \<Rightarrow> string \<Rightarrow> health_check" where
  "probe env db name text =
     (case se_fault env text db of
        None \<Rightarrow> \<lparr>hc_name = name, hc_status = Healthy, hc_message = None\<rparr>
      | Some e \<Rightarrow> \<lparr>hc_name = name, hc_status = Unhealthy, hc_message = Some e\<rparr>)"

definition wal_check :: "sqlite_env \<Rightarrow> sqlite_db \<Rightarrow> health_check" where
  "wal_check env db =
     (case se_journal_mode env db of
        Inr mode \<Rightarrow>
          if mode = ''wal'' then \<lparr>hc_name = ''wal_mode'', hc_status = Healthy, hc_message = None\<rparr>
          else \<lparr>hc_name = ''wal_mode'', hc_status = Degraded,
                 hc_message = Some (''expected WAL mode, got '' @ mode)\<rparr>
      | Inl e \<Rightarrow> \<lparr>hc_name = ''wal_mode'', hc_status = Unhealthy, hc_message = Some e\<rparr>)"

definition sqlite_health :: "sqlite_env \<Rightarrow> (sqlite_db, health_report) sop" where
  "sqlite_health env =
     s_bind (lock_conn env) (\<lambda>_ db.
       (let checks = [probe env db ''connection'' ''SELECT 1'', wal_check env db,
              probe env db ''write'' ''CREATE TABLE IF NOT EXISTS _health_check (v INTEGER); DROP TABLE IF EXISTS _health_check'']
        in (Inr \<lparr>hr_status = fold worst_status (map hc_status checks) Healthy, hr_message = None,
                 hr_checks = checks\<rparr>, db)))"

definition sqlite_capabilities :: adapter_capabilities where
  "sqlite_capabilities = \<lparr>ac_indexing = True, ac_transactions = True, ac_full_text_search = False,
     ac_watch = False, ac_batch_operations = True, ac_encryption = True\<rparr>"

definition sqlite_adapter :: "sqlite_env \<Rightarrow> string \<Rightarrow> sqlite_db doc_adapter" where
  "sqlite_adapter env default_plugin_id =
     \<lparr>da_get = sqlite_get env, da_create = sqlite_create env default_plugin_id,
      da_update = sqlite_update env, da_partial_update = sqlite_partial_update env,
      da_delete = sqlite_delete env, da_query = sqlite_query env, da_count = sqlite_count env,
      da_batch_create = sqlite_batch_create env default_plugin_id,
      da_batch_update = sqlite_batch_update env, da_batch_delete = sqlite_batch_delete env,
      da_migrate = sqlite_migrate env, da_health = sqlite_health env,
      da_capabilities = sqlite_capabilities\<rparr>"

end
