(* ===== verification/Sqlite_Props.thy ===== *)
theory Sqlite_Props
  imports Sqlite_Document
begin

text \<open>
  What the SQLite adapter guarantees: ids stay unique, an operation on one collection leaves the others
  alone, batches are atomic, a created document can be read back, following cursors visits every
  matching document once. The first two are preorders on database states; the locales below carry
  them through all operations from the three statements that write rows.
\<close>

section \<open>Relations on database states\<close>

locale row_order = state_order R for R :: "sqlite_db \<Rightarrow> sqlite_db \<Rightarrow> bool" +
  assumes same_rows: "db_rows a = db_rows b \<Longrightarrow> R a b"
begin

lemma moves_stmt: "moves R (stmt env t wrap)"
  by (auto simp: moves_def stmt_def R_refl split: option.splits)

lemma moves_lock: "moves R (lock_conn env)"
  by (simp add: lock_conn_def moves_stmt)

lemma moves_tick: "moves R f \<Longrightarrow> moves R (\<lambda>db. f (db_tick db))"
  unfolding moves_def
proof
  fix db
  assume "\<forall>s. R s (snd (f s))"
  moreover have "R db (db_tick db)" by (rule same_rows) (simp add: db_tick_def)
  ultimately show "R db (snd (f (db_tick db)))" using R_trans by blast
qed

lemma moves_transaction:
  assumes "moves R body"
  shows "moves R (transaction env body)"
proof -
  let ?all = "s_bind body (\<lambda>x. s_bind (stmt env ''COMMIT'' TransactionFailed) (\<lambda>_. s_return x))"
  have all: "moves R ?all"
    by (intro moves_bind assms moves_stmt moves_return)
  have "R db (snd (case ?all db of (Inl e, db') \<Rightarrow> (Inl e, db'\<lparr>db_rows := db_rows db\<rparr>) | (Inr x, db') \<Rightarrow> (Inr x, db')))" for db
    using all by (auto simp: moves_def split: prod.splits sum.splits intro: same_rows) (metis snd_conv)
  then show ?thesis
    unfolding transaction_def by (intro moves_bind moves_stmt) (simp add: moves_def)
qed

text \<open>The same rules at a given state, which is how the bodies of the operations use them.\<close>

lemma at_bind: "R s (snd (f s)) \<Longrightarrow> (\<And>x t. R t (snd (g x t))) \<Longrightarrow> R s (snd (s_bind f g s))"
  by (auto simp: s_bind_def split: prod.splits sum.splits intro: R_trans)

lemma at_tick: "R (db_tick db) t \<Longrightarrow> R db t"
  using R_trans same_rows [of db "db_tick db"] by (simp add: db_tick_def)

lemma at_bind_tick: "R (db_tick db) (snd (s_bind f g (db_tick db))) \<Longrightarrow> R db (snd (s_bind f g (db_tick db)))"
  by (rule at_tick)

lemma at_basic:
  "R s (snd (s_check r s))" "R s (snd (s_return x s))" "R s (snd (s_fail e s))"
  "R s (snd (stmt env t wrap s))" "R s (snd (lock_conn env s))"
  by (auto simp: s_check_def s_return_def s_fail_def lock_conn_def stmt_def R_refl split: option.splits)

lemmas at_intros = at_bind at_bind_tick at_basic R_refl

lemma get_moves: "moves R (sqlite_get env c i)"
  by (auto simp: sqlite_get_def moves_def split: option.splits intro!: at_intros)

lemma query_moves: "moves R (sqlite_query env q)"
  by (auto simp: sqlite_query_def moves_def Let_def split: prod.splits intro!: at_intros)

lemma count_moves: "moves R (sqlite_count env c f)"
  by (auto simp: sqlite_count_def moves_def split: prod.splits intro!: at_intros)

lemma health_moves: "moves R (sqlite_health env)"
  by (auto simp: sqlite_health_def moves_def Let_def intro!: at_intros)

lemma at_indexes: "R db (snd (create_indexes env d hints db))"
proof (induction hints arbitrary: db)
  case (Cons hint hints)
  have "R t (snd (create_indexes env d hints (t\<lparr>db_indexes := is\<rparr>)))" for t "is"
    by (rule R_trans [OF same_rows Cons.IH]) simp
  then show ?case using Cons.IH by (auto intro!: at_intros)
qed (simp add: at_basic)

lemma migrate_moves: "moves R (sqlite_migrate env d)"
proof -
  have "R t (snd (create_indexes env d hints (t\<lparr>db_schema_versions := v\<rparr>)))" for t hints v
    by (rule R_trans [OF same_rows at_indexes]) simp
  then show ?thesis by (auto simp: sqlite_migrate_def moves_def Let_def intro!: at_intros)
qed

end

locale row_writes = row_order R for R :: "sqlite_db \<Rightarrow> sqlite_db \<Rightarrow> bool" +
  fixes c :: string
  assumes insert_R: "row_collection r = c \<Longrightarrow> row_id r \<notin> set (map row_id (db_rows db)) \<Longrightarrow>
      R db (db\<lparr>db_rows := db_rows db @ [r]\<rparr>)"
    and update_R: "R db (db\<lparr>db_rows := map (touch_row c i t now) (db_rows db)\<rparr>)"
    and delete_R: "R db (db\<lparr>db_rows := filter (\<lambda>r. \<not> (row_collection r = c \<and> row_id r \<in> set is)) (db_rows db)\<rparr>)"
begin

lemma at_insert: "row_collection r = c \<Longrightarrow> R db (snd (insert_row env wrap r db))"
  by (auto simp: insert_row_def intro!: at_intros insert_R)

lemma at_update: "R db (snd (update_rows env c i t now db))"
  unfolding update_rows_def by (rule at_bind) (simp_all add: at_basic update_R)

lemma at_delete: "R db (snd (delete_rows env c is db))"
  unfolding delete_rows_def by (rule at_bind) (use delete_R in \<open>simp_all add: at_basic\<close>)

lemma at_update_one: "R db (snd (update_one env c i d now db))"
  by (auto simp: update_one_def split: option.splits intro!: at_intros at_update)

lemma create_moves: "moves R (sqlite_create env plugin_id c d)"
  by (auto simp: sqlite_create_def moves_def Let_def intro!: at_intros at_insert)

lemma update_moves: "moves R (sqlite_update env c i d)"
  by (auto simp: sqlite_update_def moves_def intro!: at_intros at_tick [OF at_update_one])

lemma partial_update_moves: "moves R (sqlite_partial_update env c i p)"
  by (auto simp: sqlite_partial_update_def moves_def Let_def split: option.splits intro!: at_intros at_update)

lemma delete_moves: "moves R (sqlite_delete env c i)"
  by (auto simp: sqlite_delete_def moves_def intro!: at_intros at_delete)

lemma at_create_loop: "R db (snd (batch_create_loop env plugin_id c now ds db))"
  by (induction ds arbitrary: db) (auto simp: Let_def intro!: at_intros at_insert)

lemma at_update_loop: "R db (snd (batch_update_loop env c now us db))"
  by (induction us arbitrary: db) (auto intro!: at_intros at_update_one)

lemma batch_create_moves: "moves R (sqlite_batch_create env plugin_id c ds)"
  unfolding sqlite_batch_create_def
  by (intro moves_bind moves_check moves_lock moves_transaction)
    (auto simp: moves_def intro!: at_tick [OF at_create_loop])

lemma batch_update_moves: "moves R (sqlite_batch_update env c us)"
  unfolding sqlite_batch_update_def
  by (intro moves_bind moves_check moves_lock moves_transaction)
    (auto simp: moves_def intro!: at_tick [OF at_update_loop])

lemma batch_delete_moves: "moves R (sqlite_batch_delete env c is)"
  unfolding sqlite_batch_delete_def
  by (intro moves_bind moves_check moves_if moves_return moves_lock moves_transaction moves_fail)
    (auto simp: moves_def at_delete)

end

text \<open>The two relations: unique ids are kept, and rows of other collections are left alone.\<close>

definition ids_unique :: "sqlite_db \<Rightarrow> bool" where
  "ids_unique db = distinct (map row_id (db_rows db))"

definition ids_kept :: "sqlite_db \<Rightarrow> sqlite_db \<Rightarrow> bool" where
  "ids_kept db db' \<longleftrightarrow> (ids_unique db \<longrightarrow> ids_unique db')"

definition collection_rows :: "sqlite_db \<Rightarrow> string \<Rightarrow> sql_row list" where
  "collection_rows db c = filter (\<lambda>r. row_collection r = c) (db_rows db)"

lemma touch_row_simps [simp]:
  "row_id (touch_row c i t now r) = row_id r"
  "row_collection (touch_row c i t now r) = row_collection r"
  "row_created_at (touch_row c i t now r) = row_created_at r"
  "row_collection r \<noteq> c \<Longrightarrow> touch_row c i t now r = r"
  by (simp_all add: touch_row_def is_row_def)

lemma touch_row_ids: "map (row_id \<circ> touch_row c i t now) rs = map row_id rs"
  by (induction rs) simp_all

lemma touch_row_elsewhere:
  "c' \<noteq> c \<Longrightarrow> filter (\<lambda>r. row_collection r = c') (map (touch_row c i t now) rs) = filter (\<lambda>r. row_collection r = c') rs"
  by (induction rs) auto

interpretation uniq: row_writes ids_kept c for c
  by unfold_locales (auto simp: ids_kept_def ids_unique_def distinct_map_filter touch_row_ids)

interpretation frame: row_writes "elsewhere collection_rows c" c for c
  by unfold_locales
    (auto simp: elsewhere_def collection_rows_def touch_row_elsewhere intro!: filter_cong)

section \<open>The adapter as a document store\<close>

definition json_text_ok :: "sqlite_env \<Rightarrow> bool" where
  "json_text_ok env \<longleftrightarrow> (\<forall>j t. se_to_string env j = Inr t \<longrightarrow> se_from_str env t = Inr j)"

lemma sqlite_create_ok:
  assumes "sqlite_create env plugin_id c d db = (Inr d', db')"
  obtains i t now where "i = document_id env d db" "now = se_now env (db_draws db)"
    and "se_to_string env (strip_system_fields d) = Inr t" "i \<notin> set (map row_id (db_rows db))"
    and "db_rows db' = db_rows db @ [\<lparr>row_id = i, row_plugin_id = plugin_id, row_collection = c, row_data = t,
      row_version = 1, row_created_at = now, row_updated_at = now\<rparr>]"
    and "row_to_document env i t now now = Inr d'"
  using assms
  by (auto simp: sqlite_create_def s_bind_ok s_check_def Let_def insert_row_def lock_conn_def stmt_def
      db_tick_def map_err_eq_Inr split: option.splits if_splits)

lemma find_row_last:
  "row_id r \<notin> set (map row_id rs) \<Longrightarrow> db_rows db = rs @ [r] \<Longrightarrow> find_row (row_collection r) (row_id r) db = Some r"
proof -
  have "row_id r \<notin> set (map row_id rs) \<Longrightarrow> List.find (is_row (row_collection r) (row_id r)) (rs @ [r]) = Some r"
    by (induction rs) (auto simp: is_row_def)
  then show "row_id r \<notin> set (map row_id rs) \<Longrightarrow> db_rows db = rs @ [r] \<Longrightarrow>
      find_row (row_collection r) (row_id r) db = Some r"
    by (simp add: find_row_def)
qed

lemma row_to_document_object:
  assumes "row_to_document env i t ca ua = Inr d" "se_from_str env t = Inr (JObject ob)"
  shows "d = JObject (obj_insert ''updated_at'' (JString ua)
    (obj_insert ''created_at'' (JString ca) (obj_insert ''id'' (JString i) ob)))"
  using assms by (simp add: row_to_document_def)

lemma row_to_document_id:
  assumes "row_to_document env i t ca ua = Inr d" "json_get d ''id'' = Some (JString i')"
  shows "i' = i"
proof -
  obtain doc where "se_from_str env t = Inr doc"
    using assms(1) by (auto simp: row_to_document_def r_bind_eq_Inr map_err_eq_Inr)
  with assms show ?thesis
    by (cases doc) (auto simp: row_to_document_def json_get_def obj_get_insert)
qed

lemma sqlite_get_created:
  assumes "sqlite_create env plugin_id c d db = (Inr d', db')" "json_get d' ''id'' = Some (JString i)"
  shows "fst (sqlite_get env c i db') = Inr d' \<or> (\<exists>m. fst (sqlite_get env c i db') = Inl (Internal m))"
proof (rule sqlite_create_ok [OF assms(1)])
  fix j t now
  let ?r = "\<lparr>row_id = j, row_plugin_id = plugin_id, row_collection = c, row_data = t,
      row_version = 1, row_created_at = now, row_updated_at = now\<rparr>"
  assume new: "j \<notin> set (map row_id (db_rows db))" "db_rows db' = db_rows db @ [?r]"
    and d': "row_to_document env j t now now = Inr d'" and t: "se_to_string env (strip_system_fields d) = Inr t"
  have "i = j" using row_to_document_id [OF d' assms(2)] .
  moreover have "find_row c j db' = Some ?r" using find_row_last [of ?r] new by simp
  moreover have "is_ok (validate_identifier c)"
    using assms(1) by (auto simp: sqlite_create_def s_bind_ok s_check_def)
  ultimately show ?thesis
    using d' by (auto simp: sqlite_get_def is_ok_iff s_bind_def s_check_def lock_conn_def stmt_def
        split: option.splits)
qed

lemma sqlite_create_fields:
  assumes "json_text_ok env" "sqlite_create env plugin_id c (JObject ob) db = (Inr d', db')"
  shows "\<exists>ob'. d' = JObject ob' \<and>
    (\<forall>k. k \<notin> {''id'', ''created_at'', ''updated_at''} \<longrightarrow> obj_get ob' k = obj_get ob k) \<and>
    (\<forall>i. obj_get ob ''id'' = Some (JString i) \<longrightarrow> obj_get ob' ''id'' = Some (JString i))"
proof (rule sqlite_create_ok [OF assms(2)])
  fix j t now
  assume j: "j = document_id env (JObject ob) db"
    and t: "se_to_string env (strip_system_fields (JObject ob)) = Inr t"
    and d': "row_to_document env j t now now = Inr d'"
  have "se_from_str env t = Inr (strip_system_fields (JObject ob))"
    using assms(1) t by (simp add: json_text_ok_def)
  with row_to_document_object [OF d'] j show ?thesis
    by (simp add: strip_system_fields_def obj_get_insert obj_get_remove document_id_def json_get_def as_str_def)
qed

interpretation sqlite: document_store "sqlite_adapter env plugin_id" collection_rows "json_text_ok env"
  for env plugin_id
proof
  fix c d s d' s' i
  assume "da_create (sqlite_adapter env plugin_id) c d s = (Inr d', s')" "json_get d' ''id'' = Some (JString i)"
  then show "fst (da_get (sqlite_adapter env plugin_id) c i s') = Inr d' \<or>
      (\<exists>m. fst (da_get (sqlite_adapter env plugin_id) c i s') = Inl (Internal m))"
    using sqlite_get_created by (simp add: sqlite_adapter_def)
next
  fix c ob s d' s'
  assume "json_text_ok env" "da_create (sqlite_adapter env plugin_id) c (JObject ob) s = (Inr d', s')"
  then show "\<exists>ob'. d' = JObject ob' \<and>
    (\<forall>k. k \<notin> {''id'', ''created_at'', ''updated_at''} \<longrightarrow> obj_get ob' k = obj_get ob k) \<and>
    (\<forall>i. obj_get ob ''id'' = Some (JString i) \<longrightarrow> obj_get ob' ''id'' = Some (JString i))"
    by (intro sqlite_create_fields) (simp_all add: sqlite_adapter_def)
qed (simp_all add: sqlite_adapter_def frame.get_moves frame.create_moves frame.update_moves
      frame.delete_moves frame.query_moves frame.count_moves)

section \<open>Batches\<close>

lemma transaction_failed:
  "transaction env body db = (Inl e, db') \<Longrightarrow> db_rows db' = db_rows db"
  by (auto simp: transaction_def s_bind_def stmt_def split: option.splits prod.splits sum.splits)

lemma transaction_ok:
  "transaction env body db = (Inr x, db') \<Longrightarrow> body db = (Inr x, db')"
  by (auto simp: transaction_def s_bind_def stmt_def s_return_def split: option.splits prod.splits sum.splits)

lemma locked_failed:
  assumes "s_bind (s_check r) (\<lambda>_. s_bind (lock_conn env) (\<lambda>_. transaction env body)) db = (Inl e, db')"
  shows "db_rows db' = db_rows db"
  using assms transaction_failed [of env body db]
  by (auto simp: s_bind_def s_check_def lock_conn_def stmt_def split: sum.splits option.splits)

lemma locked_ok:
  assumes "s_bind (s_check r) (\<lambda>_. s_bind (lock_conn env) (\<lambda>_. transaction env body)) db = (Inr x, db')"
  shows "body db = (Inr x, db')"
  using assms transaction_ok [of env body db]
  by (auto simp: s_bind_def s_check_def lock_conn_def stmt_def split: sum.splits option.splits)

lemma batch_create_failed: "sqlite_batch_create env plugin_id c ds db = (Inl e, db') \<Longrightarrow> db_rows db' = db_rows db"
  unfolding sqlite_batch_create_def by (rule locked_failed)

lemma batch_update_failed: "sqlite_batch_update env c us db = (Inl e, db') \<Longrightarrow> db_rows db' = db_rows db"
  unfolding sqlite_batch_update_def by (rule locked_failed)

lemma batch_delete_failed:
  assumes "sqlite_batch_delete env c is db = (Inl e, db')"
  shows "db_rows db' = db_rows db"
proof (cases "is = []")
  case True
  then show ?thesis using assms
    by (auto simp: sqlite_batch_delete_def s_bind_def s_check_def s_return_def split: sum.splits)
next
  case False
  show ?thesis
    by (rule locked_failed) (use assms False in \<open>simp add: sqlite_batch_delete_def\<close>)
qed

lemma insert_row_ok: "insert_row env wrap r db = (Inr u, db') \<Longrightarrow> db_rows db' = db_rows db @ [r]"
  by (auto simp: insert_row_def s_bind_def stmt_def split: option.splits if_splits)

lemma create_loop_ok:
  assumes "batch_create_loop env plugin_id c now ds db = (Inr docs, db')"
  shows "\<exists>new. db_rows db' = db_rows db @ new \<and> length new = length ds \<and> length docs = length ds \<and>
    (\<forall>r \<in> set new. row_collection r = c)"
  using assms
proof (induction ds arbitrary: db docs)
  case Nil
  then show ?case by (simp add: s_return_def)
next
  case (Cons d ds)
  obtain t dbm doc docs' where
    "insert_row env (batch_insert_error c (document_id env d db))
       \<lparr>row_id = document_id env d db, row_plugin_id = plugin_id, row_collection = c, row_data = t,
        row_version = 1, row_created_at = now, row_updated_at = now\<rparr> (db_tick db) = (Inr (), dbm)"
    and loop: "batch_create_loop env plugin_id c now ds dbm = (Inr docs', db')" and "docs = doc # docs'"
    using Cons.prems by (auto simp: Let_def s_bind_ok s_check_def s_return_def)
  then obtain r where "db_rows dbm = db_rows db @ [r]" "row_collection r = c" and docs: "docs = doc # docs'"
    using insert_row_ok by (fastforce simp: db_tick_def)
  moreover from Cons.IH [OF loop] obtain new where "db_rows db' = db_rows dbm @ new"
    "length new = length ds" "length docs' = length ds" "\<forall>r \<in> set new. row_collection r = c" by blast
  ultimately show ?case by (intro exI [of _ "r # new"]) simp
qed

section \<open>Pagination\<close>

text \<open>A client that follows the cursors until there is none, at most \<open>n\<close> pages.\<close>

fun follow :: "sqlite_env \<Rightarrow> query_descriptor \<Rightarrow> nat \<Rightarrow> sqlite_db \<Rightarrow> (storage_error, json list) result option" where
  "follow env q 0 db = None"
| "follow env q (Suc n) db =
     (case sqlite_query env q db of
        (Inl e, _) \<Rightarrow> Some (Inl e)
      | (Inr page, db') \<Rightarrow>
          (case dl_next_cursor page of
             None \<Rightarrow> Some (Inr (dl_documents page))
           | Some cur \<Rightarrow>
               map_option (\<lambda>r. r_bind r (\<lambda>rest. Inr (dl_documents page @ rest)))
                 (follow env (q\<lparr>qd_pagination := (qd_pagination q)\<lparr>pg_cursor := Some cur\<rparr>\<rparr>) n db')))"

definition page_size :: "query_descriptor \<Rightarrow> nat" where
  "page_size q = min (pg_limit (qd_pagination q)) max_page"

text \<open>
  What is relied on in the database for a query: no statement fails, the count is that of the matching
  rows \<open>rows\<close>, and a \<open>LIMIT\<close>/\<open>OFFSET\<close> statement returns the slice of those rows.
\<close>

definition serves :: "sqlite_env \<Rightarrow> query_descriptor \<Rightarrow> sqlite_db \<Rightarrow> sql_row list \<Rightarrow> bool" where
  "serves env q db rows \<longleftrightarrow>
     (\<forall>t. se_fault env t db = None) \<and> (\<forall>b. se_unb64 env (se_b64 env b) = Some b) \<and>
     (let (sql, binds) = with_filter env select_base (qd_collection q) (qd_filter q)
      in se_count env (fst (with_filter env count_base (qd_collection q) (qd_filter q))) binds (db_rows db) =
           Inr (length rows) \<and>
         (\<forall>n \<le> length rows. se_select env (sql @ order_by (qd_sort q) @ limit_offset (page_size q) n) binds (db_rows db) =
           Inr (map Inr (take (page_size q) (drop n rows)))))"

lemma count_text:
  "with_filter env select_base c flt = (sql, binds) \<Longrightarrow>
   count_base @ (if flt \<noteq> None then (case strip_prefix sql select_base of Some t \<Rightarrow> t | None \<Rightarrow> []) else []) =
     fst (with_filter env count_base c flt)"
  by (auto simp: with_filter_def strip_prefix_def split: option.splits prod.splits)

lemma map_r_slice:
  "map_r f xs = Inr ys \<Longrightarrow> map_r f (take k (drop n xs)) = Inr (take k (drop n ys))"
proof -
  have take: "map_r f xs = Inr ys \<Longrightarrow> map_r f (take k xs) = Inr (take k ys)" for xs ys
    by (induction xs arbitrary: ys k) (auto simp: r_bind_eq_Inr take_Cons split: nat.splits)
  have "map_r f xs = Inr ys \<Longrightarrow> map_r f (drop n xs) = Inr (drop n ys)" for xs ys
    by (induction xs arbitrary: ys n) (auto simp: r_bind_eq_Inr drop_Cons split: nat.splits)
  then show "map_r f xs = Inr ys \<Longrightarrow> map_r f (take k (drop n xs)) = Inr (take k (drop n ys))"
    using take by blast
qed

lemma query_page:
  assumes "validate_identifier (qd_collection q) = Inr ()" "serves env q db rows"
    and "map_r (load_row env (qd_fields q)) (map Inr rows) = Inr docs" "n \<le> length rows"
    and "(case pg_cursor (qd_pagination q) of None \<Rightarrow> Inr 0 | Some cur \<Rightarrow> decode_cursor (se_unb64 env) cur) = Inr n"
  shows "sqlite_query env q db =
    (Inr \<lparr>dl_documents = take (page_size q) (drop n docs), dl_total_count = length rows,
       dl_next_cursor = next_cursor env n (page_size q) (length rows)\<rparr>, db)"
proof -
  obtain sql binds where w: "with_filter env select_base (qd_collection q) (qd_filter q) = (sql, binds)" by force
  have "map_r (load_row env (qd_fields q)) (map Inr (take (page_size q) (drop n rows))) =
      Inr (take (page_size q) (drop n docs))"
    using map_r_slice [OF assms(3)] by (simp add: take_map drop_map)
  with assms w show ?thesis
    using count_text [OF w]
    by (simp add: sqlite_query_def serves_def page_size_def [symmetric] lock_conn_def stmt_def s_bind_def
        s_check_def s_return_def Let_def)
qed

lemma serves_cursor [simp]:
  "serves env (q\<lparr>qd_pagination := (qd_pagination q)\<lparr>pg_cursor := cur\<rparr>\<rparr>) db rows = serves env q db rows"
  by (simp add: serves_def page_size_def)

lemma page_size_cursor [simp]:
  "page_size (q\<lparr>qd_pagination := (qd_pagination q)\<lparr>pg_cursor := cur\<rparr>\<rparr>) = page_size q"
  by (simp add: page_size_def)

lemma follow_from:
  assumes "validate_identifier (qd_collection q) = Inr ()" "serves env q db rows"
    and "map_r (load_row env (qd_fields q)) (map Inr rows) = Inr docs"
    and "n \<le> length rows" "length rows < 2 ^ 63" "0 < page_size q" "length rows - n < fuel"
    and "(case pg_cursor (qd_pagination q) of None \<Rightarrow> Inr 0 | Some cur \<Rightarrow> decode_cursor (se_unb64 env) cur) = Inr n"
  shows "follow env q fuel db = Some (Inr (drop n docs))"
  using assms
proof (induction fuel arbitrary: q n)
  case (Suc fuel)
  have len: "length docs = length rows" using map_r_length [OF Suc.prems(3)] by simp
  have "page_size q \<le> 1000" by (simp add: page_size_def max_page_def)
  then have small: "(n + page_size q) mod 2 ^ 64 = n + page_size q" using Suc.prems(4, 5) by simp
  note page = query_page [OF Suc.prems(1 - 4) Suc.prems(8)]
  show ?case
  proof (cases "n + page_size q < length rows")
    case False
    then show ?thesis using page small len by (simp add: next_cursor_def)
  next
    case True
    let ?cur = "encode_cursor (se_b64 env) (n + page_size q)"
    let ?q = "q\<lparr>qd_pagination := (qd_pagination q)\<lparr>pg_cursor := Some ?cur\<rparr>\<rparr>"
    have "decode_cursor (se_unb64 env) ?cur = Inr (n + page_size q)"
      by (rule decode_encode_cursor) (use Suc.prems(2, 5) True in \<open>auto simp: serves_def\<close>)
    then have "follow env ?q fuel db = Some (Inr (drop (n + page_size q) docs))"
      by (intro Suc.IH) (use Suc.prems True in auto)
    moreover have "take (page_size q) (drop n docs) @ drop (n + page_size q) docs = drop n docs"
      by (metis append_take_drop_id drop_drop add.commute)
    ultimately show ?thesis using page small True by (simp add: next_cursor_def Let_def)
  qed
qed simp

text \<open>A closed environment: it knows the text of one value, and serves pages of a single row.\<close>

definition sample_env :: "json \<Rightarrow> sqlite_env" where
  "sample_env j0 =
     \<lparr>se_to_string = (\<lambda>j. if j = j0 then Inr ''doc'' else Inl ''unsupported''),
      se_from_str = (\<lambda>t. if t = ''doc'' then Inr j0 else Inl ''unsupported''), se_display = (\<lambda>_. []),
      se_b64 = (\<lambda>b. b), se_unb64 = Some, se_uuid = show_nat, se_now = show_nat,
      se_select = (\<lambda>t _ rows. Inr (map Inr
        (if t = select_base @ limit_offset 1 0 then take 1 rows
         else if t = select_base @ limit_offset 1 1 then take 1 (drop 1 rows) else []))),
      se_count = (\<lambda>_ _ rows. Inr (length rows)), se_journal_mode = (\<lambda>_. Inr ''wal''),
      se_fault = (\<lambda>_ _. None)\<rparr>"

definition sample_row :: "string \<Rightarrow> sql_row" where
  "sample_row i = \<lparr>row_id = i, row_plugin_id = ''p'', row_collection = ''notes'', row_data = ''doc'',
     row_version = 1, row_created_at = ''t0'', row_updated_at = ''t0''\<rparr>"

definition sample_db :: sqlite_db where
  "sample_db = \<lparr>db_rows = [sample_row ''a'', sample_row ''b''], db_schema_versions = Map.empty,
     db_indexes = [], db_draws = 0\<rparr>"

definition sample_query :: query_descriptor where
  "sample_query = \<lparr>qd_collection = ''notes'', qd_filter = None, qd_sort = [],
     qd_pagination = \<lparr>pg_limit = 1, pg_cursor = None\<rparr>, qd_fields = None, qd_text_search = None\<rparr>"

section \<open>Properties\<close>



text \<open>The operations of the adapter as steps of the database.\<close>

inductive sqlite_step :: "sqlite_env \<Rightarrow> string \<Rightarrow> sqlite_db \<Rightarrow> sqlite_db \<Rightarrow> bool"
  for env :: sqlite_env and plugin_id :: string where
  get: "sqlite_step env plugin_id db (snd (sqlite_get env c i db))"
| create: "sqlite_step env plugin_id db (snd (sqlite_create env plugin_id c d db))"
| update: "sqlite_step env plugin_id db (snd (sqlite_update env c i d db))"
| partial_update: "sqlite_step env plugin_id db (snd (sqlite_partial_update env c i d db))"
| delete: "sqlite_step env plugin_id db (snd (sqlite_delete env c i db))"
| query: "sqlite_step env plugin_id db (snd (sqlite_query env q db))"
| count: "sqlite_step env plugin_id db (snd (sqlite_count env c f db))"
| batch_create: "sqlite_step env plugin_id db (snd (sqlite_batch_create env plugin_id c ds db))"
| batch_update: "sqlite_step env plugin_id db (snd (sqlite_batch_update env c us db))"
| batch_delete: "sqlite_step env plugin_id db (snd (sqlite_batch_delete env c is db))"
| migrate: "sqlite_step env plugin_id db (snd (sqlite_migrate env desc db))"
| health: "sqlite_step env plugin_id db (snd (sqlite_health env db))"

lemma sqlite_step_ids: "sqlite_step env plugin_id db db' \<Longrightarrow> ids_kept db db'"
  by (induction rule: sqlite_step.induct)
    (auto intro: uniq.get_moves [unfolded moves_def, rule_format] uniq.create_moves [unfolded moves_def, rule_format]
      uniq.update_moves [unfolded moves_def, rule_format] uniq.partial_update_moves [unfolded moves_def, rule_format]
      uniq.delete_moves [unfolded moves_def, rule_format] uniq.query_moves [unfolded moves_def, rule_format]
      uniq.count_moves [unfolded moves_def, rule_format] uniq.batch_create_moves [unfolded moves_def, rule_format]
      uniq.batch_update_moves [unfolded moves_def, rule_format] uniq.batch_delete_moves [unfolded moves_def, rule_format]
      uniq.migrate_moves [unfolded moves_def, rule_format] uniq.health_moves [unfolded moves_def, rule_format])



section \<open>Merge patches\<close>

lemma merge_entries_get:
  assumes "distinct (map fst ps)"
  shows "obj_get (merge_entries t ps) k =
    (case obj_get ps k of
       None \<Rightarrow> obj_get t k
     | Some v \<Rightarrow> if is_null v then None
         else Some (json_merge_patch (case obj_get t k of Some x \<Rightarrow> x | None \<Rightarrow> JNull) v))"
  using assms
proof (induction ps arbitrary: t)
  case (Cons p ps)
  obtain k' v where p: "p = (k', v)" by force
  have "obj_get ps k' = None" using Cons.prems p by (simp add: obj_get_None_iff obj_keys_def)
  with Cons p show ?case
    by (cases "k = k'") (simp_all add: obj_get_insert obj_get_remove del: json_merge_patch.simps split: option.splits)
qed simp



end
