(* ===== verification/Storage_Context.thy ===== *)
theory Storage_Context
  imports Schema_Registry Crypto Sqlite_Props
begin

text \<open>
  The enforcement layer in front of the router (\<open>traits/src/storage_context.rs\<close>): capabilities,
  collection scoping, schema validation, system fields, encryption of credentials, audit events. The
  state is the store behind the router together with the audit channel (unbounded, with its receiver
  alive: the list of events sent) and the number of draws made from the environment, which provides
  fresh ids, the time and nonces.
\<close>

section \<open>Callers\<close>

datatype storage_capability = DocRead | DocWrite | DocDelete | BlobRead | BlobWrite | BlobDelete

fun capability_as_str :: "storage_capability \<Rightarrow> string" where
  "capability_as_str DocRead = ''storage:doc:read''"
| "capability_as_str DocWrite = ''storage:doc:write''"
| "capability_as_str DocDelete = ''storage:doc:delete''"
| "capability_as_str BlobRead = ''storage:blob:read''"
| "capability_as_str BlobWrite = ''storage:blob:write''"
| "capability_as_str BlobDelete = ''storage:blob:delete''"

definition capability_parse :: "string \<Rightarrow> storage_capability option" where
  "capability_parse s =
     (if s = ''storage:doc:read'' then Some DocRead
      else if s = ''storage:doc:write'' then Some DocWrite
      else if s = ''storage:doc:delete'' then Some DocDelete
      else if s = ''storage:blob:read'' then Some BlobRead
      else if s = ''storage:blob:write'' then Some BlobWrite
      else if s = ''storage:blob:delete'' then Some BlobDelete
      else None)"

record collection_access =
  ca_collection :: string
  ca_access :: string

datatype caller_identity =
    PluginCaller (plugin_id: string) (capabilities: "storage_capability set")
      (shared_collections: "collection_access list")
  | SystemCaller

record audit_event =
  ae_event_type :: string
  ae_origin :: string
  ae_payload :: json

section \<open>The context\<close>

record 's storage_context =
  sc_router :: "'s storage_router"
  sc_schema_registry :: schema_registry
  sc_credential_master_key :: "string option"
  sc_lib :: crypto_lib
  sc_uuid :: "nat \<Rightarrow> string"
  sc_now :: "nat \<Rightarrow> string"
  sc_nonce :: "nat \<Rightarrow> string"

record 's context_state =
  cx_store :: 's
  cx_audit :: "audit_event list"
  cx_draws :: nat

definition credentials_collection :: string where
  "credentials_collection = ''credentials''"

definition check_capability :: "caller_identity \<Rightarrow> storage_capability \<Rightarrow> (storage_error, unit) result" where
  "check_capability caller required =
     (case caller of
        SystemCaller \<Rightarrow> Inr ()
      | PluginCaller pid caps _ \<Rightarrow>
          if required \<in> caps then Inr ()
          else Inl (PermissionDenied (''plugin '' @ quoted pid @ '' lacks capability '' @
                      quoted (capability_as_str required))))"

definition resolve_collection :: "caller_identity \<Rightarrow> string \<Rightarrow> bool \<Rightarrow> (storage_error, string) result" where
  "resolve_collection caller c is_plugin_scoped =
     (case caller of
        SystemCaller \<Rightarrow> Inr c
      | PluginCaller pid _ shared \<Rightarrow>
          if is_plugin_scoped then Inr (pid @ ''.'' @ c)
          else if \<not> list_ex (\<lambda>ca. ca_collection ca = c) shared
          then Inl (PermissionDenied (''plugin '' @ quoted pid @
                      '' has not declared access to shared collection '' @ quoted c))
          else Inr c)"

definition origin :: "caller_identity \<Rightarrow> string" where
  "origin caller = (case caller of SystemCaller \<Rightarrow> ''system'' | PluginCaller pid _ _ \<Rightarrow> pid)"

definition emit_audit :: "audit_event \<Rightarrow> ('s context_state, unit) sop" where
  "emit_audit ev st = (Inr (), st\<lparr>cx_audit := cx_audit st @ [ev]\<rparr>)"

text \<open>A draw from the environment, and an operation of the router on the store.\<close>

definition draw :: "('s context_state, nat) sop" where
  "draw st = (Inr (cx_draws st), st\<lparr>cx_draws := Suc (cx_draws st)\<rparr>)"

definition on_store :: "('s, 'a) sop \<Rightarrow> ('s context_state, 'a) sop" where
  "on_store f st = (let (r, s') = f (cx_store st) in (r, st\<lparr>cx_store := s'\<rparr>))"

section \<open>Credentials\<close>

definition encrypt_credential_claims ::
  "'s storage_context \<Rightarrow> json \<Rightarrow> ('s context_state, json) sop" where
  "encrypt_credential_claims ctx doc =
     (case (sc_credential_master_key ctx, doc) of
        (Some master_key, JObject ob) \<Rightarrow>
          if Option.bind (obj_get ob ''encrypted'') as_bool = Some True then s_return doc
          else
            (case obj_get ob ''claims'' of
               None \<Rightarrow> s_return doc
             | Some claims \<Rightarrow>
                 s_bind (s_check (ok_or (Option.bind (obj_get ob ''id'') as_str)
                     (Internal (''credential document missing '' @ quoted ''id'' @ '' field'')))) (\<lambda>i.
                   s_bind draw (\<lambda>n.
                     s_bind (s_check (map_err (\<lambda>e. Internal (''credential encryption failed: '' @ crypto_error_to_string e))
                         (encrypt_claims (sc_lib ctx) (sc_nonce ctx n) master_key i claims))) (\<lambda>encrypted.
                       s_return (JObject (obj_insert ''encrypted'' (JBool True)
                         (obj_insert ''claims'' (JString encrypted) ob)))))))
      | _ \<Rightarrow> s_return doc)"

definition decrypt_credential_claims :: "'s storage_context \<Rightarrow> json \<Rightarrow> (storage_error, json) result" where
  "decrypt_credential_claims ctx doc =
     (case (sc_credential_master_key ctx, doc) of
        (Some master_key, JObject ob) \<Rightarrow>
          if Option.bind (obj_get ob ''encrypted'') as_bool \<noteq> Some True then Inr doc
          else
            r_bind (ok_or (Option.bind (obj_get ob ''claims'') as_str)
                (Internal (''encrypted credential missing string '' @ quoted ''claims'' @ '' field''))) (\<lambda>ciphertext.
              r_bind (ok_or (Option.bind (obj_get ob ''id'') as_str)
                  (Internal (''credential document missing '' @ quoted ''id'' @ '' field''))) (\<lambda>i.
                r_bind (map_err (\<lambda>e. Internal (''credential decryption failed: '' @ crypto_error_to_string e))
                    (decrypt_claims (sc_lib ctx) master_key i ciphertext)) (\<lambda>decrypted.
                  Inr (JObject (obj_remove ''encrypted'' (obj_insert ''claims'' decrypted ob))))))
      | _ \<Rightarrow> Inr doc)"

definition is_credentials_collection :: "string \<Rightarrow> bool" where
  "is_credentials_collection resolved \<longleftrightarrow>
     resolved = credentials_collection \<or> ends_with resolved (''.'' @ credentials_collection)"

section \<open>System fields and namespaces\<close>

definition inject_system_fields_create :: "'s storage_context \<Rightarrow> nat \<Rightarrow> json \<Rightarrow> json" where
  "inject_system_fields_create ctx n doc =
     (case doc of
        JObject ob \<Rightarrow>
          (let ob1 = (if \<not> obj_contains ob ''id'' then obj_insert ''id'' (JString (sc_uuid ctx n)) ob else ob)
           in JObject (obj_insert ''updated_at'' (JString (sc_now ctx n))
                (obj_insert ''created_at'' (JString (sc_now ctx n)) ob1)))
      | _ \<Rightarrow> doc)"

definition inject_system_fields_update :: "'s storage_context \<Rightarrow> nat \<Rightarrow> json \<Rightarrow> json" where
  "inject_system_fields_update ctx n doc =
     (case doc of
        JObject ob \<Rightarrow> JObject (obj_insert ''updated_at'' (JString (sc_now ctx n)) ob)
      | _ \<Rightarrow> doc)"

definition check_extension_namespace :: "caller_identity \<Rightarrow> json \<Rightarrow> (storage_error, unit) result" where
  "check_extension_namespace caller doc =
     (case caller of
        SystemCaller \<Rightarrow> Inr ()
      | PluginCaller pid _ _ \<Rightarrow>
          (case Option.bind (json_get doc ''ext'') as_object of
             None \<Rightarrow> Inr ()
           | Some ext \<Rightarrow>
               check_all (\<lambda>ns. if ns \<noteq> pid
                   then Inl (PermissionDenied (''plugin '' @ quoted pid @
                          '' cannot write to extension namespace '' @ quoted (''ext.'' @ ns)))
                   else Inr ()) (obj_keys ext)))"

section \<open>Reading documents\<close>

definition doc_get :: "'s storage_context \<Rightarrow> caller_identity \<Rightarrow> string \<Rightarrow> string \<Rightarrow> bool \<Rightarrow> ('s context_state, json) sop" where
  "doc_get ctx caller c i plugin_scoped =
     s_bind (s_check (check_capability caller DocRead)) (\<lambda>_.
       s_bind (s_check (resolve_collection caller c plugin_scoped)) (\<lambda>resolved.
         s_bind (on_store (router_doc_get (sc_router ctx) resolved i)) (\<lambda>doc.
           if is_credentials_collection resolved then s_check (decrypt_credential_claims ctx doc)
           else s_return doc)))"

definition doc_query :: "'s storage_context \<Rightarrow> caller_identity \<Rightarrow> query_descriptor \<Rightarrow> bool \<Rightarrow> ('s context_state, document_list) sop" where
  "doc_query ctx caller descriptor plugin_scoped =
     s_bind (s_check (check_capability caller DocRead)) (\<lambda>_.
       s_bind (s_check (resolve_collection caller (qd_collection descriptor) plugin_scoped)) (\<lambda>resolved.
         s_bind (on_store (router_doc_query (sc_router ctx) (descriptor\<lparr>qd_collection := resolved\<rparr>))) (\<lambda>result.
           if is_credentials_collection resolved
           then s_bind (s_check (map_r (decrypt_credential_claims ctx) (dl_documents result))) (\<lambda>docs.
                  s_return (result\<lparr>dl_documents := docs\<rparr>))
           else s_return result)))"

definition doc_count :: "'s storage_context \<Rightarrow> caller_identity \<Rightarrow> string \<Rightarrow> filter_node option \<Rightarrow> bool \<Rightarrow> ('s context_state, nat) sop" where
  "doc_count ctx caller c filters plugin_scoped =
     s_bind (s_check (check_capability caller DocRead)) (\<lambda>_.
       s_bind (s_check (resolve_collection caller c plugin_scoped)) (\<lambda>resolved.
         on_store (router_doc_count (sc_router ctx) resolved filters)))"

section \<open>Writing documents\<close>

text \<open>
  Validation happens for plugins that have registered a schema under the unqualified name. The document
  the registry returns is dropped; two fresh ids and a time are drawn.
\<close>

definition validate_for ::
  "'s storage_context \<Rightarrow> string \<Rightarrow> string \<Rightarrow> json \<Rightarrow> bool \<Rightarrow> json option \<Rightarrow> ('s context_state, unit) sop" where
  "validate_for ctx pid c document is_create existing =
     s_bind draw (\<lambda>n. s_bind draw (\<lambda>m.
       s_bind (s_check (map_err (\<lambda>e. SValidationFailed (schema_error_to_string e) None)
           (validate_write (sc_schema_registry ctx) (sc_uuid ctx n, sc_uuid ctx m) (sc_now ctx n) c pid document
             is_create existing))) (\<lambda>_. s_return ())))"

definition schema_of :: "'s storage_context \<Rightarrow> caller_identity \<Rightarrow> string \<Rightarrow> string option" where
  "schema_of ctx caller c =
     (case caller of
        SystemCaller \<Rightarrow> None
      | PluginCaller pid _ _ \<Rightarrow>
          if get_collection (sc_schema_registry ctx) pid c \<noteq> None then Some pid else None)"

definition validate_create :: "'s storage_context \<Rightarrow> caller_identity \<Rightarrow> string \<Rightarrow> json \<Rightarrow> ('s context_state, unit) sop" where
  "validate_create ctx caller c document =
     (case schema_of ctx caller c of
        None \<Rightarrow> s_return ()
      | Some pid \<Rightarrow> validate_for ctx pid c document True None)"

text \<open>The existing document is read first; a failed read counts as no document.\<close>

definition validate_update ::
  "'s storage_context \<Rightarrow> caller_identity \<Rightarrow> string \<Rightarrow> string \<Rightarrow> string \<Rightarrow> json \<Rightarrow> ('s context_state, unit) sop" where
  "validate_update ctx caller c resolved i document =
     (case schema_of ctx caller c of
        None \<Rightarrow> s_return ()
      | Some pid \<Rightarrow> (\<lambda>st.
          let (existing, st1) = on_store (router_doc_get (sc_router ctx) resolved i) st
          in validate_for ctx pid c document False (case existing of Inr d \<Rightarrow> Some d | Inl _ \<Rightarrow> None) st1))"

definition write_event :: "string \<Rightarrow> caller_identity \<Rightarrow> string \<Rightarrow> string \<Rightarrow> audit_event" where
  "write_event kind caller resolved i =
     \<lparr>ae_event_type = kind, ae_origin = origin caller,
      ae_payload = JObject [(''collection'', JString resolved), (''id'', JString i)]\<rparr>"

definition protect :: "'s storage_context \<Rightarrow> string \<Rightarrow> json \<Rightarrow> ('s context_state, json) sop" where
  "protect ctx resolved document =
     (if is_credentials_collection resolved then encrypt_credential_claims ctx document else s_return document)"

definition doc_create :: "'s storage_context \<Rightarrow> caller_identity \<Rightarrow> string \<Rightarrow> json \<Rightarrow> bool \<Rightarrow> ('s context_state, json) sop" where
  "doc_create ctx caller c document plugin_scoped =
     s_bind (s_check (check_capability caller DocWrite)) (\<lambda>_.
       s_bind (s_check (resolve_collection caller c plugin_scoped)) (\<lambda>resolved.
         s_bind (s_check (check_extension_namespace caller document)) (\<lambda>_.
           s_bind (validate_create ctx caller c document) (\<lambda>_.
             s_bind draw (\<lambda>n.
               (let document1 = inject_system_fields_create ctx n document;
                    i = (case Option.bind (json_get document1 ''id'') as_str of Some i \<Rightarrow> i | None \<Rightarrow> [])
                in s_bind (protect ctx resolved document1) (\<lambda>document2.
                     s_bind (on_store (router_doc_create (sc_router ctx) resolved document2)) (\<lambda>result.
                       s_bind (emit_audit (write_event ''system.storage.created'' caller resolved i)) (\<lambda>_.
                         s_return result)))))))))"

definition doc_update ::
  "'s storage_context \<Rightarrow> caller_identity \<Rightarrow> string \<Rightarrow> string \<Rightarrow> json \<Rightarrow> bool \<Rightarrow> ('s context_state, json) sop" where
  "doc_update ctx caller c i document plugin_scoped =
     s_bind (s_check (check_capability caller DocWrite)) (\<lambda>_.
       s_bind (s_check (resolve_collection caller c plugin_scoped)) (\<lambda>resolved.
         s_bind (s_check (check_extension_namespace caller document)) (\<lambda>_.
           s_bind (validate_update ctx caller c resolved i document) (\<lambda>_.
             s_bind draw (\<lambda>n.
               s_bind (protect ctx resolved (inject_system_fields_update ctx n document)) (\<lambda>document2.
                 s_bind (on_store (router_doc_update (sc_router ctx) resolved i document2)) (\<lambda>result.
                   s_bind (emit_audit (write_event ''system.storage.updated'' caller resolved i)) (\<lambda>_.
                     s_return result))))))))"

definition doc_delete :: "'s storage_context \<Rightarrow> caller_identity \<Rightarrow> string \<Rightarrow> string \<Rightarrow> bool \<Rightarrow> ('s context_state, unit) sop" where
  "doc_delete ctx caller c i plugin_scoped =
     s_bind (s_check (check_capability caller DocDelete)) (\<lambda>_.
       s_bind (s_check (resolve_collection caller c plugin_scoped)) (\<lambda>resolved.
         s_bind (on_store (router_doc_delete (sc_router ctx) resolved i)) (\<lambda>_.
           emit_audit (write_event ''system.storage.deleted'' caller resolved i))))"

section \<open>Blobs\<close>

definition blob_retrieve :: "'s storage_context \<Rightarrow> caller_identity \<Rightarrow> string \<Rightarrow> ('s context_state, string \<times> blob_meta) sop" where
  "blob_retrieve ctx caller key =
     s_bind (s_check (check_capability caller BlobRead)) (\<lambda>_. on_store (router_blob_retrieve (sc_router ctx) key))"

definition blob_exists :: "'s storage_context \<Rightarrow> caller_identity \<Rightarrow> string \<Rightarrow> ('s context_state, bool) sop" where
  "blob_exists ctx caller key =
     s_bind (s_check (check_capability caller BlobRead)) (\<lambda>_. on_store (router_blob_exists (sc_router ctx) key))"

definition blob_list :: "'s storage_context \<Rightarrow> caller_identity \<Rightarrow> string \<Rightarrow> ('s context_state, blob_meta list) sop" where
  "blob_list ctx caller prefix =
     s_bind (s_check (check_capability caller BlobRead)) (\<lambda>_. on_store (router_blob_list (sc_router ctx) prefix))"

definition blob_metadata :: "'s storage_context \<Rightarrow> caller_identity \<Rightarrow> string \<Rightarrow> ('s context_state, blob_meta) sop" where
  "blob_metadata ctx caller key =
     s_bind (s_check (check_capability caller BlobRead)) (\<lambda>_. on_store (router_blob_metadata (sc_router ctx) key))"

definition blob_event :: "string \<Rightarrow> caller_identity \<Rightarrow> string \<Rightarrow> audit_event" where
  "blob_event kind caller key =
     \<lparr>ae_event_type = kind, ae_origin = origin caller, ae_payload = JObject [(''key'', JString key)]\<rparr>"

definition blob_store :: "'s storage_context \<Rightarrow> caller_identity \<Rightarrow> string \<Rightarrow> blob_input \<Rightarrow> ('s context_state, blob_meta) sop" where
  "blob_store ctx caller key input =
     s_bind (s_check (check_capability caller BlobWrite)) (\<lambda>_.
       s_bind (on_store (router_blob_store (sc_router ctx) key input)) (\<lambda>result.
         s_bind (emit_audit (blob_event ''system.blob.stored'' caller key)) (\<lambda>_. s_return result)))"

definition blob_delete :: "'s storage_context \<Rightarrow> caller_identity \<Rightarrow> string \<Rightarrow> ('s context_state, unit) sop" where
  "blob_delete ctx caller key =
     s_bind (s_check (check_capability caller BlobDelete)) (\<lambda>_.
       s_bind (on_store (router_blob_delete (sc_router ctx) key)) (\<lambda>_.
         emit_audit (blob_event ''system.blob.deleted'' caller key)))"

section \<open>Health\<close>

definition context_health :: "'s storage_context \<Rightarrow> ('s context_state, health_report) sop" where
  "context_health ctx = on_store (router_health (sc_router ctx))"

end
