(* ===== verification/Context_Props.thy ===== *)
theory Context_Props
  imports Storage_Context
begin

text \<open>
  What the storage context enforces. The lemmas on documents are proved for any adapter that meets the
  contract \<open>document_store\<close> and reach the SQLite adapter through its interpretation.
\<close>

section \<open>Relations on context states\<close>

definition on_stores :: "('s \<Rightarrow> 's \<Rightarrow> bool) \<Rightarrow> 's context_state \<Rightarrow> 's context_state \<Rightarrow> bool" where
  "on_stores R st st' = R (cx_store st) (cx_store st')"

definition same_collection :: "('s \<Rightarrow> string \<Rightarrow> 'v) \<Rightarrow> string \<Rightarrow> 's \<Rightarrow> 's \<Rightarrow> bool" where
  "same_collection view c s s' \<longleftrightarrow> view s' c = view s c"

definition same_audit :: "'s context_state \<Rightarrow> 's context_state \<Rightarrow> bool" where
  "same_audit st st' \<longleftrightarrow> cx_audit st' = cx_audit st"

lemma on_stores_order: "state_order R \<Longrightarrow> state_order (on_stores R)"
  by unfold_locales (auto simp: on_stores_def intro: state_order.R_refl state_order.R_trans)

interpretation kept: state_order "same_collection view c" for view c
  by unfold_locales (simp_all add: same_collection_def)

interpretation silent: state_order same_audit
  by unfold_locales (simp_all add: same_audit_def)

lemma moves_on_store: "moves R f \<Longrightarrow> moves (on_stores R) (on_store f)"
  by (simp add: moves_def on_stores_def on_store_def case_prod_unfold Let_def)

lemma moves_elsewhere: "moves (elsewhere view c) f \<Longrightarrow> c' \<noteq> c \<Longrightarrow> moves (same_collection view c') f"
  by (auto simp: moves_def elsewhere_def same_collection_def)

lemma draw_on_stores: "state_order R \<Longrightarrow> moves (on_stores R) draw"
  by (simp add: moves_def draw_def on_stores_def state_order.R_refl)

lemma emit_on_stores: "state_order R \<Longrightarrow> moves (on_stores R) (emit_audit ev)"
  by (simp add: moves_def emit_audit_def on_stores_def state_order.R_refl)

lemma draw_silent: "moves same_audit draw"
  by (simp add: moves_def draw_def same_audit_def)

lemma on_store_silent: "moves same_audit (on_store f)"
  by (simp add: moves_def on_store_def same_audit_def case_prod_unfold Let_def)

lemma protect_moves:
  assumes "state_order R" "moves R draw"
  shows "moves R (protect ctx resolved d)"
proof -
  note rules = state_order.moves_bind [OF assms(1)] state_order.moves_return [OF assms(1)]
    state_order.moves_check [OF assms(1)]
  show ?thesis
    by (cases d) (auto simp: protect_def encrypt_credential_claims_def assms(2) split: option.splits
        intro!: rules)
qed

lemma validate_for_moves:
  assumes "state_order R" "moves R draw"
  shows "moves R (validate_for ctx pid c d b e)"
  unfolding validate_for_def
  by (intro state_order.moves_bind [OF assms(1)] state_order.moves_return [OF assms(1)]
      state_order.moves_check [OF assms(1)] assms(2))

lemma validate_create_moves:
  assumes "state_order R" "moves R draw"
  shows "moves R (validate_create ctx caller c d)"
  by (auto simp: validate_create_def split: option.splits
      intro: state_order.moves_return [OF assms(1)] validate_for_moves [OF assms])

lemma validate_update_moves:
  assumes "state_order R" "moves R draw" "moves R (on_store (router_doc_get (sc_router ctx) resolved i))"
  shows "moves R (validate_update ctx caller c resolved i d)"
proof (cases "schema_of ctx caller c")
  case None
  then show ?thesis by (simp add: validate_update_def state_order.moves_return [OF assms(1)])
next
  case (Some pid)
  have "R st (snd (on_store (router_doc_get (sc_router ctx) resolved i) st))" for st
    using assms(3) by (simp add: moves_def)
  moreover have "R st (snd (validate_for ctx pid c d b e st))" for st b e
    using validate_for_moves [OF assms(1, 2)] by (simp add: moves_def)
  ultimately show ?thesis
    using Some state_order.R_trans [OF assms(1)]
    by (simp add: moves_def validate_update_def case_prod_unfold Let_def) blast
qed

section \<open>Calls\<close>

text \<open>The document operations a plugin can call, and their effect on the state, whatever they return.\<close>

datatype doc_call =
    CallGet string string bool
  | CallQuery query_descriptor bool
  | CallCount string "filter_node option" bool
  | CallCreate string json bool
  | CallUpdate string string json bool
  | CallDelete string string bool

fun perform :: "'s storage_context \<Rightarrow> caller_identity \<Rightarrow> doc_call \<Rightarrow> 's context_state \<Rightarrow> 's context_state" where
  "perform ctx caller (CallGet c i b) st = snd (doc_get ctx caller c i b st)"
| "perform ctx caller (CallQuery q b) st = snd (doc_query ctx caller q b st)"
| "perform ctx caller (CallCount c f b) st = snd (doc_count ctx caller c f b st)"
| "perform ctx caller (CallCreate c d b) st = snd (doc_create ctx caller c d b st)"
| "perform ctx caller (CallUpdate c i d b) st = snd (doc_update ctx caller c i d b st)"
| "perform ctx caller (CallDelete c i b) st = snd (doc_delete ctx caller c i b st)"

fun required_capability :: "doc_call \<Rightarrow> storage_capability" where
  "required_capability (CallGet _ _ _) = DocRead"
| "required_capability (CallQuery _ _) = DocRead"
| "required_capability (CallCount _ _ _) = DocRead"
| "required_capability (CallCreate _ _ _) = DocWrite"
| "required_capability (CallUpdate _ _ _ _) = DocWrite"
| "required_capability (CallDelete _ _ _) = DocDelete"

lemma perform_denied:
  "check_capability caller (required_capability call) = Inl e \<Longrightarrow> perform ctx caller call st = st"
  by (cases call) (simp_all add: doc_get_def doc_query_def doc_count_def doc_create_def doc_update_def doc_delete_def)

text \<open>
  A preorder on stores that the router's operations on every collection the caller can reach go along
  is one that the calls go along.
\<close>

definition router_moves :: "('s \<Rightarrow> 's \<Rightarrow> bool) \<Rightarrow> 's storage_router \<Rightarrow> string \<Rightarrow> bool" where
  "router_moves R r c \<longleftrightarrow>
     (\<forall>i. moves R (router_doc_get r c i)) \<and> (\<forall>d. moves R (router_doc_create r c d)) \<and>
     (\<forall>i d. moves R (router_doc_update r c i d)) \<and> (\<forall>i. moves R (router_doc_delete r c i)) \<and>
     (\<forall>f. moves R (router_doc_count r c f)) \<and>
     (\<forall>q. qd_collection q = c \<longrightarrow> moves R (router_doc_query r q))"

lemma doc_ops_move:
  assumes "state_order R" and reach: "\<And>c b r. resolve_collection caller c b = Inr r \<Longrightarrow> router_moves R (sc_router ctx) r"
  shows "moves (on_stores R) (doc_get ctx caller c i b)" and "moves (on_stores R) (doc_query ctx caller q b)"
    and "moves (on_stores R) (doc_count ctx caller c f b)" and "moves (on_stores R) (doc_create ctx caller c d b)"
    and "moves (on_stores R) (doc_update ctx caller c i d b)" and "moves (on_stores R) (doc_delete ctx caller c i b)"
proof -
  note ord = on_stores_order [OF assms(1)] and draw = draw_on_stores [OF assms(1)]
  note guard = state_order.moves_checked [OF ord]
  note rules = guard state_order.moves_bind [OF ord] state_order.moves_check [OF ord] state_order.moves_return [OF ord]
    state_order.moves_if [OF ord] moves_on_store draw emit_on_stores [OF assms(1)] protect_moves [OF ord draw]
    validate_create_moves [OF ord draw] validate_update_moves [OF ord draw]
  have get: "resolve_collection caller c b = Inr r \<Longrightarrow> moves R (router_doc_get (sc_router ctx) r i)"
    and create: "resolve_collection caller c b = Inr r \<Longrightarrow> moves R (router_doc_create (sc_router ctx) r d)"
    and update: "resolve_collection caller c b = Inr r \<Longrightarrow> moves R (router_doc_update (sc_router ctx) r i d)"
    and delete: "resolve_collection caller c b = Inr r \<Longrightarrow> moves R (router_doc_delete (sc_router ctx) r i)"
    and count: "resolve_collection caller c b = Inr r \<Longrightarrow> moves R (router_doc_count (sc_router ctx) r f)"
    and query: "resolve_collection caller c b = Inr (qd_collection q) \<Longrightarrow> moves R (router_doc_query (sc_router ctx) q)"
    for c b r i d f q
    using reach unfolding router_moves_def by blast+
  show "moves (on_stores R) (doc_get ctx caller c i b)"
    unfolding doc_get_def by (intro rules get)
  show "moves (on_stores R) (doc_query ctx caller q b)"
    unfolding doc_query_def by (intro rules query) simp
  show "moves (on_stores R) (doc_count ctx caller c f b)"
    unfolding doc_count_def by (intro rules count)
  show "moves (on_stores R) (doc_create ctx caller c d b)"
    unfolding doc_create_def Let_def by (intro rules create)
  show "moves (on_stores R) (doc_update ctx caller c i d b)"
    unfolding doc_update_def by (intro rules get update)
  show "moves (on_stores R) (doc_delete ctx caller c i b)"
    unfolding doc_delete_def by (intro rules delete)
qed

lemma perform_moves:
  assumes "state_order R" and "\<And>c b r. resolve_collection caller c b = Inr r \<Longrightarrow> router_moves R (sc_router ctx) r"
  shows "on_stores R st (perform ctx caller call st)"
  using doc_ops_move [OF assms] by (cases call) (simp_all add: moves_def)

lemma resolve_collection_plugin:
  "resolve_collection (PluginCaller pid caps shared) c b = Inr r \<Longrightarrow>
   starts_with r (pid @ ''.'') \<or> r \<in> ca_collection ` set shared"
  by (auto simp: resolve_collection_def list_ex_iff starts_with_iff split: if_splits)

section \<open>Successful writes\<close>

lemma doc_create_ok:
  assumes "doc_create ctx caller c d b st = (Inr res, st')" "resolve_collection caller c b = Inr r"
  obtains n st1 doc2 st2 st3 where
    "protect ctx r (inject_system_fields_create ctx n d) st1 = (Inr doc2, st2)"
    "on_store (router_doc_create (sc_router ctx) r doc2) st2 = (Inr res, st3)" "cx_store st' = cx_store st3"
proof -
  have "\<exists>n st1 doc2 st2 st3. protect ctx r (inject_system_fields_create ctx n d) st1 = (Inr doc2, st2) \<and>
    on_store (router_doc_create (sc_router ctx) r doc2) st2 = (Inr res, st3) \<and> cx_store st' = cx_store st3"
    using assms(1) unfolding doc_create_def Let_def s_bind_ok
    by (elim exE conjE) (use assms(2) in \<open>auto simp: s_check_def s_return_def emit_audit_def; blast\<close>)
  then show ?thesis using that by blast
qed

lemma doc_get_ok:
  assumes "doc_get ctx caller c i b st = (Inr d, st')" "resolve_collection caller c b = Inr r"
    and "is_credentials_collection r"
  shows "\<exists>doc. fst (da_get (sr_doc (sc_router ctx)) r i (cx_store st)) = Inr doc \<and>
    decrypt_credential_claims ctx doc = Inr d"
proof -
  obtain doc st1 where doc: "on_store (router_doc_get (sc_router ctx) r i) st = (Inr doc, st1)"
    and dec: "decrypt_credential_claims ctx doc = Inr d"
    using assms by (auto simp: doc_get_def s_bind_ok s_check_def)
  from doc obtain s1 where "router_doc_get (sc_router ctx) r i (cx_store st) = (Inr doc, s1)"
    by (auto simp: on_store_def Let_def split: prod.splits)
  then have "da_get (sr_doc (sc_router ctx)) r i (cx_store st) = (Inr doc, s1)"
    unfolding router_doc_get_def by (rule with_timeout_ok)
  with dec show ?thesis by simp
qed

lemma protect_ok:
  assumes "protect ctx r (JObject ob) st = (Inr doc, st')" "is_credentials_collection r"
    and "sc_credential_master_key ctx = Some key"
    and "obj_get ob ''claims'' = Some claims" "obj_get ob ''encrypted'' \<noteq> Some (JBool True)"
  shows "\<exists>i m cipher. obj_get ob ''id'' = Some (JString i) \<and>
    encrypt_claims (sc_lib ctx) (sc_nonce ctx m) key i claims = Inr cipher \<and>
    doc = JObject (obj_insert ''encrypted'' (JBool True) (obj_insert ''claims'' (JString cipher) ob))"
proof -
  have "Option.bind (obj_get ob ''encrypted'') as_bool \<noteq> Some True"
    using assms(5) by (simp add: bind_eq_Some_conv as_bool_eq_Some)
  moreover have "Option.bind (obj_get ob ''id'') as_str = Some i \<longleftrightarrow> obj_get ob ''id'' = Some (JString i)" for i
    by (simp add: bind_eq_Some_conv as_str_eq_Some)
  ultimately show ?thesis
    using assms(1 - 4)
    by (auto simp: protect_def encrypt_credential_claims_def s_bind_ok s_check_def s_return_def ok_or_eq_Inr
        map_err_eq_Inr)
qed

section \<open>Isolation\<close>

context document_store
begin

lemma router_frames:
  assumes "sr_doc r = da" "c' \<noteq> c"
  shows "moves (same_collection view c') (router_doc_get r c i)"
    and "moves (same_collection view c') (router_doc_create r c d)"
    and "moves (same_collection view c') (router_doc_update r c i d)"
    and "moves (same_collection view c') (router_doc_delete r c i)"
    and "moves (same_collection view c') (router_doc_count r c f)"
    and "qd_collection q = c \<Longrightarrow> moves (same_collection view c') (router_doc_query r q)"
proof -
  have ord: "state_order (same_collection view c')"
    by unfold_locales (simp_all add: same_collection_def)
  note timeout = state_order.moves_with_timeout [OF ord]
  show "moves (same_collection view c') (router_doc_get r c i)"
    unfolding router_doc_get_def assms(1) by (rule timeout [OF moves_elsewhere [OF get_frame assms(2)]])
  show "moves (same_collection view c') (router_doc_create r c d)"
    unfolding router_doc_create_def assms(1) by (rule timeout [OF moves_elsewhere [OF create_frame assms(2)]])
  show "moves (same_collection view c') (router_doc_update r c i d)"
    unfolding router_doc_update_def assms(1) by (rule timeout [OF moves_elsewhere [OF update_frame assms(2)]])
  show "moves (same_collection view c') (router_doc_delete r c i)"
    unfolding router_doc_delete_def assms(1) by (rule timeout [OF moves_elsewhere [OF delete_frame assms(2)]])
  show "moves (same_collection view c') (router_doc_count r c f)"
    unfolding router_doc_count_def assms(1) by (rule timeout [OF moves_elsewhere [OF count_frame assms(2)]])
  show "moves (same_collection view c') (router_doc_query r q)" if "qd_collection q = c"
    unfolding router_doc_query_def assms(1)
    by (rule timeout [OF moves_elsewhere [OF query_frame]]) (use that assms(2) in simp)
qed

lemma call_frame:
  assumes "sr_doc (sc_router ctx) = da" and "\<And>c b. resolve_collection caller c b \<noteq> Inr c'"
  shows "view (cx_store (perform ctx caller call st)) c' = view (cx_store st) c'"
proof -
  have "router_moves (same_collection view c') (sc_router ctx) r" if "resolve_collection caller c b = Inr r" for c b r
    unfolding router_moves_def using that assms(2) router_frames [OF assms(1)] by metis
  from perform_moves [OF kept.state_order_axioms this] show ?thesis
    by (simp add: on_stores_def same_collection_def)
qed

lemma calls_frame:
  assumes "sr_doc (sc_router ctx) = da" and "\<And>c b. resolve_collection caller c b \<noteq> Inr c'"
  shows "view (cx_store (fold (perform ctx caller) calls st)) c' = view (cx_store st) c'"
  by (induction calls arbitrary: st) (simp_all add: call_frame [OF assms])

lemma credentials_read_back:
  assumes da: "sr_doc (sc_router ctx) = da" and ok: text_ok "aead_correct (sc_lib ctx)" "codecs_correct (sc_lib ctx)"
    and nonce: "\<And>n. length (sc_nonce ctx n) = nonce_size" and key: "sc_credential_master_key ctx = Some key"
    and cred: "resolve_collection caller c b = Inr r" "is_credentials_collection r"
    and claims: "obj_get ob ''claims'' = Some claims" "obj_get ob ''encrypted'' \<noteq> Some (JBool True)"
    and created: "doc_create ctx caller c (JObject ob) b st = (Inr d, st')"
  shows "\<exists>i n cipher. json_get d ''id'' = Some (JString i) \<and> json_get d ''claims'' = Some (JString cipher) \<and>
    encrypt_claims (sc_lib ctx) (sc_nonce ctx n) key i claims = Inr cipher \<and>
    (\<forall>d' st''. doc_get ctx caller c i b st' = (Inr d', st'') \<longrightarrow>
       json_get d' ''claims'' = Some claims \<and> json_get d' ''encrypted'' = None)"
proof -
  obtain n doc2 st1 st2 st3 where
    prot: "protect ctx r (inject_system_fields_create ctx n (JObject ob)) st1 = (Inr doc2, st2)"
    and store: "on_store (router_doc_create (sc_router ctx) r doc2) st2 = (Inr d, st3)"
    and st': "cx_store st' = cx_store st3"
    using doc_create_ok [OF created cred(1)] by blast
  obtain ob1 where ob1: "inject_system_fields_create ctx n (JObject ob) = JObject ob1"
    and same: "obj_get ob1 ''claims'' = Some claims" "obj_get ob1 ''encrypted'' \<noteq> Some (JBool True)"
    using claims by (simp add: inject_system_fields_create_def Let_def obj_get_insert)
  obtain i m cipher where i: "obj_get ob1 ''id'' = Some (JString i)"
    and cipher: "encrypt_claims (sc_lib ctx) (sc_nonce ctx m) key i claims = Inr cipher"
    and doc2: "doc2 = JObject (obj_insert ''encrypted'' (JBool True) (obj_insert ''claims'' (JString cipher) ob1))"
    using protect_ok [OF prot [unfolded ob1] cred(2) key same] by blast
  have made: "da_create da r doc2 (cx_store st2) = (Inr d, cx_store st')"
    using store st' da
    by (auto simp: on_store_def router_doc_create_def split: prod.splits dest!: with_timeout_ok)
  obtain ob' where d: "d = JObject ob'" "obj_get ob' ''claims'' = Some (JString cipher)"
      "obj_get ob' ''encrypted'' = Some (JBool True)" "obj_get ob' ''id'' = Some (JString i)"
  proof -
    from create_fields [OF ok(1) made [unfolded doc2]] obtain ob' where "d = JObject ob'"
      and keep: "\<forall>k. k \<notin> {''id'', ''created_at'', ''updated_at''} \<longrightarrow>
        obj_get ob' k = obj_get (obj_insert ''encrypted'' (JBool True) (obj_insert ''claims'' (JString cipher) ob1)) k"
      and "\<forall>j. obj_get (obj_insert ''encrypted'' (JBool True) (obj_insert ''claims'' (JString cipher) ob1)) ''id'' =
        Some (JString j) \<longrightarrow> obj_get ob' ''id'' = Some (JString j)" by blast
    with that i keep [rule_format, of "''claims''"] keep [rule_format, of "''encrypted''"] show ?thesis by simp
  qed
  have plain: "json_get d' ''claims'' = Some claims \<and> json_get d' ''encrypted'' = None"
    if "doc_get ctx caller c i b st' = (Inr d', st'')" for d' st''
  proof -
    from doc_get_ok [OF that cred] da obtain doc where got: "fst (da_get da r i (cx_store st')) = Inr doc"
      and d': "decrypt_credential_claims ctx doc = Inr d'" by blast
    have "json_get d ''id'' = Some (JString i)" using d by (simp add: json_get_def)
    from get_created [OF made this] got have "doc = d" by auto
    moreover have "decrypt_claims (sc_lib ctx) key i cipher = Inr claims"
      by (rule decrypt_encrypt_claims [OF ok(2, 3) nonce cipher])
    ultimately have "d' = JObject (obj_remove ''encrypted'' (obj_insert ''claims'' claims ob'))"
      using d' d key by (simp add: decrypt_credential_claims_def as_bool_def)
    then show ?thesis by (simp add: json_get_def obj_get_insert obj_get_remove)
  qed
  then show ?thesis using d cipher by (auto simp: json_get_def)
qed

end

context document_store
begin

lemma documents_read_back:
  assumes da: "sr_doc (sc_router ctx) = da" and plain: "resolve_collection caller c b = Inr r" "\<not> is_credentials_collection r"
    and created: "doc_create ctx caller c d0 b st = (Inr d, st')" and i: "json_get d ''id'' = Some (JString i)"
    and got: "doc_get ctx caller c i b st' = (Inr d', st'')"
  shows "d' = d"
proof -
  obtain doc2 st2 st3 where store: "on_store (router_doc_create (sc_router ctx) r doc2) st2 = (Inr d, st3)"
    and st': "cx_store st' = cx_store st3"
    using doc_create_ok [OF created plain(1)] by blast
  have made: "da_create da r doc2 (cx_store st2) = (Inr d, cx_store st')"
    using store st' da
    by (auto simp: on_store_def router_doc_create_def split: prod.splits dest!: with_timeout_ok)
  obtain st1 where "on_store (router_doc_get (sc_router ctx) r i) st' = (Inr d', st1)"
    using got plain by (auto simp: doc_get_def s_bind_ok s_check_def s_return_def)
  then obtain s1 where "router_doc_get (sc_router ctx) r i (cx_store st') = (Inr d', s1)"
    by (auto simp: on_store_def Let_def split: prod.splits)
  then have "da_get da r i (cx_store st') = (Inr d', s1)"
    unfolding router_doc_get_def da by (rule with_timeout_ok)
  with get_created [OF made i] show ?thesis by auto
qed

end

section \<open>Auditing\<close>

text \<open>\<open>audits P f\<close>: when \<open>f\<close> succeeds it has sent exactly one event, which satisfies \<open>P\<close>; when it fails, none.\<close>

definition audits :: "(audit_event \<Rightarrow> bool) \<Rightarrow> ('s context_state, 'a) sop \<Rightarrow> bool" where
  "audits P f \<longleftrightarrow>
     (\<forall>st r st'. f st = (r, st') \<longrightarrow>
       (case r of
          Inl _ \<Rightarrow> cx_audit st' = cx_audit st
        | Inr _ \<Rightarrow> \<exists>ev. P ev \<and> cx_audit st' = cx_audit st @ [ev]))"

lemma audits_bind:
  assumes "moves same_audit f" "\<And>x. audits P (g x)"
  shows "audits P (s_bind f g)"
  unfolding audits_def
proof (intro allI impI)
  fix st r st'
  assume run: "s_bind f g st = (r, st')"
  obtain x st1 where f: "f st = (x, st1)" by force
  then have "cx_audit st1 = cx_audit st"
    using assms(1) unfolding moves_def same_audit_def by (metis snd_conv)
  moreover have "case r of Inl _ \<Rightarrow> cx_audit st' = cx_audit st1
      | Inr _ \<Rightarrow> \<exists>ev. P ev \<and> cx_audit st' = cx_audit st1 @ [ev]"
  proof (cases x)
    case (Inr y)
    with run f have "g y st1 = (r, st')" by (simp add: s_bind_def)
    with assms(2) [of y] show ?thesis unfolding audits_def by blast
  qed (use run f in \<open>auto simp: s_bind_def\<close>)
  ultimately show "case r of Inl _ \<Rightarrow> cx_audit st' = cx_audit st
      | Inr _ \<Rightarrow> \<exists>ev. P ev \<and> cx_audit st' = cx_audit st @ [ev]" by (cases r) simp_all
qed

lemma audits_guard: "(\<And>x. r = Inr x \<Longrightarrow> audits P (g x)) \<Longrightarrow> audits P (s_bind (s_check r) g)"
  by (cases r) (auto simp: audits_def)

lemma audits_emit: "P ev \<Longrightarrow> audits P (emit_audit ev)"
  by (auto simp: audits_def emit_audit_def)

lemma audits_emit_return: "P ev \<Longrightarrow> audits P (s_bind (emit_audit ev) (\<lambda>_. s_return x))"
  by (auto simp: audits_def emit_audit_def s_bind_def s_return_def)

lemmas silent_rules = silent.moves_bind silent.moves_check silent.moves_return silent.moves_if
  on_store_silent draw_silent

section \<open>Properties\<close>


text \<open>
  C3: plugins are confined to their collections. Whatever document calls a plugin makes, in whatever
  order and with whatever outcomes (timeouts included), over the SQLite adapter: the rows of a
  collection that it has not declared as shared and whose name does not start with its own prefix are
  unchanged; and a call for which it lacks the capability changes nothing at all.
\<close>

theorem plugin_confined:
  assumes "sr_doc (sc_router ctx) = sqlite_adapter env default_plugin"
  shows "(c' \<notin> ca_collection ` set shared \<and> \<not> starts_with c' (pid @ ''.'') \<longrightarrow>
      collection_rows (cx_store (fold (perform ctx (PluginCaller pid caps shared)) calls st)) c' =
        collection_rows (cx_store st) c') \<and>
    (required_capability call \<notin> caps \<longrightarrow> perform ctx (PluginCaller pid caps shared) call st = st)"
proof (intro conjI impI)
  assume "c' \<notin> ca_collection ` set shared \<and> \<not> starts_with c' (pid @ ''.'')"
  then have "resolve_collection (PluginCaller pid caps shared) c b \<noteq> Inr c'" for c b
    using resolve_collection_plugin by blast
  then show "collection_rows (cx_store (fold (perform ctx (PluginCaller pid caps shared)) calls st)) c' =
        collection_rows (cx_store st) c'"
    by (intro sqlite.calls_frame [OF assms])
next
  assume "required_capability call \<notin> caps"
  then show "perform ctx (PluginCaller pid caps shared) call st = st"
    by (intro perform_denied) (simp add: check_capability_def)
qed

definition sample_context :: "json \<Rightarrow> sqlite_db storage_context" where
  "sample_context j =
     \<lparr>sc_router = \<lparr>sr_doc = sqlite_adapter (sample_env j) ''core'', sr_blob = idle_blob_adapter,
        sr_timeouts = default_timeouts, sr_deadline = (\<lambda>_ _. None)\<rparr>,
      sc_schema_registry = sg_new, sc_credential_master_key = Some ''k'', sc_lib = sample_lib,
      sc_uuid = show_nat, sc_now = show_nat, sc_nonce = (\<lambda>_. ''twelve bytes'')\<rparr>"

definition sample_state :: "sqlite_db context_state" where
  "sample_state = \<lparr>cx_store = sample_db, cx_audit = [], cx_draws = 0\<rparr>"

theorem plugin_confined_witness:
  "collection_rows (cx_store (fold (perform (sample_context JNull) (PluginCaller ''q'' {DocRead, DocDelete} []))
     [CallDelete ''notes'' ''a'' True, CallDelete ''notes'' ''a'' False] sample_state)) ''notes'' =
   [sample_row ''a'', sample_row ''b'']"
proof -
  have "\<not> starts_with ''notes'' (''q'' @ ''.'')" by (simp add: starts_with_def)
  moreover have "collection_rows (cx_store sample_state) ''notes'' = [sample_row ''a'', sample_row ''b'']"
    by (simp add: sample_state_def sample_db_def collection_rows_def sample_row_def)
  ultimately show ?thesis
    using plugin_confined [of "sample_context JNull" "sample_env JNull" "''core''" "''notes''" "[]" "''q''"
        "{DocRead, DocDelete}" "[CallDelete ''notes'' ''a'' True, CallDelete ''notes'' ''a'' False]" sample_state]
    by (simp add: sample_context_def del: fold_simps perform.simps)
qed


definition sample_credential :: jobject where
  "sample_credential = [(''claims'', JNull), (''id'', JString ''x'')]"

definition sealed_credential :: json where
  "sealed_credential = JObject [(''claims'', JString (''twelve bytes'' @ ''k'' @ credential_hkdf_info @ ''x'' @ ''null'')),
     (''encrypted'', JBool True)]"

lemmas run_defs = s_bind_def s_check_def s_return_def lock_conn_def stmt_def on_store_def emit_audit_def draw_def
  check_capability_def resolve_collection_def check_extension_namespace_def with_timeout_def Let_def

lemma validate_credentials: "validate_identifier ''credentials'' = Inr ()"
  by (simp add: validate_identifier_def is_ascii_alphanumeric_def is_ascii_alphabetic_def is_ascii_digit_def)

lemma is_credentials: "is_credentials_collection ''credentials''"
  by (simp add: is_credentials_collection_def credentials_collection_def)

lemma sample_sealing:
  "encrypt_claims sample_lib ''twelve bytes'' ''k'' ''x'' JNull =
     Inr (''twelve bytes'' @ ''k'' @ credential_hkdf_info @ ''x'' @ ''null'')"
  by (simp add: encrypt_claims_def encrypt_def derive_credential_key_def sample_lib_def)

lemma sample_opening:
  "decrypt_claims sample_lib ''k'' ''x'' (''twelve bytes'' @ ''k'' @ credential_hkdf_info @ ''x'' @ ''null'') = Inr JNull"
  by (rule decrypt_encrypt_claims [OF sample_lib_laws _ sample_sealing]) (simp add: nonce_size_def)

text \<open>The sample credential, created and read through all layers.\<close>

definition sample_created :: "(storage_error, json) result \<times> sqlite_db context_state" where
  "sample_created = doc_create (sample_context sealed_credential) SystemCaller ''credentials''
     (JObject sample_credential) False sample_state"

definition sample_read :: "(storage_error, json) result" where
  "sample_read = fst (doc_get (sample_context sealed_credential) SystemCaller ''credentials'' ''x'' False (snd sample_created))"

lemma sample_created_eq:
  "sample_created = (Inr (JObject [(''claims'', JString (''twelve bytes'' @ ''k'' @ credential_hkdf_info @ ''x'' @ ''null'')),
       (''created_at'', JString (show_nat 0)), (''encrypted'', JBool True), (''id'', JString ''x''), (''updated_at'', JString (show_nat 0))]),
     \<lparr>cx_store = sample_db\<lparr>db_rows := db_rows sample_db @ [\<lparr>row_id = ''x'', row_plugin_id = ''core'',
        row_collection = ''credentials'', row_data = ''doc'', row_version = 1,
        row_created_at = show_nat 0, row_updated_at = show_nat 0\<rparr>], db_draws := 1\<rparr>,
      cx_audit = [write_event ''system.storage.created'' SystemCaller ''credentials'' ''x''], cx_draws = 2\<rparr>)"
  by (simp add: sample_created_def doc_create_def validate_create_def schema_of_def sample_context_def is_credentials
      inject_system_fields_create_def sample_credential_def obj_contains_def json_get_def protect_def
      encrypt_credential_claims_def sample_sealing router_doc_create_def sqlite_adapter_def sqlite_create_def
      validate_credentials document_id_def strip_system_fields_def obj_remove_def sealed_credential_def find_row_def
      is_row_def sample_env_def sample_state_def sample_db_def sample_row_def insert_row_def db_tick_def row_to_document_def
      run_defs)

lemma sample_read_ok: "is_ok sample_read"
  by (simp add: sample_read_def sample_created_eq doc_get_def sample_context_def is_credentials router_doc_get_def
      sqlite_adapter_def sqlite_get_def validate_credentials find_row_def is_row_def sample_db_def sample_row_def
      sample_env_def row_to_document_def sealed_credential_def decrypt_credential_claims_def as_bool_def
      sample_opening [simplified] run_defs)


text \<open>
  A credential updated under another id is lost. A full update encrypts the claims under the id
  field of the new document, not under the id it is stored at; without that field the update fails.
\<close>

theorem credential_update_uses_body_id:
  assumes "sc_credential_master_key ctx = Some key" and "is_credentials_collection c"
    and "obj_get ob ''claims'' = Some claims" and "obj_get ob ''encrypted'' \<noteq> Some (JBool True)"
  shows "(obj_get ob ''id'' = None \<longrightarrow> (\<exists>m st'. doc_update ctx SystemCaller c i (JObject ob) b st = (Inl (Internal m), st'))) \<and>
    (\<forall>body_id res st'. obj_get ob ''id'' = Some (JString body_id) \<longrightarrow>
       doc_update ctx SystemCaller c i (JObject ob) b st = (Inr res, st') \<longrightarrow>
       (\<exists>n cipher ob2 s s'. encrypt_claims (sc_lib ctx) (sc_nonce ctx n) key body_id claims = Inr cipher \<and>
          obj_get ob2 ''claims'' = Some (JString cipher) \<and>
          router_doc_update (sc_router ctx) c i (JObject ob2) s = (Inr res, s')))"
proof (intro conjI allI impI)
  let ?ob = "\<lambda>n. obj_insert ''updated_at'' (JString (sc_now ctx n)) ob"
  have enc: "Option.bind (obj_get ob ''encrypted'') as_bool \<noteq> Some True"
    using assms(4) by (simp add: bind_eq_Some_conv as_bool_eq_Some)
  show "\<exists>m st'. doc_update ctx SystemCaller c i (JObject ob) b st = (Inl (Internal m), st')"
    if "obj_get ob ''id'' = None"
    using that enc assms(1 - 3)
    by (simp add: doc_update_def check_capability_def resolve_collection_def check_extension_namespace_def
        validate_update_def schema_of_def s_bind_def s_check_def s_return_def draw_def protect_def
        inject_system_fields_update_def encrypt_credential_claims_def obj_get_insert)
  fix body_id res st'
  assume i: "obj_get ob ''id'' = Some (JString body_id)"
    and run: "doc_update ctx SystemCaller c i (JObject ob) b st = (Inr res, st')"
  obtain n doc2 st1 st2 st3 where prot: "protect ctx c (JObject (?ob n)) st1 = (Inr doc2, st2)"
    and store: "on_store (router_doc_update (sc_router ctx) c i doc2) st2 = (Inr res, st3)"
    using run unfolding doc_update_def s_bind_ok
    by (elim exE conjE) (auto simp: s_check_def resolve_collection_def inject_system_fields_update_def s_return_def)
  from protect_ok [OF prot assms(2, 1)] assms(3, 4) i obtain m cipher
    where "encrypt_claims (sc_lib ctx) (sc_nonce ctx m) key body_id claims = Inr cipher"
      and doc2: "doc2 = JObject (obj_insert ''encrypted'' (JBool True) (obj_insert ''claims'' (JString cipher) (?ob n)))"
    by (auto simp: obj_get_insert)
  moreover obtain s' where "router_doc_update (sc_router ctx) c i doc2 (cx_store st2) = (Inr res, s')"
    using store by (auto simp: on_store_def Let_def split: prod.splits)
  moreover have "obj_get (obj_insert ''encrypted'' (JBool True) (obj_insert ''claims'' (JString cipher) (?ob n))) ''claims'' =
      Some (JString cipher)"
    by (simp add: obj_get_insert)
  ultimately show "\<exists>n cipher ob2 s s'. encrypt_claims (sc_lib ctx) (sc_nonce ctx n) key body_id claims = Inr cipher \<and>
      obj_get ob2 ''claims'' = Some (JString cipher) \<and>
      router_doc_update (sc_router ctx) c i (JObject ob2) s = (Inr res, s')"
    by blast
qed

theorem credential_update_uses_body_id_witness:
  "\<exists>m st'. doc_update (sample_context JNull) SystemCaller ''credentials'' ''x'' (JObject [(''claims'', JNull)]) False
     sample_state = (Inl (Internal m), st')"
proof -
  from is_credentials credential_update_uses_body_id [of "sample_context JNull" "''k''" "''credentials''" "[(''claims'', JNull)]" JNull
      "''x''" False sample_state]
  show ?thesis by (simp add: sample_context_def)
qed

end
