(* ===== verification/System_Steps.thy ===== *)
theory System_Steps
  imports Executor_Props Context_Props
begin

text \<open>
  The built-in step handler (\<open>workflow-engine/src/system_steps.rs\<close>): the actions of \<open>system.crud\<close> over
  the storage context, the composite executor that routes to it, and the placeholder executor that
  \<open>apps/core/src/main.rs\<close> passes to the engine. Together they form a runtime of the pipeline executor
  whose world is the state of the storage context.
\<close>

section \<open>The handler\<close>

record 's system_crud_handler =
  sh_storage :: "'s storage_context"
  sh_validator_for :: schema_compiler

definition system_crud_plugin_id :: string where
  "system_crud_plugin_id = ''system.crud''"

definition system_error :: "string \<Rightarrow> string \<Rightarrow> engine_error" where
  "system_error message code =
     \<lparr>ee_message = code @ '': '' @ message, ee_code = code, ee_severity = Fatal, ee_source_module = ''system-crud''\<rparr>"

definition extract_param :: "json \<Rightarrow> string \<Rightarrow> string option" where
  "extract_param p key =
     (case Option.bind (Option.bind (json_get p ''params'') (\<lambda>ps. json_get ps key)) as_str of
        Some s \<Rightarrow> Some s
      | None \<Rightarrow> Option.bind (json_get p key) as_str)"

definition value_to_payload :: "schema_compiler \<Rightarrow> json \<Rightarrow> (engine_error, typed_payload) result" where
  "value_to_payload vf v =
     r_bind (map_err (\<lambda>e. system_error e ''PAYLOAD_VALIDATION'') (schema_validated_new vf v object_schema))
       (\<lambda>validated. Inr (Custom validated))"

type_synonym ('s, 'a) system_op = "'s context_state \<Rightarrow> (engine_error, 'a) result \<times> 's context_state"

definition with_param :: "json \<Rightarrow> string \<Rightarrow> (string \<Rightarrow> ('s, 'a) system_op) \<Rightarrow> ('s, 'a) system_op" where
  "with_param p key k st =
     (case extract_param p key of
        None \<Rightarrow> (Inl (system_error (''missing '' @ quoted key @ '' parameter'') ''MISSING_PARAM''), st)
      | Some v \<Rightarrow> k v st)"

definition storage_call :: "('s context_state, 'a) sop \<Rightarrow> ('a \<Rightarrow> json) \<Rightarrow> ('s, json) system_op" where
  "storage_call f answer st =
     (let (r, st') = f st
      in (r_bind (map_err (\<lambda>e. system_error (storage_error_to_string e) ''STORAGE_ERROR'') r) (\<lambda>x. Inr (answer x)), st'))"

definition body_of :: "json \<Rightarrow> json" where
  "body_of p = (case json_get p ''body'' of Some b \<Rightarrow> b | None \<Rightarrow> p)"

definition list_query :: "json \<Rightarrow> string \<Rightarrow> query_descriptor" where
  "list_query p c =
     \<lparr>qd_collection = c, qd_filter = None, qd_sort = [],
      qd_pagination = \<lparr>pg_limit = (case Option.bind (extract_param p ''limit'') parse_u64 of Some n \<Rightarrow> n | None \<Rightarrow> 100),
        pg_cursor = extract_param p ''cursor''\<rparr>,
      qd_fields = None, qd_text_search = None\<rparr>"

definition list_answer :: "document_list \<Rightarrow> json" where
  "list_answer r = JObject
     [(''documents'', JArray (dl_documents r)),
      (''next_cursor'', case dl_next_cursor r of Some cur \<Rightarrow> JString cur | None \<Rightarrow> JNull),
      (''total_count'', JNumber (NPosInt (dl_total_count r)))]"

definition health_answer :: "bool \<Rightarrow> json" where
  "health_answer storage_ok = JObject
     [(''status'', JString (if storage_ok then ''healthy'' else ''degraded'')),
      (''storage'', JString (if storage_ok then ''ok'' else ''unreachable''))]"

definition system_action :: "'s storage_context \<Rightarrow> string \<Rightarrow> json \<Rightarrow> ('s, json) system_op" where
  "system_action ctx action p =
     (if action = ''list'' then
        with_param p ''collection'' (\<lambda>c. storage_call (doc_query ctx SystemCaller (list_query p c) False) list_answer)
      else if action = ''get'' then
        with_param p ''collection'' (\<lambda>c. with_param p ''id'' (\<lambda>i.
          storage_call (doc_get ctx SystemCaller c i False) (\<lambda>d. d)))
      else if action = ''create'' then
        with_param p ''collection'' (\<lambda>c.
          storage_call (doc_create ctx SystemCaller c (body_of p) False)
            (\<lambda>d. JObject [(''created'', JBool True), (''document'', d)]))
      else if action = ''update'' then
        with_param p ''collection'' (\<lambda>c. with_param p ''id'' (\<lambda>i.
          storage_call (doc_update ctx SystemCaller c i (body_of p) False) (\<lambda>d. d)))
      else if action = ''delete'' then
        with_param p ''collection'' (\<lambda>c. with_param p ''id'' (\<lambda>i.
          storage_call (doc_delete ctx SystemCaller c i False) (\<lambda>_. JObject [(''deleted'', JBool True)])))
      else if action = ''graphql_resolve'' then (\<lambda>st. (Inr p, st))
      else if action = ''health_check'' then
        (\<lambda>st. let (r, st') = doc_count ctx SystemCaller ''__health_check'' None False st
          in (Inr (health_answer (is_ok r)), st'))
      else (\<lambda>st. (Inl (system_error (''unknown system.crud action: '' @ quoted action) ''UNKNOWN_ACTION''), st)))"

definition system_execute ::
  "'s system_crud_handler \<Rightarrow> string \<Rightarrow> string \<Rightarrow> pipeline_message \<Rightarrow> ('s, pipeline_message) system_op" where
  "system_execute h pid action input st =
     (let (r, st') = system_action (sh_storage h) action (payload_data (payload input)) st
      in (r_bind r (\<lambda>v. r_bind (value_to_payload (sh_validator_for h) v)
            (\<lambda>pl. Inr (input\<lparr>payload := pl\<rparr>))), st'))"

section \<open>Routing\<close>

definition composite_execute ::
  "'s system_crud_handler \<Rightarrow> (string \<Rightarrow> string \<Rightarrow> pipeline_message \<Rightarrow> ('s, pipeline_message) system_op) \<Rightarrow>
     string \<Rightarrow> string \<Rightarrow> pipeline_message \<Rightarrow> ('s, pipeline_message) system_op" where
  "composite_execute h inner pid action input =
     (if pid = system_crud_plugin_id then system_execute h pid action input else inner pid action input)"

definition noop_execute :: "string \<Rightarrow> string \<Rightarrow> pipeline_message \<Rightarrow> ('s, pipeline_message) system_op" where
  "noop_execute pid action input st =
     (let e = PluginExecutionError pid (''plugin executor not yet initialized (action: '' @ action @ '')'')
      in (Inl \<lparr>ee_message = workflow_error_to_string e, ee_code = workflow_error_code e,
               ee_severity = workflow_error_severity e, ee_source_module = ''workflow-engine''\<rparr>, st))"

text \<open>
  The runtime of the pipeline executor over these executors. The clock and fresh ids are draws from the
  context's environment; sleeping does not touch the state; the engine's default emitter drops events.
\<close>

definition system_runtime ::
  "'s system_crud_handler \<Rightarrow> (nat \<Rightarrow> timestamp) \<Rightarrow> (typed_payload \<Rightarrow> string) \<Rightarrow> bool \<Rightarrow> 's context_state runtime" where
  "system_runtime h clock payload_text checks =
     \<lparr>rt_execute = composite_execute h noop_execute,
      rt_now = (\<lambda>st. (clock (cx_draws st), st\<lparr>cx_draws := Suc (cx_draws st)\<rparr>)),
      rt_sleep = (\<lambda>_ st. st),
      rt_new_uuid = (\<lambda>st. (sc_uuid (sh_storage h) (cx_draws st), st\<lparr>cx_draws := Suc (cx_draws st)\<rparr>)),
      rt_emit = (\<lambda>_ _ st. st),
      rt_validator_for = sh_validator_for h, rt_payload_text = payload_text, rt_overflow_checks = checks\<rparr>"

section \<open>Contracts of the runtime\<close>

text \<open>The metadata of a message, its warnings apart: what no step may change.\<close>

definition header_of :: "pipeline_message \<Rightarrow> message_metadata" where
  "header_of m = (metadata m)\<lparr>warnings := []\<rparr>"

text \<open>The handler over a storage context whose documents are in SQLite.\<close>

definition sqlite_handler ::
  "sqlite_env \<Rightarrow> string \<Rightarrow> sqlite_db storage_context \<Rightarrow> schema_compiler \<Rightarrow> sqlite_db system_crud_handler" where
  "sqlite_handler env default_plugin ctx vf =
     \<lparr>sh_storage = ctx\<lparr>sc_router := (sc_router ctx)\<lparr>sr_doc := sqlite_adapter env default_plugin\<rparr>\<rparr>, sh_validator_for = vf\<rparr>"

lemma sqlite_router_ids:
  assumes "sr_doc r = sqlite_adapter env dp"
  shows "router_moves ids_kept r c"
  using assms
  by (auto intro!: uniq.moves_with_timeout simp: router_moves_def router_doc_get_def router_doc_create_def router_doc_update_def router_doc_delete_def
      router_doc_count_def router_doc_query_def sqlite_adapter_def uniq.get_moves uniq.create_moves uniq.update_moves
      uniq.delete_moves uniq.count_moves uniq.query_moves)

lemma system_action_ids:
  assumes "sr_doc (sc_router ctx) = sqlite_adapter env dp"
  shows "on_stores ids_kept st (snd (system_action ctx action p st))"
proof -
  note ops = doc_ops_move [OF uniq.state_order_axioms sqlite_router_ids [OF assms], unfolded moves_def, rule_format]
  have refl: "on_stores ids_kept t t" for t by (simp add: on_stores_def ids_kept_def)
  show ?thesis
    by (simp add: system_action_def with_param_def storage_call_def case_prod_unfold Let_def refl ops
        split: option.splits)
qed

lemma system_execute_header:
  "fst (system_execute h pid action m st) = Inr m' \<Longrightarrow> header_of m' = header_of m"
  by (auto simp: system_execute_def header_of_def r_bind_eq_Inr Let_def split: prod.splits)

interpretation system: pipeline_host "system_runtime (sqlite_handler env dp ctx vf) clock payload_text checks"
    "\<lambda>m. header_of m = header" "\<lambda>st. ids_unique (cx_store st)"
  for env dp ctx vf clock payload_text checks header
proof
  fix st :: "sqlite_db context_state" and m :: pipeline_message and p a
  let ?h = "sqlite_handler env dp ctx vf"
  assume st: "ids_unique (cx_store st)" and m: "header_of m = header"
  have "on_stores ids_kept st (snd (system_execute ?h p a m st))"
    using system_action_ids [of "sh_storage ?h" env dp st a "payload_data (payload m)"]
    by (simp add: system_execute_def sqlite_handler_def case_prod_unfold Let_def)
  with st show "ids_unique (cx_store (snd (rt_execute (system_runtime ?h clock payload_text checks) p a m st)))"
    by (auto simp: system_runtime_def composite_execute_def noop_execute_def on_stores_def ids_kept_def Let_def)
  fix m'
  assume "fst (rt_execute (system_runtime ?h clock payload_text checks) p a m st) = Inr m'"
  with m show "header_of m' = header"
    using system_execute_header [of ?h p a m st m']
    by (simp add: system_runtime_def composite_execute_def noop_execute_def Let_def split: if_splits)
qed (simp_all add: system_runtime_def header_of_def push_warning_def)

section \<open>Properties\<close>

text \<open>
  C25: system workflows keep the store and the identity of the message. A run of any workflow over the
  system handler, whatever its steps, conditions, retries and failures, leaves a database with unique
  ids with unique ids; and a message it returns has the correlation id, source, timestamp and
  authenticated identity of the message it started from.
\<close>

theorem system_workflow_keeps:
  assumes "run_steps (system_runtime (sqlite_handler env dp ctx vf) clock payload_text checks) flow msg st = (r, logs, st')"
    and "ids_unique (cx_store st)"
  shows "ids_unique (cx_store st') \<and> (\<forall>out. r = Inr out \<longrightarrow> header_of out = header_of msg)"
  using system.run_steps_settled [of st msg "header_of msg" env dp ctx vf clock payload_text checks flow] assms
  by (auto simp: settled_def)

definition list_flow :: workflow_def where
  "list_flow = \<lparr>wf_id = ''collection.list'', wf_name = ''List'', wf_description = None, wf_mode = Sync,
     wf_validate = NoValidation, wf_trigger = \<lparr>tr_endpoint = None, tr_event = None, tr_schedule = None\<rparr>,
     wf_steps = [StepDef system_crud_plugin_id ''list'' None None]\<rparr>"

theorem system_workflow_keeps_witness:
  "\<exists>r logs st'. run_steps (system_runtime (sqlite_handler (sample_env JNull) ''core'' (sample_context JNull) (\<lambda>_. Inr (\<lambda>_. Inr ())))
       int (\<lambda>_. []) False) list_flow (custom_message JNull) sample_state = (r, logs, st') \<and> ids_unique (cx_store st')"
proof -
  obtain r logs st' where run: "run_steps (system_runtime (sqlite_handler (sample_env JNull) ''core'' (sample_context JNull)
      (\<lambda>_. Inr (\<lambda>_. Inr ()))) int (\<lambda>_. []) False) list_flow (custom_message JNull) sample_state = (r, logs, st')"
    by (metis prod_cases3)
  moreover have "ids_unique (cx_store sample_state)"
    by (simp add: ids_unique_def sample_state_def sample_db_def sample_row_def)
  ultimately show ?thesis using system_workflow_keeps [OF run] by blast
qed

text \<open>
  What is created is found. If the system handler's create action succeeds in a collection that is
  not a credentials collection, then the get action for the id of the created document, run on the
  state left behind, returns either that very document or an error, and leaves the message's metadata
  as it is.
\<close>

theorem system_create_then_get:
  assumes "sr_doc (sc_router (sh_storage h)) = sqlite_adapter env dp" and "\<not> is_credentials_collection c"
    and "extract_param (payload_data (payload m)) ''collection'' = Some c"
    and "system_execute h pid ''create'' m st = (Inr out, st')"
    and "payload_data (payload out) = JObject [(''created'', JBool True), (''document'', d)]"
    and "json_get d ''id'' = Some (JString i)"
    and "extract_param (payload_data (payload m2)) ''collection'' = Some c"
    and "extract_param (payload_data (payload m2)) ''id'' = Some i"
  shows "case fst (system_execute h pid ''get'' m2 st') of
      Inr out2 \<Rightarrow> payload out2 = Custom d \<and> metadata out2 = metadata m2
    | Inl e \<Rightarrow> ee_severity e = Fatal"
proof -
  let ?ctx = "sh_storage h"
  have res: "resolve_collection SystemCaller c False = Inr c" by (simp add: resolve_collection_def)
  obtain d0 st1 where create: "doc_create ?ctx SystemCaller c (body_of (payload_data (payload m))) False st = (Inr d0, st1)"
    and "st1 = st'" "payload out = Custom (JObject [(''created'', JBool True), (''document'', d0)])"
    using assms(3, 4)
    by (auto simp: system_execute_def system_action_def with_param_def storage_call_def Let_def r_bind_eq_Inr map_err_eq_Inr
        value_to_payload_def schema_validated_new_def split: prod.splits sum.splits)
  then have d0: "d0 = d" and st1: "st1 = st'" using assms(5) by auto
  obtain r st2 where get: "doc_get ?ctx SystemCaller c i False st' = (r, st2)" by force
  show ?thesis
  proof (cases r)
    case (Inl e)
    with get assms(7, 8) show ?thesis
      by (simp add: system_execute_def system_action_def with_param_def storage_call_def Let_def system_error_def)
  next
    case (Inr d')
    with get create d0 st1 assms(1, 2, 6) res have "d' = d"
      by (intro sqlite.documents_read_back) auto
    with Inr get assms(7, 8) show ?thesis
      by (auto simp: system_execute_def system_action_def with_param_def storage_call_def Let_def system_error_def
          value_to_payload_def schema_validated_new_def split: sum.splits)
  qed
qed

definition notes_handler :: "sqlite_db system_crud_handler" where
  "notes_handler = \<lparr>sh_storage = sample_context (JObject []), sh_validator_for = (\<lambda>_. Inr (\<lambda>_. Inr ()))\<rparr>"

definition create_request :: pipeline_message where
  "create_request = custom_message (JObject [(''body'', JObject [(''id'', JString ''x'')]), (''collection'', JString ''notes'')])"

definition get_request :: pipeline_message where
  "get_request = custom_message (JObject [(''collection'', JString ''notes''), (''id'', JString ''x'')])"

definition created_note :: json where
  "created_note = JObject [(''created_at'', JString (show_nat 0)), (''id'', JString ''x''), (''updated_at'', JString (show_nat 0))]"

lemma validate_notes: "validate_identifier ''notes'' = Inr ()"
  by (simp add: validate_identifier_def is_ascii_alphanumeric_def is_ascii_alphabetic_def is_ascii_digit_def)

lemma not_credentials: "\<not> is_credentials_collection ''notes''"
  by (simp add: is_credentials_collection_def credentials_collection_def ends_with_def starts_with_def)

lemma create_request_ok:
  "fst (system_execute notes_handler ''system.crud'' ''create'' create_request sample_state) =
     Inr (create_request\<lparr>payload := Custom (JObject [(''created'', JBool True), (''document'', created_note)])\<rparr>)"
  by (simp add: system_execute_def system_action_def with_param_def extract_param_def create_request_def custom_message_def
      json_get_def storage_call_def notes_handler_def body_of_def doc_create_def validate_create_def schema_of_def
      sample_context_def not_credentials inject_system_fields_create_def obj_contains_def protect_def router_doc_create_def
      sqlite_adapter_def sqlite_create_def validate_notes document_id_def strip_system_fields_def obj_remove_def
      find_row_def is_row_def sample_env_def sample_state_def sample_db_def sample_row_def insert_row_def db_tick_def
      row_to_document_def value_to_payload_def schema_validated_new_def created_note_def run_defs)

theorem system_create_then_get_witness:
  "case fst (system_execute notes_handler ''system.crud'' ''get'' get_request
      (snd (system_execute notes_handler ''system.crud'' ''create'' create_request sample_state))) of
      Inr out2 \<Rightarrow> payload out2 = Custom created_note \<and> metadata out2 = metadata get_request
    | Inl e \<Rightarrow> ee_severity e = Fatal"
proof -
  obtain out st' where run: "system_execute notes_handler ''system.crud'' ''create'' create_request sample_state = (Inr out, st')"
    and "payload_data (payload out) = JObject [(''created'', JBool True), (''document'', created_note)]"
    using create_request_ok
    by (cases "system_execute notes_handler ''system.crud'' ''create'' create_request sample_state") simp
  with system_create_then_get [of notes_handler "sample_env (JObject [])" "''core''" "''notes''" create_request "''system.crud''"
      sample_state out st' created_note "''x''" get_request]
  show ?thesis
    by (simp add: notes_handler_def sample_context_def not_credentials create_request_def get_request_def custom_message_def
        extract_param_def json_get_def created_note_def)
qed

end
