(* ===== verification/Schema_Versioning.thy ===== *)
theory Schema_Versioning
  imports Engine_Error
begin

text \<open>
  Comparison of two versions of a JSON schema (\<open>traits/src/schema_versioning.rs\<close>): the classification of
  changes as breaking, and the tracking of deprecations. The changes are returned in the order in
  which the source pushes them. The text form of a JSON value and of a double, which only appear in
  descriptions, are parameters.
\<close>

section \<open>Breaking changes\<close>

datatype change_kind =
    FieldRemoved | FieldRenamed | TypeChanged | RequiredFieldAdded | EnumValueRemoved
  | ConstraintTightened | DefaultChanged

record breaking_change =
  bc_path :: string
  bc_kind :: change_kind
  bc_description :: string

datatype compatibility_result = Compatible | Breaking "breaking_change list"

record printers =
  pr_json :: "json \<Rightarrow> string"
  pr_f64 :: "rat \<Rightarrow> string"

definition change :: "string \<Rightarrow> change_kind \<Rightarrow> string \<Rightarrow> breaking_change" where
  "change path kind description = \<lparr>bc_path = path, bc_kind = kind, bc_description = description\<rparr>"

definition object_at :: "json \<Rightarrow> string \<Rightarrow> jobject option" where
  "object_at schema key = Option.bind (json_get schema key) as_object"

definition array_at :: "json \<Rightarrow> string \<Rightarrow> json list option" where
  "array_at schema key = Option.bind (json_get schema key) as_array"

definition type_display :: "printers \<Rightarrow> json option \<Rightarrow> string" where
  "type_display pr v =
     (case v of Some (JString s) \<Rightarrow> s | Some j \<Rightarrow> pr_json pr j | None \<Rightarrow> ''unspecified'')"

definition check_numeric_tightened ::
  "printers \<Rightarrow> json \<Rightarrow> json \<Rightarrow> string \<Rightarrow> string \<Rightarrow> string \<Rightarrow> bool \<Rightarrow> breaking_change list" where
  "check_numeric_tightened pr old_field new_field keyword path name lower_is_tighter =
     (case (Option.bind (json_get old_field keyword) as_f64, Option.bind (json_get new_field keyword) as_f64) of
        (Some old, Some new) \<Rightarrow>
          if (if lower_is_tighter then new < old else old < new)
          then [change path ConstraintTightened (''Field '' @ quoted name @ '' '' @ keyword @ '' tightened from '' @
                  pr_f64 pr old @ '' to '' @ pr_f64 pr new)]
          else []
      | (None, Some new) \<Rightarrow>
          [change path ConstraintTightened (''Field '' @ quoted name @ '' had '' @ keyword @ '' constraint '' @
             pr_f64 pr new @ '' added'')]
      | _ \<Rightarrow> [])"

definition compare_constraints :: "printers \<Rightarrow> json \<Rightarrow> json \<Rightarrow> string \<Rightarrow> string \<Rightarrow> breaking_change list" where
  "compare_constraints pr old_field new_field path name =
     check_numeric_tightened pr old_field new_field ''maxLength'' path name True @
     check_numeric_tightened pr old_field new_field ''minLength'' path name False @
     check_numeric_tightened pr old_field new_field ''maximum'' path name True @
     check_numeric_tightened pr old_field new_field ''minimum'' path name False @
     (let old_pattern = json_get old_field ''pattern''; new_pattern = json_get new_field ''pattern''
      in if new_pattern \<noteq> None \<and> old_pattern \<noteq> new_pattern
         then (if old_pattern = None
               then [change path ConstraintTightened (''Field '' @ quoted name @ '' had pattern constraint added'')]
               else [change path ConstraintTightened (''Field '' @ quoted name @ '' pattern constraint changed'')])
         else []) @
     (let new_format = json_get new_field ''format''
      in if new_format \<noteq> None \<and> json_get old_field ''format'' = None
         then [change path ConstraintTightened (''Field '' @ quoted name @ '' had format validation '' @
                 quoted (case Option.bind new_format as_str of Some f \<Rightarrow> f | None \<Rightarrow> ''unknown'') @ '' added'')]
         else [])"

definition required_of :: "json \<Rightarrow> string list" where
  "required_of schema =
     (case array_at schema ''required'' of Some arr \<Rightarrow> List.map_filter as_str arr | None \<Rightarrow> [])"

definition compare_required :: "json \<Rightarrow> json \<Rightarrow> string \<Rightarrow> breaking_change list" where
  "compare_required old_schema new_schema prefix =
     map (\<lambda>field. change (prefix @ ''/required/'' @ field) RequiredFieldAdded (''Field '' @ quoted field @ '' was made required''))
       (filter (\<lambda>field. field \<notin> set (required_of old_schema)) (required_of new_schema))"

definition compare_enums :: "printers \<Rightarrow> json \<Rightarrow> json \<Rightarrow> string \<Rightarrow> breaking_change list" where
  "compare_enums pr old_schema new_schema prefix =
     (case array_at old_schema ''enum'' of
        None \<Rightarrow> []
      | Some old_enum \<Rightarrow>
          (case array_at new_schema ''enum'' of
             None \<Rightarrow> [change (prefix @ ''/enum'') EnumValueRemoved ''Enum constraint was removed entirely'']
           | Some new_enum \<Rightarrow>
               map (\<lambda>v. change (prefix @ ''/enum'') EnumValueRemoved (''Enum value '' @
                     (case as_str v of Some s \<Rightarrow> quoted s | None \<Rightarrow> pr_json pr v) @ '' was removed''))
                 (filter (\<lambda>v. v \<notin> set new_enum) old_enum)))"

definition compare_field_own :: "printers \<Rightarrow> string \<Rightarrow> string \<Rightarrow> json \<Rightarrow> json \<Rightarrow> breaking_change list" where
  "compare_field_own pr path name old_field new_field =
     (let old_type = json_get old_field ''type''; new_type = json_get new_field ''type''
      in if old_type \<noteq> new_type
         then [change path TypeChanged (''Field '' @ quoted name @ '' type changed from '' @ type_display pr old_type @
                 '' to '' @ type_display pr new_type)]
         else []) @
     compare_constraints pr old_field new_field path name @
     (let old_default = json_get old_field ''default''
      in if old_default \<noteq> json_get new_field ''default'' \<and> old_default \<noteq> None
         then [change path DefaultChanged (''Field '' @ quoted name @ '' default value changed'')] else []) @
     compare_enums pr old_field new_field path"

definition is_object_type :: "json \<Rightarrow> bool" where
  "is_object_type field \<longleftrightarrow> json_get field ''type'' = Some (JString ''object'')"

lemma object_at_entry_size:
  "object_at j key = Some ob \<Longrightarrow> (k, v) \<in> set ob \<Longrightarrow> size v < size j"
  unfolding object_at_def bind_eq_Some_conv as_object_eq_Some
  using size_json_get size_obj_entry by fastforce

text \<open>The recursion descends into properties of object type and into definitions.\<close>

function (sequential)
    compare_schemas :: "printers \<Rightarrow> json \<Rightarrow> json \<Rightarrow> string \<Rightarrow> breaking_change list"
and compare_properties :: "printers \<Rightarrow> json \<Rightarrow> json \<Rightarrow> string \<Rightarrow> breaking_change list"
and compare_defs :: "printers \<Rightarrow> json \<Rightarrow> json \<Rightarrow> breaking_change list" where
  "compare_schemas pr old_schema new_schema prefix =
     compare_properties pr old_schema new_schema prefix @
     compare_required old_schema new_schema prefix @
     compare_enums pr old_schema new_schema prefix @
     compare_defs pr old_schema new_schema"
| "compare_properties pr old_schema new_schema prefix =
     (case object_at old_schema ''properties'' of
        None \<Rightarrow> []
      | Some old_props \<Rightarrow>
          concat (map (\<lambda>(name, old_field).
            let path = prefix @ ''/properties/'' @ name
            in case Option.bind (object_at new_schema ''properties'') (\<lambda>p. obj_get p name) of
                 None \<Rightarrow> [change path FieldRemoved (''Field '' @ quoted name @ '' was removed'')]
               | Some new_field \<Rightarrow>
                   compare_field_own pr path name old_field new_field @
                   (if is_object_type old_field then compare_schemas pr old_field new_field path else [])) old_props))"
| "compare_defs pr old_schema new_schema =
     (case object_at old_schema ''$defs'' of
        None \<Rightarrow> []
      | Some old_defs \<Rightarrow>
          (case object_at new_schema ''$defs'' of
             None \<Rightarrow> map (\<lambda>(name, _). change (''/$defs/'' @ name) FieldRemoved
                       (''Definition '' @ quoted name @ '' was removed'')) old_defs
           | Some new_defs \<Rightarrow>
               concat (map (\<lambda>(name, old_def).
                 case obj_get new_defs name of
                   Some new_def \<Rightarrow> compare_schemas pr old_def new_def (''/$defs/'' @ name)
                 | None \<Rightarrow> [change (''/$defs/'' @ name) FieldRemoved (''Definition '' @ quoted name @ '' was removed'')])
                 old_defs)))"
  by pat_completeness auto

termination
  by (relation "measure (\<lambda>call. case call of
        Inl (pr, old_schema, new_schema, prefix) \<Rightarrow> 2 * size old_schema + 1
      | Inr (Inl (pr, old_schema, new_schema, prefix)) \<Rightarrow> 2 * size old_schema
      | Inr (Inr (pr, old_schema, new_schema)) \<Rightarrow> 2 * size old_schema)")
    (auto dest!: object_at_entry_size)

declare compare_schemas.simps [simp del] compare_properties.simps [simp del] compare_defs.simps [simp del]

definition check_compatibility :: "printers \<Rightarrow> json \<Rightarrow> json \<Rightarrow> compatibility_result" where
  "check_compatibility pr old_schema new_schema =
     (let changes = compare_schemas pr old_schema new_schema []
      in if changes = [] then Compatible else Breaking changes)"

section \<open>Deprecations\<close>

record deprecation_entry =
  de_path :: string
  de_deprecated_since :: string
  de_note :: string

record deprecation_warning =
  dw_path :: string
  dw_message :: string

record deprecation_tracker =
  dt_deprecations :: "deprecation_entry list"

definition new_tracker :: deprecation_tracker where
  "new_tracker = \<lparr>dt_deprecations = []\<rparr>"

definition text_or :: "json \<Rightarrow> string \<Rightarrow> string \<Rightarrow> string" where
  "text_or j key fallback = (case Option.bind (json_get j key) as_str of Some s \<Rightarrow> s | None \<Rightarrow> fallback)"

text \<open>The entries that a scan pushes, in order.\<close>

function scanned_properties :: "json \<Rightarrow> string \<Rightarrow> deprecation_entry list" where
  "scanned_properties schema prefix =
     (case object_at schema ''properties'' of
        None \<Rightarrow> []
      | Some props \<Rightarrow>
          concat (map (\<lambda>(name, field_schema).
            let path = prefix @ ''/properties/'' @ name
            in (if json_get field_schema ''deprecated'' = Some (JBool True)
                then [\<lparr>de_path = path, de_deprecated_since = text_or field_schema ''x-deprecated-since'' ''unknown'',
                       de_note = text_or field_schema ''x-deprecated-note'' []\<rparr>]
                else []) @
               (if is_object_type field_schema then scanned_properties field_schema path else [])) props))"
  by pat_completeness auto

termination
  by (relation "measure (\<lambda>(schema, prefix). size schema)") (auto dest: object_at_entry_size)

declare scanned_properties.simps [simp del]

definition scan_schema :: "deprecation_tracker \<Rightarrow> json \<Rightarrow> deprecation_tracker" where
  "scan_schema tr schema = tr\<lparr>dt_deprecations := dt_deprecations tr @ scanned_properties schema []\<rparr>"

definition was_deprecated :: "deprecation_tracker \<Rightarrow> string \<Rightarrow> bool" where
  "was_deprecated tr path \<longleftrightarrow> list_ex (\<lambda>d. de_path d = path) (dt_deprecations tr)"

function check_properties_removal ::
  "deprecation_tracker \<Rightarrow> json \<Rightarrow> json \<Rightarrow> string \<Rightarrow> deprecation_warning list" where
  "check_properties_removal tr old_schema new_schema prefix =
     (case object_at old_schema ''properties'' of
        None \<Rightarrow> []
      | Some old_props \<Rightarrow>
          concat (map (\<lambda>(name, old_field).
            let path = prefix @ ''/properties/'' @ name
            in case Option.bind (object_at new_schema ''properties'') (\<lambda>p. obj_get p name) of
                 None \<Rightarrow>
                   if was_deprecated tr path then []
                   else [\<lparr>dw_path = path, dw_message = ''Field '' @ quoted name @ '' was removed without being deprecated first''\<rparr>]
               | Some new_field \<Rightarrow>
                   if is_object_type old_field then check_properties_removal tr old_field new_field path else []) old_props))"
  by pat_completeness auto

termination
  by (relation "measure (\<lambda>(tr, old_schema, new_schema, prefix). size old_schema)") (auto dest: object_at_entry_size)

declare check_properties_removal.simps [simp del]

definition check_removal_allowed :: "deprecation_tracker \<Rightarrow> json \<Rightarrow> json \<Rightarrow> deprecation_warning list" where
  "check_removal_allowed tr old_schema new_schema = check_properties_removal tr old_schema new_schema []"

section \<open>The additive-only rule\<close>

text \<open>
  What a compatible version is, without an order of the checks, a path or a message: every field is kept
  with its type and default, bounds are at most loosened, enum values and definitions are kept, nothing
  becomes required.
\<close>

definition upper_kept :: "rat option \<Rightarrow> rat option \<Rightarrow> bool" where
  "upper_kept old new \<longleftrightarrow> (\<forall>n. new = Some n \<longrightarrow> (\<exists>m. old = Some m \<and> m \<le> n))"

definition lower_kept :: "rat option \<Rightarrow> rat option \<Rightarrow> bool" where
  "lower_kept old new \<longleftrightarrow> (\<forall>n. new = Some n \<longrightarrow> (\<exists>m. old = Some m \<and> n \<le> m))"

definition bound_at :: "json \<Rightarrow> string \<Rightarrow> rat option" where
  "bound_at field keyword = Option.bind (json_get field keyword) as_f64"

definition enum_kept :: "json \<Rightarrow> json \<Rightarrow> bool" where
  "enum_kept old new \<longleftrightarrow>
     (\<forall>e. array_at old ''enum'' = Some e \<longrightarrow> (\<exists>e'. array_at new ''enum'' = Some e' \<and> set e \<subseteq> set e'))"

definition field_kept :: "json \<Rightarrow> json \<Rightarrow> bool" where
  "field_kept old new \<longleftrightarrow>
     json_get old ''type'' = json_get new ''type'' \<and>
     upper_kept (bound_at old ''maxLength'') (bound_at new ''maxLength'') \<and>
     lower_kept (bound_at old ''minLength'') (bound_at new ''minLength'') \<and>
     upper_kept (bound_at old ''maximum'') (bound_at new ''maximum'') \<and>
     lower_kept (bound_at old ''minimum'') (bound_at new ''minimum'') \<and>
     json_get new ''pattern'' \<in> {None, json_get old ''pattern''} \<and>
     (json_get new ''format'' \<noteq> None \<longrightarrow> json_get old ''format'' \<noteq> None) \<and>
     json_get old ''default'' \<in> {None, json_get new ''default''} \<and>
     enum_kept old new"

definition entry_at :: "json \<Rightarrow> string \<Rightarrow> string \<Rightarrow> json option" where
  "entry_at schema key name = Option.bind (object_at schema key) (\<lambda>ob. obj_get ob name)"

definition entries :: "json \<Rightarrow> string \<Rightarrow> jobject" where
  "entries schema key = (case object_at schema key of Some ob \<Rightarrow> ob | None \<Rightarrow> [])"

inductive additive :: "json \<Rightarrow> json \<Rightarrow> bool" where
  additiveI: "additive old new"
    if "\<And>name f. (name, f) \<in> set (entries old ''properties'') \<Longrightarrow>
          \<exists>f'. entry_at new ''properties'' name = Some f' \<and> field_kept f f' \<and> (is_object_type f \<longrightarrow> additive f f')"
      and "set (required_of new) \<subseteq> set (required_of old)"
      and "enum_kept old new"
      and "\<And>name d. (name, d) \<in> set (entries old ''$defs'') \<Longrightarrow>
          \<exists>d'. entry_at new ''$defs'' name = Some d' \<and> additive d d'"

inductive_simps additive_iff: "additive old new"

lemma entry_size: "(k, v) \<in> set (entries j key) \<Longrightarrow> size v < size j"
  by (cases "object_at j key") (auto simp: entries_def dest: object_at_entry_size)

lemma numeric_tightened_empty:
  "check_numeric_tightened pr old new kw path name low = [] \<longleftrightarrow>
     (if low then upper_kept else lower_kept) (bound_at old kw) (bound_at new kw)"
  by (auto simp: check_numeric_tightened_def upper_kept_def lower_kept_def bound_at_def not_less split: option.splits)

lemma compare_enums_empty: "compare_enums pr old new prefix = [] \<longleftrightarrow> enum_kept old new"
  by (auto simp: compare_enums_def enum_kept_def filter_empty_conv split: option.splits)

lemma compare_required_empty: "compare_required old new prefix = [] \<longleftrightarrow> set (required_of new) \<subseteq> set (required_of old)"
  by (auto simp: compare_required_def filter_empty_conv)

lemma compare_field_own_empty: "compare_field_own pr path name old new = [] \<longleftrightarrow> field_kept old new"
  by (auto simp: compare_field_own_def compare_constraints_def field_kept_def numeric_tightened_empty
      compare_enums_empty Let_def)

lemma compare_properties_empty:
  "compare_properties pr old new prefix = [] \<longleftrightarrow>
     (\<forall>(name, f) \<in> set (entries old ''properties''). \<exists>f'. entry_at new ''properties'' name = Some f' \<and> field_kept f f' \<and>
        (is_object_type f \<longrightarrow> compare_schemas pr f f' (prefix @ ''/properties/'' @ name) = []))"
  by (fastforce simp: compare_properties.simps entries_def entry_at_def Let_def compare_field_own_empty
      split: option.splits)

lemma compare_defs_empty:
  "compare_defs pr old new = [] \<longleftrightarrow>
     (\<forall>(name, d) \<in> set (entries old ''$defs''). \<exists>d'. entry_at new ''$defs'' name = Some d' \<and>
        compare_schemas pr d d' (''/$defs/'' @ name) = [])"
proof (cases "object_at old ''$defs''")
  case (Some defs)
  then show ?thesis
    by (cases "object_at new ''$defs''"; cases defs)
      (auto simp: compare_defs.simps entries_def entry_at_def split: option.splits)
qed (simp add: compare_defs.simps entries_def)

lemma compare_schemas_empty: "compare_schemas pr old new prefix = [] \<longleftrightarrow> additive old new"
proof (induction "size old" arbitrary: old new prefix rule: less_induct)
  case less
  have "compare_properties pr old new prefix = [] \<longleftrightarrow>
      (\<forall>(name, f) \<in> set (entries old ''properties''). \<exists>f'. entry_at new ''properties'' name = Some f' \<and> field_kept f f' \<and>
        (is_object_type f \<longrightarrow> additive f f'))"
    unfolding compare_properties_empty by (rule ball_cong [OF refl]) (auto simp: less entry_size)
  moreover have "compare_defs pr old new = [] \<longleftrightarrow>
      (\<forall>(name, d) \<in> set (entries old ''$defs''). \<exists>d'. entry_at new ''$defs'' name = Some d' \<and> additive d d')"
    unfolding compare_defs_empty by (rule ball_cong [OF refl]) (auto simp: less entry_size)
  ultimately show ?case
    by (subst additive_iff) (auto simp: compare_schemas.simps compare_required_empty compare_enums_empty)
qed

lemma upper_kept_refl [simp]: "upper_kept b b" and lower_kept_refl [simp]: "lower_kept b b"
  by (auto simp: upper_kept_def lower_kept_def)

lemma enum_kept_refl [simp]: "enum_kept j j"
  by (simp add: enum_kept_def)

lemma field_kept_refl [simp]: "field_kept j j"
  by (simp add: field_kept_def)

lemma upper_kept_trans: "upper_kept a b \<Longrightarrow> upper_kept b c \<Longrightarrow> upper_kept a c"
  by (cases a; cases b; cases c) (auto simp: upper_kept_def)

lemma lower_kept_trans: "lower_kept a b \<Longrightarrow> lower_kept b c \<Longrightarrow> lower_kept a c"
  by (cases a; cases b; cases c) (auto simp: lower_kept_def)

lemma enum_kept_trans: "enum_kept a b \<Longrightarrow> enum_kept b c \<Longrightarrow> enum_kept a c"
  unfolding enum_kept_def by blast

lemma none_or_trans: "x \<in> {None, y} \<Longrightarrow> y \<in> {None, z} \<Longrightarrow> x \<in> {None, z}"
  by auto

lemma field_kept_trans: "field_kept a b \<Longrightarrow> field_kept b c \<Longrightarrow> field_kept a c"
  unfolding field_kept_def
  by (elim conjE, intro conjI)
    (erule (1) trans upper_kept_trans lower_kept_trans enum_kept_trans none_or_trans none_or_trans [rotated]
      | iprover)+

lemma json_wf_entries:
  assumes "json_wf j" and "(k, v) \<in> set (entries j key)"
  shows "entry_at j key k = Some v" and "json_wf v"
proof -
  obtain ob where ob: "json_get j key = Some (JObject ob)" "entries j key = ob"
    using assms(2) by (cases "object_at j key") (auto simp: entries_def object_at_def bind_eq_Some_conv as_object_eq_Some)
  then have "json_wf (JObject ob)"
    using assms(1) json_wf_get by blast
  then show "entry_at j key k = Some v" and "json_wf v"
    using ob assms(2) by (auto simp: entry_at_def object_at_def list_all_iff intro: obj_get_distinct)
qed

lemma additive_refl: "json_wf j \<Longrightarrow> additive j j"
proof (induction "size j" arbitrary: j rule: less_induct)
  case less
  show ?case
    by (rule additiveI) (use less json_wf_entries entry_size in \<open>blast intro: field_kept_refl | simp\<close>)+
qed

lemma entry_at_entries: "entry_at j key k = Some v \<Longrightarrow> (k, v) \<in> set (entries j key)"
  by (auto simp: entry_at_def entries_def dest: obj_get_Some_key split: Option.bind_splits)

lemma is_object_type_kept: "field_kept f f' \<Longrightarrow> is_object_type f' = is_object_type f"
  by (simp add: field_kept_def is_object_type_def)

lemma additive_trans: "additive a b \<Longrightarrow> additive b c \<Longrightarrow> additive a c"
proof (induction arbitrary: c rule: additive.induct)
  case (additiveI old new)
  note bc = additiveI.prems [unfolded additive_iff [of new c]]
  show ?case
  proof (rule additive.additiveI)
    fix name f
    assume "(name, f) \<in> set (entries old ''properties'')"
    with additiveI.IH(1) obtain f' where f': "entry_at new ''properties'' name = Some f'" "field_kept f f'"
      and ih: "\<And>x. is_object_type f \<Longrightarrow> additive f' x \<Longrightarrow> additive f x" by metis
    with bc entry_at_entries obtain f'' where "entry_at c ''properties'' name = Some f''" "field_kept f' f''"
      "is_object_type f' \<longrightarrow> additive f' f''" by metis
    with f' ih is_object_type_kept field_kept_trans
    show "\<exists>f'. entry_at c ''properties'' name = Some f' \<and> field_kept f f' \<and> (is_object_type f \<longrightarrow> additive f f')"
      by metis
  next
    fix name d
    assume "(name, d) \<in> set (entries old ''$defs'')"
    with additiveI.IH(2) obtain d' where d': "entry_at new ''$defs'' name = Some d'"
      and ih: "\<And>x. additive d' x \<Longrightarrow> additive d x" by metis
    with bc entry_at_entries obtain d'' where "entry_at c ''$defs'' name = Some d''" "additive d' d''" by metis
    with ih show "\<exists>d'. entry_at c ''$defs'' name = Some d' \<and> additive d d'" by blast
  qed (use additiveI.hyps bc enum_kept_trans in blast)+
qed

lemma check_compatibility_additive: "check_compatibility pr old new = Compatible \<longleftrightarrow> additive old new"
  using compare_schemas_empty [of pr old new "[]"] by (simp add: check_compatibility_def Let_def)

section \<open>Removals without deprecation\<close>

lemma removed_field_change:
  assumes "object_at old ''properties'' = Some props" and "(name, f) \<in> set props"
    and "entry_at new ''properties'' name = None"
  shows "change (prefix @ ''/properties/'' @ name) FieldRemoved (''Field '' @ quoted name @ '' was removed'')
    \<in> set (compare_properties pr old new prefix)"
  using assms by (subst compare_properties.simps) (force simp: entry_at_def Let_def)

lemma nested_field_change:
  assumes "object_at old ''properties'' = Some props" and "(name, f) \<in> set props"
    and "entry_at new ''properties'' name = Some f'" and "is_object_type f"
  shows "set (compare_properties pr f f' (prefix @ ''/properties/'' @ name)) \<subseteq> set (compare_properties pr old new prefix)"
proof -
  have "set (compare_schemas pr f f' (prefix @ ''/properties/'' @ name)) \<subseteq> set (compare_properties pr old new prefix)"
    using assms by (subst compare_properties.simps) (force simp: entry_at_def Let_def)
  then show ?thesis
    by (subst (asm) compare_schemas.simps) simp
qed

lemma warned_field_removed:
  "w \<in> set (check_properties_removal tr old new prefix) \<Longrightarrow>
   \<not> was_deprecated tr (dw_path w) \<and>
   (\<exists>c \<in> set (compare_properties pr old new prefix). bc_kind c = FieldRemoved \<and> bc_path c = dw_path w)"
proof (induction "size old" arbitrary: old new prefix rule: less_induct)
  case less
  from less.prems obtain props where props: "object_at old ''properties'' = Some props"
    by (cases "object_at old ''properties''") (auto simp: check_properties_removal.simps)
  note unfolded = less.prems [unfolded check_properties_removal.simps [of tr old new prefix]]
  from props obtain name f where f: "(name, f) \<in> set props"
    and w: "w \<in> set (case entry_at new ''properties'' name of
          None \<Rightarrow> if was_deprecated tr (prefix @ ''/properties/'' @ name) then []
            else [\<lparr>dw_path = prefix @ ''/properties/'' @ name,
              dw_message = ''Field '' @ quoted name @ '' was removed without being deprecated first''\<rparr>]
        | Some new_field \<Rightarrow> if is_object_type f
            then check_properties_removal tr f new_field (prefix @ ''/properties/'' @ name) else [])"
    using unfolded by (auto simp: entry_at_def Let_def simp del: append_Cons append.simps)
  show ?case
  proof (cases "entry_at new ''properties'' name")
    case None
    with w removed_field_change [OF props f None, of prefix pr] show ?thesis
      by (auto simp: change_def split: if_splits intro!: bexI)
  next
    case (Some f')
    with w have "is_object_type f" and "w \<in> set (check_properties_removal tr f f' (prefix @ ''/properties/'' @ name))"
      by (auto split: if_splits)
    with less.hyps [OF object_at_entry_size [OF props f]] nested_field_change [OF props f Some, of pr prefix]
    show ?thesis by blast
  qed
qed

section \<open>Properties\<close>


text \<open>
  Versions compose. In a history of schema versions in which each is compatible with the one before it,
  every version is compatible with every earlier one; and every version is compatible with itself, provided
  its objects have no duplicate keys.
\<close>

theorem compatible_versions_compose:
  assumes "successively (\<lambda>old new. check_compatibility pr old new = Compatible) versions"
    and "\<forall>v \<in> set versions. json_wf v" and "i \<le> j" and "j < length versions"
  shows "check_compatibility pr (versions ! i) (versions ! j) = Compatible"
proof (cases "i = j")
  case True
  with assms show ?thesis
    by (simp add: check_compatibility_additive additive_refl)
next
  case False
  have "sorted_wrt (\<lambda>old new. check_compatibility pr old new = Compatible) versions"
    using assms(1) by (subst (asm) successively_conv_sorted_wrt)
      (auto simp: transp_def check_compatibility_additive intro: additive_trans)
  with False assms(3,4) show ?thesis
    by (simp add: sorted_wrt_iff_nth_less)
qed

definition sample_version :: "(string \<times> json) list \<Rightarrow> json" where
  "sample_version fs = JObject [(''properties'', JObject fs), (''type'', JString ''object'')]"

definition sample_history :: "json list" where
  "sample_history =
     [sample_version [(''title'', JObject [(''maxLength'', JNumber (NFloat 80)), (''type'', JString ''string'')])],
      sample_version [(''title'', JObject [(''maxLength'', JNumber (NFloat 120)), (''type'', JString ''string'')])],
      sample_version [(''due'', JObject [(''type'', JString ''string'')]), (''title'', JObject [(''type'', JString ''string'')])]]"

definition plain_printers :: printers where
  "plain_printers = \<lparr>pr_json = \<lambda>_. ''value'', pr_f64 = \<lambda>_. ''number''\<rparr>"

lemmas version_eval =
  object_at_def array_at_def json_get_def as_f64_def required_of_def is_object_type_def map_filter_simps Let_def

lemmas compare_eval =
  check_compatibility_def compare_schemas.simps compare_properties.simps compare_defs.simps compare_required_def
  compare_enums_def compare_field_own_def compare_constraints_def check_numeric_tightened_def version_eval

theorem compatible_versions_compose_witness:
  "successively (\<lambda>old new. check_compatibility plain_printers old new = Compatible) sample_history \<and>
   check_compatibility plain_printers (sample_history ! 0) (sample_history ! 2) = Compatible"
proof -
  have steps: "successively (\<lambda>old new. check_compatibility plain_printers old new = Compatible) sample_history"
    by (simp add: sample_history_def sample_version_def compare_eval)
  moreover have "\<forall>v \<in> set sample_history. json_wf v"
    by (simp add: sample_history_def sample_version_def)
  ultimately show ?thesis
    using compatible_versions_compose [of plain_printers sample_history 0 2] by (simp add: sample_history_def)
qed

text \<open>
  Tightenings the comparison does not see. Restricting a free string field to an enumeration, and
  changing the type of a definition, are both classified as compatible, although documents valid under the
  old version are no longer valid under the new one.
\<close>

theorem undetected_tightenings:
  "check_compatibility pr
     (sample_version [(''status'', JObject [(''type'', JString ''string'')])])
     (sample_version [(''status'', JObject [(''enum'', JArray [JString ''open'']), (''type'', JString ''string'')])]) = Compatible \<and>
   check_compatibility pr
     (JObject [(''$defs'', JObject [(''Label'', JObject [(''type'', JString ''string'')])])])
     (JObject [(''$defs'', JObject [(''Label'', JObject [(''type'', JString ''integer'')])])]) = Compatible"
  by (simp add: compare_eval sample_version_def)

text \<open>
  Every warning about a removal is about a field that the comparison reports as removed, so a compatible
  upgrade has no warnings; and the field was not recorded as deprecated.
\<close>

theorem warnings_are_removals:
  assumes "w \<in> set (check_removal_allowed tr old new)"
  shows "\<exists>changes c. check_compatibility pr old new = Breaking changes \<and> c \<in> set changes \<and>
           bc_kind c = FieldRemoved \<and> bc_path c = dw_path w \<and> \<not> was_deprecated tr (dw_path w)"
  using warned_field_removed [OF assms [unfolded check_removal_allowed_def], of pr]
  by (auto simp: check_compatibility_def compare_schemas.simps Let_def)

definition sample_warning :: deprecation_warning where
  "sample_warning = \<lparr>dw_path = ''/properties/due'', dw_message = ''Field '' @ quoted ''due'' @ '' was removed without being deprecated first''\<rparr>"

theorem warnings_are_removals_witness:
  "\<exists>changes c. check_compatibility plain_printers (sample_history ! 2) (sample_history ! 1) = Breaking changes \<and> c \<in> set changes \<and>
     bc_kind c = FieldRemoved \<and> bc_path c = ''/properties/due'' \<and>
     \<not> was_deprecated (scan_schema new_tracker (sample_history ! 2)) ''/properties/due''"
proof -
  have "sample_warning \<in> set (check_removal_allowed (scan_schema new_tracker (sample_history ! 2)) (sample_history ! 2) (sample_history ! 1))"
    by (simp add: sample_warning_def check_removal_allowed_def check_properties_removal.simps scan_schema_def new_tracker_def
        scanned_properties.simps sample_history_def sample_version_def was_deprecated_def version_eval Let_def)
  from warnings_are_removals [OF this, of plain_printers] show ?thesis
    by (simp add: sample_warning_def)
qed

end
