(* ===== verification/Sqlite_Backend.thy ===== *)
theory Sqlite_Backend
  imports Sqlite_Document Workflow_Types Crypto
begin

text \<open>
  The plugin-facing storage backend \<open>SqliteStorage\<close> (\<open>storage-sqlite/src/backend.rs\<close>, with \<open>validation.rs\<close>,
  \<open>credentials.rs\<close>, \<open>audit.rs\<close> and the key rotation of \<open>lib.rs\<close>). The state is the \<open>plugin_data\<close> table in
  insertion order, the \<open>audit_log\<close> table, the registered private schemas, the master key in memory and the
  key the database file is encrypted with. The environment holds what the backend takes from libraries:
  cryptography, the text form of JSON and the derived deserialisation of canonical types, fresh ids and the
  clock (by the number of draws so far), compiled JSON schemas, the evaluation of query texts, and
  \<open>be_fault\<close>, which says whether a statement fails in the database. Statements with a fixed text are
  translated. A row version is an integer: SQLite's own limit of 63 bits is not modelled.
\<close>

section \<open>Errors\<close>

datatype backend_error =
    BDatabase string
  | BSerialization string
  | BNotFound string
  | BDecryptionFailed string
  | BPermissionDenied string
  | BInvalidConfig string
  | BInitFailed string
  | BConcurrencyConflict string "64 word"
  | BValidationFailed string string
  | BUnknownCollection string
  | BRekeyFailed string
  | BCredentialEncryption string string
  | BIo string
  | BPanic string

fun backend_error_to_string :: "backend_error \<Rightarrow> string" where
  "backend_error_to_string (BDatabase e) = ''database error: '' @ e"
| "backend_error_to_string (BSerialization e) = ''serialization error: '' @ e"
| "backend_error_to_string (BNotFound e) = ''record not found: '' @ e"
| "backend_error_to_string (BDecryptionFailed e) = ''unable to decrypt database: '' @ e"
| "backend_error_to_string (BPermissionDenied e) = ''permission denied: '' @ e"
| "backend_error_to_string (BInvalidConfig e) = ''invalid configuration: '' @ e"
| "backend_error_to_string (BInitFailed e) = ''initialization failed: '' @ e"
| "backend_error_to_string (BConcurrencyConflict i v) =
     ''concurrency conflict: record '' @ i @ '' expected version '' @ show_nat (unat v) @ '' but was modified''"
| "backend_error_to_string (BValidationFailed c m) = ''validation failed for collection '' @ quoted c @ '': '' @ m"
| "backend_error_to_string (BUnknownCollection e) = ''unknown collection: '' @ e"
| "backend_error_to_string (BRekeyFailed e) = ''key rotation failed: '' @ e"
| "backend_error_to_string (BCredentialEncryption i m) =
     ''credential encryption error for credential '' @ quoted i @ '': '' @ m"
| "backend_error_to_string (BIo e) = ''I/O error: '' @ e"
| "backend_error_to_string (BPanic m) = m"

fun backend_error_severity :: "backend_error \<Rightarrow> severity" where
  "backend_error_severity (BNotFound _) = Warning"
| "backend_error_severity (BConcurrencyConflict _ _) = Retryable"
| "backend_error_severity _ = Fatal"

section \<open>Queries and mutations\<close>

datatype query_op = QEq | QGte | QLte | QContains | QNotEq

record query_filter =
  qf_field :: string
  qf_operator :: query_op
  qf_value :: json

record storage_query =
  sq_collection :: string
  sq_plugin_id :: string
  sq_filters :: "query_filter list"
  sq_sort :: "sort_field list"
  sq_limit :: "nat option"
  sq_offset :: "nat option"

datatype storage_mutation =
    MInsert (mut_plugin: string) (mut_collection: string) (mut_data: pipeline_message)
  | MUpdate (mut_plugin: string) (mut_collection: string) (mut_id: uuid) (mut_data: pipeline_message)
      (mut_expected: "64 word")
  | MDelete (mut_plugin: string) (mut_collection: string) (mut_id: uuid)

section \<open>State and environment\<close>

record audit_row =
  al_id :: string
  al_timestamp :: string
  al_event_type :: string
  al_collection :: "string option"
  al_document_id :: "string option"
  al_identity_subject :: "string option"
  al_plugin_id :: "string option"
  al_details :: string
  al_created_at :: string

type_synonym schema_errors = "json \<Rightarrow> string list"

record sqlite_storage =
  ss_rows :: "sql_row list"
  ss_audit :: "audit_row list"
  ss_private :: "string \<times> string \<rightharpoonup> schema_errors"
  ss_master_key :: string
  ss_file_key :: string
  ss_draws :: nat

record backend_env =
  be_lib :: crypto_lib
  be_nonce :: "nat \<Rightarrow> string"
  be_to_string :: "json \<Rightarrow> (string, string) result"
  be_from_str :: "string \<Rightarrow> (string, json) result"
  be_display :: "json \<Rightarrow> string"
  be_decode :: "cdm_kind \<Rightarrow> string \<Rightarrow> (string, json) result"
  be_uuid :: "nat \<Rightarrow> string"
  be_now :: "nat \<Rightarrow> string"
  be_days_ago :: "nat \<Rightarrow> nat \<Rightarrow> string"
  be_timestamp :: "nat \<Rightarrow> timestamp"
  be_parse_uuid :: "string \<Rightarrow> uuid option"
  be_select :: "string \<Rightarrow> sql_value list \<Rightarrow> sql_row list \<Rightarrow> (string, (string, sql_row) result list) result"
  be_extensions :: "string \<Rightarrow> string option"
  be_canonical :: "string \<Rightarrow> schema_errors option"
  be_compile :: "json \<Rightarrow> (string, schema_errors) result"
  be_fault :: "string \<Rightarrow> sqlite_storage \<Rightarrow> string option"

type_synonym 'a bop = "(backend_error, sqlite_storage, 'a) action"

definition draw :: "(nat \<Rightarrow> 'a) \<Rightarrow> 'a bop" where
  "draw f st = (Inr (f (ss_draws st)), st\<lparr>ss_draws := Suc (ss_draws st)\<rparr>)"

definition b_stmt :: "backend_env \<Rightarrow> string \<Rightarrow> (string \<Rightarrow> backend_error) \<Rightarrow> unit bop" where
  "b_stmt env text wrap st = (case be_fault env text st of None \<Rightarrow> (Inr (), st) | Some e \<Rightarrow> (Inl (wrap e), st))"

section \<open>Validation\<close>

definition canonical_collections :: "string list" where
  "canonical_collections = [''events'', ''tasks'', ''contacts'', ''notes'', ''emails'', ''files'', ''credentials'']"

definition is_canonical :: "string \<Rightarrow> bool" where
  "is_canonical c \<longleftrightarrow> c \<in> set canonical_collections"

definition no_schema_errors :: "string \<Rightarrow> schema_errors \<Rightarrow> json \<Rightarrow> (backend_error, unit) result" where
  "no_schema_errors c validator data =
     (case validator data of [] \<Rightarrow> Inr () | e # _ \<Rightarrow> Inl (BValidationFailed c e))"

definition validate_canonical :: "backend_env \<Rightarrow> string \<Rightarrow> string \<Rightarrow> (backend_error, unit) result" where
  "validate_canonical env c data_json =
     (if \<not> is_canonical c then Inr ()
      else r_bind (map_err (\<lambda>e. BValidationFailed c (''invalid JSON: '' @ e)) (be_from_str env data_json)) (\<lambda>data.
        r_bind (ok_or (be_canonical env c) (BValidationFailed c ''no schema found for canonical collection''))
          (\<lambda>validator. no_schema_errors c validator data)))"

definition register_private ::
  "backend_env \<Rightarrow> string \<Rightarrow> string \<Rightarrow> string \<Rightarrow> unit bop" where
  "register_private env pid c schema_json =
     (if is_canonical c
      then s_fail (BValidationFailed c (''cannot register private schema for canonical collection '' @ quoted c))
      else s_bind (s_check (map_err (\<lambda>e. BValidationFailed c (''invalid schema JSON: '' @ e)) (be_from_str env schema_json)))
        (\<lambda>schema. s_bind (s_check (map_err (\<lambda>e. BValidationFailed c (''failed to compile schema: '' @ e)) (be_compile env schema)))
          (\<lambda>validator st. (Inr (), st\<lparr>ss_private := (ss_private st)((pid, c) \<mapsto> validator)\<rparr>))))"

definition has_schema :: "sqlite_storage \<Rightarrow> string \<Rightarrow> string \<Rightarrow> bool" where
  "has_schema st pid c \<longleftrightarrow> ss_private st (pid, c) \<noteq> None"

definition em_dash :: string where
  "em_dash = [CHR 0xE2, CHR 0x80, CHR 0x94]"

definition validate_private ::
  "backend_env \<Rightarrow> (string \<times> string \<rightharpoonup> schema_errors) \<Rightarrow> string \<Rightarrow> string \<Rightarrow> string \<Rightarrow> (backend_error, unit) result" where
  "validate_private env registry pid c data_json =
     r_bind (ok_or (registry (pid, c)) (BUnknownCollection (pid @ '':'' @ c @ '' '' @ em_dash @ '' no schema registered for this private collection'')))
       (\<lambda>validator. r_bind (map_err (\<lambda>e. BValidationFailed c (''invalid JSON: '' @ e)) (be_from_str env data_json))
         (\<lambda>data. no_schema_errors c validator data))"

definition validate_data :: "backend_env \<Rightarrow> string \<Rightarrow> string \<Rightarrow> string \<Rightarrow> unit bop" where
  "validate_data env pid c data_json =
     s_get (\<lambda>st. if is_canonical c then validate_canonical env c data_json
       else validate_private env (ss_private st) pid c data_json)"

section \<open>Credentials\<close>

definition hmac_credential_key :: "backend_env \<Rightarrow> string \<Rightarrow> string \<Rightarrow> string" where
  "hmac_credential_key env master cid = take 32 (hmac_sign (be_lib env) master cid)"

definition credential_id_of :: "json \<Rightarrow> (backend_error, string) result" where
  "credential_id_of doc =
     ok_or (Option.bind (json_get doc ''id'') as_str)
       (BCredentialEncryption ''unknown'' (''missing '' @ quoted ''id'' @ '' field in credential''))"

text \<open>\<open>doc[key] = v\<close>: null becomes an object, another value that is not an object panics.\<close>

definition index_set :: "string \<Rightarrow> json \<Rightarrow> json \<Rightarrow> (backend_error, json) result" where
  "index_set key v doc =
     (case doc of
        JObject ob \<Rightarrow> Inr (JObject (obj_insert key v ob))
      | JNull \<Rightarrow> Inr (JObject [(key, v)])
      | _ \<Rightarrow> Inl (BPanic (''cannot access key '' @ quoted key @ '' in a JSON value that is not an object'')))"

definition index_get :: "json \<Rightarrow> string \<Rightarrow> json" where
  "index_get doc key = (case json_get doc key of Some v \<Rightarrow> v | None \<Rightarrow> JNull)"

definition encrypt_credential ::
  "backend_env \<Rightarrow> string \<Rightarrow> string \<Rightarrow> string \<Rightarrow> (backend_error, string) result" where
  "encrypt_credential env nonce master data_json =
     r_bind (map_err BSerialization (be_from_str env data_json)) (\<lambda>doc.
     r_bind (credential_id_of doc) (\<lambda>cid.
     r_bind (map_err (\<lambda>e. BCredentialEncryption cid (''failed to serialize claims: '' @ e))
         (cl_json_to_vec (be_lib env) (index_get doc ''claims''))) (\<lambda>claims_bytes.
     r_bind (map_err (\<lambda>e. BCredentialEncryption cid (''encryption failed: '' @ crypto_error_to_string e))
         (encrypt (be_lib env) nonce (hmac_credential_key env master cid) claims_bytes)) (\<lambda>ciphertext.
     r_bind (index_set ''claims'' (JString (cl_hex_encode (be_lib env) ciphertext)) doc) (\<lambda>doc.
     r_bind (index_set ''encrypted'' (JBool True) doc) (\<lambda>doc.
     map_err BSerialization (be_to_string env doc)))))))"

definition decrypt_credential :: "backend_env \<Rightarrow> string \<Rightarrow> string \<Rightarrow> (backend_error, string) result" where
  "decrypt_credential env master data_json =
     r_bind (map_err BSerialization (be_from_str env data_json)) (\<lambda>doc.
     if Option.bind (json_get doc ''encrypted'') as_bool \<noteq> Some True then Inr data_json
     else
     r_bind (credential_id_of doc) (\<lambda>cid.
     r_bind (ok_or (Option.bind (json_get doc ''claims'') as_str) (BCredentialEncryption cid
         (''missing or non-string '' @ quoted ''claims'' @ '' field in encrypted credential''))) (\<lambda>claims_hex.
     r_bind (map_err (\<lambda>e. BCredentialEncryption cid (''invalid hex in encrypted claims: '' @ e))
         (cl_hex_decode (be_lib env) claims_hex)) (\<lambda>ciphertext.
     r_bind (map_err (\<lambda>e. BCredentialEncryption cid (''decryption failed: '' @ crypto_error_to_string e))
         (decrypt (be_lib env) (hmac_credential_key env master cid) ciphertext)) (\<lambda>plaintext.
     r_bind (map_err (\<lambda>e. BCredentialEncryption cid (''failed to deserialize decrypted claims: '' @ e))
         (cl_json_from_slice (be_lib env) plaintext)) (\<lambda>claims.
     r_bind (index_set ''claims'' claims doc) (\<lambda>doc.
     map_err BSerialization (be_to_string env
       (case doc of JObject ob \<Rightarrow> JObject (obj_remove ''encrypted'' ob) | _ \<Rightarrow> doc)))))))))"

section \<open>The audit log\<close>

datatype audit_event_type =
    AEStorageCreated | AEStorageUpdated | AEStorageDeleted | AEBlobStored | AEBlobDeleted
  | AEAuthSuccess | AEAuthFailure | AECredentialAccess | AECredentialModify
  | AEPluginInstall | AEPluginEnable | AEPluginDisable | AEPluginError
  | AEPermissionChange | AEConnectorAuth | AEDataExport

fun audit_type_as_str :: "audit_event_type \<Rightarrow> string" where
  "audit_type_as_str AEStorageCreated = ''system.storage.created''"
| "audit_type_as_str AEStorageUpdated = ''system.storage.updated''"
| "audit_type_as_str AEStorageDeleted = ''system.storage.deleted''"
| "audit_type_as_str AEBlobStored = ''system.blob.stored''"
| "audit_type_as_str AEBlobDeleted = ''system.blob.deleted''"
| "audit_type_as_str AEAuthSuccess = ''auth_success''"
| "audit_type_as_str AEAuthFailure = ''auth_failure''"
| "audit_type_as_str AECredentialAccess = ''credential_access''"
| "audit_type_as_str AECredentialModify = ''credential_modify''"
| "audit_type_as_str AEPluginInstall = ''plugin_install''"
| "audit_type_as_str AEPluginEnable = ''plugin_enable''"
| "audit_type_as_str AEPluginDisable = ''plugin_disable''"
| "audit_type_as_str AEPluginError = ''plugin_error''"
| "audit_type_as_str AEPermissionChange = ''permission_change''"
| "audit_type_as_str AEConnectorAuth = ''connector_auth''"
| "audit_type_as_str AEDataExport = ''data_export''"

record audit_entry =
  ae_type :: audit_event_type
  ae_collection :: "string option"
  ae_document_id :: "string option"
  ae_identity_subject :: "string option"
  ae_plugin_id :: "string option"
  ae_details :: json

definition log_event :: "backend_env \<Rightarrow> audit_entry \<Rightarrow> unit bop" where
  "log_event env ev =
     s_bind (draw (be_uuid env)) (\<lambda>i.
     s_bind (draw (be_now env)) (\<lambda>now.
     s_bind (s_check (map_err BSerialization (be_to_string env (ae_details ev)))) (\<lambda>details.
     s_bind (b_stmt env ''INSERT INTO audit_log'' BDatabase) (\<lambda>_ st.
       (Inr (), st\<lparr>ss_audit := ss_audit st @ [\<lparr>al_id = i, al_timestamp = now,
          al_event_type = audit_type_as_str (ae_type ev), al_collection = ae_collection ev,
          al_document_id = ae_document_id ev, al_identity_subject = ae_identity_subject ev,
          al_plugin_id = ae_plugin_id ev, al_details = details, al_created_at = now\<rparr>]\<rparr>)))))"

text \<open>A failure to log is reported on the console and otherwise ignored.\<close>

definition try_log_audit :: "backend_env \<Rightarrow> audit_entry \<Rightarrow> unit bop" where
  "try_log_audit env ev st = (Inr (), snd (log_event env ev st))"

definition credential_event :: "audit_event_type \<Rightarrow> string \<Rightarrow> string \<Rightarrow> string \<Rightarrow> audit_entry" where
  "credential_event t i pid operation =
     \<lparr>ae_type = t, ae_collection = Some ''credentials'', ae_document_id = Some i, ae_identity_subject = None,
      ae_plugin_id = Some pid, ae_details = JObject [(''operation'', JString operation)]\<rparr>"

definition audit_credential :: "backend_env \<Rightarrow> audit_event_type \<Rightarrow> string \<Rightarrow> string \<Rightarrow> string \<Rightarrow> string \<Rightarrow> unit bop" where
  "audit_credential env t c i pid operation =
     (if c = ''credentials'' then try_log_audit env (credential_event t i pid operation) else s_return ())"

definition audit_type_from_str :: "string \<Rightarrow> audit_event_type option" where
  "audit_type_from_str s =
     List.find (\<lambda>t. audit_type_as_str t = s)
       [AEStorageCreated, AEStorageUpdated, AEStorageDeleted, AEBlobStored, AEBlobDeleted, AEAuthSuccess, AEAuthFailure,
        AECredentialAccess, AECredentialModify, AEPluginInstall, AEPluginEnable, AEPluginDisable, AEPluginError,
        AEPermissionChange, AEConnectorAuth, AEDataExport]"

text \<open>The rows with equal timestamps come in insertion order.\<close>

definition query_events ::
  "backend_env \<Rightarrow> string option \<Rightarrow> string option \<Rightarrow> string option \<Rightarrow> (audit_row \<times> json) list bop" where
  "query_events env event_type from until =
     s_bind (b_stmt env ''SELECT FROM audit_log'' BDatabase) (\<lambda>_ st.
       (Inr (map (\<lambda>e. (e, case be_from_str env (al_details e) of Inr d \<Rightarrow> d | Inl _ \<Rightarrow> JNull))
          (sort_key al_timestamp (filter (\<lambda>e.
             (case event_type of Some t \<Rightarrow> al_event_type e = t | None \<Rightarrow> True) \<and>
             (case from of Some f \<Rightarrow> f \<le> al_timestamp e | None \<Rightarrow> True) \<and>
             (case until of Some t \<Rightarrow> al_timestamp e \<le> t | None \<Rightarrow> True)) (ss_audit st)))), st))"

definition audit_retention_days :: nat where
  "audit_retention_days = 90"

definition cleanup_old_entries :: "backend_env \<Rightarrow> nat bop" where
  "cleanup_old_entries env =
     s_bind (draw (be_days_ago env audit_retention_days)) (\<lambda>cutoff.
     s_bind (b_stmt env ''DELETE FROM audit_log'' BDatabase) (\<lambda>_ st.
       (Inr (length (filter (\<lambda>e. al_timestamp e < cutoff) (ss_audit st))),
        st\<lparr>ss_audit := filter (\<lambda>e. \<not> al_timestamp e < cutoff) (ss_audit st)\<rparr>)))"

section \<open>Reads\<close>

definition max_limit :: nat where
  "max_limit = 1000"

fun query_op_sql :: "query_op \<Rightarrow> string" where
  "query_op_sql QEq = ''=''"
| "query_op_sql QGte = ''>=''"
| "query_op_sql QLte = ''<=''"
| "query_op_sql QNotEq = ''!=''"
| "query_op_sql QContains = ''LIKE''"

definition backend_value_to_string :: "(json \<Rightarrow> string) \<Rightarrow> json \<Rightarrow> string" where
  "backend_value_to_string display v = (case v of JString s \<Rightarrow> s | JNull \<Rightarrow> [] | _ \<Rightarrow> display v)"

fun filters_sql :: "nat \<Rightarrow> query_filter list \<Rightarrow> string" where
  "filters_sql idx [] = []"
| "filters_sql idx (f # fs) =
     '' AND json_extract(data, '' @ placeholder idx @ '') '' @ query_op_sql (qf_operator f) @ '' '' @ placeholder (idx + 1) @
     filters_sql (idx + 2) fs"

definition filter_binds :: "(json \<Rightarrow> string) \<Rightarrow> query_filter \<Rightarrow> sql_value list" where
  "filter_binds display f =
     [SqlText (''$.'' @ qf_field f),
      if qf_operator f = QContains then SqlText (''%'' @ backend_value_to_string display (qf_value f) @ ''%'')
      else json_value_to_boxed_sql display (qf_value f)]"

definition select_columns :: string where
  "select_columns = ''SELECT id, plugin_id, collection, data, version, created_at, updated_at FROM plugin_data WHERE ''"

definition scope_sql :: "storage_query \<Rightarrow> string" where
  "scope_sql q = (if is_canonical (sq_collection q) then ''collection = ?1'' else ''plugin_id = ?1 AND collection = ?2'')"

definition scope_binds :: "storage_query \<Rightarrow> sql_value list" where
  "scope_binds q =
     (if is_canonical (sq_collection q) then [SqlText (sq_collection q)]
      else [SqlText (sq_plugin_id q), SqlText (sq_collection q)])"

definition limit_sql :: "storage_query \<Rightarrow> string" where
  "limit_sql q =
     '' LIMIT '' @ show_nat (case sq_limit q of Some l \<Rightarrow> min l max_limit | None \<Rightarrow> max_limit) @
     (case sq_offset q of Some n \<Rightarrow> '' OFFSET '' @ show_nat n | None \<Rightarrow> [])"

definition query_sql :: "storage_query \<Rightarrow> string" where
  "query_sql q =
     select_columns @ scope_sql q @ filters_sql (length (scope_binds q) + 1) (sq_filters q) @ order_by (sq_sort q) @ limit_sql q"

definition query_binds :: "(json \<Rightarrow> string) \<Rightarrow> storage_query \<Rightarrow> sql_value list" where
  "query_binds display q = scope_binds q @ concat (map (filter_binds display) (sq_filters q))"

definition cdm_of_collection :: "string \<Rightarrow> cdm_kind option" where
  "cdm_of_collection c =
     map_of [(''events'', CdmEvent), (''tasks'', CdmTask), (''contacts'', CdmContact), (''notes'', CdmNote),
       (''emails'', CdmEmail), (''files'', CdmFile)] c"

definition parse_payload :: "backend_env \<Rightarrow> string \<Rightarrow> string \<Rightarrow> string \<Rightarrow> (backend_error, typed_payload) result" where
  "parse_payload env c data_json master =
     (case cdm_of_collection c of
        Some k \<Rightarrow> r_bind (map_err BSerialization (be_decode env k data_json)) (\<lambda>v. Inr (Cdm k v))
      | None \<Rightarrow>
          if c = ''credentials''
          then r_bind (decrypt_credential env master data_json) (\<lambda>decrypted.
                 r_bind (map_err BSerialization (be_decode env CdmCredential decrypted)) (\<lambda>v. Inr (Cdm CdmCredential v)))
          else r_bind (map_err BSerialization (be_from_str env data_json)) (\<lambda>v. Inr (Custom v)))"

definition read_row :: "backend_env \<Rightarrow> string \<Rightarrow> sql_row \<Rightarrow> pipeline_message bop" where
  "read_row env pid row =
     s_bind (s_get (\<lambda>st. parse_payload env (row_collection row) (row_data row) (ss_master_key st))) (\<lambda>pl.
     s_bind (audit_credential env AECredentialAccess (row_collection row) (row_id row) pid ''read'') (\<lambda>_.
     s_bind (case be_parse_uuid env (row_id row) of Some u \<Rightarrow> s_return u | None \<Rightarrow> draw (be_uuid env)) (\<lambda>correlation.
     s_bind (draw (be_timestamp env)) (\<lambda>now.
     s_return \<lparr>metadata = \<lparr>correlation_id = correlation, msg_source = ''storage:'' @ row_collection row, msg_timestamp = now,
        auth_context = None, warnings = []\<rparr>, payload = pl\<rparr>))))"

fun read_rows :: "backend_env \<Rightarrow> string \<Rightarrow> (string, sql_row) result list \<Rightarrow> pipeline_message list bop" where
  "read_rows env pid [] = s_return []"
| "read_rows env pid (r # rs) =
     s_bind (s_check (map_err BDatabase r)) (\<lambda>row.
     s_bind (read_row env pid row) (\<lambda>m.
     s_bind (read_rows env pid rs) (\<lambda>ms. s_return (m # ms))))"

definition execute_query :: "backend_env \<Rightarrow> storage_query \<Rightarrow> pipeline_message list bop" where
  "execute_query env q =
     s_bind (s_get (\<lambda>st. map_err BDatabase (be_select env (query_sql q) (query_binds (be_display env) q) (ss_rows st))))
       (read_rows env (sq_plugin_id q))"

section \<open>Writes\<close>

fun payload_value :: "typed_payload \<Rightarrow> json" where
  "payload_value (Cdm k v) = v"
| "payload_value (Custom v) = v"

definition serialize_payload :: "backend_env \<Rightarrow> typed_payload \<Rightarrow> (backend_error, string) result" where
  "serialize_payload env pl = map_err BSerialization (be_to_string env (payload_value pl))"

definition existing_extensions :: "backend_env \<Rightarrow> string \<Rightarrow> sqlite_storage \<Rightarrow> json option" where
  "existing_extensions env i st =
     (case be_fault env ''SELECT json_extract'' st of
        Some _ \<Rightarrow> None
      | None \<Rightarrow> Option.bind (List.find (\<lambda>r. row_id r = i) (ss_rows st)) (\<lambda>r.
          Option.bind (be_extensions env (row_data r)) (\<lambda>s.
            case be_from_str env s of Inr j \<Rightarrow> Some j | Inl _ \<Rightarrow> None)))"

definition merge_existing_extensions :: "backend_env \<Rightarrow> string \<Rightarrow> string \<Rightarrow> sqlite_storage \<Rightarrow> (backend_error, string) result" where
  "merge_existing_extensions env i new_data_json st =
     r_bind (map_err BSerialization (be_from_str env new_data_json)) (\<lambda>new_data.
     if index_get new_data ''extensions'' \<noteq> JNull then Inr new_data_json
     else (case existing_extensions env i st of
        Some ext \<Rightarrow>
          if ext = JNull then Inr new_data_json
          else r_bind (index_set ''extensions'' ext new_data) (\<lambda>merged. map_err BSerialization (be_to_string env merged))
      | None \<Rightarrow> Inr new_data_json))"

definition protect_credential :: "backend_env \<Rightarrow> string \<Rightarrow> string \<Rightarrow> string bop" where
  "protect_credential env c data_json =
     (if c = ''credentials''
      then s_bind (draw (be_nonce env)) (\<lambda>nonce. s_get (\<lambda>st. encrypt_credential env nonce (ss_master_key st) data_json))
      else s_return data_json)"

definition insert_data :: "backend_env \<Rightarrow> sql_row \<Rightarrow> unit bop" where
  "insert_data env r =
     s_bind (b_stmt env ''INSERT INTO plugin_data'' BDatabase) (\<lambda>_ st.
       if row_id r \<in> set (map row_id (ss_rows st)) then (Inl (BDatabase unique_violation), st)
       else (Inr (), st\<lparr>ss_rows := ss_rows st @ [r]\<rparr>))"

definition is_version :: "string \<Rightarrow> string \<Rightarrow> 64 word \<Rightarrow> sql_row \<Rightarrow> bool" where
  "is_version i pid v r \<longleftrightarrow> row_id r = i \<and> row_plugin_id r = pid \<and> row_version r = sint v"

definition update_data :: "backend_env \<Rightarrow> string \<Rightarrow> string \<Rightarrow> 64 word \<Rightarrow> string \<Rightarrow> string \<Rightarrow> nat bop" where
  "update_data env i pid v data_json now =
     s_bind (b_stmt env ''UPDATE plugin_data'' BDatabase) (\<lambda>_ st.
       (Inr (length (filter (is_version i pid v) (ss_rows st))),
        st\<lparr>ss_rows := map (\<lambda>r. if is_version i pid v r
             then r\<lparr>row_data := data_json, row_version := row_version r + 1, row_updated_at := now\<rparr> else r) (ss_rows st)\<rparr>))"

definition delete_data :: "backend_env \<Rightarrow> string \<Rightarrow> string \<Rightarrow> nat bop" where
  "delete_data env i pid =
     s_bind (b_stmt env ''DELETE FROM plugin_data'' BDatabase) (\<lambda>_ st.
       (Inr (length (filter (\<lambda>r. row_id r = i \<and> row_plugin_id r = pid) (ss_rows st))),
        st\<lparr>ss_rows := filter (\<lambda>r. \<not> (row_id r = i \<and> row_plugin_id r = pid)) (ss_rows st)\<rparr>))"

fun execute_mutation :: "backend_env \<Rightarrow> storage_mutation \<Rightarrow> unit bop" where
  "execute_mutation env (MInsert pid c data) =
     s_bind (draw (be_uuid env)) (\<lambda>i.
     s_bind (draw (be_now env)) (\<lambda>now.
     s_bind (s_check (serialize_payload env (payload data))) (\<lambda>data_json.
     s_bind (validate_data env pid c data_json) (\<lambda>_.
     s_bind (protect_credential env c data_json) (\<lambda>data_json.
     s_bind (insert_data env \<lparr>row_id = i, row_plugin_id = pid, row_collection = c, row_data = data_json, row_version = 1,
         row_created_at = now, row_updated_at = now\<rparr>) (\<lambda>_.
     audit_credential env AECredentialModify c i pid ''insert''))))))"
| "execute_mutation env (MUpdate pid c i data expected) =
     s_bind (draw (be_now env)) (\<lambda>now.
     s_bind (s_check (serialize_payload env (payload data))) (\<lambda>data_json.
     s_bind (if is_canonical c \<and> c \<noteq> ''credentials'' then s_get (merge_existing_extensions env i data_json)
         else s_return data_json) (\<lambda>data_json.
     s_bind (validate_data env pid c data_json) (\<lambda>_.
     s_bind (protect_credential env c data_json) (\<lambda>data_json.
     s_bind (update_data env i pid expected data_json now) (\<lambda>rows_affected.
     s_bind (if 0 < rows_affected then audit_credential env AECredentialModify c i pid ''update'' else s_return ()) (\<lambda>_.
     if rows_affected = 0 then s_fail (BConcurrencyConflict i expected) else s_return ())))))))"
| "execute_mutation env (MDelete pid c i) =
     s_bind (delete_data env i pid) (\<lambda>rows_affected.
     if 0 < rows_affected then audit_credential env AECredentialModify c i pid ''delete'' else s_return ())"

declare execute_mutation.simps [simp del]

section \<open>Key rotation\<close>

definition rekey_row :: "backend_env \<Rightarrow> string \<Rightarrow> string \<Rightarrow> string \<times> string \<Rightarrow> unit bop" where
  "rekey_row env old_key new_key = (\<lambda>(i, data_json).
     s_bind (s_check (map_err (\<lambda>e. BRekeyFailed (''failed to decrypt credential '' @ i @ '' with old key: '' @
         backend_error_to_string e)) (decrypt_credential env old_key data_json))) (\<lambda>decrypted.
     s_bind (draw (be_nonce env)) (\<lambda>nonce.
     s_bind (s_check (map_err (\<lambda>e. BRekeyFailed (''failed to re-encrypt credential '' @ i @ '' with new key: '' @
         backend_error_to_string e)) (encrypt_credential env nonce new_key decrypted))) (\<lambda>re_encrypted.
     s_bind (b_stmt env ''UPDATE plugin_data SET data'' (\<lambda>e. BRekeyFailed (''failed to update credential '' @ i @ '': '' @ e)))
       (\<lambda>_ st. (Inr (), st\<lparr>ss_rows := map (\<lambda>r. if row_id r = i then r\<lparr>row_data := re_encrypted\<rparr> else r) (ss_rows st)\<rparr>))))))"

fun rekey_rows :: "backend_env \<Rightarrow> string \<Rightarrow> string \<Rightarrow> (string \<times> string) list \<Rightarrow> unit bop" where
  "rekey_rows env old_key new_key [] = s_return ()"
| "rekey_rows env old_key new_key (r # rs) =
     s_bind (rekey_row env old_key new_key r) (\<lambda>_. rekey_rows env old_key new_key rs)"

definition credential_rows :: "sqlite_storage \<Rightarrow> (string \<times> string) list" where
  "credential_rows st = map (\<lambda>r. (row_id r, row_data r)) (filter (\<lambda>r. row_collection r = ''credentials'') (ss_rows st))"

text \<open>A transaction is rolled back when it is dropped without a commit.\<close>

definition or_rollback :: "'a bop \<Rightarrow> 'a bop" where
  "or_rollback body st =
     (case body st of (Inl e, st') \<Rightarrow> (Inl e, st'\<lparr>ss_rows := ss_rows st\<rparr>) | (Inr x, st') \<Rightarrow> (Inr x, st'))"

definition re_encrypt_all :: "backend_env \<Rightarrow> string \<Rightarrow> string \<Rightarrow> unit bop" where
  "re_encrypt_all env old_key new_key =
     s_bind (b_stmt env ''SELECT id, data'' (\<lambda>e. BRekeyFailed (''failed to query credentials: '' @ e))) (\<lambda>_.
     s_bind (s_get (\<lambda>st. Inr (credential_rows st))) (\<lambda>rows.
     s_bind (rekey_rows env old_key new_key rows) (\<lambda>_.
     b_stmt env ''COMMIT'' (\<lambda>e. BRekeyFailed (''failed to commit transaction: '' @ e)))))"

definition re_encrypt_credentials :: "backend_env \<Rightarrow> string \<Rightarrow> string \<Rightarrow> unit bop" where
  "re_encrypt_credentials env old_key new_key =
     s_bind (b_stmt env ''BEGIN'' (\<lambda>e. BRekeyFailed (''failed to begin transaction: '' @ e)))
       (\<lambda>_. or_rollback (re_encrypt_all env old_key new_key))"

definition rekey :: "backend_env \<Rightarrow> string \<Rightarrow> unit bop" where
  "rekey env new_key st =
     s_bind (b_stmt env ''PRAGMA rekey'' (\<lambda>e. BRekeyFailed (''PRAGMA rekey failed: '' @ e))) (\<lambda>_.
     s_bind (\<lambda>st. (Inr (), st\<lparr>ss_file_key := new_key\<rparr>)) (\<lambda>_.
     s_bind (b_stmt env ''SELECT count(*) FROM sqlite_master'' (\<lambda>e. BRekeyFailed (''verification after rekey failed: '' @ e))) (\<lambda>_.
     s_bind (\<lambda>st'. case re_encrypt_credentials env (ss_master_key st) new_key st' of (r, st'') \<Rightarrow>
         (map_err (\<lambda>e. BRekeyFailed (''credential re-encryption failed: '' @ backend_error_to_string e)) r, st'')) (\<lambda>_ st.
     (Inr (), st\<lparr>ss_master_key := new_key\<rparr>))))) st"

end
