(* ===== verification/Backend_Props.thy ===== *)
theory Backend_Props
  imports Sqlite_Backend
begin

text \<open>
  Properties of the plugin-facing storage backend: frames (a mutation of a plugin leaves the rows of the
  others alone), optimistic concurrency, scoped reads, credentials at rest and key rotation.
\<close>

section \<open>Frames\<close>

definition foreign_rows :: "string \<Rightarrow> sqlite_storage \<Rightarrow> sql_row list" where
  "foreign_rows pid st = filter (\<lambda>r. row_plugin_id r \<noteq> pid) (ss_rows st)"

definition keeps_foreign :: "string \<Rightarrow> sqlite_storage \<Rightarrow> sqlite_storage \<Rightarrow> bool" where
  "keeps_foreign pid st st' \<longleftrightarrow> foreign_rows pid st' = foreign_rows pid st"

definition keeps_rows :: "sqlite_storage \<Rightarrow> sqlite_storage \<Rightarrow> bool" where
  "keeps_rows st st' \<longleftrightarrow> ss_rows st' = ss_rows st \<and> ss_master_key st' = ss_master_key st \<and> ss_file_key st' = ss_file_key st \<and>
     ss_private st' = ss_private st \<and> ss_draws st \<le> ss_draws st'"

interpretation own: state_order "keeps_foreign pid"
  by unfold_locales (auto simp: keeps_foreign_def)

interpretation same: state_order keeps_rows
  by unfold_locales (auto simp: keeps_rows_def)

lemma draw_same: "moves keeps_rows (draw f)"
  by (simp add: moves_def draw_def keeps_rows_def)

lemma b_stmt_same: "moves keeps_rows (b_stmt env text wrap)"
  by (simp add: moves_def b_stmt_def same.R_refl split: option.splits)

lemma append_audit_same: "moves keeps_rows (\<lambda>st. (Inr (), st\<lparr>ss_audit := ss_audit st @ [e]\<rparr>))"
  by (simp add: moves_def keeps_rows_def)

lemma log_event_same: "moves keeps_rows (log_event env ev)"
  unfolding log_event_def by (intro same.moves_bind draw_same b_stmt_same same.moves_check append_audit_same)

lemma audit_credential_same: "moves keeps_rows (audit_credential env t c i pid operation)"
  using log_event_same by (auto simp: moves_def audit_credential_def try_log_audit_def s_return_def same.R_refl)

lemma validate_data_same: "moves keeps_rows (validate_data env pid c d)"
  unfolding validate_data_def by (rule same.moves_get)

lemma protect_credential_same: "moves keeps_rows (protect_credential env c d)"
  unfolding protect_credential_def
  by (intro same.moves_if same.moves_bind same.moves_get same.moves_return draw_same)

lemmas same_rules =
  draw_same b_stmt_same log_event_same audit_credential_same validate_data_same protect_credential_same
  same.moves_if same.moves_intros

lemma read_row_same: "moves keeps_rows (read_row env pid row)"
  unfolding read_row_def by (intro same_rules) (auto intro!: same_rules split: option.splits)

lemma read_rows_same: "moves keeps_rows (read_rows env pid rs)"
  by (induction rs) (auto intro!: same_rules read_row_same)

lemma execute_query_same: "moves keeps_rows (execute_query env q)"
  unfolding execute_query_def by (intro same_rules read_rows_same)

text \<open>A step that keeps the rows keeps those of every plugin.\<close>

lemma same_own: "moves keeps_rows f \<Longrightarrow> moves (keeps_foreign pid) f"
  by (simp add: moves_def keeps_rows_def keeps_foreign_def foreign_rows_def)

lemma insert_data_own: "row_plugin_id r = pid \<Longrightarrow> moves (keeps_foreign pid) (insert_data env r)"
  unfolding insert_data_def
  by (intro own.moves_bind same_own [OF b_stmt_same]) (auto simp: moves_def keeps_foreign_def foreign_rows_def)

lemma update_data_own: "moves (keeps_foreign pid) (update_data env i pid v d now)"
  unfolding update_data_def
  by (intro own.moves_bind same_own [OF b_stmt_same])
    (auto simp: moves_def keeps_foreign_def foreign_rows_def is_version_def intro!: filter_map_same split: if_splits)

lemma delete_data_own: "moves (keeps_foreign pid) (delete_data env i pid)"
  unfolding delete_data_def
  by (intro own.moves_bind same_own [OF b_stmt_same])
    (auto simp: moves_def keeps_foreign_def foreign_rows_def intro!: filter_cong)

lemmas own_rules = same_own [OF draw_same] same_own [OF audit_credential_same] same_own [OF validate_data_same]
  same_own [OF protect_credential_same] insert_data_own update_data_own delete_data_own own.moves_if own.moves_intros

lemma execute_mutation_own: "moves (keeps_foreign (mut_plugin m)) (execute_mutation env m)"
  by (cases m) (simp_all add: execute_mutation.simps, (intro own_rules; simp)+)

section \<open>Optimistic concurrency\<close>

text \<open>
  Once a record has moved past a version, no later mutation by anyone brings that version back: ids are unique
  and fresh ids differ from the record's.
\<close>

definition ids_fresh :: "backend_env \<Rightarrow> string \<Rightarrow> bool" where
  "ids_fresh env i \<longleftrightarrow> (\<forall>n. be_uuid env n \<noteq> i)"

definition past_version :: "string \<Rightarrow> 64 word \<Rightarrow> sqlite_storage \<Rightarrow> bool" where
  "past_version i v st \<longleftrightarrow> (\<forall>r \<in> set (ss_rows st). row_id r = i \<longrightarrow> sint v < row_version r)"

definition distinct_ids :: "sqlite_storage \<Rightarrow> bool" where
  "distinct_ids st \<longleftrightarrow> distinct (map row_id (ss_rows st))"

definition keeps_past :: "string \<Rightarrow> 64 word \<Rightarrow> sqlite_storage \<Rightarrow> sqlite_storage \<Rightarrow> bool" where
  "keeps_past i v st st' \<longleftrightarrow> (past_version i v st \<longrightarrow> past_version i v st') \<and> (distinct_ids st \<longrightarrow> distinct_ids st')"

interpretation past: state_order "keeps_past i v"
  by unfold_locales (auto simp: keeps_past_def)

lemma same_past: "moves keeps_rows f \<Longrightarrow> moves (keeps_past i v) f"
  by (simp add: moves_def keeps_rows_def keeps_past_def past_version_def distinct_ids_def)

lemma insert_data_past: "row_id r \<noteq> i \<Longrightarrow> moves (keeps_past i v) (insert_data env r)"
  unfolding insert_data_def
  by (intro past.moves_bind same_past [OF b_stmt_same]) (auto simp: moves_def keeps_past_def past_version_def distinct_ids_def)

lemma updated_ids: "map row_id (map (\<lambda>r. if P r then r\<lparr>row_data := d, row_version := n r, row_updated_at := now\<rparr> else r) rs) = map row_id rs"
  by (induction rs) auto

lemma update_data_past: "moves (keeps_past i v) (update_data env j pid w d now)"
  unfolding update_data_def
  by (intro past.moves_bind same_past [OF b_stmt_same])
    (auto simp: moves_def keeps_past_def past_version_def distinct_ids_def updated_ids simp del: map_map)

lemma delete_data_past: "moves (keeps_past i v) (delete_data env j pid)"
  unfolding delete_data_def
  by (intro past.moves_bind same_past [OF b_stmt_same])
    (auto simp: moves_def keeps_past_def past_version_def distinct_ids_def distinct_map_filter)

lemmas past_rules = same_past [OF audit_credential_same] same_past [OF validate_data_same]
  same_past [OF protect_credential_same] update_data_past delete_data_past past.moves_if past.moves_intros

text \<open>The id of a new row is a fresh one.\<close>

lemma moves_draw:
  assumes "\<And>n. moves R (g (f n))" and "\<And>st. R st (st\<lparr>ss_draws := Suc (ss_draws st)\<rparr>)" and "\<And>a b c. R a b \<Longrightarrow> R b c \<Longrightarrow> R a c"
  shows "moves R (s_bind (draw f) g)"
  unfolding moves_def
proof
  fix st
  show "R st (snd (s_bind (draw f) g st))"
    using assms(1) [of "ss_draws st", unfolded moves_def] assms(2) [of st] assms(3) by (simp add: s_bind_def draw_def)
qed

lemma draw_past: "(\<And>n. moves (keeps_past i v) (g (f n))) \<Longrightarrow> moves (keeps_past i v) (s_bind (draw f) g)"
  by (rule moves_draw) (auto simp: keeps_past_def past_version_def distinct_ids_def)

lemma execute_mutation_past:
  assumes "ids_fresh env i"
  shows "moves (keeps_past i v) (execute_mutation env m)"
  using assms
  by (cases m) (simp_all add: execute_mutation.simps ids_fresh_def, (intro draw_past past_rules insert_data_past; simp)+)

fun run_mutations :: "backend_env \<Rightarrow> storage_mutation list \<Rightarrow> sqlite_storage \<Rightarrow> sqlite_storage" where
  "run_mutations env [] st = st"
| "run_mutations env (m # ms) st = run_mutations env ms (snd (execute_mutation env m st))"

lemma run_mutations_past: "ids_fresh env i \<Longrightarrow> keeps_past i v st (run_mutations env ms st)"
proof (induction ms arbitrary: st)
  case (Cons m ms)
  then have "keeps_past i v st (snd (execute_mutation env m st))"
    using execute_mutation_past unfolding moves_def by blast
  with Cons show ?case using past.R_trans by fastforce
qed (simp add: past.R_refl)

lemma update_data_Inr:
  "update_data env i pid v d now st = (Inr n, st') \<Longrightarrow>
   n = length (filter (is_version i pid v) (ss_rows st)) \<and>
   ss_rows st' = map (\<lambda>r. if is_version i pid v r
     then r\<lparr>row_data := d, row_version := row_version r + 1, row_updated_at := now\<rparr> else r) (ss_rows st)"
  by (auto simp: update_data_def b_stmt_def s_bind_def split: option.splits)

text \<open>The steps before the statement of an update do not touch the rows, the steps after it neither.\<close>

lemma update_outcome:
  assumes "execute_mutation env (MUpdate pid c i data v) st = (Inr (), st')"
  obtains d now where "filter (is_version i pid v) (ss_rows st) \<noteq> []"
    and "ss_rows st' = map (\<lambda>r. if is_version i pid v r
      then r\<lparr>row_data := d, row_version := row_version r + 1, row_updated_at := now\<rparr> else r) (ss_rows st)"
    and "\<not> is_canonical c \<Longrightarrow> serialize_payload env (payload data) = Inr d"
proof -
  obtain now d0 d1 d2 s1 s2 s3 s4 n s5 s6 u1 u2
    where steps: "draw (be_now env) st = (Inr now, s1)"
      "(if is_canonical c \<and> c \<noteq> ''credentials'' then s_get (merge_existing_extensions env i d0) else s_return d0) s1 = (Inr d1, s2)"
      "validate_data env pid c d1 s2 = (Inr u1, s3)" "protect_credential env c d1 s3 = (Inr d2, s4)"
      "update_data env i pid v d2 now s4 = (Inr n, s5)"
      "(if 0 < n then audit_credential env AECredentialModify c i pid ''update'' else s_return ()) s5 = (Inr u2, s6)"
      "(if n = 0 then s_fail (BConcurrencyConflict i v) else s_return ()) s6 = (Inr (), st')"
    and ser: "serialize_payload env (payload data) = Inr d0"
    using assms by (auto simp: execute_mutation.simps s_bind_ok s_check_def)
  have same: "ss_rows (snd (f s)) = ss_rows s" if "moves keeps_rows f" for f :: "'b bop" and s
    using that by (simp add: moves_def keeps_rows_def)
  have "ss_rows s4 = ss_rows st"
    using same [OF draw_same, of "be_now env" st] same [OF validate_data_same, of env pid c d1 s2]
      same [OF protect_credential_same, of env c d1 s3] steps(1-4) by (auto simp: s_get_def s_return_def split: if_splits)
  moreover have "n \<noteq> 0" and "ss_rows st' = ss_rows s5"
    using same [OF audit_credential_same, of env AECredentialModify c i pid "''update''" s5] steps(6,7)
    by (auto simp: s_fail_def s_return_def split: if_splits)
  moreover have "d2 = d0" if "\<not> is_canonical c"
    using that steps(2,4) by (auto simp: s_return_def protect_credential_def is_canonical_def canonical_collections_def)
  ultimately show ?thesis
    using that [of now d2] update_data_Inr [OF steps(5)] ser by auto
qed

lemma update_past:
  assumes "distinct_ids st" and "execute_mutation env (MUpdate pid c i data v) st = (Inr (), st')"
  shows "past_version i v st' \<and> distinct_ids st' \<and>
    (\<exists>r \<in> set (ss_rows st). row_id r = i \<and> row_plugin_id r = pid \<and> row_version r = sint v)"
  using assms(2)
proof (rule update_outcome)
  fix d now
  let ?upd = "\<lambda>r. if is_version i pid v r then r\<lparr>row_data := d, row_version := row_version r + 1, row_updated_at := now\<rparr> else r"
  assume some: "filter (is_version i pid v) (ss_rows st) \<noteq> []" and rows: "ss_rows st' = map ?upd (ss_rows st)"
  then obtain r where r: "r \<in> set (ss_rows st)" "is_version i pid v r"
    by (auto simp: filter_empty_conv)
  have "r' = r" if "r' \<in> set (ss_rows st)" "row_id r' = i" for r'
    using r that assms(1) by (auto simp: distinct_ids_def distinct_map is_version_def dest: inj_onD)
  then have "past_version i v st'"
    using rows r by (auto simp: past_version_def is_version_def split: if_splits)
  moreover have "distinct_ids st'"
    using assms(1) rows by (simp add: distinct_ids_def updated_ids del: map_map)
  ultimately show ?thesis
    using r by (auto simp: is_version_def)
qed

lemma past_rejects:
  assumes "past_version i v st"
  shows "fst (execute_mutation env (MUpdate pid c i data v) st) \<noteq> Inr ()"
proof
  assume ok: "fst (execute_mutation env (MUpdate pid c i data v) st) = Inr ()"
  obtain st' where "execute_mutation env (MUpdate pid c i data v) st = (Inr (), st')"
    using ok by (metis prod.collapse)
  then show False
    by (rule update_outcome) (use assms in \<open>auto simp: past_version_def is_version_def filter_empty_conv\<close>)
qed

section \<open>Scoped reads\<close>

text \<open>
  Documented behaviour of SQL for the texts the backend builds: the rows of a \<open>SELECT\<close> are rows of the table
  that satisfy the conjuncts of its \<open>WHERE\<close> clause, here the comparisons of two columns with the first two
  bind values, and there are at most as many as the \<open>LIMIT\<close> says. A sort field with a quote in it would end
  the string literal it is spliced into, so nothing is assumed of such a text.
\<close>

definition plain_sort :: "sort_field list \<Rightarrow> bool" where
  "plain_sort ss \<longleftrightarrow> list_all (\<lambda>s. CHR 0x27 \<notin> set (sf_field s)) ss"

definition sql_where :: "backend_env \<Rightarrow> bool" where
  "sql_where env \<longleftrightarrow>
     (\<forall>idx fs ss q b1 b2 bs rows rs r. plain_sort ss \<longrightarrow>
        be_select env (select_columns @ ''plugin_id = ?1 AND collection = ?2'' @ filters_sql idx fs @ order_by ss @ limit_sql q)
          (b1 # b2 # bs) rows = Inr rs \<longrightarrow> Inr r \<in> set rs \<longrightarrow>
        r \<in> set rows \<and> b1 = SqlText (row_plugin_id r) \<and> b2 = SqlText (row_collection r))"

lemma private_rows:
  assumes "sql_where env" and "plain_sort (sq_sort q)" and "\<not> is_canonical (sq_collection q)"
    and "be_select env (query_sql q) (query_binds display q) rows = Inr rs" and "Inr r \<in> set rs"
  shows "r \<in> set rows \<and> row_plugin_id r = sq_plugin_id q \<and> row_collection r = sq_collection q"
proof -
  have "query_sql q = select_columns @ ''plugin_id = ?1 AND collection = ?2'' @
      filters_sql (length (scope_binds q) + 1) (sq_filters q) @ order_by (sq_sort q) @ limit_sql q"
    using assms(3) by (simp add: query_sql_def scope_sql_def)
  moreover have "query_binds display q =
      SqlText (sq_plugin_id q) # SqlText (sq_collection q) # concat (map (filter_binds display) (sq_filters q))"
    using assms(3) by (simp add: query_binds_def scope_binds_def)
  ultimately show ?thesis
    using assms(1,2,4,5) unfolding sql_where_def by (metis sql_value.inject(1))
qed

lemma read_row_Inr:
  "read_row env pid row st = (Inr m, st') \<Longrightarrow>
   parse_payload env (row_collection row) (row_data row) (ss_master_key st) = Inr (payload m)"
  by (auto simp: read_row_def s_bind_ok s_get_def s_return_def)

lemma read_rows_Inr:
  assumes "read_rows env pid rs st = (Inr ms, st')"
  shows "\<exists>rows. rs = map Inr rows \<and>
    list_all2 (\<lambda>row m. parse_payload env (row_collection row) (row_data row) (ss_master_key st) = Inr (payload m)) rows ms"
  using assms
proof (induction rs arbitrary: ms st)
  case (Cons r rs)
  obtain row m s1 ms' where r: "r = Inr row" and m: "read_row env pid row st = (Inr m, s1)"
    and rest: "read_rows env pid rs s1 = (Inr ms', st')" and ms: "ms = m # ms'"
    using Cons.prems by (auto simp: s_bind_ok s_check_def s_return_def map_err_eq_Inr)
  have "ss_master_key s1 = ss_master_key st"
    using read_row_same [of env pid row] m by (auto simp: moves_def keeps_rows_def dest: spec [of _ st])
  with Cons.IH [OF rest] obtain rows where "rs = map Inr rows"
    "list_all2 (\<lambda>row m. parse_payload env (row_collection row) (row_data row) (ss_master_key st) = Inr (payload m)) rows ms'"
    by auto
  with r ms read_row_Inr [OF m] show ?case
    by (intro exI [of _ "row # rows"]) simp
qed (simp add: s_return_def)

section \<open>Credentials\<close>

text \<open>
  What is relied on: parsing gives back what was serialised, a parsed object has its keys in order, opening
  and decoding undo sealing and encoding, and nonces have the length of a nonce.
\<close>

definition backend_laws :: "backend_env \<Rightarrow> bool" where
  "backend_laws env \<longleftrightarrow>
     (\<forall>j s. be_to_string env j = Inr s \<longrightarrow> be_from_str env s = Inr j) \<and>
     (\<forall>s ob. be_from_str env s = Inr (JObject ob) \<longrightarrow> obj_wf ob) \<and>
     aead_correct (be_lib env) \<and> codecs_correct (be_lib env) \<and> (\<forall>n. length (be_nonce env n) = nonce_size)"

definition is_encrypted :: "json \<Rightarrow> bool" where
  "is_encrypted doc \<longleftrightarrow> Option.bind (json_get doc ''encrypted'') as_bool = Some True"

definition clear_document :: "jobject \<Rightarrow> json" where
  "clear_document ob = JObject (obj_remove ''encrypted'' (obj_insert ''claims'' (index_get (JObject ob) ''claims'') ob))"

lemma index_set_eq_Inr: "json_get doc k = Some v \<Longrightarrow> index_set key w doc = Inr doc' \<longleftrightarrow> (\<exists>ob. doc = JObject ob \<and> doc' = JObject (obj_insert key w ob))"
  by (cases doc) (auto simp: index_set_def json_get_def)

lemma encrypted_text:
  assumes "encrypt_credential env nonce master text = Inr text'"
  obtains ob cid plain ct where "be_from_str env text = Inr (JObject ob)" and "obj_get ob ''id'' = Some (JString cid)"
    and "cl_json_to_vec (be_lib env) (index_get (JObject ob) ''claims'') = Inr plain"
    and "encrypt (be_lib env) nonce (hmac_credential_key env master cid) plain = Inr ct"
    and "be_to_string env (JObject (obj_insert ''encrypted'' (JBool True)
      (obj_insert ''claims'' (JString (cl_hex_encode (be_lib env) ct)) ob))) = Inr text'"
proof -
  from assms obtain doc cid plain ct doc1 doc2 where doc: "be_from_str env text = Inr doc" "credential_id_of doc = Inr cid"
    "cl_json_to_vec (be_lib env) (index_get doc ''claims'') = Inr plain"
    "encrypt (be_lib env) nonce (hmac_credential_key env master cid) plain = Inr ct"
    "index_set ''claims'' (JString (cl_hex_encode (be_lib env) ct)) doc = Inr doc1"
    "index_set ''encrypted'' (JBool True) doc1 = Inr doc2" "be_to_string env doc2 = Inr text'"
    by (auto simp: encrypt_credential_def r_bind_eq_Inr map_err_eq_Inr)
  from doc(2) obtain ob where ob: "doc = JObject ob" "obj_get ob ''id'' = Some (JString cid)"
    by (cases doc) (auto simp: credential_id_of_def ok_or_eq_Inr bind_eq_Some_conv as_str_eq_Some json_get_def)
  with that doc show ?thesis
    by (auto simp: index_set_def)
qed

lemma decrypt_encrypted:
  assumes laws: "backend_laws env" and nonce: "length nonce = nonce_size"
    and "encrypt_credential env nonce master text = Inr text'"
  obtains ob where "be_from_str env text = Inr (JObject ob)"
    and "decrypt_credential env master text' = map_err BSerialization (be_to_string env (clear_document ob))"
    and "\<exists>ob'. be_from_str env text' = Inr (JObject ob') \<and> is_encrypted (JObject ob')"
  using assms(3)
proof (rule encrypted_text)
  fix ob cid plain ct
  let ?hex = "cl_hex_encode (be_lib env) ct"
  let ?stored = "obj_insert ''encrypted'' (JBool True) (obj_insert ''claims'' (JString ?hex) ob)"
  assume ob: "be_from_str env text = Inr (JObject ob)" "obj_get ob ''id'' = Some (JString cid)"
    and plain: "cl_json_to_vec (be_lib env) (index_get (JObject ob) ''claims'') = Inr plain"
    and ct: "encrypt (be_lib env) nonce (hmac_credential_key env master cid) plain = Inr ct"
    and stored: "be_to_string env (JObject ?stored) = Inr text'"
  have parsed: "be_from_str env text' = Inr (JObject ?stored)" and "obj_wf ob"
    and "cl_hex_decode (be_lib env) ?hex = Inr ct"
    and "cl_json_from_slice (be_lib env) plain = Inr (index_get (JObject ob) ''claims'')"
    and "decrypt (be_lib env) (hmac_credential_key env master cid) ct = Inr plain"
    using laws stored ob(1) plain decrypt_encrypt [OF _ nonce ct] by (auto simp: backend_laws_def codecs_correct_def)
  moreover have "obj_remove ''encrypted'' (obj_insert ''claims'' v ?stored) = obj_remove ''encrypted'' (obj_insert ''claims'' v ob)" for v
    using \<open>obj_wf ob\<close> by (intro jmap.ext) (auto simp: obj_wf_insert obj_wf_remove)
  ultimately have "decrypt_credential env master text' = map_err BSerialization (be_to_string env (clear_document ob))"
    using ob(2) by (simp add: decrypt_credential_def credential_id_of_def index_set_def clear_document_def as_bool_def)
  with ob(1) parsed show ?thesis
    using that by (auto simp: is_encrypted_def as_bool_def)
qed

lemma decrypted_text:
  assumes "backend_laws env" and "decrypt_credential env master text = Inr text'"
    and "be_from_str env text = Inr (JObject ob)" and "is_encrypted (JObject ob)"
  obtains ob' where "be_from_str env text' = Inr (JObject ob')" and "be_to_string env (JObject ob') = Inr text'"
    and "clear_document ob' = JObject ob'"
proof -
  from assms(2-4) obtain claims where "be_to_string env (JObject (obj_remove ''encrypted'' (obj_insert ''claims'' claims ob))) = Inr text'"
    by (auto simp: decrypt_credential_def is_encrypted_def r_bind_eq_Inr map_err_eq_Inr index_set_def)
  moreover have "obj_wf ob" using assms(1,3) by (simp add: backend_laws_def)
  moreover have "clear_document (obj_remove ''encrypted'' (obj_insert ''claims'' claims ob)) =
      JObject (obj_remove ''encrypted'' (obj_insert ''claims'' claims ob))"
    using \<open>obj_wf ob\<close> unfolding clear_document_def json.inject
    by (intro jmap.ext) (auto simp: obj_wf_insert obj_wf_remove index_get_def)
  ultimately show ?thesis
    using that assms(1) by (auto simp: backend_laws_def)
qed

text \<open>Re-encryption under another key keeps what the credential decrypts to.\<close>

lemma rekeyed_text:
  assumes "backend_laws env" and "length nonce = nonce_size" and "decrypt_credential env old text = Inr clear"
    and "be_from_str env text = Inr (JObject ob)" and "is_encrypted (JObject ob)"
    and enc: "encrypt_credential env nonce new clear = Inr text'"
  shows "decrypt_credential env new text' = Inr clear \<and> (\<exists>ob'. be_from_str env text' = Inr (JObject ob') \<and> is_encrypted (JObject ob'))"
proof -
  obtain ob' where clear: "be_from_str env clear = Inr (JObject ob')" "be_to_string env (JObject ob') = Inr clear"
    "clear_document ob' = JObject ob'"
    using decrypted_text [OF assms(1,3-5)] by blast
  obtain ob'' where "be_from_str env clear = Inr (JObject ob'')"
    "decrypt_credential env new text' = map_err BSerialization (be_to_string env (clear_document ob''))"
    "\<exists>ob'. be_from_str env text' = Inr (JObject ob') \<and> is_encrypted (JObject ob')"
    using decrypt_encrypted [OF assms(1,2) enc] by blast
  with clear show ?thesis by auto
qed

section \<open>Key rotation\<close>

definition re_encrypted :: "backend_env \<Rightarrow> string \<Rightarrow> string \<Rightarrow> string \<Rightarrow> string \<Rightarrow> bool" where
  "re_encrypted env old new d t \<longleftrightarrow>
     (\<exists>clear n. decrypt_credential env old d = Inr clear \<and> encrypt_credential env (be_nonce env n) new clear = Inr t)"

definition with_data :: "string set \<Rightarrow> (string \<Rightarrow> string) \<Rightarrow> sql_row \<Rightarrow> sql_row" where
  "with_data ids f r = (if row_id r \<in> ids then r\<lparr>row_data := f (row_id r)\<rparr> else r)"

lemma rekey_row_Inr:
  assumes "rekey_row env old new (i, d) st = (Inr (), st')"
  obtains t where "re_encrypted env old new d t" and "ss_rows st' = map (with_data {i} (\<lambda>_. t)) (ss_rows st)"
proof -
  from assms obtain clear n t where "decrypt_credential env old d = Inr clear"
    "encrypt_credential env (be_nonce env n) new clear = Inr t"
    and rows: "ss_rows st' = map (\<lambda>r. if row_id r = i then r\<lparr>row_data := t\<rparr> else r) (ss_rows st)"
    by (auto simp: rekey_row_def s_bind_ok s_check_def draw_def b_stmt_def map_err_eq_Inr split: option.splits)
  then have "re_encrypted env old new d t" by (auto simp: re_encrypted_def)
  moreover have "(\<lambda>r. if row_id r = i then r\<lparr>row_data := t\<rparr> else r) = with_data {i} (\<lambda>_. t)"
    by (auto simp: with_data_def)
  ultimately show ?thesis using that rows by simp
qed

lemma rekey_rows_Inr:
  assumes "rekey_rows env old new L st = (Inr (), st')" and "distinct (map fst L)"
  shows "\<exists>f. (\<forall>(i, d) \<in> set L. re_encrypted env old new d (f i)) \<and>
    ss_rows st' = map (with_data (set (map fst L)) f) (ss_rows st)"
  using assms
proof (induction L arbitrary: st)
  case Nil
  then show ?case by (auto simp: s_return_def with_data_def)
next
  case (Cons e L)
  obtain i d where e: "e = (i, d)" by force
  with Cons.prems obtain s1 where row: "rekey_row env old new (i, d) st = (Inr (), s1)"
    and rest: "rekey_rows env old new L s1 = (Inr (), st')"
    by (auto simp: s_bind_ok)
  obtain t where t: "re_encrypted env old new d t" "ss_rows s1 = map (with_data {i} (\<lambda>_. t)) (ss_rows st)"
    using rekey_row_Inr [OF row] by blast
  obtain f where f: "\<forall>(i, d) \<in> set L. re_encrypted env old new d (f i)"
    "ss_rows st' = map (with_data (set (map fst L)) f) (ss_rows s1)"
    using Cons.IH [OF rest] Cons.prems(2) by auto
  have fresh: "i \<notin> set (map fst L)" using Cons.prems(2) e by simp
  have "with_data (set (map fst L)) f (with_data {i} (\<lambda>_. t) r) = with_data (set (map fst (e # L))) (f(i := t)) r" for r
    using fresh e by (auto simp: with_data_def)
  with t f have "ss_rows st' = map (with_data (set (map fst (e # L))) (f(i := t))) (ss_rows st)"
    by simp
  moreover have "\<forall>(j, d) \<in> set (e # L). re_encrypted env old new d ((f(i := t)) j)"
    using f(1) t(1) e fresh by (fastforce simp: image_iff)
  ultimately show ?case by blast
qed

lemma credential_rows_distinct: "distinct_ids st \<Longrightarrow> distinct (map fst (credential_rows st))"
  by (auto simp: distinct_ids_def credential_rows_def comp_def distinct_map_filter)

text \<open>The transaction: a failure rolls the rows back.\<close>

lemma bind_b_stmt:
  "s_bind (b_stmt env text wrap) g st = (case be_fault env text st of None \<Rightarrow> g () st | Some e \<Rightarrow> (Inl (wrap e), st))"
  by (simp add: s_bind_def b_stmt_def split: option.splits)

lemma re_encrypt_all_Inr:
  "re_encrypt_all env old new st = (Inr u, st') \<Longrightarrow>
   \<exists>s1. rekey_rows env old new (credential_rows st) st = (Inr (), s1) \<and> ss_rows st' = ss_rows s1"
  by (auto simp: re_encrypt_all_def s_bind_ok s_get_def b_stmt_def split: option.splits)

lemma re_encrypt_cases:
  assumes "re_encrypt_credentials env old new st = (r, st')"
  shows "(\<exists>s1. r = Inr () \<and> rekey_rows env old new (credential_rows st) st = (Inr (), s1) \<and> ss_rows st' = ss_rows s1) \<or>
    (\<exists>e. r = Inl e \<and> ss_rows st' = ss_rows st)"
proof -
  obtain b s1 where all: "re_encrypt_all env old new st = (b, s1)" by force
  have "(r, st') = (case b of Inl e \<Rightarrow> (Inl e, s1\<lparr>ss_rows := ss_rows st\<rparr>) | Inr x \<Rightarrow> (Inr x, s1)) \<or> (\<exists>e. (r, st') = (Inl e, st))"
    using assms all by (auto simp: re_encrypt_credentials_def bind_b_stmt or_rollback_def split: option.splits sum.splits)
  with re_encrypt_all_Inr all show ?thesis
    by (cases b) auto
qed

text \<open>The rows after a rotation: the same but for the texts of credentials.\<close>

lemma re_encrypt_Inr:
  assumes "re_encrypt_credentials env old new st = (Inr (), st')" and "distinct_ids st"
  shows "\<exists>f. ss_rows st' = map (\<lambda>r. if row_collection r = ''credentials'' then r\<lparr>row_data := f r\<rparr> else r) (ss_rows st) \<and>
    (\<forall>r \<in> set (ss_rows st). row_collection r = ''credentials'' \<longrightarrow> re_encrypted env old new (row_data r) (f r))"
proof -
  obtain s1 where "rekey_rows env old new (credential_rows st) st = (Inr (), s1)" and rows: "ss_rows st' = ss_rows s1"
    using re_encrypt_cases [OF assms(1)] by auto
  then obtain f where f: "\<forall>(i, d) \<in> set (credential_rows st). re_encrypted env old new d (f i)"
    "ss_rows s1 = map (with_data (set (map fst (credential_rows st))) f) (ss_rows st)"
    using rekey_rows_Inr credential_rows_distinct [OF assms(2)] by blast
  have mem: "row_id r \<in> set (map fst (credential_rows st)) \<longleftrightarrow> row_collection r = ''credentials''" if "r \<in> set (ss_rows st)" for r
    using that assms(2) by (auto simp: credential_rows_def distinct_ids_def distinct_map dest: inj_onD)
  have "ss_rows st' = map (\<lambda>r. if row_collection r = ''credentials'' then r\<lparr>row_data := f (row_id r)\<rparr> else r) (ss_rows st)"
    unfolding rows f(2) by (rule map_cong [OF refl]) (simp add: with_data_def mem del: set_map)
  moreover have "re_encrypted env old new (row_data r) (f (row_id r))" if "r \<in> set (ss_rows st)" "row_collection r = ''credentials''" for r
    using f(1) that by (auto simp: credential_rows_def)
  ultimately show ?thesis by (intro exI [of _ "\<lambda>r. f (row_id r)"]) blast
qed

definition keeps_keys :: "sqlite_storage \<Rightarrow> sqlite_storage \<Rightarrow> bool" where
  "keeps_keys st st' \<longleftrightarrow> ss_master_key st' = ss_master_key st \<and> ss_file_key st' = ss_file_key st"

interpretation keyed: state_order keeps_keys
  by unfold_locales (auto simp: keeps_keys_def)

lemma same_keyed: "moves keeps_rows f \<Longrightarrow> moves keeps_keys f"
  by (simp add: moves_def keeps_rows_def keeps_keys_def)

lemma rekey_row_keyed: "moves keeps_keys (rekey_row env old new e)"
proof -
  obtain i d where "e = (i, d)" by force
  then show ?thesis
    unfolding rekey_row_def
    by (simp, intro keyed.moves_bind keyed.moves_check same_keyed [OF draw_same] same_keyed [OF b_stmt_same])
      (simp add: moves_def keeps_keys_def)
qed

lemma rekey_rows_keyed: "moves keeps_keys (rekey_rows env old new L)"
  by (induction L) (auto intro!: keyed.moves_bind keyed.moves_return rekey_row_keyed)

lemma or_rollback_keyed: "moves keeps_keys f \<Longrightarrow> moves keeps_keys (or_rollback f)"
  by (auto simp: moves_def or_rollback_def keeps_keys_def split: prod.splits sum.splits) (metis snd_conv)+

lemma re_encrypt_keyed: "moves keeps_keys (re_encrypt_credentials env old new)"
  unfolding re_encrypt_credentials_def re_encrypt_all_def
  by (intro keyed.moves_bind or_rollback_keyed keyed.moves_get rekey_rows_keyed same_keyed [OF b_stmt_same])

text \<open>The outcomes of a rotation: the statement fails, the check of the new key fails, the credentials fail, success.\<close>

lemma rekey_cases:
  fixes st :: sqlite_storage
  assumes "rekey env new st = (r, st')"
  defines "st1 \<equiv> st\<lparr>ss_file_key := new\<rparr>"
  shows "(be_fault env ''PRAGMA rekey'' st \<noteq> None \<and> (\<exists>e. r = Inl e) \<and> st' = st) \<or>
    (be_fault env ''PRAGMA rekey'' st = None \<and> (\<exists>e. r = Inl e) \<and>
       ss_rows st' = ss_rows st \<and> ss_master_key st' = ss_master_key st \<and> ss_file_key st' = new) \<or>
    (\<exists>s2. r = Inr () \<and> re_encrypt_credentials env (ss_master_key st) new st1 = (Inr (), s2) \<and>
       st' = s2\<lparr>ss_master_key := new\<rparr>)"
proof -
  obtain x s2 where enc: "re_encrypt_credentials env (ss_master_key st) new st1 = (x, s2)" by force
  have keys: "ss_master_key s2 = ss_master_key st \<and> ss_file_key s2 = new"
    using re_encrypt_keyed [of env "ss_master_key st" new] enc
    by (auto simp: moves_def keeps_keys_def st1_def dest: spec [of _ st1])
  have rows: "ss_rows s2 = ss_rows st" if "x = Inl e" for e
    using re_encrypt_cases [OF enc] that by (auto simp: st1_def)
  show ?thesis
    using assms(1) enc keys rows unfolding rekey_def bind_b_stmt
    by (cases x) (auto simp: s_bind_def [of "\<lambda>st. _ st"] bind_b_stmt st1_def split: option.splits)
qed

section \<open>A closed instance\<close>

definition sample_clear :: json where
  "sample_clear = JObject [(''claims'', JNull), (''id'', JString ''c1'')]"

definition sample_stored :: "string \<Rightarrow> json" where
  "sample_stored key =
     JObject [(''claims'', JString (''twelve bytes'' @ key @ ''c1null'')), (''encrypted'', JBool True), (''id'', JString ''c1'')]"

definition sample_texts :: "(json \<times> string) list" where
  "sample_texts = [(sample_clear, ''clear''), (sample_stored ''old'', ''under old''), (sample_stored ''new'', ''under new''),
     (JString ''note'', ''note''), (JObject [(''operation'', JString ''update'')], ''update'')]"

definition sample_backend :: backend_env where
  "sample_backend =
     \<lparr>be_lib = sample_lib, be_nonce = (\<lambda>_. ''twelve bytes''),
      be_to_string = (\<lambda>j. case map_of sample_texts j of Some s \<Rightarrow> Inr s | None \<Rightarrow> Inl ''unsupported''),
      be_from_str = (\<lambda>s. case map_of (map prod.swap sample_texts) s of Some j \<Rightarrow> Inr j | None \<Rightarrow> Inl ''expected value''),
      be_display = (\<lambda>_. ''value''), be_decode = (\<lambda>k s. Inr JNull), be_uuid = (\<lambda>n. ''uuid-'' @ show_nat n),
      be_now = (\<lambda>_. ''now''), be_days_ago = (\<lambda>_ _. ''then''), be_timestamp = (\<lambda>n. int n), be_parse_uuid = Some,
      be_select = (\<lambda>sql bs rows. Inr (map Inr (filter (\<lambda>r. take 2 bs = [SqlText (row_plugin_id r), SqlText (row_collection r)]) rows))),
      be_extensions = (\<lambda>_. None), be_canonical = (\<lambda>_. Some (\<lambda>_. [])), be_compile = (\<lambda>_. Inr (\<lambda>_. [])),
      be_fault = (\<lambda>_ _. None)\<rparr>"

definition sample_row :: "string \<Rightarrow> string \<Rightarrow> string \<Rightarrow> string \<Rightarrow> sql_row" where
  "sample_row i pid c data = \<lparr>row_id = i, row_plugin_id = pid, row_collection = c, row_data = data, row_version = 1,
     row_created_at = ''then'', row_updated_at = ''then''\<rparr>"

definition sample_storage :: sqlite_storage where
  "sample_storage =
     \<lparr>ss_rows = [sample_row ''r1'' ''mail'' ''credentials'' ''under old'', sample_row ''r2'' ''mail'' ''drafts'' ''note'',
        sample_row ''r3'' ''web'' ''drafts'' ''note''],
      ss_audit = [], ss_private = [(''mail'', ''drafts'') \<mapsto> (\<lambda>_. [])], ss_master_key = ''old'', ss_file_key = ''old'', ss_draws = 0\<rparr>"

lemmas sample_defs = sample_backend_def sample_storage_def sample_row_def sample_texts_def sample_clear_def sample_stored_def

lemma sample_text_laws:
  "be_to_string sample_backend j = Inr s \<Longrightarrow> be_from_str sample_backend s = Inr j"
  "be_from_str sample_backend s = Inr (JObject ob) \<Longrightarrow> obj_wf ob"
  by (auto simp: sample_defs obj_wf_def split: if_splits)

lemma sample_laws: "backend_laws sample_backend"
  using sample_text_laws sample_lib_laws by (auto simp: backend_laws_def nonce_size_def) (simp_all add: sample_backend_def)

lemma sample_distinct: "distinct_ids sample_storage"
  by (simp add: distinct_ids_def sample_defs)

lemma sample_where: "sql_where sample_backend"
  by (auto simp: sql_where_def sample_backend_def)

section \<open>Properties\<close>

text \<open>
  C9: No lost updates. An update succeeds only on a record of the calling plugin that has the expected version;
  and after it, whatever mutations by whatever plugins follow, a second update that expects the same version
  does not succeed. Record ids are unique and the record's id is not handed out again as a fresh id.
\<close>

theorem no_lost_updates:
  assumes "distinct_ids st" and "ids_fresh env i"
    and "execute_mutation env (MUpdate pid c i data v) st = (Inr (), st')"
  shows "(\<exists>r \<in> set (ss_rows st). row_id r = i \<and> row_plugin_id r = pid \<and> row_version r = sint v) \<and>
    fst (execute_mutation env (MUpdate pid' c' i data' v) (run_mutations env ms st')) \<noteq> Inr ()"
  using update_past [OF assms(1,3)] run_mutations_past [OF assms(2), of v st' ms] past_rejects
  by (auto simp: keeps_past_def)

definition sample_note :: pipeline_message where
  "sample_note = \<lparr>metadata = \<lparr>correlation_id = ''r2'', msg_source = [], msg_timestamp = 0, auth_context = None, warnings = []\<rparr>,
     payload = Custom (JString ''note'')\<rparr>"

lemma sample_update:
  "i \<in> {''r1'', ''r2''} \<Longrightarrow> fst (execute_mutation sample_backend (MUpdate ''mail'' ''drafts'' i sample_note 1) sample_storage) = Inr ()"
  by (auto simp: execute_mutation.simps sample_defs sample_note_def s_bind_def draw_def s_check_def s_get_def s_return_def serialize_payload_def
      validate_data_def validate_private_def no_schema_errors_def protect_credential_def update_data_def b_stmt_def
      audit_credential_def is_version_def is_canonical_def canonical_collections_def)

theorem no_lost_updates_witness:
  "fst (execute_mutation sample_backend (MUpdate ''mail'' ''drafts'' ''r2'' sample_note 1)
     (run_mutations sample_backend [MDelete ''web'' ''drafts'' ''r3'']
       (snd (execute_mutation sample_backend (MUpdate ''mail'' ''drafts'' ''r2'' sample_note 1) sample_storage)))) \<noteq> Inr ()"
proof -
  have "ids_fresh sample_backend ''r2''" by (simp add: ids_fresh_def sample_backend_def)
  moreover have "execute_mutation sample_backend (MUpdate ''mail'' ''drafts'' ''r2'' sample_note 1) sample_storage =
      (Inr (), snd (execute_mutation sample_backend (MUpdate ''mail'' ''drafts'' ''r2'' sample_note 1) sample_storage))"
    by (simp add: prod_eq_iff sample_update)
  ultimately show ?thesis
    using no_lost_updates [OF sample_distinct] by blast
qed

text \<open>
  Reads of a private collection are scoped. Whatever filters, sort order, limit and offset a plugin asks for,
  every message it gets from a collection that is not canonical is the content of a row of that plugin and of that
  collection, in the order the database returns them.
\<close>

theorem private_reads_scoped:
  assumes "sql_where env" and "plain_sort (sq_sort q)" and "\<not> is_canonical (sq_collection q)"
    and "execute_query env q st = (Inr ms, st')"
  shows "ss_rows st' = ss_rows st \<and>
    (\<exists>rows. list_all2 (\<lambda>row m. parse_payload env (row_collection row) (row_data row) (ss_master_key st) = Inr (payload m)) rows ms \<and>
      set rows \<subseteq> {r \<in> set (ss_rows st). row_plugin_id r = sq_plugin_id q \<and> row_collection r = sq_collection q})"
proof -
  obtain rs where sel: "be_select env (query_sql q) (query_binds (be_display env) q) (ss_rows st) = Inr rs"
    and read: "read_rows env (sq_plugin_id q) rs st = (Inr ms, st')"
    using assms(4) unfolding execute_query_def s_bind_ok s_get_def by (auto simp: map_err_eq_Inr)
  obtain rows where rows: "rs = map Inr rows"
    "list_all2 (\<lambda>row m. parse_payload env (row_collection row) (row_data row) (ss_master_key st) = Inr (payload m)) rows ms"
    using read_rows_Inr [OF read] by blast
  have "r \<in> set (ss_rows st) \<and> row_plugin_id r = sq_plugin_id q \<and> row_collection r = sq_collection q" if "r \<in> set rows" for r
    by (rule private_rows [OF assms(1-3) sel]) (simp add: rows(1) that)
  moreover have "ss_rows st' = ss_rows st"
    using execute_query_same [of env q, unfolded moves_def, rule_format, of st] assms(4) by (simp add: keeps_rows_def)
  ultimately show ?thesis
    using rows(2) by (intro conjI exI [of _ rows]) auto
qed

definition sample_query :: storage_query where
  "sample_query = \<lparr>sq_collection = ''drafts'', sq_plugin_id = ''mail'', sq_filters = [], sq_sort = [], sq_limit = None, sq_offset = None\<rparr>"

theorem private_reads_scoped_witness:
  "\<exists>ms st' rows. execute_query sample_backend sample_query sample_storage = (Inr ms, st') \<and> length ms = 1 \<and>
     list_all2 (\<lambda>row m. parse_payload sample_backend (row_collection row) (row_data row) ''old'' = Inr (payload m)) rows ms \<and>
     set rows \<subseteq> {r \<in> set (ss_rows sample_storage). row_plugin_id r = ''mail'' \<and> row_collection r = ''drafts''}"
proof -
  have plain: "plain_sort (sq_sort sample_query)" and own: "\<not> is_canonical (sq_collection sample_query)"
    by (simp_all add: plain_sort_def sample_query_def is_canonical_def canonical_collections_def)
  obtain ms st' where run: "execute_query sample_backend sample_query sample_storage = (Inr ms, st')" "length ms = 1"
    by (simp add: execute_query_def sample_query_def query_binds_def scope_binds_def is_canonical_def canonical_collections_def
        sample_defs s_bind_def s_get_def s_check_def s_return_def read_row_def parse_payload_def cdm_of_collection_def
        audit_credential_def draw_def)
  from private_reads_scoped [OF sample_where plain own run(1)] run show ?thesis
    by (auto simp: sample_query_def sample_storage_def)
qed

text \<open>
  C19: Key rotation keeps the credentials. After a successful rotation both the file and the memory hold the new
  key, all rows are as before but for the texts of the credentials, and every credential that was stored encrypted
  decrypts under the new key to exactly the text it had decrypted to under the old key.
\<close>

theorem rekey_keeps_credentials:
  assumes "backend_laws env" and "distinct_ids st" and "rekey env new st = (Inr (), st')"
  shows "ss_master_key st' = new \<and> ss_file_key st' = new \<and>
    (\<exists>f. ss_rows st' = map (\<lambda>r. if row_collection r = ''credentials'' then r\<lparr>row_data := f r\<rparr> else r) (ss_rows st) \<and>
      (\<forall>r \<in> set (ss_rows st). \<forall>ob. row_collection r = ''credentials'' \<and> be_from_str env (row_data r) = Inr (JObject ob) \<and>
        is_encrypted (JObject ob) \<longrightarrow>
        (\<exists>clear. decrypt_credential env (ss_master_key st) (row_data r) = Inr clear \<and> decrypt_credential env new (f r) = Inr clear)))"
proof -
  let ?st1 = "st\<lparr>ss_file_key := new\<rparr>"
  obtain s2 where enc: "re_encrypt_credentials env (ss_master_key st) new ?st1 = (Inr (), s2)" and st': "st' = s2\<lparr>ss_master_key := new\<rparr>"
    using rekey_cases [OF assms(3)] by auto
  have "ss_file_key s2 = new"
    using re_encrypt_keyed [of env "ss_master_key st" new] enc by (auto simp: moves_def keeps_keys_def dest: spec [of _ ?st1])
  moreover have "distinct_ids ?st1" using assms(2) by (simp add: distinct_ids_def)
  then obtain f where f: "ss_rows s2 = map (\<lambda>r. if row_collection r = ''credentials'' then r\<lparr>row_data := f r\<rparr> else r) (ss_rows st)"
    "\<forall>r \<in> set (ss_rows st). row_collection r = ''credentials'' \<longrightarrow> re_encrypted env (ss_master_key st) new (row_data r) (f r)"
    using re_encrypt_Inr [OF enc] by auto
  moreover have "\<exists>clear. decrypt_credential env (ss_master_key st) (row_data r) = Inr clear \<and> decrypt_credential env new (f r) = Inr clear"
    if r: "r \<in> set (ss_rows st)" "row_collection r = ''credentials''" "be_from_str env (row_data r) = Inr (JObject ob)" "is_encrypted (JObject ob)" for r ob
  proof -
    obtain clear n where "decrypt_credential env (ss_master_key st) (row_data r) = Inr clear"
      "encrypt_credential env (be_nonce env n) new clear = Inr (f r)"
      using f(2) r(1,2) by (auto simp: re_encrypted_def)
    with rekeyed_text [OF assms(1) _ this(1) r(3,4) this(2)] assms(1) show ?thesis
      by (auto simp: backend_laws_def)
  qed
  ultimately show ?thesis using st' by (intro conjI exI [of _ f]) auto
qed

text \<open>
  A failed rotation keeps the rows and the key in memory. It does not keep the key of the file once the
  database has accepted the new one: when the re-encryption of a credential fails, the file is encrypted under
  the new key while the storage goes on with, and the user is left with, the old one.
\<close>

theorem failed_rekey_splits_keys:
  assumes "rekey env new st = (Inl e, st')"
  shows "ss_rows st' = ss_rows st \<and> ss_master_key st' = ss_master_key st \<and>
    (be_fault env ''PRAGMA rekey'' st = None \<longrightarrow> ss_file_key st' = new)"
  using rekey_cases [OF assms] by auto

lemmas sample_rekey_eval =
  rekey_def re_encrypt_credentials_def re_encrypt_all_def or_rollback_def bind_b_stmt b_stmt_def credential_rows_def rekey_row_def
  s_bind_def s_get_def s_check_def s_return_def draw_def decrypt_credential_def encrypt_credential_def credential_id_of_def
  index_get_def index_set_def hmac_credential_key_def hmac_sign_def encrypt_def decrypt_def nonce_size_def
  sample_lib_def strip_prefix_def starts_with_def as_bool_def obj_remove_def

lemma sample_rekey: "fst (rekey sample_backend ''new'' sample_storage) = Inr ()"
  by (simp add: sample_rekey_eval sample_defs)

theorem rekey_keeps_credentials_witness:
  "ss_file_key (snd (rekey sample_backend ''new'' sample_storage)) = ''new'' \<and>
   (\<exists>f. row_data (ss_rows (snd (rekey sample_backend ''new'' sample_storage)) ! 0) = f \<and>
     decrypt_credential sample_backend ''old'' ''under old'' = decrypt_credential sample_backend ''new'' f)"
proof -
  have run: "rekey sample_backend ''new'' sample_storage = (Inr (), snd (rekey sample_backend ''new'' sample_storage))"
    by (simp add: prod_eq_iff sample_rekey)
  have first: "sample_row ''r1'' ''mail'' ''credentials'' ''under old'' \<in> set (ss_rows sample_storage)"
    and stored: "be_from_str sample_backend ''under old'' = Inr (sample_stored ''old'')"
    and flag: "is_encrypted (sample_stored ''old'')"
    by (simp_all add: sample_defs is_encrypted_def as_bool_def)
  from rekey_keeps_credentials [OF sample_laws sample_distinct run] obtain f where
    rows: "ss_rows (snd (rekey sample_backend ''new'' sample_storage)) =
      map (\<lambda>r. if row_collection r = ''credentials'' then r\<lparr>row_data := f r\<rparr> else r) (ss_rows sample_storage)"
    and dec: "\<forall>r \<in> set (ss_rows sample_storage). \<forall>ob. row_collection r = ''credentials'' \<and>
      be_from_str sample_backend (row_data r) = Inr (JObject ob) \<and> is_encrypted (JObject ob) \<longrightarrow>
      (\<exists>clear. decrypt_credential sample_backend (ss_master_key sample_storage) (row_data r) = Inr clear \<and>
        decrypt_credential sample_backend ''new'' (f r) = Inr clear)"
    and newfile: "ss_file_key (snd (rekey sample_backend ''new'' sample_storage)) = ''new''" by blast
  from dec [rule_format, OF first] stored flag have
    "\<exists>clear. decrypt_credential sample_backend ''old'' ''under old'' = Inr clear \<and>
       decrypt_credential sample_backend ''new'' (f (sample_row ''r1'' ''mail'' ''credentials'' ''under old'')) = Inr clear"
    by (simp add: sample_row_def sample_storage_def sample_stored_def)
  then show ?thesis
    using newfile rows by (auto simp: sample_storage_def sample_row_def)
qed

definition broken_storage :: sqlite_storage where
  "broken_storage = sample_storage\<lparr>ss_rows := [sample_row ''r1'' ''mail'' ''credentials'' ''unreadable'']\<rparr>"

theorem failed_rekey_splits_keys_witness:
  "\<exists>e st'. rekey sample_backend ''new'' broken_storage = (Inl e, st') \<and> ss_master_key st' = ''old'' \<and> ss_file_key st' = ''new''"
proof -
  obtain e st' where run: "rekey sample_backend ''new'' broken_storage = (Inl e, st')"
    by (simp add: sample_rekey_eval sample_defs broken_storage_def)
  from failed_rekey_splits_keys [OF run] run show ?thesis
    by (auto simp: sample_backend_def broken_storage_def sample_storage_def)
qed

text \<open>
  The collection of an update is not that of the record. The statement looks at the id, the plugin and the
  version only, while validation and encryption go by the collection the caller names: by naming one of its private
  collections a plugin replaces a record of the credentials collection by arbitrary data in the clear.
\<close>

theorem credentials_overwritten_in_clear:
  assumes "execute_mutation env (MUpdate pid c i data v) st = (Inr (), st')" and "\<not> is_canonical c"
    and "r \<in> set (ss_rows st)" and "row_id r = i" and "row_plugin_id r = pid" and "row_version r = sint v"
  shows "\<exists>text r'. serialize_payload env (payload data) = Inr text \<and> r' \<in> set (ss_rows st') \<and>
    row_id r' = i \<and> row_collection r' = row_collection r \<and> row_data r' = text"
  using assms(1)
proof (rule update_outcome)
  fix d now
  let ?upd = "\<lambda>r. if is_version i pid v r then r\<lparr>row_data := d, row_version := row_version r + 1, row_updated_at := now\<rparr> else r"
  assume "ss_rows st' = map ?upd (ss_rows st)" and "\<not> is_canonical c \<Longrightarrow> serialize_payload env (payload data) = Inr d"
  with assms(2-) show ?thesis
    by (intro exI [of _ d] exI [of _ "?upd r"]) (auto simp: is_version_def)
qed

theorem credentials_overwritten_in_clear_witness:
  "\<exists>text r'. serialize_payload sample_backend (payload sample_note) = Inr text \<and>
     r' \<in> set (ss_rows (snd (execute_mutation sample_backend (MUpdate ''mail'' ''drafts'' ''r1'' sample_note 1) sample_storage))) \<and>
     row_id r' = ''r1'' \<and> row_collection r' = ''credentials'' \<and> row_data r' = text"
proof -
  have "execute_mutation sample_backend (MUpdate ''mail'' ''drafts'' ''r1'' sample_note 1) sample_storage =
      (Inr (), snd (execute_mutation sample_backend (MUpdate ''mail'' ''drafts'' ''r1'' sample_note 1) sample_storage))"
    by (simp add: prod_eq_iff sample_update)
  moreover have "\<not> is_canonical ''drafts''" by (simp add: is_canonical_def canonical_collections_def)
  moreover have "sample_row ''r1'' ''mail'' ''credentials'' ''under old'' \<in> set (ss_rows sample_storage)"
    by (simp add: sample_storage_def)
  ultimately show ?thesis
    using credentials_overwritten_in_clear [of sample_backend "''mail''" "''drafts''" "''r1''" sample_note 1 sample_storage _
        "sample_row ''r1'' ''mail'' ''credentials'' ''under old''"] by (simp add: sample_row_def)
qed

end
