(* ===== verification/Capability.thy ===== *)
theory Capability
  imports Engine_Error
begin

text \<open>
  Capabilities of plugins: the grants and their names (\<open>traits/src/capability.rs\<close>), approval when a plugin is
  loaded and the checks while it runs (\<open>plugin-system/src/capability.rs\<close>). A hash set is a list without
  duplicates in the order of first insertion; only the text of one message depends on that order. A path is
  resolved by the file system, so \<open>canonicalize\<close> is an argument: the components of the real path, or none.
\<close>

section \<open>Grants\<close>

datatype capability =
    StorageRead | StorageWrite | StorageDelete
  | StorageBlobRead | StorageBlobWrite | StorageBlobDelete
  | HttpOutbound | EventsEmit | EventsSubscribe | ConfigRead
  | CredentialsRead | CredentialsWrite | Logging

fun cap_display :: "capability \<Rightarrow> string" where
  "cap_display StorageRead = ''storage:doc:read''"
| "cap_display StorageWrite = ''storage:doc:write''"
| "cap_display StorageDelete = ''storage:doc:delete''"
| "cap_display StorageBlobRead = ''storage:blob:read''"
| "cap_display StorageBlobWrite = ''storage:blob:write''"
| "cap_display StorageBlobDelete = ''storage:blob:delete''"
| "cap_display HttpOutbound = ''http:outbound''"
| "cap_display EventsEmit = ''events:emit''"
| "cap_display EventsSubscribe = ''events:subscribe''"
| "cap_display ConfigRead = ''config:read''"
| "cap_display CredentialsRead = ''credentials:read''"
| "cap_display CredentialsWrite = ''credentials:write''"
| "cap_display Logging = ''logging''"

definition cap_from_str :: "string \<Rightarrow> (string, capability) result" where
  "cap_from_str s =
     (if s = ''storage:doc:read'' then Inr StorageRead
      else if s = ''storage:doc:write'' then Inr StorageWrite
      else if s = ''storage:doc:delete'' then Inr StorageDelete
      else if s = ''storage:blob:read'' then Inr StorageBlobRead
      else if s = ''storage:blob:write'' then Inr StorageBlobWrite
      else if s = ''storage:blob:delete'' then Inr StorageBlobDelete
      else if s = ''http:outbound'' then Inr HttpOutbound
      else if s = ''events:emit'' then Inr EventsEmit
      else if s = ''events:subscribe'' then Inr EventsSubscribe
      else if s = ''config:read'' then Inr ConfigRead
      else if s = ''credentials:read'' then Inr CredentialsRead
      else if s = ''credentials:write'' then Inr CredentialsWrite
      else if s = ''logging'' then Inr Logging
      else Inl (''unknown capability: '' @ s))"

lemma cap_from_display [simp]: "cap_from_str (cap_display c) = Inr c"
  by (cases c) (simp_all add: cap_from_str_def)

lemma cap_from_str_eq: "cap_from_str s = Inr c \<longleftrightarrow> s = cap_display c"
proof
  assume "cap_from_str s = Inr c"
  then show "s = cap_display c"
    by (auto simp: cap_from_str_def split: if_split_asm)
qed simp

type_synonym approved_capabilities = "capability list"

definition has_cap :: "approved_capabilities \<Rightarrow> capability \<Rightarrow> bool" where
  "has_cap approved cap \<longleftrightarrow> cap \<in> set approved"

section \<open>Approval at load time\<close>

definition is_first_party :: "(string \<Rightarrow> string list option) \<Rightarrow> string \<Rightarrow> string \<Rightarrow> bool" where
  "is_first_party canonicalize plugin_path plugins_dir =
     (case (canonicalize plugin_path, canonicalize plugins_dir) of
        (Some plugin, Some dir) \<Rightarrow> take (length dir) plugin = dir
      | _ \<Rightarrow> False)"

definition check_capability_approval ::
  "(string \<Rightarrow> string list option) \<Rightarrow> string \<Rightarrow> capability list \<Rightarrow> string \<Rightarrow> string \<Rightarrow> capability list \<Rightarrow>
   (plugin_error, approved_capabilities) result" where
  "check_capability_approval canonicalize plugin_id required plugin_path plugins_dir approved =
     (let declared = remdups required
      in if is_first_party canonicalize plugin_path plugins_dir then Inr declared
         else let unapproved = filter (\<lambda>c. c \<notin> set approved) declared
              in if unapproved \<noteq> []
                 then Inl (CapabilityViolation (''plugin '' @ quoted plugin_id @ '' declares unapproved capabilities: '' @
                        join '', '' (map cap_display unapproved)))
                 else Inr (filter (\<lambda>c. c \<in> set approved) declared))"

section \<open>Checks at run time\<close>

definition lacks_capability :: "string \<Rightarrow> capability \<Rightarrow> plugin_error" where
  "lacks_capability plugin_id cap =
     RuntimeCapabilityViolation (''plugin '' @ quoted plugin_id @ '' lacks capability '' @ quoted (cap_display cap))"

definition check_runtime_capability ::
  "approved_capabilities \<Rightarrow> string \<Rightarrow> capability \<Rightarrow> (plugin_error, unit) result" where
  "check_runtime_capability approved plugin_id required =
     (if has_cap approved required then Inr () else Inl (lacks_capability plugin_id required))"

definition check_collection_access :: "string \<Rightarrow> string \<Rightarrow> string list \<Rightarrow> (plugin_error, unit) result" where
  "check_collection_access plugin_id collection declared_collections =
     (if starts_with collection (plugin_id @ ''.'') then Inr ()
      else if collection \<in> set declared_collections then Inr ()
      else Inl (RuntimeCapabilityViolation (''plugin '' @ quoted plugin_id @ '' is not allowed to access collection '' @
             quoted collection @ '': collection not declared in manifest [collections] section'')))"

lemma approval_sound:
  assumes "check_capability_approval canon pid required path dir approved = Inr caps"
  shows "set caps = set required"
    and "\<not> is_first_party canon path dir \<Longrightarrow> set required \<subseteq> set approved"
  using assms by (auto simp: check_capability_approval_def Let_def filter_empty_conv split: if_splits)

lemma approval_complete:
  assumes "is_first_party canon path dir \<or> set required \<subseteq> set approved"
  shows "\<exists>caps. check_capability_approval canon pid required path dir approved = Inr caps"
  using assms by (auto simp: check_capability_approval_def Let_def filter_empty_conv)

end
