(* ===== verification/Manifest.thy ===== *)
theory Manifest
  imports Capability
begin

text \<open>
  Plugin manifests (\<open>plugin-system/src/manifest.rs\<close>): the fail-fast parser \<open>parse_manifest\<close>, the validator
  \<open>validate_manifest\<close> that collects all errors, and the trust level of a directory. Reading a file, the TOML
  parser (with the derived deserialisation into the raw records), the semver parser and the existence of
  paths are arguments. A hash map is an association list in the order of its iteration.
\<close>

section \<open>Manifests\<close>

datatype trust_level = FirstParty | ThirdParty

definition trust_from_str :: "string \<Rightarrow> (string, trust_level) result" where
  "trust_from_str s =
     (if s = ''first_party'' then Inr FirstParty
      else if s = ''third_party'' then Inr ThirdParty
      else Inl (''invalid trust level '' @ quoted s @ '': must be '' @ quoted ''first_party'' @ '' or '' @ quoted ''third_party''))"

datatype manifest_access = AccessRead | AccessWrite | AccessReadWrite

definition access_from_str :: "string \<Rightarrow> (string, manifest_access) result" where
  "access_from_str s =
     (if s = ''read'' then Inr AccessRead
      else if s = ''write'' then Inr AccessWrite
      else if s = ''read-write'' then Inr AccessReadWrite
      else Inl (''invalid collection access '' @ quoted s @ '': must be '' @ quoted ''read'' @ '', '' @ quoted ''write'' @
             '', or '' @ quoted ''read-write''))"

record plugin_meta =
  pm_id :: string
  pm_name :: string
  pm_version :: string
  pm_description :: "string option"
  pm_author :: "string option"
  pm_license :: "string option"
  pm_trust :: trust_level

record action_def =
  ad_description :: string
  ad_timeout_ms :: nat
  ad_input_schema :: "string option"
  ad_output_schema :: "string option"

record collection_def =
  cdf_schema :: string
  cdf_access :: manifest_access
  cdf_strict :: bool
  cdf_indexes :: "string list"
  cdf_extensions :: "string list"
  cdf_extension_schema :: "string option"
  cdf_extension_indexes :: "string list"

record events_def =
  ev_emit :: "string list"
  ev_subscribe :: "string list"

record plugin_manifest =
  mf_plugin :: plugin_meta
  mf_actions :: "(string \<times> action_def) list"
  mf_capabilities :: "capability list"
  mf_collections :: "(string \<times> collection_def) list"
  mf_events :: events_def
  mf_config :: "json option"

section \<open>The raw form\<close>

record raw_plugin_meta =
  rp_id :: "string option"
  rp_name :: "string option"
  rp_version :: "string option"
  rp_description :: "string option"
  rp_author :: "string option"
  rp_license :: "string option"
  rp_trust :: "string option"

record raw_action_def =
  ra_description :: "string option"
  ra_timeout_ms :: "nat option"
  ra_input_schema :: "string option"
  ra_output_schema :: "string option"

record raw_collection_def =
  rc_schema :: "string option"
  rc_access :: "string option"
  rc_strict :: "bool option"
  rc_indexes :: "string list option"
  rc_extensions :: "string list option"
  rc_extension_schema :: "string option"
  rc_extension_indexes :: "string list option"

record raw_events =
  re_emit :: "string list option option"
  re_subscribe :: "string list option option"

record raw_manifest =
  rm_plugin :: "raw_plugin_meta option"
  rm_actions :: "(string \<times> raw_action_def) list option"
  rm_capabilities :: "string list option option"
  rm_collections :: "(string \<times> raw_collection_def) list option"
  rm_events :: "raw_events option"
  rm_config :: "json option option"

record manifest_env =
  me_read_file :: "string \<Rightarrow> (string, string) result"
  me_toml :: "string \<Rightarrow> (string, raw_manifest) result"
  me_semver :: "string \<Rightarrow> bool"
  me_exists :: "string \<Rightarrow> bool"
  me_canonicalize :: "string \<Rightarrow> string list option"

section \<open>Checks on names\<close>

definition is_ascii_lowercase :: "char \<Rightarrow> bool" where
  "is_ascii_lowercase c \<longleftrightarrow> CHR ''a'' \<le> c \<and> c \<le> CHR ''z''"

fun is_valid_plugin_id :: "string \<Rightarrow> bool" where
  "is_valid_plugin_id [] = False"
| "is_valid_plugin_id (c # cs) \<longleftrightarrow>
     is_ascii_lowercase c \<and>
     list_all (\<lambda>c. is_ascii_lowercase c \<or> is_ascii_digit c \<or> c = CHR ''-'') cs"

definition is_reserved_name :: "string \<Rightarrow> bool" where
  "is_reserved_name name \<longleftrightarrow> name = ''audit_log'' \<or> starts_with name ''system.''"

definition default_timeout_ms :: nat where
  "default_timeout_ms = 30000"

definition nonempty :: "string option \<Rightarrow> string option" where
  "nonempty x = (case x of Some s \<Rightarrow> if s = [] then None else Some s | None \<Rightarrow> None)"

definition unwrap_or :: "'a option \<Rightarrow> 'a \<Rightarrow> 'a" where
  "unwrap_or x d = (case x of Some v \<Rightarrow> v | None \<Rightarrow> d)"

section \<open>The parser\<close>

definition guard :: "bool \<Rightarrow> 'e \<Rightarrow> ('e, unit) result" where
  "guard ok e = (if ok then Inr () else Inl e)"

definition parse_plugin_section ::
  "manifest_env \<Rightarrow> string \<Rightarrow> raw_plugin_meta \<Rightarrow> (plugin_error, plugin_meta) result" where
  "parse_plugin_section env path rp =
     r_bind (ok_or (nonempty (rp_id rp)) (ManifestMissingField ''id'' path)) (\<lambda>pid.
     r_bind (ok_or (nonempty (rp_name rp)) (ManifestMissingField ''name'' path)) (\<lambda>name.
     r_bind (ok_or (nonempty (rp_version rp)) (ManifestMissingField ''version'' path)) (\<lambda>version.
     r_bind (guard (is_valid_plugin_id pid) (ManifestInvalid (''invalid plugin ID '' @ quoted pid @
         '': must start with a lowercase letter and contain only lowercase letters, digits, and hyphens''))) (\<lambda>_.
     r_bind (guard (\<not> is_reserved_name pid) (ManifestInvalid (''reserved name '' @ quoted pid @
         '': plugin IDs cannot use reserved names''))) (\<lambda>_.
     r_bind (guard (me_semver env version) (ManifestInvalid (''invalid version '' @ quoted version @
         '': must be valid semver (e.g., 1.0.0)''))) (\<lambda>_.
     r_bind (case rp_trust rp of Some t \<Rightarrow> map_err ManifestInvalid (trust_from_str t) | None \<Rightarrow> Inr ThirdParty) (\<lambda>trust.
     Inr \<lparr>pm_id = pid, pm_name = name, pm_version = version, pm_description = rp_description rp,
          pm_author = rp_author rp, pm_license = rp_license rp, pm_trust = trust\<rparr>)))))))"

definition parse_action :: "string \<Rightarrow> string \<times> raw_action_def \<Rightarrow> (plugin_error, string \<times> action_def) result" where
  "parse_action pid = (\<lambda>(name, ra).
     r_bind (ok_or (nonempty (ra_description ra)) (ManifestInvalid (''action '' @ quoted name @ '' missing required '' @
         quoted ''description'' @ '' field in manifest for plugin '' @ quoted pid))) (\<lambda>description.
     Inr (name, \<lparr>ad_description = description, ad_timeout_ms = unwrap_or (ra_timeout_ms ra) default_timeout_ms,
                 ad_input_schema = ra_input_schema ra, ad_output_schema = ra_output_schema ra\<rparr>)))"

definition parse_actions ::
  "string \<Rightarrow> (string \<times> raw_action_def) list option \<Rightarrow> (plugin_error, (string \<times> action_def) list) result" where
  "parse_actions pid raw =
     (case raw of
        None \<Rightarrow> Inl (ManifestInvalid (''no actions declared in manifest for plugin '' @ quoted pid))
      | Some ras \<Rightarrow>
          if ras = [] then Inl (ManifestInvalid (''no actions declared in manifest for plugin '' @ quoted pid))
          else map_r (parse_action pid) ras)"

definition valid_capabilities_text :: string where
  "valid_capabilities_text =
     ''storage:doc:read, storage:doc:write, storage:doc:delete, storage:blob:read, storage:blob:write, '' @
     ''storage:blob:delete, http:outbound, events:emit, events:subscribe, config:read''"

definition parse_capabilities ::
  "string \<Rightarrow> string list option option \<Rightarrow> (plugin_error, capability list) result" where
  "parse_capabilities pid raw =
     (case raw of
        Some (Some names) \<Rightarrow>
          map_r (\<lambda>s. map_err (\<lambda>_. ManifestInvalid (''unknown capability '' @ quoted s @ '' in manifest for plugin '' @
            quoted pid @ ''. Valid capabilities: '' @ valid_capabilities_text)) (cap_from_str s)) names
      | _ \<Rightarrow> Inr [])"

definition parse_collection ::
  "string \<Rightarrow> string \<times> raw_collection_def \<Rightarrow> (plugin_error, string \<times> collection_def) result" where
  "parse_collection pid = (\<lambda>(name, rc).
     r_bind (guard (\<not> is_reserved_name name) (ManifestInvalid (''reserved name '' @ quoted name @
         '': collection names cannot use reserved names''))) (\<lambda>_.
     r_bind (ok_or (rc_schema rc) (ManifestInvalid (''collection '' @ quoted name @ '' missing required '' @
         quoted ''schema'' @ '' field in manifest for plugin '' @ quoted pid))) (\<lambda>schema.
     r_bind (ok_or (rc_access rc) (ManifestInvalid (''collection '' @ quoted name @ '' missing required '' @
         quoted ''access'' @ '' field in manifest for plugin '' @ quoted pid))) (\<lambda>access_str.
     r_bind (map_err (\<lambda>e. ManifestInvalid (''collection '' @ quoted name @ '' in plugin '' @ quoted pid @ '': '' @ e))
         (access_from_str access_str)) (\<lambda>access.
     r_bind (check_all (\<lambda>ext. guard (starts_with ext ''ext.'') (ManifestInvalid (''collection '' @ quoted name @
         '' extension '' @ quoted ext @ '' must follow '' @ quoted ''ext.<plugin-id>.<field>'' @ '' naming convention'')))
         (unwrap_or (rc_extensions rc) [])) (\<lambda>_.
     Inr (name, \<lparr>cdf_schema = schema, cdf_access = access, cdf_strict = unwrap_or (rc_strict rc) False,
                 cdf_indexes = unwrap_or (rc_indexes rc) [], cdf_extensions = unwrap_or (rc_extensions rc) [],
                 cdf_extension_schema = rc_extension_schema rc,
                 cdf_extension_indexes = unwrap_or (rc_extension_indexes rc) []\<rparr>)))))))"

definition parse_collections ::
  "string \<Rightarrow> (string \<times> raw_collection_def) list option \<Rightarrow> (plugin_error, (string \<times> collection_def) list) result" where
  "parse_collections pid raw = (case raw of None \<Rightarrow> Inr [] | Some rcs \<Rightarrow> map_r (parse_collection pid) rcs)"

definition parse_events :: "raw_events option \<Rightarrow> events_def" where
  "parse_events raw =
     (case raw of
        Some re \<Rightarrow> \<lparr>ev_emit = unwrap_or (unwrap_or (re_emit re) None) [],
                    ev_subscribe = unwrap_or (unwrap_or (re_subscribe re) None) []\<rparr>
      | None \<Rightarrow> \<lparr>ev_emit = [], ev_subscribe = []\<rparr>)"

definition event_name_conforms :: "string \<Rightarrow> bool" where
  "event_name_conforms e \<longleftrightarrow> 3 \<le> length (split_on (CHR ''.'') e)"

definition check_sections :: "string \<Rightarrow> capability list \<Rightarrow> events_def \<Rightarrow> json option \<Rightarrow> (plugin_error, unit) result" where
  "check_sections pid caps events config =
     r_bind (guard (ev_emit events = [] \<or> EventsEmit \<in> set caps) (ManifestInvalid (''plugin '' @ quoted pid @
         '' declares events to emit but lacks '' @ quoted ''events:emit'' @ '' capability''))) (\<lambda>_.
     r_bind (guard (ev_subscribe events = [] \<or> EventsSubscribe \<in> set caps) (ManifestInvalid (''plugin '' @ quoted pid @
         '' declares event subscriptions but lacks '' @ quoted ''events:subscribe'' @ '' capability''))) (\<lambda>_.
     r_bind (guard (config = None \<or> ConfigRead \<in> set caps) (ManifestInvalid (''plugin '' @ quoted pid @
         '' declares [config] section but lacks '' @ quoted ''config:read'' @ '' capability''))) (\<lambda>_.
     check_all (\<lambda>e. guard (event_name_conforms e) (ManifestInvalid (''event name '' @ quoted e @
         '' does not follow '' @ quoted ''<plugin-id>.<action>.<outcome>'' @ '' convention''))) (ev_emit events))))"

definition parse_manifest_toml :: "manifest_env \<Rightarrow> string \<Rightarrow> string \<Rightarrow> (plugin_error, plugin_manifest) result" where
  "parse_manifest_toml env content path =
     r_bind (map_err (\<lambda>e. ManifestInvalid (''failed to parse '' @ path @ '': '' @ e)) (me_toml env content)) (\<lambda>raw.
     r_bind (ok_or (rm_plugin raw) (ManifestInvalid (''missing [plugin] section in '' @ path))) (\<lambda>rp.
     r_bind (parse_plugin_section env path rp) (\<lambda>plugin.
     r_bind (parse_actions (pm_id plugin) (rm_actions raw)) (\<lambda>actions.
     r_bind (parse_capabilities (pm_id plugin) (rm_capabilities raw)) (\<lambda>caps.
     r_bind (parse_collections (pm_id plugin) (rm_collections raw)) (\<lambda>collections.
     let events = parse_events (rm_events raw); config = unwrap_or (rm_config raw) None
     in r_bind (check_sections (pm_id plugin) caps events config) (\<lambda>_.
     Inr \<lparr>mf_plugin = plugin, mf_actions = actions, mf_capabilities = caps, mf_collections = collections,
          mf_events = events, mf_config = config\<rparr>)))))))"

definition parse_manifest :: "manifest_env \<Rightarrow> string \<Rightarrow> (plugin_error, plugin_manifest) result" where
  "parse_manifest env path =
     r_bind (map_err (\<lambda>e. ManifestInvalid (''failed to read '' @ path @ '': '' @ e)) (me_read_file env path))
       (\<lambda>content. parse_manifest_toml env content path)"

section \<open>The collecting validator\<close>

record manifest_validation_error =
  mv_field :: string
  mv_message :: string

definition unless :: "bool \<Rightarrow> string \<Rightarrow> string \<Rightarrow> manifest_validation_error list" where
  "unless ok field msg = (if ok then [] else [\<lparr>mv_field = field, mv_message = msg\<rparr>])"

definition validate_collection ::
  "manifest_env \<Rightarrow> string option \<Rightarrow> string \<times> collection_def \<Rightarrow> manifest_validation_error list" where
  "validate_collection env plugin_dir = (\<lambda>(name, coll).
     unless (\<not> is_reserved_name name) (''collections.'' @ name)
       (''reserved name '' @ quoted name @ '': collection names cannot use reserved names'') @
     concat (map (\<lambda>ext. unless (starts_with ext ''ext.'') (''collections.'' @ name @ ''.extensions'')
       (''extension '' @ quoted ext @ '' must follow '' @ quoted ''ext.<plugin-id>.<field>'' @ '' naming convention''))
       (cdf_extensions coll)) @
     (case plugin_dir of
        None \<Rightarrow> []
      | Some dir \<Rightarrow>
          unless (starts_with (cdf_schema coll) ''cdm:'' \<or> me_exists env (path_join dir (cdf_schema coll)))
            (''collections.'' @ name @ ''.schema'')
            (''schema path '' @ quoted (cdf_schema coll) @ '' does not resolve to an existing file'') @
          (case cdf_extension_schema coll of
             None \<Rightarrow> []
           | Some es \<Rightarrow> unless (me_exists env (path_join dir es)) (''collections.'' @ name @ ''.extension_schema'')
               (''extension schema path '' @ quoted es @ '' does not resolve to an existing file''))))"

definition validate_event_action :: "(string \<times> action_def) list \<Rightarrow> string \<Rightarrow> manifest_validation_error list" where
  "validate_event_action actions e =
     (case split_on (CHR ''.'') e of
        _ # action_part # _ # _ \<Rightarrow>
          unless (action_part \<in> set (map fst actions)) ''events.emit''
            (''event '' @ quoted e @ '' references action '' @ quoted action_part @ '' which is not declared in [actions]'')
      | _ \<Rightarrow> [])"

definition validate_config_path :: "manifest_env \<Rightarrow> json option \<Rightarrow> string option \<Rightarrow> manifest_validation_error list" where
  "validate_config_path env config plugin_dir =
     (case (config, plugin_dir) of
        (Some (JString p), Some dir) \<Rightarrow>
          if starts_with p ''{'' \<or> starts_with p ''['' then []
          else unless (me_exists env (path_join dir p) \<or> contains_str p ''type'') ''config.schema''
            (''config schema path '' @ quoted p @ '' does not resolve to an existing file'')
      | _ \<Rightarrow> [])"

definition validate_manifest :: "manifest_env \<Rightarrow> plugin_manifest \<Rightarrow> string option \<Rightarrow> manifest_validation_error list" where
  "validate_manifest env m plugin_dir =
     unless (is_valid_plugin_id (pm_id (mf_plugin m))) ''plugin.id''
       (''invalid plugin ID '' @ quoted (pm_id (mf_plugin m)) @
        '': must start with a lowercase letter and contain only lowercase letters, digits, and hyphens'') @
     unless (\<not> is_reserved_name (pm_id (mf_plugin m))) ''plugin.id''
       (''reserved name '' @ quoted (pm_id (mf_plugin m)) @ '': plugin IDs cannot use reserved names'') @
     unless (me_semver env (pm_version (mf_plugin m))) ''plugin.version''
       (''invalid version '' @ quoted (pm_version (mf_plugin m)) @ '': must be valid semver (e.g., 1.0.0)'') @
     unless (mf_actions m \<noteq> []) ''actions'' ''no actions declared'' @
     concat (map (\<lambda>(name, a). unless (ad_description a \<noteq> []) (''actions.'' @ name @ ''.description'')
       ''action description is required'') (mf_actions m)) @
     concat (map (validate_collection env plugin_dir) (mf_collections m)) @
     unless (ev_emit (mf_events m) = [] \<or> EventsEmit \<in> set (mf_capabilities m)) ''events.emit''
       (''declares events to emit but lacks '' @ quoted ''events:emit'' @ '' capability'') @
     unless (ev_subscribe (mf_events m) = [] \<or> EventsSubscribe \<in> set (mf_capabilities m)) ''events.subscribe''
       (''declares event subscriptions but lacks '' @ quoted ''events:subscribe'' @ '' capability'') @
     unless (mf_config m = None \<or> ConfigRead \<in> set (mf_capabilities m)) ''config''
       (''declares [config] section but lacks '' @ quoted ''config:read'' @ '' capability'') @
     concat (map (\<lambda>e. unless (event_name_conforms e) ''events.emit''
       (''event name '' @ quoted e @ '' does not follow '' @ quoted ''<plugin-id>.<action>.<outcome>'' @ '' convention''))
       (ev_emit (mf_events m))) @
     concat (map (validate_event_action (mf_actions m)) (ev_emit (mf_events m))) @
     validate_config_path env (mf_config m) plugin_dir"

text \<open>A path that cannot be resolved is compared as written.\<close>

definition path_components :: "manifest_env \<Rightarrow> string \<Rightarrow> string list" where
  "path_components env p =
     (case me_canonicalize env p of
        Some cs \<Rightarrow> cs
      | None \<Rightarrow> (if starts_with p ''/'' then [''/''] else []) @ filter (\<lambda>c. c \<noteq> []) (split_on (CHR ''/'') p))"

definition determine_trust_level :: "manifest_env \<Rightarrow> string \<Rightarrow> string \<Rightarrow> trust_level" where
  "determine_trust_level env plugin_dir builtin_path =
     (if take (length (path_components env builtin_path)) (path_components env plugin_dir) = path_components env builtin_path
      then FirstParty else ThirdParty)"

section \<open>What an accepted manifest satisfies\<close>

lemma guard_eq_Inr [simp]: "guard ok e = Inr u \<longleftrightarrow> ok"
  by (simp add: guard_def)

lemma nonempty_Some [simp]: "nonempty x = Some s \<longleftrightarrow> x = Some s \<and> s \<noteq> []"
  by (auto simp: nonempty_def split: option.splits)

lemma parsed_plugin:
  "parse_plugin_section env path rp = Inr p \<Longrightarrow>
   is_valid_plugin_id (pm_id p) \<and> \<not> is_reserved_name (pm_id p) \<and> me_semver env (pm_version p)"
  by (auto simp: parse_plugin_section_def r_bind_eq_Inr ok_or_eq_Inr)

lemma parsed_actions:
  assumes "parse_actions pid raw = Inr actions"
  shows "actions \<noteq> []" and "(name, a) \<in> set actions \<Longrightarrow> ad_description a \<noteq> []"
proof -
  obtain ras where ras: "raw = Some ras" "ras \<noteq> []" "map_r (parse_action pid) ras = Inr actions"
    using assms by (auto simp: parse_actions_def split: option.splits if_splits)
  then show "actions \<noteq> []" using map_r_length by force
  show "ad_description a \<noteq> []" if "(name, a) \<in> set actions"
    using map_r_elem [OF ras(3) that] by (auto simp: parse_action_def r_bind_eq_Inr ok_or_eq_Inr)
qed

lemma parsed_collection:
  assumes "parse_collections pid raw = Inr colls" and "(name, c) \<in> set colls"
  shows "\<not> is_reserved_name name" and "ext \<in> set (cdf_extensions c) \<Longrightarrow> starts_with ext ''ext.''"
proof -
  obtain rcs where "map_r (parse_collection pid) rcs = Inr colls"
    using assms by (auto simp: parse_collections_def split: option.splits)
  from map_r_elem [OF this assms(2)] obtain rc where "parse_collection pid rc = Inr (name, c)" by blast
  then show "\<not> is_reserved_name name" and "ext \<in> set (cdf_extensions c) \<Longrightarrow> starts_with ext ''ext.''"
    by (auto simp: parse_collection_def r_bind_eq_Inr check_all_eq_Inr split: prod.splits)
qed

lemma parsed_manifest:
  assumes "parse_manifest_toml env content path = Inr m"
  obtains rp ract rcol where "parse_plugin_section env path rp = Inr (mf_plugin m)"
    and "parse_actions (pm_id (mf_plugin m)) ract = Inr (mf_actions m)"
    and "parse_collections (pm_id (mf_plugin m)) rcol = Inr (mf_collections m)"
    and "check_sections (pm_id (mf_plugin m)) (mf_capabilities m) (mf_events m) (mf_config m) = Inr ()"
  using assms by (auto simp: parse_manifest_toml_def r_bind_eq_Inr Let_def)

lemma unless_True [simp]: "unless True field msg = []"
  by (simp add: unless_def)

lemma validate_config_path_None [simp]: "validate_config_path env config None = []"
  by (simp add: validate_config_path_def split: option.splits json.splits)

lemma plugin_id_chars: "is_valid_plugin_id pid \<Longrightarrow> c \<in> set pid \<Longrightarrow> is_ascii_lowercase c \<or> is_ascii_digit c \<or> c = CHR ''-''"
  by (cases pid) (auto simp: list_all_iff)

lemma plugin_id_no_separator:
  assumes "is_valid_plugin_id pid"
  shows "CHR ''/'' \<notin> set pid" and "CHR ''.'' \<notin> set pid"
  using plugin_id_chars [OF assms, of "CHR ''/''"] plugin_id_chars [OF assms, of "CHR ''.''"]
  by (auto simp: is_ascii_lowercase_def is_ascii_digit_def)

section \<open>Properties\<close>

text \<open>
  The two modes of manifest validation agree. A manifest the fail-fast parser accepts has no error in the
  collecting validator (without a directory to resolve files in), except that an emitted event may name an
  action that is not declared, which only the collecting validator looks at.
\<close>

theorem accepted_manifest_validates:
  assumes "parse_manifest_toml env content path = Inr m"
  shows "validate_manifest env m None = concat (map (validate_event_action (mf_actions m)) (ev_emit (mf_events m)))"
  using assms
proof (rule parsed_manifest)
  fix rp ract rcol
  assume plugin: "parse_plugin_section env path rp = Inr (mf_plugin m)"
    and actions: "parse_actions (pm_id (mf_plugin m)) ract = Inr (mf_actions m)"
    and colls: "parse_collections (pm_id (mf_plugin m)) rcol = Inr (mf_collections m)"
    and sections: "check_sections (pm_id (mf_plugin m)) (mf_capabilities m) (mf_events m) (mf_config m) = Inr ()"
  have no_action: "concat (map (\<lambda>(name, a). unless (ad_description a \<noteq> []) (''actions.'' @ name @ ''.description'')
      ''action description is required'') (mf_actions m)) = []"
    using parsed_actions(2) [OF actions] by auto
  have no_collection: "concat (map (validate_collection env None) (mf_collections m)) = []"
    using parsed_collection [OF colls] by (auto simp: validate_collection_def)
  have no_event: "concat (map (\<lambda>e. unless (event_name_conforms e) ''events.emit'' (msg e)) (ev_emit (mf_events m))) = []" for msg
    using sections by (auto simp: check_sections_def r_bind_eq_Inr check_all_eq_Inr)
  show ?thesis
    unfolding validate_manifest_def no_action no_collection no_event
    using parsed_plugin [OF plugin] parsed_actions(1) [OF actions] sections
    by (simp add: check_sections_def r_bind_eq_Inr)
qed

definition sample_raw :: raw_manifest where
  "sample_raw =
     \<lparr>rm_plugin = Some \<lparr>rp_id = Some ''mail'', rp_name = Some ''Mail'', rp_version = Some ''1.0.0'', rp_description = None,
        rp_author = None, rp_license = None, rp_trust = None\<rparr>,
      rm_actions = Some [(''sync'', \<lparr>ra_description = Some ''Synchronise'', ra_timeout_ms = None, ra_input_schema = None,
        ra_output_schema = None\<rparr>)],
      rm_capabilities = Some (Some [''storage:doc:write'', ''events:emit'']),
      rm_collections = Some [(''inbox'', \<lparr>rc_schema = Some ''cdm:emails'', rc_access = Some ''read-write'', rc_strict = None,
        rc_indexes = None, rc_extensions = Some [''ext.mail.seen''], rc_extension_schema = None, rc_extension_indexes = None\<rparr>)],
      rm_events = Some \<lparr>re_emit = Some (Some [''mail.fetch.done'']), re_subscribe = None\<rparr>, rm_config = None\<rparr>"

definition sample_manifest_env :: manifest_env where
  "sample_manifest_env =
     \<lparr>me_read_file = (\<lambda>_. Inr ''manifest''), me_toml = (\<lambda>_. Inr sample_raw), me_semver = (\<lambda>v. v = ''1.0.0''),
      me_exists = (\<lambda>_. False), me_canonicalize = (\<lambda>_. None)\<rparr>"

definition sample_manifest :: plugin_manifest where
  "sample_manifest =
     \<lparr>mf_plugin = \<lparr>pm_id = ''mail'', pm_name = ''Mail'', pm_version = ''1.0.0'', pm_description = None, pm_author = None,
        pm_license = None, pm_trust = ThirdParty\<rparr>,
      mf_actions = [(''sync'', \<lparr>ad_description = ''Synchronise'', ad_timeout_ms = 30000, ad_input_schema = None,
        ad_output_schema = None\<rparr>)],
      mf_capabilities = [StorageWrite, EventsEmit],
      mf_collections = [(''inbox'', \<lparr>cdf_schema = ''cdm:emails'', cdf_access = AccessReadWrite, cdf_strict = False,
        cdf_indexes = [], cdf_extensions = [''ext.mail.seen''], cdf_extension_schema = None, cdf_extension_indexes = []\<rparr>)],
      mf_events = \<lparr>ev_emit = [''mail.fetch.done''], ev_subscribe = []\<rparr>, mf_config = None\<rparr>"

lemma sample_manifest_parsed: "parse_manifest_toml sample_manifest_env text path = Inr sample_manifest"
  by (simp add: parse_manifest_toml_def sample_manifest_env_def sample_raw_def sample_manifest_def parse_plugin_section_def
      parse_actions_def parse_action_def parse_capabilities_def parse_collections_def parse_collection_def parse_events_def
      check_sections_def event_name_conforms_def nonempty_def unwrap_or_def guard_def is_reserved_name_def
      starts_with_def is_ascii_lowercase_def cap_from_str_def access_from_str_def default_timeout_ms_def Let_def)

theorem accepted_manifest_validates_witness:
  "validate_manifest sample_manifest_env sample_manifest None =
     [\<lparr>mv_field = ''events.emit'', mv_message = ''event '' @ quoted ''mail.fetch.done'' @ '' references action '' @
        quoted ''fetch'' @ '' which is not declared in [actions]''\<rparr>]"
  using accepted_manifest_validates [OF sample_manifest_parsed]
  by (simp add: sample_manifest_def validate_event_action_def unless_def)

end
