(* ===== verification/Host_Functions.thy ===== *)
theory Host_Functions
  imports Backend_Props Manifest
begin

text \<open>
  The host functions a plugin can call (\<open>plugin-system/src/host_functions\<close>) and their injection into the sandbox
  (\<open>plugin-system/src/injection.rs\<close>). What a host function can reach is the state \<open>host_world\<close>: the storage
  and blob backends behind their traits, the events emitted on the bus, the requests sent, the rate limiter and
  the log. The codec holds what the functions take from libraries: (de)serialisation of requests and answers,
  base64, HTTP methods and the lossy UTF-8 conversion. The clock of the rate limiter is an argument, in
  nanoseconds.
\<close>

section \<open>Backends behind traits\<close>

record 's storage_backend =
  sb_execute :: "storage_query \<Rightarrow> (string, 's, pipeline_message list) action"
  sb_mutate :: "storage_mutation \<Rightarrow> (string, 's, unit) action"

record host_blob_meta =
  hb_key :: string
  hb_size_bytes :: nat
  hb_content_type :: string

record 'b blob_backend =
  bb_store :: "string \<Rightarrow> string \<Rightarrow> string option \<Rightarrow> (string, 'b, host_blob_meta) action"
  bb_retrieve :: "string \<Rightarrow> (string, 'b, string \<times> host_blob_meta) action"
  bb_delete :: "string \<Rightarrow> (string, 'b, unit) action"

section \<open>Requests\<close>

record emit_request =
  er_event_name :: string
  er_payload :: json

record blob_store_request =
  bs_key :: string
  bs_data_base64 :: string
  bs_content_type :: "string option"

record http_request =
  hr_method :: string
  hr_url :: string
  hr_headers :: "(string \<times> string) list"
  hr_body :: "string option"

datatype send_error = SendTimeout string | SendFailed string

record raw_response =
  rr_status :: nat
  rr_headers :: "(string \<times> string option) list"
  rr_body :: "(string, string) result"

record http_response =
  hp_status :: nat
  hp_headers :: "(string \<times> string) list"
  hp_body :: string

record host_codec =
  hc_query :: "string \<Rightarrow> (string, storage_query) result"
  hc_mutation :: "string \<Rightarrow> (string, storage_mutation) result"
  hc_messages :: "pipeline_message list \<Rightarrow> (string, string) result"
  hc_emit :: "string \<Rightarrow> (string, emit_request) result"
  hc_subscribe :: "string \<Rightarrow> (string, string) result"
  hc_blob_store :: "string \<Rightarrow> (string, blob_store_request) result"
  hc_blob_key :: "string \<Rightarrow> (string, string) result"
  hc_blob_meta :: "host_blob_meta \<Rightarrow> (string, string) result"
  hc_blob_response :: "string \<Rightarrow> host_blob_meta \<Rightarrow> (string, string) result"
  hc_unb64 :: "string \<Rightarrow> (string, string) result"
  hc_b64 :: "string \<Rightarrow> string"
  hc_http :: "string \<Rightarrow> (string, http_request) result"
  hc_http_response :: "http_response \<Rightarrow> (string, string) result"
  hc_method :: "string \<Rightarrow> bool"
  hc_send :: "http_request \<Rightarrow> (send_error, raw_response) result"
  hc_lossy :: "string \<Rightarrow> string"
  hc_from_slice :: "string \<Rightarrow> (string, json) result"
  hc_to_vec :: "json \<Rightarrow> (string, string) result"

section \<open>The world of the host functions\<close>

datatype plugin_log_level = LTrace | LDebug | LInfo | LWarn | LError

record rate_limit_state =
  rl_count :: nat
  rl_window_start :: nat
  rl_warned :: bool

record ('s, 'b) host_world =
  hw_storage :: 's
  hw_blobs :: 'b
  hw_events :: "(string \<times> json) list"
  hw_requests :: "http_request list"
  hw_limits :: "string \<rightharpoonup> rate_limit_state"
  hw_log :: "(string \<times> plugin_log_level \<times> string) list"

type_synonym ('s, 'b, 'a) hop = "(plugin_error, ('s, 'b) host_world, 'a) action"

definition on_storage :: "(string \<Rightarrow> plugin_error) \<Rightarrow> (string, 's, 'a) action \<Rightarrow> ('s, 'b, 'a) hop" where
  "on_storage wrap f w = (case f (hw_storage w) of (r, s) \<Rightarrow> (map_err wrap r, w\<lparr>hw_storage := s\<rparr>))"

definition on_blobs :: "(string \<Rightarrow> plugin_error) \<Rightarrow> (string, 'b, 'a) action \<Rightarrow> ('s, 'b, 'a) hop" where
  "on_blobs wrap f w = (case f (hw_blobs w) of (r, b) \<Rightarrow> (map_err wrap r, w\<lparr>hw_blobs := b\<rparr>))"

definition emit_event :: "string \<Rightarrow> json \<Rightarrow> ('s, 'b, unit) hop" where
  "emit_event name pl w = (Inr (), w\<lparr>hw_events := hw_events w @ [(name, pl)]\<rparr>)"

definition failed :: "string \<Rightarrow> string \<Rightarrow> string \<Rightarrow> plugin_error" where
  "failed what pid e = ExecutionFailed (what @ quoted pid @ '': '' @ e)"

section \<open>Storage\<close>

fun scope_mutation :: "storage_mutation \<Rightarrow> string \<Rightarrow> storage_mutation" where
  "scope_mutation (MInsert _ c d) pid = MInsert pid c d"
| "scope_mutation (MUpdate _ c i d v) pid = MUpdate pid c i d v"
| "scope_mutation (MDelete _ c i) pid = MDelete pid c i"

definition host_storage_read ::
  "host_codec \<Rightarrow> 's storage_backend \<Rightarrow> string \<Rightarrow> approved_capabilities \<Rightarrow> string \<Rightarrow> ('s, 'b, string) hop" where
  "host_storage_read hc sb pid caps input =
     s_bind (s_check (check_runtime_capability caps pid StorageRead)) (\<lambda>_.
     s_bind (s_check (map_err (failed ''failed to deserialize storage query from plugin '' pid) (hc_query hc input))) (\<lambda>query.
     s_bind (on_storage (failed ''storage read failed for plugin '' pid) (sb_execute sb (query\<lparr>sq_plugin_id := pid\<rparr>))) (\<lambda>results.
     s_check (map_err (failed ''failed to serialize storage read results for plugin '' pid) (hc_messages hc results)))))"

definition host_storage_write ::
  "host_codec \<Rightarrow> 's storage_backend \<Rightarrow> string \<Rightarrow> approved_capabilities \<Rightarrow> string \<Rightarrow> ('s, 'b, string) hop" where
  "host_storage_write hc sb pid caps input =
     s_bind (s_check (check_runtime_capability caps pid StorageWrite)) (\<lambda>_.
     s_bind (s_check (map_err (failed ''failed to deserialize storage mutation from plugin '' pid) (hc_mutation hc input))) (\<lambda>mutation.
     s_bind (on_storage (failed ''storage write failed for plugin '' pid) (sb_mutate sb (scope_mutation mutation pid))) (\<lambda>_.
     s_return ''{}'')))"

definition host_storage_delete ::
  "host_codec \<Rightarrow> 's storage_backend \<Rightarrow> string \<Rightarrow> approved_capabilities \<Rightarrow> string \<Rightarrow> ('s, 'b, string) hop" where
  "host_storage_delete hc sb pid caps input =
     s_bind (s_check (check_runtime_capability caps pid StorageDelete)) (\<lambda>_.
     s_bind (s_check (map_err (failed ''failed to deserialize storage delete from plugin '' pid) (hc_mutation hc input))) (\<lambda>mutation.
     s_bind (s_check (case mutation of
         MDelete _ c i \<Rightarrow> Inr (MDelete pid c i)
       | _ \<Rightarrow> Inl (ExecutionFailed (''host_storage_delete received non-delete mutation from plugin '' @ quoted pid)))) (\<lambda>scoped.
     s_bind (on_storage (failed ''storage delete failed for plugin '' pid) (sb_mutate sb scoped)) (\<lambda>_.
     s_return ''{}''))))"

section \<open>Blobs\<close>

definition max_blob_size :: nat where
  "max_blob_size = 10 * 1024 * 1024"

definition scoped_key :: "string \<Rightarrow> string \<Rightarrow> string" where
  "scoped_key pid user_key = pid @ ''/blobs/'' @ user_key"

definition host_blob_store ::
  "host_codec \<Rightarrow> 'b blob_backend \<Rightarrow> string \<Rightarrow> approved_capabilities \<Rightarrow> string \<Rightarrow> ('s, 'b, string) hop" where
  "host_blob_store hc bb pid caps input =
     s_bind (s_check (check_runtime_capability caps pid StorageBlobWrite)) (\<lambda>_.
     s_bind (s_check (map_err (failed ''failed to deserialize blob store request from plugin '' pid) (hc_blob_store hc input))) (\<lambda>request.
     s_bind (s_check (map_err (failed ''invalid base64 data from plugin '' pid) (hc_unb64 hc (bs_data_base64 request)))) (\<lambda>data.
     s_bind (s_check (if max_blob_size < length data
         then Inl (ExecutionFailed (''blob from plugin '' @ quoted pid @ '' exceeds maximum size ('' @ show_nat (length data) @
                '' bytes > '' @ show_nat max_blob_size @ '' bytes)''))
         else Inr ())) (\<lambda>_.
     s_bind (on_blobs (failed ''blob store failed for plugin '' pid)
         (bb_store bb (scoped_key pid (bs_key request)) data (bs_content_type request))) (\<lambda>meta.
     s_check (map_err (failed ''failed to serialize blob metadata for plugin '' pid) (hc_blob_meta hc meta)))))))"

definition host_blob_retrieve ::
  "host_codec \<Rightarrow> 'b blob_backend \<Rightarrow> string \<Rightarrow> approved_capabilities \<Rightarrow> string \<Rightarrow> ('s, 'b, string) hop" where
  "host_blob_retrieve hc bb pid caps input =
     s_bind (s_check (check_runtime_capability caps pid StorageBlobRead)) (\<lambda>_.
     s_bind (s_check (map_err (failed ''failed to deserialize blob retrieve request from plugin '' pid) (hc_blob_key hc input))) (\<lambda>key.
     s_bind (on_blobs (failed ''blob retrieve failed for plugin '' pid) (bb_retrieve bb (scoped_key pid key))) (\<lambda>(data, meta).
     s_check (map_err (failed ''failed to serialize blob response for plugin '' pid) (hc_blob_response hc (hc_b64 hc data) meta)))))"

definition host_blob_delete ::
  "host_codec \<Rightarrow> 'b blob_backend \<Rightarrow> string \<Rightarrow> approved_capabilities \<Rightarrow> string \<Rightarrow> ('s, 'b, string) hop" where
  "host_blob_delete hc bb pid caps input =
     s_bind (s_check (check_runtime_capability caps pid StorageBlobDelete)) (\<lambda>_.
     s_bind (s_check (map_err (failed ''failed to deserialize blob delete request from plugin '' pid) (hc_blob_key hc input))) (\<lambda>key.
     s_bind (on_blobs (failed ''blob delete failed for plugin '' pid) (bb_delete bb (scoped_key pid key))) (\<lambda>_.
     s_return ''{}'')))"

section \<open>Events\<close>

definition host_events_emit ::
  "host_codec \<Rightarrow> string list option \<Rightarrow> nat \<Rightarrow> string \<Rightarrow> approved_capabilities \<Rightarrow> string \<Rightarrow> ('s, 'b, string) hop" where
  "host_events_emit hc declared depth pid caps input =
     s_bind (s_check (check_runtime_capability caps pid EventsEmit)) (\<lambda>_.
     s_bind (s_check (map_err (failed ''failed to deserialize emit request from plugin '' pid) (hc_emit hc input))) (\<lambda>request.
     s_bind (s_check (if case declared of Some names \<Rightarrow> er_event_name request \<notin> set names | None \<Rightarrow> False
         then Inl (RuntimeCapabilityViolation (''plugin '' @ quoted pid @ '' attempted to emit undeclared event '' @
                quoted (er_event_name request)))
         else Inr ())) (\<lambda>_.
     s_bind (emit_event (er_event_name request) (JObject (obj_of [(''source'', JString pid),
         (''depth'', JNumber (NPosInt depth)), (''payload'', er_payload request)]))) (\<lambda>_.
     s_return ''{}''))))"

definition subscription_event :: string where
  "subscription_event = ''plugin.subscription.registered''"

definition host_events_subscribe ::
  "host_codec \<Rightarrow> string \<Rightarrow> approved_capabilities \<Rightarrow> string \<Rightarrow> ('s, 'b, string) hop" where
  "host_events_subscribe hc pid caps input =
     s_bind (s_check (check_runtime_capability caps pid EventsSubscribe)) (\<lambda>_.
     s_bind (s_check (map_err (failed ''failed to deserialize subscribe request from plugin '' pid) (hc_subscribe hc input))) (\<lambda>name.
     s_bind (emit_event subscription_event (JObject (obj_of [(''plugin_id'', JString pid), (''event_name'', JString name)]))) (\<lambda>_.
     s_return ''{}'')))"

section \<open>Outbound HTTP\<close>

definition max_response_body_size :: nat where
  "max_response_body_size = 10 * 1024 * 1024"

fun split_scheme :: "string \<Rightarrow> string list" where
  "split_scheme [] = [[]]"
| "split_scheme (c # cs) =
     (if starts_with (c # cs) ''://'' then [] # split_scheme (drop 2 cs)
      else case split_scheme cs of p # ps \<Rightarrow> (c # p) # ps | [] \<Rightarrow> [[c]])"

definition url_scheme :: "string \<Rightarrow> string" where
  "url_scheme url = map ascii_lower (case split_scheme url of p # _ \<Rightarrow> p | [] \<Rightarrow> [])"

definition url_domain :: "string \<Rightarrow> string" where
  "url_domain url =
     (case split_scheme url of
        _ # rest # _ \<Rightarrow> hd (split_on (CHR '':'') (hd (split_on (CHR ''/'') rest)))
      | _ \<Rightarrow> [])"

definition check_url :: "string list option \<Rightarrow> string \<Rightarrow> string \<Rightarrow> (plugin_error, unit) result" where
  "check_url allowed pid url =
     (if url_scheme url \<noteq> ''http'' \<and> url_scheme url \<noteq> ''https''
      then Inl (ExecutionFailed (''plugin '' @ quoted pid @ '': only http:// and https:// schemes are allowed, got '' @
             quoted (url_scheme url @ ''://'')))
      else case allowed of
          None \<Rightarrow> Inr ()
        | Some domains \<Rightarrow>
            if url_domain url \<in> set domains then Inr ()
            else Inl (RuntimeCapabilityViolation (''plugin '' @ quoted pid @ '' attempted HTTP request to undeclared domain '' @
                   quoted (url_domain url))))"

definition send_request :: "host_codec \<Rightarrow> string \<Rightarrow> http_request \<Rightarrow> ('s, 'b, raw_response) hop" where
  "send_request hc pid request w =
     (case hc_send hc request of
        Inr resp \<Rightarrow> Inr resp
      | Inl (SendTimeout e) \<Rightarrow> Inl (ExecutionFailed (''HTTP request timed out for plugin '' @ quoted pid @ '' (30s limit): '' @ e))
      | Inl (SendFailed e) \<Rightarrow> Inl (failed ''HTTP request failed for plugin '' pid e),
      w\<lparr>hw_requests := hw_requests w @ [request]\<rparr>)"

definition host_http_request ::
  "host_codec \<Rightarrow> string list option \<Rightarrow> string \<Rightarrow> approved_capabilities \<Rightarrow> string \<Rightarrow> ('s, 'b, string) hop" where
  "host_http_request hc allowed pid caps input =
     s_bind (s_check (check_runtime_capability caps pid HttpOutbound)) (\<lambda>_.
     s_bind (s_check (map_err (failed ''failed to deserialize HTTP request from plugin '' pid) (hc_http hc input))) (\<lambda>request.
     s_bind (s_check (check_url allowed pid (hr_url request))) (\<lambda>_.
     s_bind (s_check (if hc_method hc (hr_method request) then Inr ()
         else Inl (ExecutionFailed (''plugin '' @ quoted pid @ '': invalid HTTP method '' @ quoted (hr_method request))))) (\<lambda>_.
     s_bind (send_request hc pid request) (\<lambda>resp.
     s_bind (s_check (map_err (failed ''failed to read HTTP response body for plugin '' pid) (rr_body resp))) (\<lambda>bytes.
     s_bind (s_check (if max_response_body_size < length bytes
         then Inl (ExecutionFailed (''HTTP response body exceeds maximum size ('' @ show_nat max_response_body_size @
                '' bytes) for plugin '' @ quoted pid))
         else Inr ())) (\<lambda>_.
     s_check (map_err (failed ''failed to serialize HTTP response for plugin '' pid) (hc_http_response hc
       \<lparr>hp_status = rr_status resp,
        hp_headers = List.map_filter (\<lambda>(k, v). map_option (\<lambda>val. (k, val)) v) (rr_headers resp),
        hp_body = hc_lossy hc bytes\<rparr>)))))))))"

section \<open>Configuration\<close>

definition host_config_read ::
  "host_codec \<Rightarrow> json option \<Rightarrow> string \<Rightarrow> approved_capabilities \<Rightarrow> ('s, 'b, string) hop" where
  "host_config_read hc plugin_config pid caps =
     s_bind (s_check (check_runtime_capability caps pid ConfigRead)) (\<lambda>_.
     s_check (map_err (failed ''failed to serialize config for plugin '' pid)
       (hc_to_vec hc (case plugin_config of Some c \<Rightarrow> c | None \<Rightarrow> JObject []))))"

section \<open>Logging\<close>

definition level_from_str :: "string \<Rightarrow> (plugin_error, plugin_log_level) result" where
  "level_from_str s =
     (if s = ''trace'' then Inr LTrace
      else if s = ''debug'' then Inr LDebug
      else if s = ''info'' then Inr LInfo
      else if s = ''warn'' then Inr LWarn
      else if s = ''error'' then Inr LError
      else Inl (ExecutionFailed (''invalid log level '' @ quoted s @ '': expected one of trace, debug, info, warn, error'')))"

definition max_per_second :: nat where
  "max_per_second = 100"

definition limiter_window :: "nat \<Rightarrow> rate_limit_state option \<Rightarrow> rate_limit_state" where
  "limiter_window now st =
     (case st of
        None \<Rightarrow> \<lparr>rl_count = 0, rl_window_start = now, rl_warned = False\<rparr>
      | Some s \<Rightarrow>
          if 1 \<le> (now - rl_window_start s) div 10 ^ 9
          then \<lparr>rl_count = 0, rl_window_start = now, rl_warned = False\<rparr> else s)"

definition limiter_check ::
  "nat \<Rightarrow> nat \<Rightarrow> string \<Rightarrow> (string \<rightharpoonup> rate_limit_state) \<Rightarrow> bool \<times> (string \<rightharpoonup> rate_limit_state)" where
  "limiter_check limit now pid states =
     (let s = limiter_window now (states pid); n = rl_count s + 1
      in if limit < n then (False, states(pid \<mapsto> s\<lparr>rl_count := n, rl_warned := True\<rparr>))
         else (True, states(pid \<mapsto> s\<lparr>rl_count := n\<rparr>)))"

definition host_log :: "host_codec \<Rightarrow> nat \<Rightarrow> string \<Rightarrow> string \<Rightarrow> ('s, 'b, string) hop" where
  "host_log hc now pid input =
     s_bind (s_check (map_err (failed ''failed to deserialize log entry from plugin '' pid) (hc_from_slice hc input))) (\<lambda>v.
     s_bind (s_check (ok_or (as_str (index_get v ''level'')) (ExecutionFailed (''log entry from plugin '' @ quoted pid @ '' missing '' @
         quoted ''level'' @ '' string field'')))) (\<lambda>level_str.
     s_bind (s_check (ok_or (as_str (index_get v ''message'')) (ExecutionFailed (''log entry from plugin '' @ quoted pid @ '' missing '' @
         quoted ''message'' @ '' string field'')))) (\<lambda>msg.
     s_bind (s_check (level_from_str level_str)) (\<lambda>level w.
     case limiter_check max_per_second now pid (hw_limits w) of
       (allowed, states) \<Rightarrow>
         (Inr ''{}'', w\<lparr>hw_limits := states, hw_log := hw_log w @ (if allowed then [(pid, level, msg)] else [])\<rparr>)))))"

section \<open>Injection\<close>

record ('s, 'b) injection_deps =
  id_storage :: "'s storage_backend"
  id_blobs :: "'b blob_backend option"
  id_plugin_config :: "json option"
  id_allowed_domains :: "string list option"
  id_declared_emit :: "string list option"
  id_execution_depth :: nat

definition when_cap :: "approved_capabilities \<Rightarrow> capability \<Rightarrow> 'a \<Rightarrow> 'a list" where
  "when_cap caps c x = (if has_cap caps c then [x] else [])"

definition build_host_functions ::
  "host_codec \<Rightarrow> string \<Rightarrow> approved_capabilities \<Rightarrow> ('s, 'b) injection_deps \<Rightarrow>
   (string \<times> (nat \<Rightarrow> string \<Rightarrow> ('s, 'b, string) hop)) list" where
  "build_host_functions hc pid caps deps =
     [(''host_log'', \<lambda>now input. host_log hc now pid input)] @
     when_cap caps StorageRead (''host_storage_read'', \<lambda>_. host_storage_read hc (id_storage deps) pid caps) @
     when_cap caps StorageWrite (''host_storage_write'', \<lambda>_. host_storage_write hc (id_storage deps) pid caps) @
     when_cap caps StorageDelete (''host_storage_delete'', \<lambda>_. host_storage_delete hc (id_storage deps) pid caps) @
     (case id_blobs deps of
        None \<Rightarrow> []
      | Some bb \<Rightarrow>
          when_cap caps StorageBlobRead (''host_blob_retrieve'', \<lambda>_. host_blob_retrieve hc bb pid caps) @
          when_cap caps StorageBlobWrite (''host_blob_store'', \<lambda>_. host_blob_store hc bb pid caps) @
          when_cap caps StorageBlobDelete (''host_blob_delete'', \<lambda>_. host_blob_delete hc bb pid caps)) @
     when_cap caps HttpOutbound (''host_http_request'', \<lambda>_. host_http_request hc (id_allowed_domains deps) pid caps) @
     when_cap caps EventsEmit (''host_events_emit'', \<lambda>_.
       host_events_emit hc (id_declared_emit deps) (id_execution_depth deps) pid caps) @
     when_cap caps EventsSubscribe (''host_events_subscribe'', \<lambda>_. host_events_subscribe hc pid caps) @
     when_cap caps ConfigRead (''host_config_read'', \<lambda>_ _. host_config_read hc (id_plugin_config deps) pid caps)"

definition injected_function_names :: "approved_capabilities \<Rightarrow> string list" where
  "injected_function_names caps =
     [''host_log''] @ when_cap caps StorageRead ''host_storage_read'' @ when_cap caps StorageWrite ''host_storage_write'' @
     when_cap caps StorageDelete ''host_storage_delete'' @ when_cap caps StorageBlobRead ''host_blob_retrieve'' @
     when_cap caps StorageBlobWrite ''host_blob_store'' @ when_cap caps StorageBlobDelete ''host_blob_delete'' @
     when_cap caps HttpOutbound ''host_http_request'' @ when_cap caps EventsEmit ''host_events_emit'' @
     when_cap caps EventsSubscribe ''host_events_subscribe'' @ when_cap caps ConfigRead ''host_config_read''"

end
