(* ===== verification/Host_Props.thy ===== *)
theory Host_Props
  imports Host_Functions
begin

text \<open>
  What a plugin can do through its host functions: a run of a plugin is a sequence of calls of injected functions,
  and every run stays inside the sandbox. The storage backend enters through the contract \<open>plugin_storage\<close>, which
  \<open>SqliteStorage\<close> satisfies.
\<close>

section \<open>Runs\<close>

definition call_host ::
  "(string \<times> (nat \<Rightarrow> string \<Rightarrow> ('s, 'b, string) hop)) list \<Rightarrow> nat \<Rightarrow> string \<Rightarrow> string \<Rightarrow> ('s, 'b) host_world \<Rightarrow> ('s, 'b) host_world" where
  "call_host fns now name input w = (case map_of fns name of Some f \<Rightarrow> snd (f now input w) | None \<Rightarrow> w)"

fun plugin_run ::
  "(string \<times> (nat \<Rightarrow> string \<Rightarrow> ('s, 'b, string) hop)) list \<Rightarrow> (nat \<times> string \<times> string) list \<Rightarrow> ('s, 'b) host_world \<Rightarrow> ('s, 'b) host_world" where
  "plugin_run fns [] w = w"
| "plugin_run fns ((now, name, input) # calls) w = plugin_run fns calls (call_host fns now name input w)"

section \<open>The sandbox\<close>

definition own_event :: "string \<Rightarrow> string list option \<Rightarrow> string \<times> json \<Rightarrow> bool" where
  "own_event pid declared e \<longleftrightarrow>
     (json_get (snd e) ''source'' = Some (JString pid) \<and> (\<forall>names. declared = Some names \<longrightarrow> fst e \<in> set names)) \<or>
     (fst e = subscription_event \<and> json_get (snd e) ''plugin_id'' = Some (JString pid))"

definition appended :: "('a \<Rightarrow> bool) \<Rightarrow> 'a list \<Rightarrow> 'a list \<Rightarrow> bool" where
  "appended P xs ys \<longleftrightarrow> (\<exists>zs. ys = xs @ zs \<and> list_all P zs)"

lemma appended_refl [simp]: "appended P xs xs"
  by (simp add: appended_def)

lemma appended_trans: "appended P xs ys \<Longrightarrow> appended P ys zs \<Longrightarrow> appended P xs zs"
  by (auto simp: appended_def)

lemma appended_list [simp]: "appended P xs (xs @ zs) \<longleftrightarrow> list_all P zs"
  by (simp add: appended_def)

text \<open>
  Against a plugin: the data of the other plugins, the blobs outside its prefix, the events, requests and log
  entries made on its behalf, and the rate limits of the others.
\<close>

definition sandbox ::
  "(string \<Rightarrow> 's \<Rightarrow> 'v) \<Rightarrow> ('b \<Rightarrow> string \<Rightarrow> 'u) \<Rightarrow> string \<Rightarrow> string list option \<Rightarrow> string list option \<Rightarrow>
   ('s, 'b) host_world \<Rightarrow> ('s, 'b) host_world \<Rightarrow> bool" where
  "sandbox others blob pid declared allowed w w' \<longleftrightarrow>
     others pid (hw_storage w') = others pid (hw_storage w) \<and>
     (\<forall>key. \<not> starts_with key (pid @ ''/blobs/'') \<longrightarrow> blob (hw_blobs w') key = blob (hw_blobs w) key) \<and>
     appended (own_event pid declared) (hw_events w) (hw_events w') \<and>
     appended (\<lambda>r. check_url allowed pid (hr_url r) = Inr ()) (hw_requests w) (hw_requests w') \<and>
     appended (\<lambda>l. fst l = pid) (hw_log w) (hw_log w') \<and>
     (\<forall>q. q \<noteq> pid \<longrightarrow> hw_limits w' q = hw_limits w q)"

interpretation boxed: state_order "sandbox others blob pid declared allowed"
proof
  fix a b c :: "('a, 'c) host_world"
  assume "sandbox others blob pid declared allowed a b" "sandbox others blob pid declared allowed b c"
  then show "sandbox others blob pid declared allowed a c"
    unfolding sandbox_def by (auto intro: appended_trans)
qed (simp add: sandbox_def)

definition blob_frame :: "('b \<Rightarrow> string \<Rightarrow> 'u) \<Rightarrow> 'b blob_backend \<Rightarrow> bool" where
  "blob_frame blob bb \<longleftrightarrow>
     (\<forall>key data ct. moves (elsewhere blob key) (bb_store bb key data ct)) \<and>
     (\<forall>key. moves (elsewhere blob key) (bb_retrieve bb key)) \<and>
     (\<forall>key. moves (elsewhere blob key) (bb_delete bb key))"

lemma on_blobs_boxed:
  fixes f :: "(string, 'b, 'r) action" and others :: "string \<Rightarrow> 's \<Rightarrow> 'v"
  assumes "moves (elsewhere blob (scoped_key pid key)) f"
  shows "moves (sandbox others blob pid declared allowed) (on_blobs wrap f)"
  unfolding moves_def
proof
  fix w :: "('s, 'b) host_world"
  obtain r b where f: "f (hw_blobs w) = (r, b)" by force
  then have "\<forall>k. k \<noteq> scoped_key pid key \<longrightarrow> blob b k = blob (hw_blobs w) k"
    using assms by (auto simp: moves_def elsewhere_def dest: spec [of _ "hw_blobs w"])
  moreover have "starts_with (scoped_key pid key) (pid @ ''/blobs/'')"
    unfolding scoped_key_def by (metis append_assoc starts_with_append)
  ultimately show "sandbox others blob pid declared allowed w (snd (on_blobs wrap f w))"
    using f unfolding on_blobs_def sandbox_def by (simp, metis)
qed

lemma emit_event_boxed: "own_event pid declared (name, pl) \<Longrightarrow> moves (sandbox others blob pid declared allowed) (emit_event name pl)"
  by (simp add: moves_def emit_event_def sandbox_def)

lemma send_request_boxed:
  "check_url allowed pid (hr_url request) = Inr () \<Longrightarrow> moves (sandbox others blob pid declared allowed) (send_request hc pid request)"
  by (simp add: moves_def send_request_def sandbox_def)

lemma host_log_boxed: "moves (sandbox others blob pid declared allowed) (host_log hc now pid input)"
  unfolding host_log_def
  by (intro boxed.moves_checked) (auto simp: moves_def sandbox_def limiter_check_def Let_def)

lemma host_config_read_boxed: "moves (sandbox others blob pid declared allowed) (host_config_read hc config pid caps)"
  unfolding host_config_read_def by (intro boxed.moves_checked boxed.moves_check)

lemma host_http_boxed: "moves (sandbox others blob pid declared allowed) (host_http_request hc allowed pid caps input)"
  unfolding host_http_request_def by (intro boxed.moves_checked boxed.moves_bind boxed.moves_check send_request_boxed) auto

lemma host_emit_boxed: "moves (sandbox others blob pid declared allowed) (host_events_emit hc declared depth pid caps input)"
  unfolding host_events_emit_def
  by (intro boxed.moves_checked boxed.moves_bind boxed.moves_return emit_event_boxed)
    (auto simp: own_event_def obj_of_def split: option.splits if_splits)

lemma host_subscribe_boxed: "moves (sandbox others blob pid declared allowed) (host_events_subscribe hc pid caps input)"
  unfolding host_events_subscribe_def
  by (intro boxed.moves_checked boxed.moves_bind boxed.moves_return emit_event_boxed) (simp add: own_event_def obj_of_def)

lemma host_blobs_boxed:
  assumes "blob_frame blob bb"
  shows "moves (sandbox others blob pid declared allowed) (host_blob_store hc bb pid caps input)"
    and "moves (sandbox others blob pid declared allowed) (host_blob_retrieve hc bb pid caps input)"
    and "moves (sandbox others blob pid declared allowed) (host_blob_delete hc bb pid caps input)"
  using assms unfolding host_blob_store_def host_blob_retrieve_def host_blob_delete_def blob_frame_def
  by (auto intro!: boxed.moves_checked boxed.moves_bind boxed.moves_check boxed.moves_return on_blobs_boxed)

section \<open>The storage contract\<close>

text \<open>
  What the host functions rely on in a storage backend: an operation on behalf of a plugin leaves what the other
  plugins own alone; a query leaves everything alone.
\<close>

locale plugin_storage =
  fixes sb :: "'s storage_backend" and others :: "string \<Rightarrow> 's \<Rightarrow> 'v"
  assumes execute_frame: "moves (\<lambda>s s'. others pid s' = others pid s) (sb_execute sb q)"
    and mutate_frame: "moves (\<lambda>s s'. others (mut_plugin m) s' = others (mut_plugin m) s) (sb_mutate sb m)"
begin

lemma on_storage_boxed:
  assumes "moves (\<lambda>s s'. others pid s' = others pid s) f"
  shows "moves (sandbox others blob pid declared allowed) (on_storage wrap f)"
  unfolding moves_def
proof
  fix w :: "('s, 'b) host_world"
  obtain r s where f: "f (hw_storage w) = (r, s)" by force
  then have "others pid s = others pid (hw_storage w)"
    using assms by (auto simp: moves_def dest: spec [of _ "hw_storage w"])
  with f show "sandbox others blob pid declared allowed w (snd (on_storage wrap f w))"
    by (simp add: on_storage_def sandbox_def)
qed

lemma scoped_frame: "moves (\<lambda>s s'. others pid s' = others pid s) (sb_mutate sb (scope_mutation m pid))"
  using mutate_frame [of "scope_mutation m pid"] by (cases m) simp_all

lemma deleted_frame: "moves (\<lambda>s s'. others pid s' = others pid s) (sb_mutate sb (MDelete pid c i))"
  using mutate_frame [of "MDelete pid c i"] by simp

lemma host_storage_boxed:
  "moves (sandbox others blob pid declared allowed) (host_storage_read hc sb pid caps input)"
  "moves (sandbox others blob pid declared allowed) (host_storage_write hc sb pid caps input)"
  "moves (sandbox others blob pid declared allowed) (host_storage_delete hc sb pid caps input)"
  unfolding host_storage_read_def host_storage_write_def host_storage_delete_def
  by (auto intro!: boxed.moves_checked boxed.moves_bind boxed.moves_check boxed.moves_return on_storage_boxed
      execute_frame scoped_frame deleted_frame split: storage_mutation.splits)

lemma injected_boxed:
  assumes "id_storage deps = sb" and "\<And>bb. id_blobs deps = Some bb \<Longrightarrow> blob_frame blob bb"
    and "(name, f) \<in> set (build_host_functions hc pid caps deps)"
  shows "moves (sandbox others blob pid (id_declared_emit deps) (id_allowed_domains deps)) (f now input)"
  using assms(2,3)
  by (auto simp: build_host_functions_def when_cap_def assms(1) host_log_boxed host_storage_boxed host_blobs_boxed host_http_boxed
      host_emit_boxed host_subscribe_boxed host_config_read_boxed split: if_splits option.splits)

lemma call_boxed:
  assumes "id_storage deps = sb" and "\<And>bb. id_blobs deps = Some bb \<Longrightarrow> blob_frame blob bb"
  shows "sandbox others blob pid (id_declared_emit deps) (id_allowed_domains deps) w
    (call_host (build_host_functions hc pid caps deps) now name input w)"
  using injected_boxed [OF assms] unfolding moves_def call_host_def
  by (auto simp: boxed.R_refl dest: map_of_SomeD split: option.splits)

lemma run_boxed:
  assumes "id_storage deps = sb" and "\<And>bb. id_blobs deps = Some bb \<Longrightarrow> blob_frame blob bb"
  shows "sandbox others blob pid (id_declared_emit deps) (id_allowed_domains deps) w
    (plugin_run (build_host_functions hc pid caps deps) calls w)"
proof (induction calls arbitrary: w)
  case (Cons call calls)
  obtain now name input where "call = (now, name, input)" by (cases call) auto
  with Cons.IH call_boxed [OF assms] show ?case by (simp, blast intro: boxed.R_trans)
qed (simp add: boxed.R_refl)

end

section \<open>SqliteStorage behind the trait\<close>

definition with_text :: "(backend_error, 's, 'a) action \<Rightarrow> (string, 's, 'a) action" where
  "with_text f s = (case f s of (r, s') \<Rightarrow> (map_err backend_error_to_string r, s'))"

definition sqlite_backend :: "backend_env \<Rightarrow> sqlite_storage storage_backend" where
  "sqlite_backend env =
     \<lparr>sb_execute = (\<lambda>q. with_text (execute_query env q)), sb_mutate = (\<lambda>m. with_text (execute_mutation env m))\<rparr>"

lemma with_text_moves: "moves R f \<Longrightarrow> moves R (with_text f)"
  by (auto simp: moves_def with_text_def split: prod.splits) (metis snd_conv)

interpretation plugin_data: plugin_storage "sqlite_backend env" foreign_rows
proof
  fix pid q m
  show "moves (\<lambda>s s'. foreign_rows pid s' = foreign_rows pid s) (sb_execute (sqlite_backend env) q)"
    using same_own [OF execute_query_same, of pid env q] unfolding keeps_foreign_def
    by (simp add: sqlite_backend_def with_text_moves)
  show "moves (\<lambda>s s'. foreign_rows (mut_plugin m) s' = foreign_rows (mut_plugin m) s) (sb_mutate (sqlite_backend env) m)"
    using execute_mutation_own [of m env] unfolding keeps_foreign_def
    by (simp add: sqlite_backend_def with_text_moves)
qed

section \<open>Gates\<close>

definition required_capability :: "string \<Rightarrow> capability option" where
  "required_capability =
     map_of [(''host_storage_read'', StorageRead), (''host_storage_write'', StorageWrite), (''host_storage_delete'', StorageDelete),
       (''host_blob_retrieve'', StorageBlobRead), (''host_blob_store'', StorageBlobWrite), (''host_blob_delete'', StorageBlobDelete),
       (''host_http_request'', HttpOutbound), (''host_events_emit'', EventsEmit), (''host_events_subscribe'', EventsSubscribe),
       (''host_config_read'', ConfigRead)]"

lemma gate: "\<not> has_cap caps c \<Longrightarrow> s_bind (s_check (check_runtime_capability caps pid c)) g w = (Inl (lacks_capability pid c), w)"
  by (simp add: check_runtime_capability_def)

section \<open>The rate limiter\<close>

text \<open>A sequence of calls of one plugin at given times: which of them are let through.\<close>

fun limiter_run :: "nat \<Rightarrow> nat list \<Rightarrow> rate_limit_state option \<Rightarrow> bool list" where
  "limiter_run limit [] st = []"
| "limiter_run limit (t # ts) st =
     (case limiter_check limit t [] (\<lambda>_. st) of (ok, states) \<Rightarrow> ok # limiter_run limit ts (states []))"

abbreviation second :: nat where
  "second \<equiv> 10 ^ 9"

definition passed :: "bool list \<Rightarrow> nat" where
  "passed oks = length (filter (\<lambda>ok. ok) oks)"

lemma limiter_step:
  obtains s' where "rl_count s' = rl_count (limiter_window t st) + 1" and "rl_window_start s' = rl_window_start (limiter_window t st)"
    and "passed (limiter_run limit (t # ts) st) =
      (if rl_count (limiter_window t st) < limit then 1 else 0) + passed (limiter_run limit ts (Some s'))"
proof (rule that)
  let ?w = "limiter_window t st"
  let ?s' = "if rl_count ?w < limit then ?w\<lparr>rl_count := rl_count ?w + 1\<rparr> else ?w\<lparr>rl_count := rl_count ?w + 1, rl_warned := True\<rparr>"
  show "rl_count ?s' = rl_count ?w + 1" and "rl_window_start ?s' = rl_window_start ?w" by simp_all
  show "passed (limiter_run limit (t # ts) st) = (if rl_count ?w < limit then 1 else 0) + passed (limiter_run limit ts (Some ?s'))"
    by (cases "rl_count ?w < limit") (simp_all add: limiter_check_def Let_def passed_def)
qed

lemma same_window: "t < rl_window_start s + second \<Longrightarrow> limiter_window t (Some s) = s"
  by (simp add: limiter_window_def)

text \<open>Within a window only what is left of the limit passes.\<close>

lemma passed_in_window:
  "\<forall>t \<in> set ts. t < rl_window_start s + second \<Longrightarrow> passed (limiter_run limit ts (Some s)) \<le> limit - rl_count s"
proof (induction ts arbitrary: s)
  case (Cons t ts)
  have cur: "limiter_window t (Some s) = s" using Cons.prems by (simp add: same_window)
  obtain s' where s': "rl_count s' = rl_count s + 1" "rl_window_start s' = rl_window_start s"
    and step: "passed (limiter_run limit (t # ts) (Some s)) = (if rl_count s < limit then 1 else 0) + passed (limiter_run limit ts (Some s'))"
    using limiter_step [of t "Some s" limit ts] cur by metis
  have "passed (limiter_run limit ts (Some s')) \<le> limit - rl_count s'"
    using Cons s' by (intro Cons.IH) simp
  with s' show ?case unfolding step by (auto split: if_splits)
qed (simp add: passed_def)

text \<open>A stretch of less than a second sees the end of one window and at most one more.\<close>

lemma passed_in_second:
  assumes "sorted ts" and "\<forall>t \<in> set ts. a \<le> t \<and> t < a + second"
  shows "passed (limiter_run limit ts (Some s)) \<le> (limit - rl_count s) + limit"
  using assms
proof (induction ts arbitrary: s)
  case (Cons t ts)
  show ?case
  proof (cases "1 \<le> (t - rl_window_start s) div second")
    case True
    then have fresh: "rl_count (limiter_window t (Some s)) = 0" "rl_window_start (limiter_window t (Some s)) = t"
      by (simp_all add: limiter_window_def)
    obtain s' where s': "rl_count s' = 1" "rl_window_start s' = t"
      and step: "passed (limiter_run limit (t # ts) (Some s)) = (if 0 < limit then 1 else 0) + passed (limiter_run limit ts (Some s'))"
      using limiter_step [of t "Some s" limit ts] fresh by (metis add_0)
    have "\<forall>u \<in> set ts. u < rl_window_start s' + second"
      using Cons.prems s' by fastforce
    from passed_in_window [OF this, of limit] s' show ?thesis unfolding step by (auto split: if_splits)
  next
    case False
    then have cur: "limiter_window t (Some s) = s"
      by (simp add: limiter_window_def)
    obtain s' where s': "rl_count s' = rl_count s + 1"
      and step: "passed (limiter_run limit (t # ts) (Some s)) = (if rl_count s < limit then 1 else 0) + passed (limiter_run limit ts (Some s'))"
      using limiter_step [of t "Some s" limit ts] cur by metis
    have "passed (limiter_run limit ts (Some s')) \<le> (limit - rl_count s') + limit"
      using Cons by (intro Cons.IH) simp_all
    with s' show ?thesis unfolding step by (auto split: if_splits)
  qed
qed (simp add: passed_def)

lemma passed_from_start: "limiter_run limit (t # ts) None = limiter_run limit (t # ts) (Some \<lparr>rl_count = 0, rl_window_start = t, rl_warned = False\<rparr>)"
  by (simp add: limiter_check_def limiter_window_def Let_def)

section \<open>URLs\<close>

lemma split_scheme_nonempty: "split_scheme s \<noteq> []"
  by (cases s) (auto split: list.splits)

lemma split_scheme_plain:
  assumes "CHR '':'' \<notin> set d"
  shows "split_scheme (d @ rest) = (case split_scheme rest of p # ps \<Rightarrow> (d @ p) # ps | [] \<Rightarrow> [d])"
  using assms split_scheme_nonempty [of rest]
  by (induction d) (auto simp: starts_with_def split: list.splits)

lemma hd_split_on: "c \<notin> set d \<Longrightarrow> hd (split_on c (d @ c # t)) = d"
  by (simp add: split_on_append_sep)

lemma hd_split_on_first:
  assumes "c \<notin> set a"
  shows "\<exists>b. hd (split_on c (a @ t)) = a @ b"
  using assms by (induction a) (auto split: list.splits)

lemma url_domain_userinfo:
  assumes "CHR '':'' \<notin> set d" and "CHR ''/'' \<notin> set d"
  shows "url_domain (''https://'' @ d @ '':x@'' @ h) = d"
proof -
  obtain p ps where p: "split_scheme h = p # ps" using split_scheme_nonempty [of h] by (cases "split_scheme h") auto
  then have "split_scheme (''https://'' @ d @ '':x@'' @ h) = ''https'' # (d @ '':x@'' @ p) # ps"
    using split_scheme_plain [OF assms(1), of "'':x@'' @ h"] by (simp add: starts_with_def)
  moreover obtain b where "hd (split_on (CHR ''/'') ((d @ '':x@'') @ p)) = (d @ '':x@'') @ b"
    using hd_split_on_first [of "CHR ''/''" "d @ '':x@''" p] assms(2) by auto
  ultimately show ?thesis
    using hd_split_on [OF assms(1)] by (simp add: url_domain_def)
qed

lemma url_scheme_https: "url_scheme (''https://'' @ rest) = ''https''"
  using split_scheme_nonempty [of rest] by (simp add: url_scheme_def starts_with_def ascii_lower_def less_eq_char_def)

section \<open>Properties\<close>


definition map_blobs :: "(string \<rightharpoonup> string) blob_backend" where
  "map_blobs =
     \<lparr>bb_store = (\<lambda>key data ct m. (Inr \<lparr>hb_key = key, hb_size_bytes = length data, hb_content_type = ''bin''\<rparr>, m(key \<mapsto> data))),
      bb_retrieve = (\<lambda>key m. (case m key of Some d \<Rightarrow> Inr (d, \<lparr>hb_key = key, hb_size_bytes = length d, hb_content_type = ''bin''\<rparr>)
        | None \<Rightarrow> Inl ''not found'', m)),
      bb_delete = (\<lambda>key m. (Inr (), m(key := None)))\<rparr>"

definition sample_codec :: host_codec where
  "sample_codec =
     \<lparr>hc_query = (\<lambda>_. Inr sample_query), hc_mutation = (\<lambda>i. Inr (MDelete ''web'' ''drafts'' i)), hc_messages = (\<lambda>_. Inr ''[]''),
      hc_emit = (\<lambda>i. Inr \<lparr>er_event_name = i, er_payload = JNull\<rparr>), hc_subscribe = Inr,
      hc_blob_store = (\<lambda>i. Inr \<lparr>bs_key = i, bs_data_base64 = i, bs_content_type = None\<rparr>), hc_blob_key = Inr,
      hc_blob_meta = (\<lambda>_. Inr ''{}''), hc_blob_response = (\<lambda>d _. Inr d), hc_unb64 = Inr, hc_b64 = (\<lambda>d. d),
      hc_http = (\<lambda>i. Inr \<lparr>hr_method = ''GET'', hr_url = i, hr_headers = [], hr_body = None\<rparr>),
      hc_http_response = (\<lambda>_. Inr ''{}''), hc_method = (\<lambda>m. m = ''GET''),
      hc_send = (\<lambda>_. Inr \<lparr>rr_status = 200, rr_headers = [], rr_body = Inr []\<rparr>), hc_lossy = (\<lambda>b. b),
      hc_from_slice = (\<lambda>_. Inr JNull), hc_to_vec = (\<lambda>_. Inr ''{}'')\<rparr>"

definition sample_deps :: "(sqlite_storage, string \<rightharpoonup> string) injection_deps" where
  "sample_deps = \<lparr>id_storage = sqlite_backend sample_backend, id_blobs = Some map_blobs, id_plugin_config = None,
     id_allowed_domains = Some [''api.example''], id_declared_emit = Some [''mail.sync.done''], id_execution_depth = 0\<rparr>"

definition sample_world :: "(sqlite_storage, string \<rightharpoonup> string) host_world" where
  "sample_world = \<lparr>hw_storage = sample_storage, hw_blobs = [''web/blobs/a'' \<mapsto> ''x''], hw_events = [], hw_requests = [],
     hw_limits = Map.empty, hw_log = []\<rparr>"

lemma map_blobs_frame: "blob_frame (\<lambda>m. m) map_blobs"
  by (simp add: blob_frame_def map_blobs_def moves_def elsewhere_def)


text \<open>
  C23: Capabilities gate the host functions twice. Exactly the functions whose capability is approved are injected
  (the blob functions only when there is a blob backend), logging always; and a function that is called without
  its capability changes nothing and fails with a violation.
\<close>

theorem capabilities_gate:
  "map fst (build_host_functions hc pid caps deps) =
     filter (\<lambda>n. (case required_capability n of Some c \<Rightarrow> has_cap caps c | None \<Rightarrow> True) \<and>
         (id_blobs deps = None \<longrightarrow> n \<notin> {''host_blob_retrieve'', ''host_blob_store'', ''host_blob_delete''}))
       [''host_log'', ''host_storage_read'', ''host_storage_write'', ''host_storage_delete'', ''host_blob_retrieve'', ''host_blob_store'',
        ''host_blob_delete'', ''host_http_request'', ''host_events_emit'', ''host_events_subscribe'', ''host_config_read''] \<and>
   (\<not> has_cap caps StorageRead \<longrightarrow> host_storage_read hc sb pid caps input w = (Inl (lacks_capability pid StorageRead), w)) \<and>
   (\<not> has_cap caps StorageWrite \<longrightarrow> host_storage_write hc sb pid caps input w = (Inl (lacks_capability pid StorageWrite), w)) \<and>
   (\<not> has_cap caps StorageDelete \<longrightarrow> host_storage_delete hc sb pid caps input w = (Inl (lacks_capability pid StorageDelete), w)) \<and>
   (\<not> has_cap caps StorageBlobWrite \<longrightarrow> host_blob_store hc bb pid caps input w = (Inl (lacks_capability pid StorageBlobWrite), w)) \<and>
   (\<not> has_cap caps StorageBlobRead \<longrightarrow> host_blob_retrieve hc bb pid caps input w = (Inl (lacks_capability pid StorageBlobRead), w)) \<and>
   (\<not> has_cap caps StorageBlobDelete \<longrightarrow> host_blob_delete hc bb pid caps input w = (Inl (lacks_capability pid StorageBlobDelete), w)) \<and>
   (\<not> has_cap caps HttpOutbound \<longrightarrow> host_http_request hc allowed pid caps input w = (Inl (lacks_capability pid HttpOutbound), w)) \<and>
   (\<not> has_cap caps EventsEmit \<longrightarrow> host_events_emit hc declared depth pid caps input w = (Inl (lacks_capability pid EventsEmit), w)) \<and>
   (\<not> has_cap caps EventsSubscribe \<longrightarrow> host_events_subscribe hc pid caps input w = (Inl (lacks_capability pid EventsSubscribe), w)) \<and>
   (\<not> has_cap caps ConfigRead \<longrightarrow> host_config_read hc config pid caps w = (Inl (lacks_capability pid ConfigRead), w))"
proof (intro conjI impI)
  show "map fst (build_host_functions hc pid caps deps) =
     filter (\<lambda>n. (case required_capability n of Some c \<Rightarrow> has_cap caps c | None \<Rightarrow> True) \<and>
         (id_blobs deps = None \<longrightarrow> n \<notin> {''host_blob_retrieve'', ''host_blob_store'', ''host_blob_delete''}))
       [''host_log'', ''host_storage_read'', ''host_storage_write'', ''host_storage_delete'', ''host_blob_retrieve'', ''host_blob_store'',
        ''host_blob_delete'', ''host_http_request'', ''host_events_emit'', ''host_events_subscribe'', ''host_config_read'']"
    by (cases "id_blobs deps") (simp_all add: build_host_functions_def when_cap_def required_capability_def)
qed (simp_all add: gate host_storage_read_def host_storage_write_def host_storage_delete_def host_blob_store_def
    host_blob_retrieve_def host_blob_delete_def host_http_request_def host_events_emit_def host_events_subscribe_def host_config_read_def)

theorem capabilities_gate_witness:
  "host_storage_write sample_codec (sqlite_backend sample_backend) ''mail'' [StorageRead] ''r2'' sample_world =
     (Inl (lacks_capability ''mail'' StorageWrite), sample_world)"
  using capabilities_gate [of sample_codec "''mail''" "[StorageRead]" sample_deps "sqlite_backend sample_backend" "''r2''" sample_world]
  by (simp add: has_cap_def)

text \<open>
  The capability to write is enough to delete. \<open>host_storage_write\<close> passes every mutation on, so a plugin
  that was granted \<open>storage:doc:write\<close> but not \<open>storage:doc:delete\<close> removes its records through it.
\<close>

theorem write_capability_deletes:
  assumes "has_cap caps StorageWrite" and "hc_mutation hc input = Inr (MDelete q c i)"
  shows "hw_storage (snd (host_storage_write hc sb pid caps input w)) = snd (sb_mutate sb (MDelete pid c i) (hw_storage w))"
  using assms by (simp add: host_storage_write_def check_runtime_capability_def s_bind_def on_storage_def s_check_def s_return_def
      split: prod.splits sum.splits)

theorem write_capability_deletes_witness:
  "map row_id (ss_rows (hw_storage (snd (host_storage_write sample_codec (sqlite_backend sample_backend) ''mail'' [StorageWrite] ''r2''
     sample_world)))) = [''r1'', ''r3''] \<and> \<not> has_cap [StorageWrite] StorageDelete"
proof -
  have "has_cap [StorageWrite] StorageWrite" and "hc_mutation sample_codec ''r2'' = Inr (MDelete ''web'' ''drafts'' ''r2'')"
    by (simp_all add: has_cap_def sample_codec_def)
  note deleted = write_capability_deletes [OF this, of "sqlite_backend sample_backend" "''mail''" sample_world]
  show ?thesis
    unfolding deleted
    by (simp add: sqlite_backend_def with_text_def execute_mutation.simps delete_data_def bind_b_stmt s_bind_def b_stmt_def
        audit_credential_def s_return_def has_cap_def sample_world_def sample_defs)
qed

text \<open>
  The allow-list of domains can be passed with user information in front of the host. For every allowed
  domain \<open>d\<close> the URL \<open>https://d:x@h\<close>, whose host is \<open>h\<close>, is accepted for any \<open>h\<close>: the check takes what is before
  the first colon of the authority for the domain.
\<close>

theorem userinfo_passes_allow_list:
  assumes "d \<in> set domains" and "CHR '':'' \<notin> set d" and "CHR ''/'' \<notin> set d"
  shows "check_url (Some domains) pid (''https://'' @ d @ '':x@'' @ h) = Inr ()"
  using assms(1) url_domain_userinfo [OF assms(2,3), of h] url_scheme_https [of "d @ '':x@'' @ h"]
  by (simp add: check_url_def del: append_Cons append_Nil)

theorem userinfo_passes_allow_list_witness:
  "check_url (Some [''api.example'']) ''mail'' (''https://'' @ ''api.example'' @ '':x@'' @ ''evil.example/'') = Inr ()"
  by (rule userinfo_passes_allow_list) simp_all

text \<open>
  The log rate. In any stretch of less than a second, from any state of the limiter, at most twice the limit
  of log entries of a plugin get through, and never more than the limit within one window; the bound of twice the
  limit is needed, because a stretch can see the end of one window and the start of the next.
\<close>

theorem log_rate_bounded:
  assumes "sorted ts" and "\<forall>t \<in> set ts. a \<le> t \<and> t < a + second"
  shows "passed (limiter_run limit ts st) \<le> 2 * limit \<and>
    (\<forall>s. st = Some s \<and> a \<le> rl_window_start s \<longrightarrow> passed (limiter_run limit ts st) \<le> limit)"
proof (intro conjI allI impI)
  show "passed (limiter_run limit ts st) \<le> 2 * limit"
  proof (cases st)
    case None
    show ?thesis
    proof (cases ts)
      case (Cons t ts')
      with None passed_in_second [OF assms, of limit "\<lparr>rl_count = 0, rl_window_start = t, rl_warned = False\<rparr>"] passed_from_start [of limit t ts']
      show ?thesis by (simp del: limiter_run.simps(2))
    qed (simp add: passed_def)
  next
    case (Some s)
    with passed_in_second [OF assms, of limit s] show ?thesis by simp
  qed
next
  fix s
  assume "st = Some s \<and> a \<le> rl_window_start s"
  then have st: "st = Some s" and "\<forall>t \<in> set ts. t < rl_window_start s + second"
    using assms(2) by fastforce+
  from passed_in_window [OF this(2), of limit] st show "passed (limiter_run limit ts st) \<le> limit"
    by simp
qed

theorem log_rate_bounded_witness:
  "passed (limiter_run 2 [999999999, 1000000000, 1000000001] (Some \<lparr>rl_count = 1, rl_window_start = 0, rl_warned = False\<rparr>)) = 3 \<and>
   passed (limiter_run 2 [999999999, 1000000000, 1000000001] (Some \<lparr>rl_count = 1, rl_window_start = 0, rl_warned = False\<rparr>)) \<le> 2 * 2"
proof -
  have "sorted [999999999, 1000000000, 1000000001 :: nat]"
    and "\<forall>t \<in> set [999999999, 1000000000, 1000000001 :: nat]. 999999999 \<le> t \<and> t < 999999999 + second"
    by simp_all
  from log_rate_bounded [OF this, of 2 "Some \<lparr>rl_count = 1, rl_window_start = 0, rl_warned = False\<rparr>"] show ?thesis
    by (simp add: limiter_check_def limiter_window_def passed_def Let_def)
qed

end
