(* ===== verification/Plugin_System.thy ===== *)
theory Plugin_System
  imports Host_Props Lifecycle Executor_Props
begin

text \<open>
  From a directory to running plugins: discovery (\<open>plugin-system/src/discovery.rs\<close>), loading with approval and
  injection (\<open>loader.rs\<close>), the WASM runtime wrapper (\<open>runtime.rs\<close>) and the executor the workflow engine calls
  (\<open>execute.rs\<close>). A WASM module is a parameter: what it does on an action and an input is a tree of calls of host
  functions, whose answers choose the branch. A module that does not end is stopped by the runtime's timeout, so
  the tree is well-founded; a trap, a timeout and a host function that fails end the call with an error.
\<close>

section \<open>Discovery\<close>

record discovered_plugin =
  dp_path :: string
  dp_wasm_path :: string
  dp_manifest_path :: string

record fs_env =
  fe_exists :: "string \<Rightarrow> bool"
  fe_is_dir :: "string \<Rightarrow> bool"
  fe_read_dir :: "string \<Rightarrow> (string, (string, string) result list) result"

definition scan_entry :: "fs_env \<Rightarrow> string \<Rightarrow> string \<Rightarrow> discovered_plugin list" where
  "scan_entry fs dir name =
     (let p = path_join dir name
      in if \<not> fe_is_dir fs p then []
         else if fe_exists fs (path_join p ''plugin.wasm'') \<and> fe_exists fs (path_join p ''manifest.toml'')
         then [\<lparr>dp_path = p, dp_wasm_path = path_join p ''plugin.wasm'', dp_manifest_path = path_join p ''manifest.toml''\<rparr>]
         else [])"

definition scan_plugins_directory :: "fs_env \<Rightarrow> string \<Rightarrow> (plugin_error, discovered_plugin list) result" where
  "scan_plugins_directory fs dir =
     (if \<not> fe_exists fs dir then Inl (DirectoryNotFound dir)
      else if \<not> fe_is_dir fs dir then Inl (DirectoryNotFound (dir @ '' is not a directory''))
      else r_bind (map_err DirectoryScanFailed (fe_read_dir fs dir)) (\<lambda>entries.
        r_bind (map_r (map_err DirectoryScanFailed) entries) (\<lambda>names.
        Inr (concat (map (scan_entry fs dir) (sort names))))))"

section \<open>The WASM runtime\<close>

datatype wasm = Return "(string, string) result" | Call nat string string "string \<Rightarrow> wasm"

type_synonym wasm_module = "string \<Rightarrow> string \<Rightarrow> wasm"

type_synonym ('s, 'b) host_functions = "(string \<times> (nat \<Rightarrow> string \<Rightarrow> ('s, 'b, string) hop)) list"

text \<open>The runtime reports the error of a host function in a text of its own, \<open>render\<close>.\<close>

primrec run_wasm :: "(string \<Rightarrow> string) \<Rightarrow> ('s, 'b) host_functions \<Rightarrow> wasm \<Rightarrow> (string, ('s, 'b) host_world, string) action" where
  "run_wasm render fns (Return r) = (\<lambda>w. (r, w))"
| "run_wasm render fns (Call now name input k) = (\<lambda>w.
     case map_of fns name of
       None \<Rightarrow> (Inl (''unknown import: '' @ name), w)
     | Some f \<Rightarrow> (case f now input w of
         (Inl e, w') \<Rightarrow> (Inl (render (plugin_error_to_string e)), w')
       | (Inr out, w') \<Rightarrow> run_wasm render fns (k out) w'))"

definition trap_indicators :: "string list" where
  "trap_indicators =
     [''unreachable'', ''out of bounds'', ''call stack exhausted'', ''stack overflow'', ''indirect call type mismatch'',
      ''integer overflow'', ''integer divide by zero'', ''invalid conversion'', ''undefined element'',
      ''uninitialized element'', ''wasm trap'', ''wasm `unreachable`'', ''error while executing at wasm'', ''wasm backtrace'']"

definition is_wasm_trap :: "string \<Rightarrow> bool" where
  "is_wasm_trap msg \<longleftrightarrow> list_ex (contains_str (map ascii_lower msg)) trap_indicators"

definition instance_call ::
  "(string \<Rightarrow> string) \<Rightarrow> ('s, 'b) host_functions \<Rightarrow> wasm_module \<Rightarrow> string \<Rightarrow> string \<Rightarrow> ('s, 'b, string) hop" where
  "instance_call render fns wm function_name input w =
     (case run_wasm render fns (wm function_name input) w of
        (Inr out, w') \<Rightarrow> (Inr out, w')
      | (Inl e, w') \<Rightarrow>
          (let msg = function_name @ '': '' @ e
           in (Inl (if is_wasm_trap msg then Crash msg else ExecutionFailed msg), w')))"

section \<open>Loading\<close>

record ('s, 'b) plugin_handle =
  ph_module :: wasm_module
  ph_functions :: "('s, 'b) host_functions"
  ph_manifest :: plugin_manifest
  ph_capabilities :: approved_capabilities

record loader_config =
  lc_approved :: "string \<rightharpoonup> capability list"
  lc_plugin_configs :: "string \<rightharpoonup> json"

record ('s, 'b) loader_env =
  le_fs :: fs_env
  le_manifest :: manifest_env
  le_codec :: host_codec
  le_build :: "string \<Rightarrow> string \<Rightarrow> (plugin_error, wasm_module) result"
  le_storage :: "'s storage_backend"
  le_blobs :: "'b blob_backend option"

definition some_unless_empty :: "'a list \<Rightarrow> 'a list option" where
  "some_unless_empty xs = (if xs = [] then None else Some xs)"

definition deps_for :: "('s, 'b) loader_env \<Rightarrow> loader_config \<Rightarrow> plugin_manifest \<Rightarrow> ('s, 'b) injection_deps" where
  "deps_for env cfg m =
     \<lparr>id_storage = le_storage env, id_blobs = le_blobs env, id_plugin_config = lc_plugin_configs cfg (pm_id (mf_plugin m)),
      id_allowed_domains = None, id_declared_emit = some_unless_empty (ev_emit (mf_events m)), id_execution_depth = 0\<rparr>"

definition load_single_plugin ::
  "('s, 'b) loader_env \<Rightarrow> string \<Rightarrow> loader_config \<Rightarrow> discovered_plugin \<Rightarrow> (plugin_error, ('s, 'b) plugin_handle) result" where
  "load_single_plugin env first_party_dir cfg plugin =
     r_bind (parse_manifest (le_manifest env) (dp_manifest_path plugin)) (\<lambda>m.
     r_bind (check_capability_approval (me_canonicalize (le_manifest env)) (pm_id (mf_plugin m)) (mf_capabilities m)
         (dp_path plugin) first_party_dir (unwrap_or (lc_approved cfg (pm_id (mf_plugin m))) [])) (\<lambda>caps.
     r_bind (le_build env (dp_wasm_path plugin) (pm_id (mf_plugin m))) (\<lambda>wm.
     Inr \<lparr>ph_module = wm, ph_functions = build_host_functions (le_codec env) (pm_id (mf_plugin m)) caps (deps_for env cfg m),
          ph_manifest = m, ph_capabilities = caps\<rparr>)))"

abbreviation handle_id :: "('s, 'b) plugin_handle \<Rightarrow> string" where
  "handle_id h \<equiv> pm_id (mf_plugin (ph_manifest h))"

text \<open>The loop of \<open>load_plugins\<close>: a plugin that fails, or whose id was loaded before, is skipped.\<close>

fun load_each ::
  "('s, 'b) loader_env \<Rightarrow> string \<Rightarrow> loader_config \<Rightarrow> string list \<Rightarrow> discovered_plugin list \<Rightarrow> ('s, 'b) plugin_handle list" where
  "load_each env first_party_dir cfg seen [] = []"
| "load_each env first_party_dir cfg seen (p # ps) =
     (case load_single_plugin env first_party_dir cfg p of
        Inr h \<Rightarrow>
          if handle_id h \<in> set seen then load_each env first_party_dir cfg seen ps
          else h # load_each env first_party_dir cfg (handle_id h # seen) ps
      | Inl _ \<Rightarrow> load_each env first_party_dir cfg seen ps)"

definition load_plugins ::
  "('s, 'b) loader_env \<Rightarrow> string \<Rightarrow> string \<Rightarrow> loader_config \<Rightarrow> (plugin_error, ('s, 'b) plugin_handle list) result" where
  "load_plugins env plugins_dir first_party_dir cfg =
     r_bind (scan_plugins_directory (le_fs env) plugins_dir) (\<lambda>discovered.
     if discovered = [] then Inr [] else Inr (load_each env first_party_dir cfg [] discovered))"

section \<open>The executor\<close>

record ('s, 'b) plugin_system =
  ps_handles :: "string \<rightharpoonup> ('s, 'b) plugin_handle"
  ps_lifecycle :: lifecycle_manager

definition plugin_system_new :: "('s, 'b) plugin_handle list \<Rightarrow> lifecycle_manager \<Rightarrow> ('s, 'b) plugin_system" where
  "plugin_system_new handles lm = \<lparr>ps_handles = map_of (rev (map (\<lambda>h. (handle_id h, h)) handles)), ps_lifecycle = lm\<rparr>"

record message_codec =
  mc_encode :: "pipeline_message \<Rightarrow> (string, string) result"
  mc_decode :: "string \<Rightarrow> (string, pipeline_message) result"
  mc_render :: "string \<Rightarrow> string"

definition plugin_execute ::
  "message_codec \<Rightarrow> ('s, 'b) plugin_system \<Rightarrow> string \<Rightarrow> string \<Rightarrow> pipeline_message \<Rightarrow> ('s, 'b, pipeline_message) hop" where
  "plugin_execute mc ps pid action input =
     s_bind (s_check (case plugin_state (ps_lifecycle ps) pid of
         Some Running \<Rightarrow> Inr ()
       | Some s \<Rightarrow> Inl (ExecutionFailed (''plugin '' @ quoted pid @ '' is not running (current state: '' @ lifecycle_state_to_string s @ '')''))
       | None \<Rightarrow> Inl (ExecutionFailed (''plugin '' @ quoted pid @ '' not found'')))) (\<lambda>_.
     s_bind (s_check (ok_or (ps_handles ps pid) (ExecutionFailed (''plugin '' @ quoted pid @ '' not found'')))) (\<lambda>h.
     s_bind (s_check (guard (action \<in> set (map fst (mf_actions (ph_manifest h))))
         (ExecutionFailed (''unknown action '' @ quoted action @ '' for plugin '' @ quoted pid)))) (\<lambda>_.
     s_bind (s_check (map_err (failed ''failed to serialize input for plugin '' pid) (mc_encode mc input))) (\<lambda>input_bytes.
     s_bind (instance_call (mc_render mc) (ph_functions h) (ph_module h) action input_bytes) (\<lambda>output_bytes.
     s_check (map_err (\<lambda>e. ExecutionFailed (''invalid output from plugin '' @ quoted pid @ '' action '' @ quoted action @ '': '' @ e))
       (mc_decode mc output_bytes)))))))"

text \<open>The executor as the runtime of the workflow engine; the clock and fresh ids are counted beside the world.\<close>

definition plugin_runtime ::
  "message_codec \<Rightarrow> ('s, 'b) plugin_system \<Rightarrow> (nat \<Rightarrow> timestamp) \<Rightarrow> (nat \<Rightarrow> uuid) \<Rightarrow> schema_compiler \<Rightarrow> (typed_payload \<Rightarrow> string) \<Rightarrow> bool \<Rightarrow>
   (('s, 'b) host_world \<times> nat) runtime" where
  "plugin_runtime mc ps clock uuids vf payload_text checks =
     \<lparr>rt_execute = (\<lambda>pid action m (w, n). case plugin_execute mc ps pid action m w of (r, w') \<Rightarrow>
        (map_err plugin_error_as_engine_error r, (w', n))),
      rt_now = (\<lambda>(w, n). (clock n, (w, Suc n))), rt_sleep = (\<lambda>_ wn. wn), rt_new_uuid = (\<lambda>(w, n). (uuids n, (w, Suc n))),
      rt_emit = (\<lambda>name pl (w, n). (w\<lparr>hw_events := hw_events w @ [(name, pl)]\<rparr>, n)),
      rt_validator_for = vf, rt_payload_text = payload_text, rt_overflow_checks = checks\<rparr>"

section \<open>Loaded plugins\<close>

lemma load_single_sound:
  assumes "load_single_plugin env fp cfg p = Inr h"
  shows "parse_manifest (le_manifest env) (dp_manifest_path p) = Inr (ph_manifest h) \<and>
    set (ph_capabilities h) = set (mf_capabilities (ph_manifest h)) \<and>
    (is_first_party (me_canonicalize (le_manifest env)) (dp_path p) fp \<or>
      set (mf_capabilities (ph_manifest h)) \<subseteq> set (unwrap_or (lc_approved cfg (handle_id h)) [])) \<and>
    ph_functions h = build_host_functions (le_codec env) (handle_id h) (ph_capabilities h) (deps_for env cfg (ph_manifest h))"
proof -
  obtain m caps wm where m: "parse_manifest (le_manifest env) (dp_manifest_path p) = Inr m"
    and caps: "check_capability_approval (me_canonicalize (le_manifest env)) (pm_id (mf_plugin m)) (mf_capabilities m)
      (dp_path p) fp (unwrap_or (lc_approved cfg (pm_id (mf_plugin m))) []) = Inr caps"
    and h: "h = \<lparr>ph_module = wm, ph_functions = build_host_functions (le_codec env) (pm_id (mf_plugin m)) caps (deps_for env cfg m),
      ph_manifest = m, ph_capabilities = caps\<rparr>"
    using assms by (auto simp: load_single_plugin_def r_bind_eq_Inr)
  from m approval_sound [OF caps] show ?thesis unfolding h by auto
qed

lemma load_each_sound:
  "h \<in> set (load_each env fp cfg seen ps) \<Longrightarrow> \<exists>p \<in> set ps. load_single_plugin env fp cfg p = Inr h"
  by (induction ps arbitrary: seen) (auto split: sum.splits if_splits)

lemma load_each_distinct:
  "distinct (map handle_id (load_each env fp cfg seen ps)) \<and> set (map handle_id (load_each env fp cfg seen ps)) \<inter> set seen = {}"
proof (induction ps arbitrary: seen)
  case (Cons p ps)
  show ?case
  proof (cases "load_single_plugin env fp cfg p")
    case (Inr h)
    with Cons [of seen] Cons [of "handle_id h # seen"] show ?thesis by auto
  qed (use Cons in simp)
qed simp

lemma load_each_complete:
  "p \<in> set ps \<Longrightarrow> load_single_plugin env fp cfg p = Inr h \<Longrightarrow>
   handle_id h \<in> set (map handle_id (load_each env fp cfg seen ps)) \<union> set seen"
proof (induction ps arbitrary: seen)
  case (Cons q ps)
  show ?case
  proof (cases "load_single_plugin env fp cfg q")
    case (Inl e)
    with Cons.prems Cons.IH [of seen] show ?thesis by auto
  next
    case (Inr g)
    with Cons.prems Cons.IH [of seen] Cons.IH [of "handle_id g # seen"] show ?thesis by auto
  qed
qed simp

section \<open>Confinement of workflows\<close>

text \<open>Against a set of plugins: the rows of all others, and what is appended on their behalf.\<close>

definition unowned_rows :: "string set \<Rightarrow> sqlite_storage \<Rightarrow> sql_row list" where
  "unowned_rows ids st = filter (\<lambda>r. row_plugin_id r \<notin> ids) (ss_rows st)"

definition confined :: "string set \<Rightarrow> (sqlite_storage, 'b) host_world \<Rightarrow> (sqlite_storage, 'b) host_world \<Rightarrow> bool" where
  "confined ids w w' \<longleftrightarrow>
     unowned_rows ids (hw_storage w') = unowned_rows ids (hw_storage w) \<and>
     appended (\<lambda>e. \<exists>pid \<in> ids. own_event pid None e) (hw_events w) (hw_events w') \<and>
     appended (\<lambda>l. fst l \<in> ids) (hw_log w) (hw_log w')"

interpretation conf: state_order "confined ids"
proof
  fix a b c :: "(sqlite_storage, 'b) host_world"
  assume "confined ids a b" "confined ids b c"
  then show "confined ids a c"
    unfolding confined_def by (auto intro: appended_trans)
qed (simp add: confined_def)

lemma appended_mono: "appended P xs ys \<Longrightarrow> (\<And>x. P x \<Longrightarrow> Q x) \<Longrightarrow> appended Q xs ys"
  by (auto simp: appended_def list_all_iff)

lemma unowned_of_foreign: "pid \<in> ids \<Longrightarrow> unowned_rows ids st = filter (\<lambda>r. row_plugin_id r \<notin> ids) (foreign_rows pid st)"
  by (auto simp: unowned_rows_def foreign_rows_def intro: filter_cong)

lemma sandbox_confined:
  assumes "sandbox foreign_rows blob pid declared allowed w w'" and "pid \<in> ids"
  shows "confined ids w w'"
proof -
  have "own_event pid None e" if "own_event pid declared e" for e
    using that by (auto simp: own_event_def)
  with assms show ?thesis
    unfolding sandbox_def confined_def
    by (auto simp: unowned_of_foreign elim!: appended_mono)
qed

text \<open>Functions that were injected for a plugin over the SQLite backend, without a blob backend.\<close>

definition injected_for :: "backend_env \<Rightarrow> string \<Rightarrow> (sqlite_storage, 'b) host_functions \<Rightarrow> bool" where
  "injected_for benv pid fns \<longleftrightarrow>
     (\<exists>hc caps deps. fns = build_host_functions hc pid caps deps \<and> id_storage deps = sqlite_backend benv \<and> id_blobs deps = None)"

lemma injected_function_confined:
  assumes "injected_for benv pid fns" and "map_of fns name = Some f" and "pid \<in> ids"
  shows "confined ids w (snd (f now input w))"
proof -
  obtain hc caps deps where fns: "fns = build_host_functions hc pid caps deps" "id_storage deps = sqlite_backend benv" "id_blobs deps = None"
    using assms(1) by (auto simp: injected_for_def)
  have "moves (sandbox foreign_rows (\<lambda>_ _. ()) pid (id_declared_emit deps) (id_allowed_domains deps)) (f now input)"
    using plugin_data.injected_boxed [OF fns(2)] fns(1,3) map_of_SomeD [OF assms(2)] by simp
  then show ?thesis
    using sandbox_confined [OF _ assms(3)] unfolding moves_def by blast
qed

lemma run_wasm_confined:
  assumes "injected_for benv pid fns" and "pid \<in> ids"
  shows "confined ids w (snd (run_wasm render fns prog w))"
proof (induction prog arbitrary: w)
  case (Call now name input k)
  show ?case
  proof (cases "map_of fns name")
    case (Some f)
    obtain r w' where f: "f now input w = (r, w')" by force
    have "confined ids w w'"
      using injected_function_confined [OF assms(1) Some assms(2), of w now input] f by simp
    with Some f Call show ?thesis
      by (cases r) (auto intro: conf.R_trans)
  qed (simp add: conf.R_refl)
qed (simp add: conf.R_refl)

lemma instance_call_confined:
  assumes "injected_for benv pid fns" and "pid \<in> ids"
  shows "moves (confined ids) (instance_call render fns wm name input)"
  using run_wasm_confined [OF assms] unfolding moves_def instance_call_def
  by (auto simp: Let_def split: prod.splits sum.splits) (metis snd_conv)+

lemma plugin_execute_confined:
  assumes "\<And>pid h. ps_handles ps pid = Some h \<Longrightarrow> injected_for benv pid (ph_functions h) \<and> pid \<in> ids"
  shows "moves (confined ids) (plugin_execute mc ps pid action m)"
  unfolding plugin_execute_def
proof (intro conf.moves_checked conf.moves_bind conf.moves_check)
  fix h bytes
  assume "ok_or (ps_handles ps pid) (ExecutionFailed (''plugin '' @ quoted pid @ '' not found'')) = Inr h"
  with assms [of pid h] show "moves (confined ids) (instance_call (mc_render mc) (ph_functions h) (ph_module h) action bytes)"
    by (auto simp: ok_or_eq_Inr intro: instance_call_confined)
qed

text \<open>A plugin system loaded from disk over the SQLite backend.\<close>

definition loaded_system ::
  "backend_env \<Rightarrow> (sqlite_storage, 'b) loader_env \<Rightarrow> string \<Rightarrow> string \<Rightarrow> loader_config \<Rightarrow> lifecycle_manager \<Rightarrow> (sqlite_storage, 'b) plugin_system" where
  "loaded_system benv env plugins_dir first_party_dir cfg lm =
     plugin_system_new (case load_plugins (env\<lparr>le_storage := sqlite_backend benv, le_blobs := None\<rparr>) plugins_dir first_party_dir cfg of
       Inr hs \<Rightarrow> hs | Inl _ \<Rightarrow> []) lm"

definition loaded_ids :: "('s, 'b) plugin_system \<Rightarrow> string set" where
  "loaded_ids ps = dom (ps_handles ps)"

lemma handle_in_system:
  "ps_handles (plugin_system_new hs lm) pid = Some h \<Longrightarrow> h \<in> set hs \<and> handle_id h = pid"
  by (auto simp: plugin_system_new_def dest!: map_of_SomeD)

lemma loaded_handle_injected:
  assumes "ps_handles (loaded_system benv env pd fp cfg lm) pid = Some h"
  shows "injected_for benv pid (ph_functions h) \<and> pid \<in> loaded_ids (loaded_system benv env pd fp cfg lm)"
proof -
  let ?env = "env\<lparr>le_storage := sqlite_backend benv, le_blobs := None\<rparr>"
  obtain hs where hs: "load_plugins ?env pd fp cfg = Inr hs" "h \<in> set hs" "handle_id h = pid"
    using handle_in_system [OF assms [unfolded loaded_system_def]] by (cases "load_plugins ?env pd fp cfg") auto
  then obtain ps where "h \<in> set (load_each ?env fp cfg [] ps)"
    by (auto simp: load_plugins_def r_bind_eq_Inr split: if_splits)
  then obtain p where p: "load_single_plugin ?env fp cfg p = Inr h" using load_each_sound by blast
  have "id_storage (deps_for ?env cfg (ph_manifest h)) = sqlite_backend benv" "id_blobs (deps_for ?env cfg (ph_manifest h)) = None"
    by (simp_all add: deps_for_def)
  with load_single_sound [OF p] hs(3) have "injected_for benv pid (ph_functions h)"
    unfolding injected_for_def by blast
  with assms show ?thesis by (auto simp: loaded_ids_def)
qed

definition stays_in :: "string set \<Rightarrow> (sqlite_storage, 'b) host_world \<Rightarrow> (sqlite_storage, 'b) host_world \<times> nat \<Rightarrow> bool" where
  "stays_in ids w0 wn = confined ids w0 (fst wn)"

lemma runtime_execute_stays:
  assumes "stays_in (loaded_ids (loaded_system benv env pd fp cfg lm)) w0 wn"
  shows "stays_in (loaded_ids (loaded_system benv env pd fp cfg lm)) w0
    (snd (rt_execute (plugin_runtime mc (loaded_system benv env pd fp cfg lm) clock uuids vf payload_text checks) p a m wn))"
proof -
  let ?ps = "loaded_system benv env pd fp cfg lm"
  have "confined (loaded_ids ?ps) (fst wn) (snd (plugin_execute mc ?ps p a m (fst wn)))"
    using plugin_execute_confined [OF loaded_handle_injected] unfolding moves_def by blast
  with assms have "confined (loaded_ids ?ps) w0 (snd (plugin_execute mc ?ps p a m (fst wn)))"
    unfolding stays_in_def by (rule conf.R_trans)
  then show ?thesis by (cases wn) (auto simp: plugin_runtime_def stays_in_def split: prod.splits)
qed

interpretation hosted: pipeline_host "plugin_runtime mc (loaded_system benv env pd fp cfg lm) clock uuids vf payload_text checks"
    "\<lambda>_. True" "stays_in (loaded_ids (loaded_system benv env pd fp cfg lm)) w0"
  for mc benv env pd fp cfg lm clock uuids vf payload_text checks w0
  by unfold_locales
    (simp_all add: runtime_execute_stays, auto simp: plugin_runtime_def stays_in_def split: prod.splits)

section \<open>Properties\<close>

text \<open>
  C22: What loading yields. The loaded plugins have distinct ids; each was discovered in the directory, its manifest
  was accepted, its capabilities are exactly those it declares, and unless it lies in the first-party directory each
  of them was approved for it in the configuration; it got exactly the host functions of these capabilities. And a
  plugin that cannot be loaded never keeps another from being loaded: the id of every discovered plugin that loads
  on its own is among the loaded ones.
\<close>

theorem loaded_plugins:
  assumes "load_plugins env plugins_dir first_party_dir cfg = Inr handles"
  shows "\<exists>discovered. scan_plugins_directory (le_fs env) plugins_dir = Inr discovered \<and>
    distinct (map handle_id handles) \<and>
    (\<forall>h \<in> set handles. \<exists>p \<in> set discovered.
       parse_manifest (le_manifest env) (dp_manifest_path p) = Inr (ph_manifest h) \<and>
       set (ph_capabilities h) = set (mf_capabilities (ph_manifest h)) \<and>
       (is_first_party (me_canonicalize (le_manifest env)) (dp_path p) first_party_dir \<or>
         set (mf_capabilities (ph_manifest h)) \<subseteq> set (unwrap_or (lc_approved cfg (handle_id h)) [])) \<and>
       ph_functions h = build_host_functions (le_codec env) (handle_id h) (ph_capabilities h) (deps_for env cfg (ph_manifest h))) \<and>
    (\<forall>p \<in> set discovered. \<forall>h. load_single_plugin env first_party_dir cfg p = Inr h \<longrightarrow> handle_id h \<in> set (map handle_id handles))"
proof -
  obtain ds where ds: "scan_plugins_directory (le_fs env) plugins_dir = Inr ds" "handles = load_each env first_party_dir cfg [] ds"
    using assms by (auto simp: load_plugins_def r_bind_eq_Inr split: if_splits)
  have "distinct (map handle_id handles)"
    using load_each_distinct [of env first_party_dir cfg "[]" ds] ds(2) by simp
  moreover have "handle_id h \<in> set (map handle_id handles)" if "p \<in> set ds" "load_single_plugin env first_party_dir cfg p = Inr h" for p h
    using load_each_complete [OF that, of "[]"] ds(2) by simp
  moreover have "\<exists>p \<in> set ds. load_single_plugin env first_party_dir cfg p = Inr h" if "h \<in> set handles" for h
    using load_each_sound that ds(2) by blast
  ultimately show ?thesis
    using ds(1) load_single_sound [of env first_party_dir cfg] by (intro exI [of _ ds] conjI ballI) (assumption | meson)+
qed

definition sample_loader :: "(sqlite_storage, string \<rightharpoonup> string) loader_env" where
  "sample_loader =
     \<lparr>le_fs = \<lparr>fe_exists = (\<lambda>_. True), fe_is_dir = (\<lambda>_. True), fe_read_dir = (\<lambda>_. Inr [Inr ''mail'', Inr ''copy''])\<rparr>,
      le_manifest = sample_manifest_env, le_codec = sample_codec, le_build = (\<lambda>_ _. Inr (\<lambda>_ input. Return (Inr input))),
      le_storage = sqlite_backend sample_backend, le_blobs = None\<rparr>"

definition sample_approval :: loader_config where
  "sample_approval = \<lparr>lc_approved = [''mail'' \<mapsto> [EventsEmit, StorageWrite]], lc_plugin_configs = Map.empty\<rparr>"

definition sample_handle :: "(sqlite_storage, string \<rightharpoonup> string) plugin_handle" where
  "sample_handle =
     \<lparr>ph_module = (\<lambda>_ input. Return (Inr input)),
      ph_functions = build_host_functions sample_codec ''mail'' [StorageWrite, EventsEmit] (deps_for sample_loader sample_approval sample_manifest),
      ph_manifest = sample_manifest, ph_capabilities = [StorageWrite, EventsEmit]\<rparr>"

lemma sample_load_single: "load_single_plugin sample_loader ''core'' sample_approval p = Inr sample_handle"
proof -
  have "parse_manifest (le_manifest sample_loader) (dp_manifest_path p) = Inr sample_manifest"
    by (simp add: parse_manifest_def sample_loader_def sample_manifest_parsed) (simp add: sample_manifest_env_def)
  then show ?thesis
    by (simp add: load_single_plugin_def sample_handle_def check_capability_approval_def is_first_party_def unwrap_or_def)
      (simp add: sample_loader_def sample_manifest_env_def sample_manifest_def sample_approval_def)
qed

lemma sample_loaded: "load_plugins sample_loader ''plugins'' ''core'' sample_approval = Inr [sample_handle]"
proof -
  obtain p q where "scan_plugins_directory (le_fs sample_loader) ''plugins'' = Inr [p, q]"
    by (simp add: scan_plugins_directory_def scan_entry_def sample_loader_def Let_def)
  then show ?thesis by (simp add: load_plugins_def sample_load_single)
qed

theorem loaded_plugins_witness:
  "\<exists>discovered. scan_plugins_directory (le_fs sample_loader) ''plugins'' = Inr discovered \<and>
     (\<exists>p \<in> set discovered. parse_manifest sample_manifest_env (dp_manifest_path p) = Inr sample_manifest)"
proof -
  have "le_manifest sample_loader = sample_manifest_env" "ph_manifest sample_handle = sample_manifest"
    by (simp_all add: sample_loader_def sample_handle_def)
  with loaded_plugins [OF sample_loaded] show ?thesis by auto
qed

text \<open>
  Only running plugins run. A call of a plugin that is not in the state running, or of an action its manifest
  does not declare, fails before any code of the plugin runs and changes nothing.
\<close>

theorem only_running_plugins_run:
  assumes "plugin_state (ps_lifecycle ps) pid \<noteq> Some Running \<or>
    (\<forall>h. ps_handles ps pid = Some h \<longrightarrow> action \<notin> set (map fst (mf_actions (ph_manifest h))))"
  shows "\<exists>e. plugin_execute mc ps pid action input w = (Inl (ExecutionFailed e), w)"
  using assms
  by (cases "ps_handles ps pid")
    (auto simp: plugin_execute_def guard_def ok_or_def split: option.splits lifecycle_state.splits)

theorem only_running_plugins_run_witness:
  "\<forall>mc input. \<exists>e. plugin_execute mc (plugin_system_new [sample_handle] (register ''mail'' lm_new)) ''mail'' ''sync'' input sample_world =
     (Inl (ExecutionFailed e), sample_world)"
  by (intro allI only_running_plugins_run) (simp add: plugin_system_new_def register_def lm_new_def plugin_state_def)


end
