(* ===== verification/Migration_Manifest.thy ===== *)
theory Migration_Manifest
  imports Engine_Error
begin

text \<open>
  The \<open>[[migrations]]\<close> entries of a plugin manifest (\<open>workflow-engine/src/migration/manifest.rs\<close>, the errors of
  \<open>migration/mod.rs\<close> and the export check of \<open>migration/validate.rs\<close>). The \<open>semver\<close> crate is a parameter: it parses
  and prints versions, and orders the pre-release and build parts by a rank; that versions are ordered by their three
  numbers first is what the crate documents. The order in which a \<open>HashMap\<close> yields its keys is a parameter too.
\<close>

section \<open>Errors\<close>

datatype migration_error =
    ManifestParse string
  | ManifestValidation string
  | TransformFailed string string
  | TransformCrashed string string

fun migration_error_to_string :: "migration_error \<Rightarrow> string" where
  "migration_error_to_string (ManifestParse e) = ''migration manifest parse error: '' @ e"
| "migration_error_to_string (ManifestValidation e) = ''migration manifest validation error: '' @ e"
| "migration_error_to_string (TransformFailed f e) = ''migration transform failed for '' @ quoted f @ '': '' @ e"
| "migration_error_to_string (TransformCrashed f e) = ''migration transform crashed for '' @ quoted f @ '': '' @ e"

fun migration_error_code :: "migration_error \<Rightarrow> string" where
  "migration_error_code (ManifestParse _) = ''MIGRATION_001''"
| "migration_error_code (ManifestValidation _) = ''MIGRATION_002''"
| "migration_error_code (TransformFailed _ _) = ''MIGRATION_003''"
| "migration_error_code (TransformCrashed _ _) = ''MIGRATION_004''"

fun migration_error_severity :: "migration_error \<Rightarrow> severity" where
  "migration_error_severity (TransformFailed _ _) = Retryable"
| "migration_error_severity _ = Fatal"

section \<open>Versions\<close>

record version =
  v_major :: nat
  v_minor :: nat
  v_patch :: nat
  v_pre :: string
  v_build :: string

definition version_new :: "nat \<Rightarrow> nat \<Rightarrow> nat \<Rightarrow> version" where
  "version_new a b c = \<lparr>v_major = a, v_minor = b, v_patch = c, v_pre = [], v_build = []\<rparr>"

record raw_migration_entry =
  rme_from :: "string option"
  rme_to :: "string option"
  rme_transform :: "string option"
  rme_description :: "string option"
  rme_collection :: "string option"

record migration_lib =
  ml_read_file :: "string \<Rightarrow> (string, string) result"
  ml_toml :: "string \<Rightarrow> (string, raw_migration_entry list option) result"
  ml_parse :: "string \<Rightarrow> (string, version) result"
  ml_show :: "version \<Rightarrow> string"
  ml_rank :: "string \<Rightarrow> string \<Rightarrow> real"
  ml_key_order :: "string list \<Rightarrow> string list"
  ml_payloads :: "string \<Rightarrow> (string, (string, string \<times> bool) result list option) result list"

definition version_less :: "migration_lib \<Rightarrow> version \<Rightarrow> version \<Rightarrow> bool" where
  "version_less lib a b \<longleftrightarrow>
     v_major a < v_major b \<or> v_major a = v_major b \<and>
     (v_minor a < v_minor b \<or> v_minor a = v_minor b \<and>
     (v_patch a < v_patch b \<or> v_patch a = v_patch b \<and> ml_rank lib (v_pre a) (v_build a) < ml_rank lib (v_pre b) (v_build b)))"

record migration_entry =
  me_from :: string
  me_to :: version
  me_transform :: string
  me_description :: string
  me_collection :: string

section \<open>Version ranges\<close>

datatype version_range = MajorWildcard nat | MinorWildcard nat nat | Exact nat nat nat

definition part :: "string \<Rightarrow> nat" where
  "part s = (case parse_u64 s of Some n \<Rightarrow> n | None \<Rightarrow> 0)"

definition range_parse :: "string \<Rightarrow> version_range" where
  "range_parse from_range =
     (case split_on dot from_range of
        [a, b] \<Rightarrow> MajorWildcard (part a)
      | [a, b, c] \<Rightarrow> if c = ''x'' then MinorWildcard (part a) (part b) else Exact (part a) (part b) (part c)
      | _ \<Rightarrow> Exact 0 0 0)"

fun range_overlaps :: "version_range \<Rightarrow> version_range \<Rightarrow> bool" where
  "range_overlaps (MajorWildcard m1) (MajorWildcard m2) \<longleftrightarrow> m1 = m2"
| "range_overlaps (MajorWildcard m1) (MinorWildcard m2 _) \<longleftrightarrow> m1 = m2"
| "range_overlaps (MinorWildcard m2 _) (MajorWildcard m1) \<longleftrightarrow> m1 = m2"
| "range_overlaps (MajorWildcard m1) (Exact m2 _ _) \<longleftrightarrow> m1 = m2"
| "range_overlaps (Exact m2 _ _) (MajorWildcard m1) \<longleftrightarrow> m1 = m2"
| "range_overlaps (MinorWildcard m1 n1) (MinorWildcard m2 n2) \<longleftrightarrow> m1 = m2 \<and> n1 = n2"
| "range_overlaps (MinorWildcard m1 n1) (Exact m2 n2 _) \<longleftrightarrow> m1 = m2 \<and> n1 = n2"
| "range_overlaps (Exact m2 n2 _) (MinorWildcard m1 n1) \<longleftrightarrow> m1 = m2 \<and> n1 = n2"
| "range_overlaps (Exact m1 n1 p1) (Exact m2 n2 p2) \<longleftrightarrow> m1 = m2 \<and> n1 = n2 \<and> p1 = p2"

fun example_version :: "version_range \<Rightarrow> string" where
  "example_version (MajorWildcard m) = show_nat m @ ''.0.0''"
| "example_version (MinorWildcard m n) = show_nat m @ ''.'' @ show_nat n @ ''.0''"
| "example_version (Exact m n p) = show_nat m @ ''.'' @ show_nat n @ ''.'' @ show_nat p"

fun find_overlap_example :: "version_range \<Rightarrow> version_range \<Rightarrow> string" where
  "find_overlap_example (Exact a b c) r = example_version (Exact a b c)"
| "find_overlap_example r (Exact a b c) = example_version (Exact a b c)"
| "find_overlap_example (MinorWildcard a b) r = example_version (MinorWildcard a b)"
| "find_overlap_example r (MinorWildcard a b) = example_version (MinorWildcard a b)"
| "find_overlap_example r s = example_version r"

text \<open>The smallest version of a range; \<open>version_matches_range\<close> reads the text of the range again.\<close>

definition from_range_min_version :: "string \<Rightarrow> version" where
  "from_range_min_version from_range =
     (case split_on dot from_range of
        [a, b] \<Rightarrow> version_new (part a) 0 0
      | [a, b, c] \<Rightarrow> if c = ''x'' then version_new (part a) (part b) 0 else version_new (part a) (part b) (part c)
      | _ \<Rightarrow> version_new 0 0 0)"

definition part_or_max :: "string \<Rightarrow> nat" where
  "part_or_max s = (case parse_u64 s of Some n \<Rightarrow> n | None \<Rightarrow> 2 ^ 64 - 1)"

definition version_matches_range :: "migration_lib \<Rightarrow> version \<Rightarrow> string \<Rightarrow> bool" where
  "version_matches_range lib v range_text =
     (case split_on dot range_text of
        [a, b] \<Rightarrow> b = ''x'' \<and> v_major v = part_or_max a
      | [a, b, c] \<Rightarrow>
          if c = ''x'' then v_major v = part_or_max a \<and> v_minor v = part_or_max b
          else ml_parse lib range_text = Inr v
      | _ \<Rightarrow> False)"

section \<open>Validation of an entry\<close>

definition entry_error :: "nat \<Rightarrow> string \<Rightarrow> migration_error" where
  "entry_error i msg = ManifestValidation (''migration entry '' @ show_nat i @ '': '' @ msg)"

definition check_part :: "string \<Rightarrow> string \<Rightarrow> string \<Rightarrow> nat \<Rightarrow> (migration_error, unit) result" where
  "check_part s part_name from_range i =
     (case parse_u64 s of
        Some _ \<Rightarrow> Inr ()
      | None \<Rightarrow> Inl (entry_error i (''invalid '' @ quoted ''from'' @ '' range '' @ quoted from_range @ '': '' @ quoted s @
          '' is not a valid '' @ part_name @ '' version number'')))"

definition validate_from_range :: "string \<Rightarrow> nat \<Rightarrow> (migration_error, unit) result" where
  "validate_from_range from_range i =
     (case split_on dot from_range of
        [a, b] \<Rightarrow>
          r_bind (check_part a ''major'' from_range i) (\<lambda>_.
          if b = ''x'' then Inr ()
          else Inl (entry_error i (''invalid '' @ quoted ''from'' @ '' range '' @ quoted from_range @
            '': two-part range must be '' @ quoted ''major.x'')))
      | [a, b, c] \<Rightarrow>
          r_bind (check_part a ''major'' from_range i) (\<lambda>_.
          r_bind (check_part b ''minor'' from_range i) (\<lambda>_.
          if c = ''x'' then Inr () else check_part c ''patch'' from_range i))
      | _ \<Rightarrow> Inl (entry_error i (''invalid '' @ quoted ''from'' @ '' range '' @ quoted from_range @ '': expected '' @
            quoted ''major.x'' @ '', '' @ quoted ''major.minor.x'' @ '', or '' @ quoted ''major.minor.patch'')))"

definition validate_from_less_than_to :: "migration_lib \<Rightarrow> string \<Rightarrow> version \<Rightarrow> nat \<Rightarrow> (migration_error, unit) result" where
  "validate_from_less_than_to lib from_range to i =
     (let min_version = from_range_min_version from_range
      in if version_less lib min_version to then Inr ()
         else Inl (entry_error i (quoted ''from'' @ '' range '' @ quoted from_range @ '' minimum version ('' @ ml_show lib min_version @
           '') must be strictly less than '' @ quoted ''to'' @ '' version ('' @ ml_show lib to @ '')'')))"

definition validate_transform_name :: "string \<Rightarrow> nat \<Rightarrow> (migration_error, unit) result" where
  "validate_transform_name name i =
     (case name of
        [] \<Rightarrow> Inl (entry_error i ''transform name must not be empty'')
      | first # rest \<Rightarrow>
          if \<not> is_ascii_alphabetic first \<and> first \<noteq> CHR ''_''
          then Inl (entry_error i (''transform name '' @ quoted name @ '' is not a valid identifier: must start with a letter or underscore''))
          else if \<not> list_all (\<lambda>c. is_ascii_alphanumeric c \<or> c = CHR ''_'') rest
          then Inl (entry_error i (''transform name '' @ quoted name @
            '' is not a valid identifier: must contain only letters, digits, and underscores''))
          else Inr ())"

definition validate_collection_name :: "string \<Rightarrow> nat \<Rightarrow> (migration_error, unit) result" where
  "validate_collection_name name i =
     (if name = [] then Inl (entry_error i ''collection name must not be empty'')
      else if \<not> list_all (\<lambda>c. is_ascii_alphanumeric c \<or> c \<in> {CHR ''-'', CHR ''_'', CHR '':''}) name
      then Inl (entry_error i (''collection name '' @ quoted name @
        '' contains invalid characters: must contain only letters, digits, hyphens, underscores, and colons''))
      else Inr ())"

definition required :: "string \<Rightarrow> nat \<Rightarrow> string option \<Rightarrow> (migration_error, string) result" where
  "required field i v = ok_or v (entry_error i (''missing '' @ quoted field @ '' field''))"

definition parse_entry :: "migration_lib \<Rightarrow> nat \<times> raw_migration_entry \<Rightarrow> (migration_error, migration_entry) result" where
  "parse_entry lib = (\<lambda>(i, raw).
     r_bind (required ''from'' i (rme_from raw)) (\<lambda>from_range.
     r_bind (required ''to'' i (rme_to raw)) (\<lambda>to_str.
     r_bind (required ''transform'' i (rme_transform raw)) (\<lambda>transform.
     r_bind (required ''description'' i (rme_description raw)) (\<lambda>description.
     r_bind (required ''collection'' i (rme_collection raw)) (\<lambda>collection.
     r_bind (validate_from_range from_range i) (\<lambda>_.
     r_bind (map_err (\<lambda>e. entry_error i (''invalid '' @ quoted ''to'' @ '' version '' @ quoted to_str @ '': '' @ e)) (ml_parse lib to_str)) (\<lambda>to.
     r_bind (validate_from_less_than_to lib from_range to i) (\<lambda>_.
     r_bind (validate_transform_name transform i) (\<lambda>_.
     r_bind (validate_collection_name collection i) (\<lambda>_.
     Inr \<lparr>me_from = from_range, me_to = to, me_transform = transform, me_description = description, me_collection = collection\<rparr>)))))))))))"

section \<open>Validation across entries\<close>

definition collections_of :: "migration_lib \<Rightarrow> migration_entry list \<Rightarrow> string list" where
  "collections_of lib entries = ml_key_order lib (remdups (map me_collection entries))"

definition chain_of :: "string \<Rightarrow> migration_entry list \<Rightarrow> migration_entry list" where
  "chain_of c entries = filter (\<lambda>e. me_collection e = c) entries"

fun pairs :: "'a list \<Rightarrow> ('a \<times> 'a) list" where
  "pairs [] = []"
| "pairs (x # xs) = map (Pair x) xs @ pairs xs"

definition validate_no_overlapping_ranges :: "migration_lib \<Rightarrow> migration_entry list \<Rightarrow> (migration_error, unit) result" where
  "validate_no_overlapping_ranges lib entries =
     check_all (\<lambda>c. check_all (\<lambda>(a, b).
       let range_a = range_parse (me_from a); range_b = range_parse (me_from b)
       in if range_overlaps range_a range_b
          then Inl (ManifestValidation (''overlapping '' @ quoted ''from'' @ '' ranges in collection '' @ quoted c @ '': '' @
            quoted (me_from a) @ '' and '' @ quoted (me_from b) @ '' both match version '' @ find_overlap_example range_a range_b))
          else Inr ()) (pairs (chain_of c entries))) (collections_of lib entries)"

abbreviation target_less :: "migration_lib \<Rightarrow> migration_entry \<Rightarrow> migration_entry \<Rightarrow> bool" where
  "target_less lib a b \<equiv> version_less lib (me_to a) (me_to b)"

definition windows2 :: "'a list \<Rightarrow> ('a \<times> 'a) list" where
  "windows2 xs = zip xs (tl xs)"

definition validate_chain_contiguity :: "migration_lib \<Rightarrow> migration_entry list \<Rightarrow> (migration_error, unit) result" where
  "validate_chain_contiguity lib entries =
     check_all (\<lambda>c. check_all (\<lambda>(prev, succ).
       if version_matches_range lib (me_to prev) (me_from succ) then Inr ()
       else Inl (ManifestValidation (''migration chain gap in collection '' @ quoted c @ '': entry targeting '' @ ml_show lib (me_to prev) @
         '' is not followed by an entry whose '' @ quoted ''from'' @ '' range matches '' @ ml_show lib (me_to prev) @
         ''. Next entry has '' @ quoted ''from'' @ '' range '' @ quoted (me_from succ))))
       (windows2 (sort_by (target_less lib) (chain_of c entries)))) (collections_of lib entries)"

definition parse_migration_entries_from_str :: "migration_lib \<Rightarrow> string \<Rightarrow> (migration_error, migration_entry list) result" where
  "parse_migration_entries_from_str lib content =
     r_bind (map_err (\<lambda>e. ManifestParse (''failed to parse manifest TOML: '' @ e)) (ml_toml lib content)) (\<lambda>migrations.
     case migrations of
       None \<Rightarrow> Inr []
     | Some raw_entries \<Rightarrow>
         r_bind (map_r (parse_entry lib) (enumerate 0 raw_entries)) (\<lambda>entries.
         r_bind (validate_no_overlapping_ranges lib entries) (\<lambda>_.
         r_bind (validate_chain_contiguity lib entries) (\<lambda>_. Inr entries))))"

definition parse_migration_entries :: "migration_lib \<Rightarrow> string \<Rightarrow> (migration_error, migration_entry list) result" where
  "parse_migration_entries lib path =
     r_bind (map_err (\<lambda>e. ManifestParse (''failed to read '' @ path @ '': '' @ e)) (ml_read_file lib path))
       (parse_migration_entries_from_str lib)"

section \<open>Exports of the transform module\<close>

text \<open>The payloads of a module: only an export section has exports, each a name and whether it is a function.\<close>

definition parse_function_exports :: "migration_lib \<Rightarrow> string \<Rightarrow> (migration_error, string list) result" where
  "parse_function_exports lib bytes =
     r_bind (map_r (\<lambda>payload.
       r_bind (map_err (\<lambda>e. ManifestValidation (''invalid WASM binary: '' @ e)) payload) (\<lambda>section.
       case section of
         None \<Rightarrow> Inr []
       | Some exports \<Rightarrow> map_r (map_err (\<lambda>e. ManifestValidation (''failed to parse WASM export: '' @ e))) exports)) (ml_payloads lib bytes))
       (\<lambda>sections. Inr (map fst (filter snd (concat sections))))"

definition validate_wasm_exports :: "migration_lib \<Rightarrow> string \<Rightarrow> migration_entry list \<Rightarrow> (migration_error, unit) result" where
  "validate_wasm_exports lib wasm_path entries =
     (if entries = [] then Inr ()
      else r_bind (map_err (\<lambda>e. ManifestValidation (''failed to read WASM binary at '' @ wasm_path @ '': '' @ e)) (ml_read_file lib wasm_path)) (\<lambda>bytes.
      r_bind (parse_function_exports lib bytes) (\<lambda>exported_functions.
      let missing = filter (\<lambda>name. name \<notin> set exported_functions) (map me_transform entries)
      in if missing = [] then Inr ()
         else Inl (ManifestValidation (''WASM module is missing migration transform exports: '' @ join '', '' missing)))))"

end
