(* ===== verification/Migration.thy ===== *)
theory Migration
  imports Migration_Manifest Sqlite_Backend
begin

text \<open>
  Running migrations: the engine (\<open>workflow-engine/src/migration/engine.rs\<close>), the call of a transform
  (\<open>migration/runner.rs\<close>) and the tables and files it uses (\<open>storage-sqlite/src/migration/\<close> \<open>backup.rs\<close>,
  \<open>quarantine.rs\<close>, \<open>log.rs\<close> and \<open>version.rs\<close>). The state is the database the engine opens and the backup files by
  their paths. The environment has the file system, SQLite (which statement fails, what a step of a backup reports,
  what an integrity check says), the WASM runtime, the JSON text form, fresh ids and the clock.
\<close>

section \<open>State and environment\<close>

record quarantined_record =
  qr_id :: string
  qr_record_data :: string
  qr_plugin_id :: string
  qr_collection :: string
  qr_from_version :: string
  qr_to_version :: string
  qr_error_message :: string
  qr_timestamp :: string

record migration_log_entry =
  mle_id :: string
  mle_plugin_id :: string
  mle_collection :: string
  mle_from_version :: string
  mle_to_version :: string
  mle_records_migrated :: int
  mle_records_quarantined :: int
  mle_duration_ms :: int
  mle_backup_path :: "string option"
  mle_error :: "string option"
  mle_timestamp :: string

record migration_db =
  gd_rows :: "sql_row list"
  gd_quarantine :: "quarantined_record list"
  gd_log :: "migration_log_entry list"
  gd_versions :: "(string \<times> string) \<rightharpoonup> int"

record migration_world =
  gw_db :: migration_db
  gw_backups :: "string \<rightharpoonup> migration_db"
  gw_draws :: nat

datatype backup_step = StepDone | StepMore | StepBusy | StepLocked

record migration_env =
  ge_lib :: migration_lib
  ge_fault :: "string \<Rightarrow> migration_world \<Rightarrow> string option"
  ge_backup_step :: "migration_world \<Rightarrow> (string, backup_step) result"
  ge_integrity :: "migration_db \<Rightarrow> (string, string) result"
  ge_call :: "string \<Rightarrow> string \<Rightarrow> string \<Rightarrow> (string, string) result"
  ge_build :: "string \<Rightarrow> (string, unit) result"
  ge_to_string :: "json \<Rightarrow> (string, string) result"
  ge_from_str :: "string \<Rightarrow> (string, json) result"
  ge_uuid :: "nat \<Rightarrow> string"
  ge_now :: "nat \<Rightarrow> string"
  ge_stamp :: "nat \<Rightarrow> string"
  ge_millis :: "nat \<Rightarrow> nat"

type_synonym ('e, 'a) gop = "('e, migration_world, 'a) action"

definition g_draw :: "(nat \<Rightarrow> 'a) \<Rightarrow> ('e, 'a) gop" where
  "g_draw f w = (Inr (f (gw_draws w)), w\<lparr>gw_draws := Suc (gw_draws w)\<rparr>)"

definition g_stmt :: "migration_env \<Rightarrow> string \<Rightarrow> (string \<Rightarrow> 'e) \<Rightarrow> ('e, unit) gop" where
  "g_stmt env text wrap w = (case ge_fault env text w of None \<Rightarrow> (Inr (), w) | Some e \<Rightarrow> (Inl (wrap e), w))"

definition g_update :: "(migration_db \<Rightarrow> migration_db) \<Rightarrow> ('e, unit) gop" where
  "g_update f w = (Inr (), w\<lparr>gw_db := f (gw_db w)\<rparr>)"

text \<open>A result of a call in one error type, read in another.\<close>

definition mapped :: "('e \<Rightarrow> 'f) \<Rightarrow> ('e, 'a) gop \<Rightarrow> ('f, 'a) gop" where
  "mapped f a w = (case a w of (r, w') \<Rightarrow> (map_err f r, w'))"

text \<open>\<open>let _ =\<close>: a failure is dropped.\<close>

definition attempt :: "('e, 'a) gop \<Rightarrow> ('f, unit) gop" where
  "attempt a w = (Inr (), snd (a w))"

section \<open>Backups\<close>

text \<open>
  Only a step that reports that it is done has copied the pages; the result of the step is not looked at. A target
  that was not written is the file that was there, or a new empty database.
\<close>

definition empty_db :: migration_db where
  "empty_db = \<lparr>gd_rows = [], gd_quarantine = [], gd_log = [], gd_versions = Map.empty\<rparr>"

definition backup_target :: "migration_world \<Rightarrow> string \<Rightarrow> backup_step \<Rightarrow> migration_db" where
  "backup_target w path step =
     (if step = StepDone then gw_db w else (case gw_backups w path of Some d \<Rightarrow> d | None \<Rightarrow> empty_db))"

definition create_backup :: "migration_env \<Rightarrow> string \<Rightarrow> (backend_error, string) gop" where
  "create_backup env data_dir =
     s_bind (g_stmt env ''create_dir_all'' BIo) (\<lambda>_.
     s_bind (g_draw (ge_stamp env)) (\<lambda>stamp.
     let path = path_join (path_join data_dir ''backups'') (''pre-migration-'' @ stamp @ ''.db'') in
     s_bind (g_stmt env ''open source'' BDatabase) (\<lambda>_.
     s_bind (g_stmt env ''open backup'' BDatabase) (\<lambda>_.
     s_bind (g_stmt env ''init backup'' BDatabase) (\<lambda>_.
     s_bind (s_get (\<lambda>w. map_err BDatabase (ge_backup_step env w))) (\<lambda>step.
     s_bind (\<lambda>w. (Inr (), w\<lparr>gw_backups := (gw_backups w)(path \<mapsto> backup_target w path step)\<rparr>)) (\<lambda>_.
     s_bind (g_stmt env ''open backup'' BDatabase) (\<lambda>_.
     s_bind (s_get (\<lambda>w. map_err BDatabase (ge_integrity env (the (gw_backups w path))))) (\<lambda>integrity.
     if integrity \<noteq> ''ok'' then
       s_bind (\<lambda>w. (Inr (), w\<lparr>gw_backups := (gw_backups w)(path := (if ge_fault env ''remove_file'' w = None then None else gw_backups w path))\<rparr>)) (\<lambda>_.
       s_fail (BInitFailed (''backup integrity check failed: '' @ integrity)))
     else s_return path)))))))))"

definition restore_backup :: "migration_env \<Rightarrow> string \<Rightarrow> (backend_error, unit) gop" where
  "restore_backup env path =
     s_bind (s_get (\<lambda>w. ok_or (gw_backups w path) (BNotFound (''backup file not found: '' @ path)))) (\<lambda>content.
     s_bind (g_stmt env ''open backup'' BDatabase) (\<lambda>_.
     s_bind (s_check (map_err BDatabase (ge_integrity env content))) (\<lambda>integrity.
     if integrity \<noteq> ''ok'' then s_fail (BInitFailed (''backup integrity check failed before restore: '' @ integrity))
     else s_bind (g_stmt env ''copy'' BIo) (\<lambda>_. g_update (\<lambda>_. content)))))"

section \<open>Quarantine and log\<close>

definition quarantine_record ::
  "migration_env \<Rightarrow> string \<Rightarrow> string \<Rightarrow> string \<Rightarrow> string \<Rightarrow> string \<Rightarrow> string \<Rightarrow> (backend_error, string) gop" where
  "quarantine_record env record_data plugin_id collection from_version to_version err =
     s_bind (g_draw (ge_uuid env)) (\<lambda>i.
     s_bind (g_draw (ge_now env)) (\<lambda>now.
     s_bind (g_stmt env ''INSERT INTO quarantine'' BDatabase) (\<lambda>_.
     s_bind (g_update (\<lambda>d. d\<lparr>gd_quarantine := gd_quarantine d @
       [\<lparr>qr_id = i, qr_record_data = record_data, qr_plugin_id = plugin_id, qr_collection = collection, qr_from_version = from_version,
         qr_to_version = to_version, qr_error_message = err, qr_timestamp = now\<rparr>]\<rparr>)) (\<lambda>_.
     s_return i))))"

definition list_quarantined :: "migration_env \<Rightarrow> string \<Rightarrow> string \<Rightarrow> (backend_error, quarantined_record list) gop" where
  "list_quarantined env plugin_id collection =
     s_bind (g_stmt env ''SELECT FROM quarantine'' BDatabase) (\<lambda>_.
     s_get (\<lambda>w. Inr (sort_key qr_timestamp
       (filter (\<lambda>q. qr_plugin_id q = plugin_id \<and> qr_collection q = collection) (gd_quarantine (gw_db w))))))"

definition retry_quarantined :: "migration_env \<Rightarrow> string \<Rightarrow> (backend_error, json) gop" where
  "retry_quarantined env quarantine_id =
     s_bind (g_stmt env ''SELECT record_data FROM quarantine'' BDatabase) (\<lambda>_.
     s_bind (s_get (\<lambda>w. ok_or (find (\<lambda>q. qr_id q = quarantine_id) (gd_quarantine (gw_db w)))
       (BNotFound (''quarantine entry '' @ quoted quarantine_id)))) (\<lambda>q.
     s_check (map_err BSerialization (ge_from_str env (qr_record_data q)))))"

definition delete_quarantined :: "migration_env \<Rightarrow> string \<Rightarrow> (backend_error, unit) gop" where
  "delete_quarantined env quarantine_id =
     s_bind (g_stmt env ''DELETE FROM quarantine'' BDatabase) (\<lambda>_.
     s_bind (s_get (\<lambda>w. Inr (length (filter (\<lambda>q. qr_id q = quarantine_id) (gd_quarantine (gw_db w)))))) (\<lambda>deleted.
     s_bind (g_update (\<lambda>d. d\<lparr>gd_quarantine := filter (\<lambda>q. qr_id q \<noteq> quarantine_id) (gd_quarantine d)\<rparr>)) (\<lambda>_.
     if deleted = 0 then s_fail (BNotFound (''quarantine entry '' @ quoted quarantine_id)) else s_return ())))"

definition log_migration :: "migration_env \<Rightarrow> migration_log_entry \<Rightarrow> (backend_error, unit) gop" where
  "log_migration env entry =
     s_bind (g_stmt env ''INSERT INTO migration_log'' BDatabase) (\<lambda>_.
     g_update (\<lambda>d. d\<lparr>gd_log := gd_log d @ [entry]\<rparr>))"

definition log_failure ::
  "migration_env \<Rightarrow> string \<Rightarrow> string \<Rightarrow> string \<Rightarrow> string \<Rightarrow> string \<Rightarrow> (backend_error, unit) gop" where
  "log_failure env plugin_id collection from_version to_version err =
     s_bind (g_draw (ge_uuid env)) (\<lambda>i.
     s_bind (g_draw (ge_now env)) (\<lambda>now.
     log_migration env \<lparr>mle_id = i, mle_plugin_id = plugin_id, mle_collection = collection, mle_from_version = from_version,
       mle_to_version = to_version, mle_records_migrated = 0, mle_records_quarantined = 0, mle_duration_ms = 0,
       mle_backup_path = None, mle_error = Some err, mle_timestamp = now\<rparr>))"

definition get_migration_history :: "migration_env \<Rightarrow> string \<Rightarrow> string \<Rightarrow> (backend_error, migration_log_entry list) gop" where
  "get_migration_history env plugin_id collection =
     s_bind (g_stmt env ''SELECT FROM migration_log'' BDatabase) (\<lambda>_.
     s_get (\<lambda>w. Inr (sort_key mle_timestamp
       (filter (\<lambda>l. mle_plugin_id l = plugin_id \<and> mle_collection l = collection) (gd_log (gw_db w))))))"

section \<open>Schema versions\<close>

definition get_schema_version :: "migration_env \<Rightarrow> string \<Rightarrow> string \<Rightarrow> (backend_error, int option) gop" where
  "get_schema_version env plugin_id collection =
     s_bind (g_stmt env ''SELECT version FROM schema_versions'' BDatabase) (\<lambda>_.
     s_get (\<lambda>w. Inr (gd_versions (gw_db w) (plugin_id, collection))))"

definition set_schema_version :: "migration_env \<Rightarrow> string \<Rightarrow> string \<Rightarrow> int \<Rightarrow> (backend_error, unit) gop" where
  "set_schema_version env plugin_id collection v =
     s_bind (g_stmt env ''INSERT OR REPLACE INTO schema_versions'' BDatabase) (\<lambda>_.
     g_update (\<lambda>d. d\<lparr>gd_versions := (gd_versions d)((plugin_id, collection) \<mapsto> v)\<rparr>))"

definition stamp_version :: "migration_env \<Rightarrow> string \<Rightarrow> string \<Rightarrow> (backend_error, unit) gop" where
  "stamp_version env record_id new_version =
     s_bind (s_check (ok_or (parse_i64 (hd (split_on dot new_version)))
       (BInvalidConfig (''cannot parse major version from '' @ quoted new_version)))) (\<lambda>v.
     s_bind (g_stmt env ''UPDATE plugin_data SET version'' BDatabase) (\<lambda>_.
     s_bind (s_get (\<lambda>w. Inr (length (filter (\<lambda>r. row_id r = record_id) (gd_rows (gw_db w)))))) (\<lambda>updated.
     s_bind (g_update (\<lambda>d. d\<lparr>gd_rows := map (\<lambda>r. if row_id r = record_id then r\<lparr>row_version := v\<rparr> else r) (gd_rows d)\<rparr>)) (\<lambda>_.
     if updated = 0 then s_fail (BNotFound (''plugin_data record '' @ quoted record_id)) else s_return ()))))"

section \<open>Transforms\<close>

definition is_crash :: "string \<Rightarrow> bool" where
  "is_crash msg \<longleftrightarrow>
     contains_str msg ''unreachable'' \<or> contains_str msg ''trap'' \<or> contains_str msg ''panic'' \<or> contains_str msg ''wasm backtrace''"

definition run_transform_from_bytes :: "migration_env \<Rightarrow> string \<Rightarrow> string \<Rightarrow> json \<Rightarrow> (migration_error, json) result" where
  "run_transform_from_bytes env bytes function_name input_record =
     r_bind (map_err (\<lambda>e. TransformFailed function_name (''failed to serialize input record: '' @ e)) (ge_to_string env input_record)) (\<lambda>input.
     r_bind (map_err (\<lambda>e. TransformCrashed function_name (''failed to initialize WASM sandbox: '' @ e)) (ge_build env bytes)) (\<lambda>_.
     r_bind (map_err (\<lambda>msg. if is_crash msg then TransformCrashed function_name msg else TransformFailed function_name msg)
       (ge_call env bytes function_name input)) (\<lambda>output.
     map_err (\<lambda>e. TransformFailed function_name (''transform output is not valid JSON: '' @ e)) (ge_from_str env output))))"

definition run_transform :: "migration_env \<Rightarrow> string \<Rightarrow> string \<Rightarrow> json \<Rightarrow> (migration_error, json) result" where
  "run_transform env wasm_path function_name input_record =
     r_bind (map_err (\<lambda>e. TransformCrashed function_name (''failed to read WASM binary at '' @ wasm_path @ '': '' @ e))
       (ml_read_file (ge_lib env) wasm_path)) (\<lambda>bytes.
     run_transform_from_bytes env bytes function_name input_record)"

section \<open>The engine\<close>

definition parse_from_version :: "string \<Rightarrow> (migration_error, int) result" where
  "parse_from_version from_range =
     ok_or (parse_i64 (hd (split_on dot from_range)))
       (ManifestValidation (''cannot parse major version from '' @ quoted from_range))"

text \<open>\<open>entry.to.major as i64\<close>: a number of 64 bits read with its sign.\<close>

definition as_i64 :: "nat \<Rightarrow> int" where
  "as_i64 n = sint (word_of_nat n :: 64 word)"

definition records_at :: "string \<Rightarrow> string \<Rightarrow> int \<Rightarrow> sql_row list \<Rightarrow> (string \<times> string) list" where
  "records_at plugin_id collection v rows =
     map (\<lambda>r. (row_id r, row_data r))
       (filter (\<lambda>r. row_plugin_id r = plugin_id \<and> row_collection r = collection \<and> row_version r = v) rows)"

definition query_records :: "migration_env \<Rightarrow> string \<Rightarrow> string \<Rightarrow> int \<Rightarrow> (migration_error, (string \<times> string) list) gop" where
  "query_records env plugin_id collection v =
     s_bind (g_stmt env ''prepare SELECT'' (\<lambda>e. TransformFailed ''query_records'' (''failed to prepare query: '' @ e))) (\<lambda>_.
     s_bind (g_stmt env ''execute SELECT'' (\<lambda>e. TransformFailed ''query_records'' (''failed to execute query: '' @ e))) (\<lambda>_.
     s_bind (g_stmt env ''read row'' (\<lambda>e. TransformFailed ''query_records'' (''failed to read row: '' @ e))) (\<lambda>_.
     s_get (\<lambda>w. Inr (records_at plugin_id collection v (gd_rows (gw_db w)))))))"

definition update_record :: "migration_env \<Rightarrow> string \<Rightarrow> string \<Rightarrow> int \<Rightarrow> (migration_error, unit) gop" where
  "update_record env record_id new_data new_version =
     s_bind (g_draw (ge_now env)) (\<lambda>now.
     s_bind (g_stmt env ''UPDATE plugin_data'' (\<lambda>e. TransformFailed ''update_record'' (''failed to update record '' @ record_id @ '': '' @ e))) (\<lambda>_.
     g_update (\<lambda>d. d\<lparr>gd_rows := map (\<lambda>r. if row_id r = record_id
       then r\<lparr>row_data := new_data, row_version := new_version, row_updated_at := now\<rparr> else r) (gd_rows d)\<rparr>)))"

text \<open>One record: whether it was migrated or quarantined.\<close>

definition migrate_record ::
  "migration_env \<Rightarrow> string \<Rightarrow> string \<Rightarrow> migration_entry \<Rightarrow> string \<times> string \<Rightarrow> (migration_error, bool) gop" where
  "migrate_record env wasm_path plugin_id entry = (\<lambda>(i, data).
     s_bind (s_check (map_err (\<lambda>e. TransformFailed (me_transform entry) (''failed to parse record '' @ i @ '' data as JSON: '' @ e))
       (ge_from_str env data))) (\<lambda>input.
     case run_transform env wasm_path (me_transform entry) input of
       Inr output \<Rightarrow>
         s_bind (s_check (map_err (\<lambda>e. TransformFailed (me_transform entry) (''failed to serialize transform output: '' @ e))
           (ge_to_string env output))) (\<lambda>output_str.
         s_bind (update_record env i output_str (as_i64 (v_major (me_to entry)))) (\<lambda>_. s_return True))
     | Inl e \<Rightarrow>
         s_bind (attempt (quarantine_record env data plugin_id (me_collection entry) (me_from entry)
           (ml_show (ge_lib env) (me_to entry)) (migration_error_to_string e))) (\<lambda>_. s_return False)))"

fun migrate_records ::
  "migration_env \<Rightarrow> string \<Rightarrow> string \<Rightarrow> migration_entry \<Rightarrow> (string \<times> string) list \<Rightarrow> (migration_error, nat \<times> nat) gop" where
  "migrate_records env wasm_path plugin_id entry [] = s_return (0, 0)"
| "migrate_records env wasm_path plugin_id entry (r # rs) =
     s_bind (migrate_record env wasm_path plugin_id entry r) (\<lambda>ok.
     s_bind (migrate_records env wasm_path plugin_id entry rs) (\<lambda>(migrated, quarantined).
     s_return (if ok then (Suc migrated, quarantined) else (migrated, Suc quarantined))))"

text \<open>
  An entry is one transaction. An error leaves the function before the commit, which closes the connection and
  rolls the transaction back.
\<close>

definition rolled_back :: "('e, 'a) gop \<Rightarrow> ('e, 'a) gop" where
  "rolled_back body w =
     (case body w of (Inl e, w') \<Rightarrow> (Inl e, w'\<lparr>gw_db := gw_db w\<rparr>) | (Inr x, w') \<Rightarrow> (Inr x, w'))"

definition entry_label :: "migration_env \<Rightarrow> migration_entry \<Rightarrow> string" where
  "entry_label env entry = me_from entry @ '' -> '' @ ml_show (ge_lib env) (me_to entry)"

record migration_result =
  mr_migrated :: nat
  mr_quarantined :: nat
  mr_duration_ms :: nat
  mr_backup_path :: string
  mr_entries_applied :: "string list"

type_synonym totals = "nat \<times> nat \<times> string list"

definition migrate_entry :: "migration_env \<Rightarrow> string \<Rightarrow> string \<Rightarrow> migration_entry \<Rightarrow> totals \<Rightarrow> (migration_error, totals) gop" where
  "migrate_entry env wasm_path plugin_id entry = (\<lambda>(migrated, quarantined, applied).
     s_bind (s_check (parse_from_version (me_from entry))) (\<lambda>from_version.
     s_bind (query_records env plugin_id (me_collection entry) from_version) (\<lambda>records.
     if records = [] then s_return (migrated, quarantined, applied)
     else
       s_bind (g_stmt env ''BEGIN IMMEDIATE'' (\<lambda>e. TransformFailed ''begin_transaction'' (''failed to begin transaction: '' @ e))) (\<lambda>_.
       rolled_back (
         s_bind (migrate_records env wasm_path plugin_id entry records) (\<lambda>(m, q).
         s_bind (g_stmt env ''COMMIT'' (\<lambda>e. TransformFailed ''commit_transaction'' (''failed to commit transaction: '' @ e))) (\<lambda>_.
         s_return (migrated + m, quarantined + q, applied @ [entry_label env entry]))))))))"

fun migrate_entries :: "migration_env \<Rightarrow> string \<Rightarrow> string \<Rightarrow> migration_entry list \<Rightarrow> totals \<Rightarrow> (migration_error, totals) gop" where
  "migrate_entries env wasm_path plugin_id [] t = s_return t"
| "migrate_entries env wasm_path plugin_id (e # es) t =
     s_bind (migrate_entry env wasm_path plugin_id e t) (migrate_entries env wasm_path plugin_id es)"

fun log_entries :: "migration_env \<Rightarrow> string \<Rightarrow> nat \<Rightarrow> nat \<Rightarrow> nat \<Rightarrow> string \<Rightarrow> migration_entry list \<Rightarrow> (migration_error, unit) gop" where
  "log_entries env plugin_id migrated quarantined duration backup [] = s_return ()"
| "log_entries env plugin_id migrated quarantined duration backup (e # es) =
     s_bind (g_draw (ge_uuid env)) (\<lambda>i.
     s_bind (g_draw (ge_now env)) (\<lambda>now.
     s_bind (attempt (log_migration env \<lparr>mle_id = i, mle_plugin_id = plugin_id, mle_collection = me_collection e,
       mle_from_version = me_from e, mle_to_version = ml_show (ge_lib env) (me_to e), mle_records_migrated = as_i64 migrated,
       mle_records_quarantined = as_i64 quarantined, mle_duration_ms = as_i64 duration, mle_backup_path = Some backup,
       mle_error = None, mle_timestamp = now\<rparr>)) (\<lambda>_.
     log_entries env plugin_id migrated quarantined duration backup es)))"

definition run_migrations ::
  "migration_env \<Rightarrow> string \<Rightarrow> migration_entry list \<Rightarrow> string \<Rightarrow> string \<Rightarrow> (migration_error, migration_result) gop" where
  "run_migrations env wasm_path entries plugin_id data_dir =
     s_bind (mapped (\<lambda>e. TransformFailed ''create_backup'' (''backup failed: '' @ backend_error_to_string e)) (create_backup env data_dir)) (\<lambda>backup.
     let sorted_entries = sort_by (target_less (ge_lib env)) entries in
     s_bind (g_stmt env ''open'' (\<lambda>e. TransformFailed ''open_db'' (''failed to open database: '' @ e))) (\<lambda>_.
     s_bind (migrate_entries env wasm_path plugin_id sorted_entries (0, 0, [])) (\<lambda>(migrated, quarantined, applied).
     s_bind (g_draw (ge_millis env)) (\<lambda>duration.
     s_bind (log_entries env plugin_id migrated quarantined duration backup sorted_entries) (\<lambda>_.
     s_return \<lparr>mr_migrated = migrated, mr_quarantined = quarantined, mr_duration_ms = duration, mr_backup_path = backup,
       mr_entries_applied = applied\<rparr>)))))"

end
