(* ===== verification/Migration_Props.thy ===== *)
theory Migration_Props
  imports Migration Backend_Props
begin

text \<open>
  What the migrations guarantee: an accepted manifest gives every version at most one entry and leads it to the newest
  target; a run that quarantines nothing leaves no record behind at a version an entry starts from, and touches no
  other record; the backup of a run restores what was there before. The version column the engine reads is also the
  counter of the optimistic locking of the storage backend, which the last property shows to be in conflict.
\<close>

section \<open>Accepted manifests\<close>

interpretation by_target: strict_weak_order "target_less lib" for lib
  by unfold_locales (auto simp: version_less_def)

fun in_range :: "nat \<times> nat \<times> nat \<Rightarrow> version_range \<Rightarrow> bool" where
  "in_range (a, b, c) (MajorWildcard m) \<longleftrightarrow> a = m"
| "in_range (a, b, c) (MinorWildcard m n) \<longleftrightarrow> a = m \<and> b = n"
| "in_range (a, b, c) (Exact m n p) \<longleftrightarrow> a = m \<and> b = n \<and> c = p"

lemma overlaps_iff: "range_overlaps r s \<longleftrightarrow> (\<exists>v. in_range v r \<and> in_range v s)"
  by (cases r; cases s) auto

lemma pairs_disjoint: "(\<forall>(a, b) \<in> set (pairs xs). \<not> (P a \<and> P b)) \<Longrightarrow> length (filter P xs) \<le> 1"
proof (induction xs)
  case (Cons x xs)
  show ?case
  proof (cases "P x")
    case True
    with Cons.prems have "filter P xs = []" by (auto simp: filter_empty_conv)
    then show ?thesis using True by simp
  qed (use Cons in auto)
qed simp

lemma windows2_nth: "Suc i < length xs \<Longrightarrow> (xs ! i, xs ! Suc i) \<in> set (windows2 xs)"
  by (cases xs) (auto simp: windows2_def in_set_zip nth_Cons intro!: exI [of _ i])

lemma parse_entry_ok:
  assumes "parse_entry lib (i, raw) = Inr e"
  shows "version_less lib (from_range_min_version (me_from e)) (me_to e)" and "validate_from_range (me_from e) i = Inr ()"
  using assms by (auto simp: parse_entry_def r_bind_eq_Inr validate_from_less_than_to_def Let_def split: if_splits)

lemma collections_cover:
  assumes "\<And>xs. set (ml_key_order lib xs) = set xs" and "chain_of c entries \<noteq> []"
  shows "c \<in> set (collections_of lib entries)"
  using assms by (auto simp: collections_of_def chain_of_def filter_empty_conv)

lemma accepted_entries:
  assumes "parse_migration_entries_from_str lib content = Inr entries"
    and keys: "\<And>xs. set (ml_key_order lib xs) = set xs"
  shows "\<forall>e \<in> set entries. version_less lib (from_range_min_version (me_from e)) (me_to e)"
    and "\<forall>(a, b) \<in> set (pairs (chain_of c entries)). \<not> range_overlaps (range_parse (me_from a)) (range_parse (me_from b))"
    and "\<forall>(a, b) \<in> set (windows2 (sort_by (target_less lib) (chain_of c entries))). version_matches_range lib (me_to a) (me_from b)"
proof -
  from assms(1) consider "entries = []"
    | raws where "map_r (parse_entry lib) (enumerate 0 raws) = Inr entries"
      "validate_no_overlapping_ranges lib entries = Inr ()" "validate_chain_contiguity lib entries = Inr ()"
    by (auto simp: parse_migration_entries_from_str_def r_bind_eq_Inr split: option.splits)
  then have "(\<forall>e \<in> set entries. version_less lib (from_range_min_version (me_from e)) (me_to e)) \<and>
    (\<forall>(a, b) \<in> set (pairs (chain_of c entries)). \<not> range_overlaps (range_parse (me_from a)) (range_parse (me_from b))) \<and>
    (\<forall>(a, b) \<in> set (windows2 (sort_by (target_less lib) (chain_of c entries))). version_matches_range lib (me_to a) (me_from b))"
  proof cases
    case 2
    have cover: "c \<in> set (collections_of lib entries)" if "chain_of c entries \<noteq> []" using collections_cover [OF keys that] .
    have "\<exists>x. parse_entry lib x = Inr e" if "e \<in> set entries" for e
      using map_r_elem [OF 2(1) that] by blast
    then have "\<forall>e \<in> set entries. version_less lib (from_range_min_version (me_from e)) (me_to e)"
      using parse_entry_ok(1) by (metis surj_pair)
    moreover have "\<forall>(a, b) \<in> set (pairs (chain_of c entries)). \<not> range_overlaps (range_parse (me_from a)) (range_parse (me_from b))"
      using 2(2) cover by (cases "chain_of c entries = []")
        (fastforce simp: validate_no_overlapping_ranges_def check_all_eq_Inr Let_def split: if_splits)+
    moreover have "\<forall>(a, b) \<in> set (windows2 (sort_by (target_less lib) (chain_of c entries))). version_matches_range lib (me_to a) (me_from b)"
      using 2(3) cover by (cases "chain_of c entries = []")
        (fastforce simp: validate_chain_contiguity_def check_all_eq_Inr windows2_def sort_by_simps split: if_splits)+
    ultimately show ?thesis by blast
  qed (simp add: chain_of_def windows2_def sort_by_simps)
  then show "\<forall>e \<in> set entries. version_less lib (from_range_min_version (me_from e)) (me_to e)"
    and "\<forall>(a, b) \<in> set (pairs (chain_of c entries)). \<not> range_overlaps (range_parse (me_from a)) (range_parse (me_from b))"
    and "\<forall>(a, b) \<in> set (windows2 (sort_by (target_less lib) (chain_of c entries))). version_matches_range lib (me_to a) (me_from b)"
    by blast+
qed

text \<open>One entry of a collection takes a version to its target.\<close>

definition upgrades :: "migration_lib \<Rightarrow> migration_entry list \<Rightarrow> version \<Rightarrow> version \<Rightarrow> bool" where
  "upgrades lib chain v v' \<longleftrightarrow> (\<exists>e \<in> set chain. version_matches_range lib v (me_from e) \<and> me_to e = v')"

lemma chain_reaches_last:
  assumes "\<And>i. Suc i < length xs \<Longrightarrow> version_matches_range lib (me_to (xs ! i)) (me_from (xs ! Suc i))"
    and "i < length xs" and "set xs \<subseteq> set ys"
  shows "(upgrades lib ys)\<^sup>*\<^sup>* (me_to (xs ! i)) (me_to (last xs))"
  using assms(2)
proof (induction "length xs - i" arbitrary: i)
  case (Suc k)
  show ?case
  proof (cases "Suc i < length xs")
    case True
    then have "upgrades lib ys (me_to (xs ! i)) (me_to (xs ! Suc i))"
      using assms(1, 3) by (auto simp: upgrades_def intro!: bexI [of _ "xs ! Suc i"])
    moreover have "(upgrades lib ys)\<^sup>*\<^sup>* (me_to (xs ! Suc i)) (me_to (last xs))" using Suc True by simp
    ultimately show ?thesis by (rule converse_rtranclp_into_rtranclp)
  next
    case False
    with Suc have "i = length xs - 1" by simp
    then have "xs ! i = last xs" using Suc.prems by (cases "xs = []") (simp_all add: last_conv_nth)
    then show ?thesis by simp
  qed
qed simp

section \<open>Runs\<close>

abbreviation table :: "migration_world \<Rightarrow> sql_row list" where
  "table w \<equiv> gd_rows (gw_db w)"

text \<open>What a transaction over the records \<open>ids\<close> makes of a row; \<open>none_failed\<close> when no record went to the quarantine.\<close>

definition row_after :: "string set \<Rightarrow> int \<Rightarrow> bool \<Rightarrow> sql_row \<Rightarrow> sql_row \<Rightarrow> bool" where
  "row_after ids to none_failed r r' \<longleftrightarrow>
     row_id r' = row_id r \<and> row_plugin_id r' = row_plugin_id r \<and> row_collection r' = row_collection r \<and>
     row_created_at r' = row_created_at r \<and>
     (if row_id r \<in> ids then row_version r' = to \<or> \<not> none_failed \<and> r' = r else r' = r)"

lemma row_after_trans:
  "row_after I to b r1 r2 \<Longrightarrow> row_after J to c r2 r3 \<Longrightarrow> row_after (I \<union> J) to (b \<and> c) r1 r3"
  by (auto simp: row_after_def split: if_splits)

lemma rows_after_trans:
  "list_all2 (row_after I to b) xs ys \<Longrightarrow> list_all2 (row_after J to c) ys zs \<Longrightarrow> list_all2 (row_after (I \<union> J) to (b \<and> c)) xs zs"
  by (rule list_all2_trans [OF row_after_trans])

lemma rows_after_same: "list_all2 (row_after I to False) xs xs" "list_all2 (row_after {} to b) xs xs"
  by (auto simp: row_after_def list_all2_same)

lemma g_simps [simp]:
  "g_draw f w = (Inr (f (gw_draws w)), w\<lparr>gw_draws := Suc (gw_draws w)\<rparr>)"
  "g_update h w = (Inr (), w\<lparr>gw_db := h (gw_db w)\<rparr>)"
  by (simp_all add: g_draw_def g_update_def)

lemma g_stmt_cases: "g_stmt env text wrap w = (r, w') \<Longrightarrow> w' = w"
  by (auto simp: g_stmt_def split: option.splits)

lemma bind_g_stmt:
  "s_bind (g_stmt env text wrap) f w = (Inr x, w') \<longleftrightarrow> ge_fault env text w = None \<and> f () w = (Inr x, w')"
  by (simp add: s_bind_def g_stmt_def split: option.splits)

lemma quarantine_keeps_table: "table (snd (attempt (quarantine_record env d p c f t e) w)) = table w"
  by (auto simp: attempt_def quarantine_record_def s_bind_def g_stmt_def s_return_def split: option.splits)

lemma update_rows_after:
  "list_all2 (row_after {i} v True) rows
     (map (\<lambda>r. if row_id r = i then r\<lparr>row_data := s, row_version := v, row_updated_at := now\<rparr> else r) rows)"
  by (auto simp: row_after_def list_all2_conv_all_nth)

lemma migrate_record_rows:
  assumes "migrate_record env wp pid e (i, d) w = (Inr ok, w')"
  shows "list_all2 (row_after {i} (as_i64 (v_major (me_to e))) ok) (table w) (table w')"
proof -
  obtain input where input: "ge_from_str env d = Inr input"
    using assms by (auto simp: migrate_record_def s_bind_ok s_check_def map_err_eq_Inr)
  show ?thesis
  proof (cases "run_transform env wp (me_transform e) input")
    case (Inl err)
    with assms input have "\<not> ok" and "table w' = table w"
      using quarantine_keeps_table [of env d pid "me_collection e" "me_from e" "ml_show (ge_lib env) (me_to e)" "migration_error_to_string err" w]
      by (auto simp: migrate_record_def s_check_def s_return_def s_bind_ok attempt_def)
    then show ?thesis by (simp add: rows_after_same)
  next
    case (Inr out)
    with assms input show ?thesis
      by (auto simp: migrate_record_def update_record_def s_check_def s_return_def s_bind_ok map_err_eq_Inr update_rows_after
          dest!: g_stmt_cases)
  qed
qed

lemma migrate_records_rows:
  assumes "migrate_records env wp pid e rs w = (Inr (m, q), w')"
  shows "list_all2 (row_after (fst ` set rs) (as_i64 (v_major (me_to e))) (q = 0)) (table w) (table w')"
  using assms
proof (induction rs arbitrary: w m q)
  case Nil
  then show ?case by (simp add: s_return_def rows_after_same)
next
  case (Cons r rs)
  obtain i d where r: "r = (i, d)" by force
  obtain ok w1 m1 q1 where first: "migrate_record env wp pid e (i, d) w = (Inr ok, w1)"
    and rest: "migrate_records env wp pid e rs w1 = (Inr (m1, q1), w')" and q: "q = (if ok then q1 else Suc q1)"
    using Cons.prems r by (auto simp: s_bind_ok s_return_def split: if_splits)
  have "list_all2 (row_after ({i} \<union> fst ` set rs) (as_i64 (v_major (me_to e))) (ok \<and> q1 = 0)) (table w) (table w')"
    using rows_after_trans [OF migrate_record_rows [OF first] Cons.IH [OF rest]] .
  moreover have "(ok \<and> q1 = 0) = (q = 0)" using q by simp
  ultimately show ?case using r by simp
qed

definition selected :: "string \<Rightarrow> migration_entry \<Rightarrow> int \<Rightarrow> sql_row \<Rightarrow> bool" where
  "selected pid e v r \<longleftrightarrow> row_plugin_id r = pid \<and> row_collection r = me_collection e \<and> row_version r = v"

definition entry_after :: "string \<Rightarrow> migration_entry \<Rightarrow> int \<Rightarrow> bool \<Rightarrow> sql_row \<Rightarrow> sql_row \<Rightarrow> bool" where
  "entry_after pid e v none_failed r r' \<longleftrightarrow>
     row_id r' = row_id r \<and> row_plugin_id r' = row_plugin_id r \<and> row_collection r' = row_collection r \<and>
     row_created_at r' = row_created_at r \<and>
     (if selected pid e v r then row_version r' = as_i64 (v_major (me_to e)) \<or> \<not> none_failed \<and> r' = r else r' = r)"

lemma records_at_ids:
  assumes "distinct (map row_id rows)" and "r \<in> set rows"
  shows "row_id r \<in> fst ` set (records_at pid (me_collection e) v rows) \<longleftrightarrow> selected pid e v r"
  using assms by (auto simp: records_at_def selected_def image_iff dest: distinct_map [THEN iffD1, THEN conjunct2, THEN inj_onD])

lemma rows_after_entry:
  assumes "list_all2 (row_after (fst ` set (records_at pid (me_collection e) v rows)) (as_i64 (v_major (me_to e))) b) rows rows'"
    and "distinct (map row_id rows)"
  shows "list_all2 (entry_after pid e v b) rows rows'"
  using assms records_at_ids [OF assms(2), of _ pid e v]
  by (auto simp: list_all2_conv_all_nth row_after_def entry_after_def)

lemma rolled_back_ok: "rolled_back body w = (Inr x, w') \<longleftrightarrow> body w = (Inr x, w')"
  by (auto simp: rolled_back_def split: prod.splits sum.splits)

lemma query_records_ok:
  assumes "query_records env pid c v w = (Inr rs, w')"
  shows "rs = records_at pid c v (table w) \<and> w' = w"
  using assms by (auto simp: query_records_def bind_g_stmt s_get_def)

lemma migrate_entry_rows:
  assumes "migrate_entry env wp pid e (m, q, a) w = (Inr (m', q', a'), w')" and "distinct (map row_id (table w))"
  shows "q \<le> q' \<and> (\<exists>v. parse_from_version (me_from e) = Inr v \<and> list_all2 (entry_after pid e v (q' = q)) (table w) (table w'))"
proof -
  obtain v rs where v: "parse_from_version (me_from e) = Inr v" and rs: "rs = records_at pid (me_collection e) v (table w)"
    and run: "if rs = [] then (m', q', a') = (m, q, a) \<and> w' = w
      else \<exists>k j. migrate_records env wp pid e rs w = (Inr (k, j), w') \<and> q' = q + j"
    using assms(1) by (auto simp: migrate_entry_def s_bind_ok s_check_def s_return_def rolled_back_ok split: if_splits
        dest!: query_records_ok g_stmt_cases)
  have "q \<le> q' \<and> list_all2 (row_after (fst ` set rs) (as_i64 (v_major (me_to e))) (q' = q)) (table w) (table w')"
  proof (cases "rs = []")
    case False
    with run obtain k j where "migrate_records env wp pid e rs w = (Inr (k, j), w')" "q' = q + j" by auto
    with migrate_records_rows [OF this(1)] show ?thesis by simp
  qed (use run in \<open>simp add: rows_after_same\<close>)
  with v rows_after_entry [OF _ assms(2)] rs show ?thesis by blast
qed

text \<open>What several entries make of a row.\<close>

definition entries_after :: "string \<Rightarrow> migration_entry list \<Rightarrow> sql_row \<Rightarrow> sql_row \<Rightarrow> bool" where
  "entries_after pid es r r' \<longleftrightarrow>
     row_id r' = row_id r \<and> row_plugin_id r' = row_plugin_id r \<and> row_collection r' = row_collection r \<and>
     row_created_at r' = row_created_at r \<and>
     (r' = r \<or> row_plugin_id r = pid \<and> row_collection r \<in> me_collection ` set es \<and>
       row_version r' \<in> (\<lambda>e. as_i64 (v_major (me_to e))) ` set es)"

lemma entry_entries_after:
  "entry_after pid e v b r r' \<Longrightarrow> entries_after pid es r' r'' \<Longrightarrow> entries_after pid (e # es) r r''"
  unfolding entry_after_def entries_after_def selected_def
  by (cases "r' = r") (auto split: if_splits)

lemma same_ids: "list_all2 (entry_after pid e v b) rows rows' \<Longrightarrow> map row_id rows' = map row_id rows"
  by (auto simp: list_all2_conv_all_nth entry_after_def intro!: nth_equalityI)

lemma migrate_entries_rows:
  assumes "migrate_entries env wp pid es (m, q, a) w = (Inr (m', q', a'), w')" and "distinct (map row_id (table w))"
  shows "q \<le> q' \<and> list_all2 (entries_after pid es) (table w) (table w')"
  using assms
proof (induction es arbitrary: m q a w)
  case Nil
  then show ?case by (simp add: s_return_def entries_after_def list_all2_same)
next
  case (Cons e es)
  obtain m1 q1 a1 w1 where first: "migrate_entry env wp pid e (m, q, a) w = (Inr (m1, q1, a1), w1)"
    and rest: "migrate_entries env wp pid es (m1, q1, a1) w1 = (Inr (m', q', a'), w')"
    using Cons.prems(1) by (auto simp: s_bind_ok)
  obtain v where v: "q \<le> q1" "list_all2 (entry_after pid e v (q1 = q)) (table w) (table w1)"
    using migrate_entry_rows [OF first Cons.prems(2)] by blast
  have "q1 \<le> q' \<and> list_all2 (entries_after pid es) (table w1) (table w')"
    using Cons.IH [OF rest] Cons.prems(2) same_ids [OF v(2)] by simp
  moreover have "list_all2 (entries_after pid (e # es)) (table w) (table w')"
    by (rule list_all2_trans [OF entry_entries_after v(2) calculation [THEN conjunct2]])
  ultimately show ?case using v(1) by simp
qed

text \<open>No record of the plugin is left in the collection of an entry at the version it starts from.\<close>

definition cleared :: "string \<Rightarrow> migration_entry \<Rightarrow> int \<Rightarrow> sql_row list \<Rightarrow> bool" where
  "cleared pid e v rows \<longleftrightarrow> (\<forall>r \<in> set rows. \<not> selected pid e v r)"

lemma cleared_later:
  assumes "list_all2 (entries_after pid es) rows rows'" and "cleared pid e v rows" and "\<forall>e' \<in> set es. v < as_i64 (v_major (me_to e'))"
  shows "cleared pid e v rows'"
  unfolding cleared_def
proof
  fix r'
  assume "r' \<in> set rows'"
  then obtain r where r: "r \<in> set rows" "entries_after pid es r r'"
    using list_all2_elem [OF assms(1)] by blast
  show "\<not> selected pid e v r'"
  proof (cases "r' = r")
    case True
    with r(1) assms(2) show ?thesis by (simp add: cleared_def)
  next
    case False
    with r(2) obtain e' where "e' \<in> set es" "row_version r' = as_i64 (v_major (me_to e'))" by (auto simp: entries_after_def)
    with assms(3) show ?thesis by (auto simp: selected_def)
  qed
qed

lemma cleared_now:
  assumes "list_all2 (entry_after pid e v True) rows rows'" and "v < as_i64 (v_major (me_to e))"
  shows "cleared pid e v rows'"
  unfolding cleared_def
proof
  fix r'
  assume "r' \<in> set rows'"
  then obtain r where "entry_after pid e v True r r'" using list_all2_elem [OF assms(1)] by blast
  with assms(2) show "\<not> selected pid e v r'" by (auto simp: entry_after_def selected_def split: if_splits)
qed

lemma as_i64_small: "n < 2 ^ 63 \<Longrightarrow> as_i64 n = int n"
  by (simp add: as_i64_def signed_of_nat signed_take_bit_int_eq_self)

lemma migrate_entries_cleared:
  assumes "migrate_entries env wp pid es (m, q, a) w = (Inr (m', q, a'), w')" and "distinct (map row_id (table w))"
    and "sorted_wrt (\<lambda>a b. \<not> target_less lib b a) es" and "\<forall>e \<in> set es. v_major (me_to e) < 2 ^ 63"
    and "e \<in> set es" and "parse_from_version (me_from e) = Inr v" and "v < int (v_major (me_to e))"
  shows "cleared pid e v (table w')"
  using assms(1-5)
proof (induction es arbitrary: m a w)
  case (Cons f es)
  obtain m1 q1 a1 w1 where first: "migrate_entry env wp pid f (m, q, a) w = (Inr (m1, q1, a1), w1)"
    and rest: "migrate_entries env wp pid es (m1, q1, a1) w1 = (Inr (m', q, a'), w')"
    using Cons.prems(1) by (auto simp: s_bind_ok)
  obtain u where u: "parse_from_version (me_from f) = Inr u" "list_all2 (entry_after pid f u (q1 = q)) (table w) (table w1)" "q \<le> q1"
    using migrate_entry_rows [OF first Cons.prems(2)] by blast
  have dist: "distinct (map row_id (table w1))" using Cons.prems(2) same_ids [OF u(2)] by simp
  note after = migrate_entries_rows [OF rest dist]
  have q1: "q1 = q" using after u(3) by simp
  show ?case
  proof (cases "e \<in> set es")
    case True
    with Cons.IH [OF rest [unfolded q1] dist] Cons.prems(3, 4) show ?thesis by simp
  next
    case False
    with Cons.prems(5) have e: "f = e" by simp
    with u(1) assms(6) have v: "u = v" by simp
    have "v_major (me_to e) \<le> v_major (me_to e')" if "e' \<in> set es" for e'
      using Cons.prems(3) that e by (auto simp: version_less_def)
    with Cons.prems(4) assms(7) e have "\<forall>e' \<in> set es. v < as_i64 (v_major (me_to e'))"
      by (fastforce simp: as_i64_small)
    moreover have "cleared pid e v (table w1)"
      using cleared_now [OF u(2) [unfolded q1 e v, simplified]] assms(7) Cons.prems(4) e by (simp add: as_i64_small)
    ultimately show ?thesis using cleared_later after by blast
  qed
qed simp

section \<open>Backups and logs\<close>

definition keeps_table :: "migration_world \<Rightarrow> migration_world \<Rightarrow> bool" where
  "keeps_table w w' \<longleftrightarrow> gd_rows (gw_db w') = gd_rows (gw_db w)"

definition keeps_backups :: "migration_world \<Rightarrow> migration_world \<Rightarrow> bool" where
  "keeps_backups w w' \<longleftrightarrow> gw_backups w' = gw_backups w"

interpretation still: state_order keeps_table
  by unfold_locales (simp_all add: keeps_table_def)

interpretation backed: state_order keeps_backups
  by unfold_locales (simp_all add: keeps_backups_def)

lemma g_stmt_moves: "moves keeps_table (g_stmt env text wrap)" "moves keeps_backups (g_stmt env text wrap)"
  by (auto simp: moves_def g_stmt_def keeps_table_def keeps_backups_def split: option.splits)

lemma g_draw_moves: "moves keeps_table (g_draw f)" "moves keeps_backups (g_draw f)"
  by (simp_all add: moves_def keeps_table_def keeps_backups_def)

lemma g_update_backups: "moves keeps_backups (g_update f)"
  by (simp add: moves_def keeps_backups_def)

lemma attempt_moves: "moves R a \<Longrightarrow> moves R (attempt a)"
  by (simp add: moves_def attempt_def)

lemmas backed_intros = backed.moves_intros g_stmt_moves(2) g_draw_moves(2) g_update_backups attempt_moves

lemma log_migration_moves: "moves keeps_table (log_migration env entry)" "moves keeps_backups (log_migration env entry)"
  unfolding log_migration_def
  by (intro still.moves_bind g_stmt_moves, simp add: moves_def keeps_table_def, intro backed_intros)

lemma log_entries_moves: "moves keeps_table (log_entries env pid m q d b es)" "moves keeps_backups (log_entries env pid m q d b es)"
  by (induction es) (auto intro!: still.moves_intros g_draw_moves attempt_moves log_migration_moves backed_intros)

lemma migrate_record_backups: "moves keeps_backups (migrate_record env wp pid e r)"
  unfolding migrate_record_def update_record_def quarantine_record_def
  by (auto split: prod.splits sum.splits intro!: backed_intros)

lemma migrate_records_backups: "moves keeps_backups (migrate_records env wp pid e rs)"
  by (induction rs) (auto intro!: backed_intros migrate_record_backups)

lemma rolled_back_backups: "moves keeps_backups body \<Longrightarrow> moves keeps_backups (rolled_back body)"
  unfolding moves_def rolled_back_def keeps_backups_def by (auto split: prod.splits sum.splits) (metis snd_conv)+

lemma migrate_entry_backups: "moves keeps_backups (migrate_entry env wp pid e t)"
  unfolding migrate_entry_def query_records_def
  by (auto split: prod.splits intro!: backed_intros backed.moves_if rolled_back_backups migrate_records_backups)

lemma migrate_entries_backups: "moves keeps_backups (migrate_entries env wp pid es t)"
  by (induction es arbitrary: t) (auto intro!: backed_intros migrate_entry_backups)

lemma create_backup_table: "moves keeps_table (create_backup env dir)"
  unfolding create_backup_def Let_def
  by (intro still.moves_intros still.moves_if g_stmt_moves g_draw_moves) (simp_all add: moves_def keeps_table_def)

lemma create_backup_done:
  assumes "create_backup env dir w = (Inr path, w')" and "\<And>w. ge_backup_step env w = Inr StepDone"
  shows "gw_backups w' path = Some (gw_db w)"
  using assms
  by (auto simp: create_backup_def Let_def s_bind_ok s_get_def s_return_def s_fail_def map_err_eq_Inr backup_target_def split: if_splits
      dest!: g_stmt_cases)

lemma run_migrations_ok:
  assumes "run_migrations env wp entries pid dir w = (Inr res, w')"
  obtains path w1 m a w2 w3 where "create_backup env dir w = (Inr path, w1)" and "mr_backup_path res = path"
    and "migrate_entries env wp pid (sort_by (target_less (ge_lib env)) entries) (0, 0, []) w1 = (Inr (m, mr_quarantined res, a), w2)"
    and "keeps_table w2 w'" and "keeps_backups w1 w'"
proof -
  obtain path w1 m q a w2 u where run: "create_backup env dir w = (Inr path, w1)"
      "migrate_entries env wp pid (sort_by (target_less (ge_lib env)) entries) (0, 0, []) w1 = (Inr (m, q, a), w2)"
      "log_entries env pid m q (ge_millis env (gw_draws w2)) path (sort_by (target_less (ge_lib env)) entries) (w2\<lparr>gw_draws := Suc (gw_draws w2)\<rparr>) = (Inr u, w')"
    and res: "mr_quarantined res = q" "mr_backup_path res = path"
    using assms
    by (auto simp: run_migrations_def mapped_def Let_def s_bind_ok s_return_def map_err_eq_Inr split: prod.splits dest!: g_stmt_cases)
  note logs = log_entries_moves [of env pid m q "ge_millis env (gw_draws w2)" path "sort_by (target_less (ge_lib env)) entries"]
  have "keeps_table (w2\<lparr>gw_draws := Suc (gw_draws w2)\<rparr>) w'" "keeps_backups (w2\<lparr>gw_draws := Suc (gw_draws w2)\<rparr>) w'"
    using moves_snd [OF logs(1) run(3)] moves_snd [OF logs(2) run(3)] by auto
  then have "keeps_table w2 w'" and "keeps_backups w2 w'" by (simp_all add: keeps_table_def keeps_backups_def)
  moreover have "keeps_backups w1 w2"
    by (rule moves_snd [OF migrate_entries_backups run(2)])
  ultimately show ?thesis using that [OF run(1) res(2)] run(2) res(1) backed.R_trans by blast
qed

section \<open>Properties\<close>

text \<open>
  C26: Accepted migrations are sound. Every entry of an accepted manifest starts below its target, no version of a
  collection is matched by two of its entries, and from the target of any entry the entries of its collection lead,
  one after the other, to the newest target.
\<close>

theorem accepted_migrations_lead_to_newest:
  assumes "parse_migration_entries_from_str lib content = Inr entries" and "\<And>xs. set (ml_key_order lib xs) = set xs"
  shows "(\<forall>e \<in> set entries. version_less lib (from_range_min_version (me_from e)) (me_to e)) \<and>
    (\<forall>c v. length (filter (\<lambda>e. in_range v (range_parse (me_from e))) (chain_of c entries)) \<le> 1) \<and>
    (\<forall>e \<in> set entries. let chain = chain_of (me_collection e) entries
       in (upgrades lib chain)\<^sup>*\<^sup>* (me_to e) (me_to (last (sort_by (target_less lib) chain))))"
proof (intro conjI allI ballI)
  fix c v
  show "length (filter (\<lambda>e. in_range v (range_parse (me_from e))) (chain_of c entries)) \<le> 1"
    using accepted_entries(2) [OF assms, of c] overlaps_iff by (intro pairs_disjoint) fastforce
next
  fix e
  assume e: "e \<in> set entries"
  let ?chain = "chain_of (me_collection e) entries" and ?xs = "sort_by (target_less lib) (chain_of (me_collection e) entries)"
  have "e \<in> set ?xs" using e by (simp add: chain_of_def)
  then obtain i where "i < length ?xs" "e = ?xs ! i" by (metis in_set_conv_nth)
  then show "let chain = ?chain in (upgrades lib chain)\<^sup>*\<^sup>* (me_to e) (me_to (last (sort_by (target_less lib) chain)))"
    unfolding Let_def using accepted_entries(3) [OF assms, of "me_collection e"] windows2_nth [of _ ?xs]
      chain_reaches_last [of ?xs lib i ?chain] by fastforce
qed (use accepted_entries(1) [OF assms] in blast)

definition sample_entry :: "string \<Rightarrow> nat \<Rightarrow> migration_entry" where
  "sample_entry range_text n = \<lparr>me_from = range_text, me_to = version_new n 0 0, me_transform = ''up'', me_description = ''next'',
     me_collection = ''drafts''\<rparr>"

definition sample_entries :: "migration_entry list" where
  "sample_entries = [sample_entry ''2.x'' 3, sample_entry ''1.x'' 2]"

definition sample_migration_lib :: migration_lib where
  "sample_migration_lib =
     \<lparr>ml_read_file = Inr, ml_toml = (\<lambda>_. Inr (Some (map (\<lambda>(f, t). \<lparr>rme_from = Some f, rme_to = Some t,
        rme_transform = Some ''up'', rme_description = Some ''next'', rme_collection = Some ''drafts''\<rparr>) [(''2.x'', ''3''), (''1.x'', ''2'')]))),
      ml_parse = (\<lambda>s. if s = ''2'' then Inr (version_new 2 0 0) else if s = ''3'' then Inr (version_new 3 0 0) else Inl s),
      ml_show = (\<lambda>v. if v_major v = 2 then ''2'' else ''3''), ml_rank = (\<lambda>_ _. 0), ml_key_order = (\<lambda>ks. ks), ml_payloads = (\<lambda>_. [])\<rparr>"

lemma sample_entries_parsed: "parse_migration_entries_from_str sample_migration_lib [] = Inr sample_entries"
  by (simp add: parse_migration_entries_from_str_def sample_migration_lib_def sample_entries_def sample_entry_def parse_entry_def required_def
      validate_from_range_def check_part_def validate_from_less_than_to_def from_range_min_version_def version_less_def version_new_def
      part_def parse_u64_def parse_digits_def validate_transform_name_def validate_collection_name_def is_ascii_alphanumeric_def
      is_ascii_alphabetic_def is_ascii_digit_def starts_with_def validate_no_overlapping_ranges_def collections_of_def chain_of_def range_parse_def
      validate_chain_contiguity_def windows2_def sort_by_def version_matches_range_def part_or_max_def)

theorem accepted_migrations_lead_to_newest_witness:
  "(upgrades sample_migration_lib sample_entries)\<^sup>*\<^sup>* (version_new 2 0 0) (version_new 3 0 0)"
proof -
  have chain: "chain_of ''drafts'' sample_entries = sample_entries"
    "sort_by (target_less sample_migration_lib) sample_entries = [sample_entry ''1.x'' 2, sample_entry ''2.x'' 3]"
    "me_collection (sample_entry ''1.x'' 2) = ''drafts''" "me_to (sample_entry ''1.x'' 2) = version_new 2 0 0"
    "me_to (sample_entry ''2.x'' 3) = version_new 3 0 0"
    by (simp_all add: chain_of_def sample_entries_def sort_by_def version_less_def version_new_def sample_entry_def)
  have "set (ml_key_order sample_migration_lib xs) = set xs" for xs by (simp add: sample_migration_lib_def)
  moreover have "sample_entry ''1.x'' 2 \<in> set sample_entries" by (simp add: sample_entries_def)
  ultimately have "let chain = chain_of (me_collection (sample_entry ''1.x'' 2)) sample_entries
    in (upgrades sample_migration_lib chain)\<^sup>*\<^sup>* (me_to (sample_entry ''1.x'' 2)) (me_to (last (sort_by (target_less sample_migration_lib) chain)))"
    using accepted_migrations_lead_to_newest [OF sample_entries_parsed] by blast
  then show ?thesis by (simp add: Let_def chain)
qed

definition sample_migration :: migration_env where
  "sample_migration =
     \<lparr>ge_lib = sample_migration_lib, ge_fault = (\<lambda>_ _. None), ge_backup_step = (\<lambda>_. Inr StepDone), ge_integrity = (\<lambda>_. Inr ''ok''),
      ge_call = (\<lambda>_ _ input. Inr input), ge_build = (\<lambda>_. Inr ()), ge_to_string = (\<lambda>_. Inr ''new''), ge_from_str = (\<lambda>_. Inr JNull),
      ge_uuid = (\<lambda>_. ''u''), ge_now = (\<lambda>_. ''now''), ge_stamp = (\<lambda>_. ''s''), ge_millis = (\<lambda>_. 5)\<rparr>"

lemma sample_migration_simps [simp]:
  "ge_fault sample_migration text w = None" "ge_integrity sample_migration d = Inr ''ok''" "ge_backup_step sample_migration w = Inr StepDone"
  by (simp_all add: sample_migration_def)

definition sample_migration_world :: migration_world where
  "sample_migration_world =
     \<lparr>gw_db = empty_db\<lparr>gd_rows := [sample_row ''r1'' ''mail'' ''drafts'' ''old'', sample_row ''r2'' ''web'' ''drafts'' ''old'']\<rparr>,
      gw_backups = Map.empty, gw_draws = 0\<rparr>"

abbreviation sample_run :: "(migration_error, migration_result) result \<times> migration_world" where
  "sample_run \<equiv> run_migrations sample_migration ''w'' sample_entries ''mail'' ''d'' sample_migration_world"

lemma sample_run_ok:
  "sample_run = (Inr \<lparr>mr_migrated = 2, mr_quarantined = 0, mr_duration_ms = 5, mr_backup_path = ''d/backups/pre-migration-s.db'',
     mr_entries_applied = [''1.x -> 2'', ''2.x -> 3'']\<rparr>, snd sample_run)"
proof -
  have "fst sample_run = Inr \<lparr>mr_migrated = 2, mr_quarantined = 0, mr_duration_ms = 5, mr_backup_path = ''d/backups/pre-migration-s.db'',
     mr_entries_applied = [''1.x -> 2'', ''2.x -> 3'']\<rparr>"
    by (simp add: run_migrations_def create_backup_def sample_migration_def sample_migration_world_def sample_entries_def
        sample_migration_lib_def sort_by_def version_less_def sample_entry_def
        Let_def mapped_def s_bind_def g_stmt_def s_get_def s_check_def s_return_def backup_target_def migrate_entry_def path_join_def ends_with_def
        parse_from_version_def parse_i64_def parse_digits_def query_records_def records_at_def sample_row_def rolled_back_def empty_db_def
        migrate_record_def run_transform_def run_transform_from_bytes_def update_record_def attempt_def log_migration_def version_new_def
        as_i64_small starts_with_def is_ascii_digit_def entry_label_def digit_char_def)
  then show ?thesis by (simp add: prod_eq_iff)
qed

lemma sample_run_file: "gw_backups (snd sample_run) ''d/backups/pre-migration-s.db'' = Some (gw_db sample_migration_world)"
proof -
  obtain w1 where "create_backup sample_migration ''d'' sample_migration_world = (Inr ''d/backups/pre-migration-s.db'', w1)"
    "keeps_backups w1 (snd sample_run)"
    by (rule run_migrations_ok [OF sample_run_ok]) simp
  with create_backup_done [OF this(1)] show ?thesis by (simp add: keeps_backups_def)
qed

text \<open>
  C17: Migrations leave nothing behind and touch nothing else. After a successful run the table has the same rows in
  the same places with their ids, owners and creation times; only records of the plugin in collections with entries
  differ, and these are at the target version of an entry. And when no record went to the quarantine, no record of
  the plugin is left at a version that an entry starts from, for the entries that cross a major version.
\<close>

theorem migration_leaves_nothing_behind:
  assumes "run_migrations env wasm_path entries pid dir w = (Inr res, w')" and "distinct (map row_id (table w))"
    and "\<forall>e \<in> set entries. v_major (me_to e) < 2 ^ 63"
  shows "list_all2 (entries_after pid entries) (table w) (table w') \<and>
    (mr_quarantined res = 0 \<longrightarrow> (\<forall>e \<in> set entries. \<forall>v. parse_from_version (me_from e) = Inr v \<longrightarrow> v < int (v_major (me_to e)) \<longrightarrow>
       cleared pid e v (table w')))"
proof -
  let ?es = "sort_by (target_less (ge_lib env)) entries"
  obtain path w1 m a w2 where run: "create_backup env dir w = (Inr path, w1)" "keeps_table w2 w'"
    "migrate_entries env wasm_path pid ?es (0, 0, []) w1 = (Inr (m, mr_quarantined res, a), w2)"
    by (rule run_migrations_ok [OF assms(1)])
  have tables: "table w1 = table w" "table w' = table w2"
    using moves_snd [OF create_backup_table run(1)] run(2) by (simp_all add: keeps_table_def)
  with assms(2) have dist: "distinct (map row_id (table w1))" by simp
  have "entries_after pid ?es = entries_after pid entries" by (simp add: fun_eq_iff entries_after_def)
  then have "list_all2 (entries_after pid entries) (table w) (table w')"
    using migrate_entries_rows [OF run(3) dist] tables by simp
  moreover have "cleared pid e v (table w')"
    if "mr_quarantined res = 0" "e \<in> set entries" "parse_from_version (me_from e) = Inr v" "v < int (v_major (me_to e))" for e v
    using migrate_entries_cleared [OF run(3) [unfolded that(1)] dist by_target.sorted_sort_by] assms(3) that tables by simp
  ultimately show ?thesis by blast
qed

theorem migration_leaves_nothing_behind_witness:
  "cleared ''mail'' (sample_entry ''1.x'' 2) 1 (table (snd sample_run)) \<and>
   list_all2 (entries_after ''mail'' sample_entries) (table sample_migration_world) (table (snd sample_run))"
proof -
  have "distinct (map row_id (table sample_migration_world))"
    by (simp add: sample_migration_world_def empty_db_def sample_row_def)
  moreover have "\<forall>e \<in> set sample_entries. v_major (me_to e) < 2 ^ 63"
    by (simp add: sample_entries_def sample_entry_def version_new_def)
  moreover have "parse_from_version (me_from (sample_entry ''1.x'' 2)) = Inr 1"
    by (simp add: parse_from_version_def sample_entry_def parse_i64_def parse_digits_def starts_with_def is_ascii_digit_def)
  moreover have "sample_entry ''1.x'' 2 \<in> set sample_entries" "(1 :: int) < int (v_major (me_to (sample_entry ''1.x'' 2)))"
    by (simp_all add: sample_entries_def sample_entry_def version_new_def)
  ultimately show ?thesis
    using migration_leaves_nothing_behind [OF sample_run_ok] by simp
qed



text \<open>
  A busy source is backed up as an empty database. When SQLite reports that the pages could not be copied, a
  new backup passes the integrity check of an empty file and the run goes on with a backup that restores nothing.
\<close>

theorem busy_backup_is_empty:
  assumes "\<And>text w. ge_fault env text w = None" and "\<And>w. ge_backup_step env w = Inr StepBusy"
    and "ge_integrity env empty_db = Inr ''ok''" and "gw_backups w = Map.empty"
  shows "\<exists>path w'. create_backup env dir w = (Inr path, w') \<and> gw_backups w' path = Some empty_db"
  using assms
  by (simp add: create_backup_def Let_def s_bind_def g_stmt_def s_get_def s_return_def backup_target_def)

theorem busy_backup_is_empty_witness:
  "\<exists>path w'. create_backup (sample_migration\<lparr>ge_backup_step := \<lambda>_. Inr StepBusy\<rparr>) ''d'' sample_migration_world = (Inr path, w') \<and>
     gw_backups w' path = Some empty_db"
  by (rule busy_backup_is_empty) (simp_all add: sample_migration_def sample_migration_world_def)

text \<open>
  Updated records escape migrations. The version column the engine selects by is the one that the storage backend
  counts updates in: after a successful update of a record at version \<open>v\<close>, an entry that starts at \<open>v\<close> no longer finds it,
  although its data is as old as before.
\<close>

theorem updated_records_escape_migration:
  assumes "execute_mutation env (MUpdate pid c i data v) st = (Inr (), st')" and "distinct_ids st"
  shows "i \<notin> fst ` set (records_at pid' c' (sint v) (ss_rows st'))"
  using update_past [OF assms(2, 1)] by (auto simp: records_at_def past_version_def)

theorem updated_records_escape_migration_witness:
  "''r2'' \<notin> fst ` set (records_at ''mail'' ''drafts'' (sint (1 :: 64 word))
     (ss_rows (snd (execute_mutation sample_backend (MUpdate ''mail'' ''drafts'' ''r2'' sample_note 1) sample_storage))))"
proof -
  have "execute_mutation sample_backend (MUpdate ''mail'' ''drafts'' ''r2'' sample_note 1) sample_storage =
      (Inr (), snd (execute_mutation sample_backend (MUpdate ''mail'' ''drafts'' ''r2'' sample_note 1) sample_storage))"
    by (simp add: prod_eq_iff sample_update)
  then show ?thesis by (rule updated_records_escape_migration) (rule sample_distinct)
qed

end
