(* ===== verification/Index_Migration.thy ===== *)
theory Index_Migration
  imports Sqlite_Backend
begin

text \<open>
  Indexes of a collection (\<open>storage-sqlite/src/migration/executor.rs\<close>): applying a collection descriptor creates the
  missing expression indexes and refuses to drop a field an index refers to. The state is the list of indexes on
  \<open>plugin_data\<close> as \<open>sqlite_master\<close> has them: the name and the text of the statement, which SQLite keeps without
  \<open>IF NOT EXISTS\<close>; an index SQLite made itself has no text. A statement may fail in the database.
\<close>

section \<open>Descriptors and indexes\<close>

record migrate_field =
  mgf_name :: string
  mgf_indexed :: bool

record migrate_descriptor =
  mgd_name :: string
  mgd_fields :: "migrate_field list"
  mgd_indexes :: "string list list"

type_synonym indexes = "(string \<times> string option) list"

type_synonym index_fault = "string \<Rightarrow> indexes \<Rightarrow> string option"

type_synonym 'a iop = "(backend_error, indexes, 'a) action"

definition ix_stmt :: "index_fault \<Rightarrow> string \<Rightarrow> unit iop" where
  "ix_stmt fault text ixs = (case fault text ixs of None \<Rightarrow> (Inr (), ixs) | Some e \<Rightarrow> (Inl (BDatabase e), ixs))"

section \<open>Reading the fields of an index\<close>

text \<open>The text before and after the first occurrence of a pattern, as \<open>str::find\<close> and the slices around it.\<close>

fun find_split :: "string \<Rightarrow> string \<Rightarrow> (string \<times> string) option" where
  "find_split p [] = (if p = [] then Some ([], []) else None)"
| "find_split p (c # s) =
     (if starts_with (c # s) p then Some ([], drop (length p) (c # s))
      else map_option (\<lambda>(a, b). (c # a, b)) (find_split p s))"

lemma find_split_eq: "find_split p s = Some (a, b) \<Longrightarrow> s = a @ p @ b"
  by (induction s arbitrary: a) (auto simp: starts_with_iff split: if_splits)

definition extract_pattern :: string where
  "extract_pattern = ''json_extract(data, '' @ [CHR 0x27] @ ''$.''"

definition field_end :: string where
  "field_end = [CHR 0x27] @ '')''"

function extract_fields :: "string \<Rightarrow> string list" where
  "extract_fields remaining =
     (case find_split extract_pattern remaining of
        None \<Rightarrow> []
      | Some (_, after_prefix) \<Rightarrow>
          (case find_split field_end after_prefix of
             None \<Rightarrow> []
           | Some (field, rest) \<Rightarrow> field # extract_fields rest))"
  by pat_completeness auto

termination
  by (relation "measure length") (auto dest!: find_split_eq simp: field_end_def)

declare extract_fields.simps [simp del]

definition extract_fields_from_index :: "index_fault \<Rightarrow> string \<Rightarrow> string list iop" where
  "extract_fields_from_index fault iname =
     s_bind (ix_stmt fault ''SELECT sql FROM sqlite_master'') (\<lambda>_.
     s_get (\<lambda>ixs. case map_of ixs iname of
       None \<Rightarrow> Inl (BDatabase ''Query returned no rows'')
     | Some None \<Rightarrow> Inr []
     | Some (Some sql) \<Rightarrow> Inr (extract_fields sql)))"

definition list_collection_indexes :: "index_fault \<Rightarrow> string \<Rightarrow> string list iop" where
  "list_collection_indexes fault collection =
     s_bind (ix_stmt fault ''SELECT name FROM sqlite_master'') (\<lambda>_.
     s_get (\<lambda>ixs. Inr (filter (\<lambda>n. starts_with n (''idx_col_'' @ collection @ ''_'')) (map fst ixs))))"

section \<open>Applying a descriptor\<close>

definition col_index_name :: "string \<Rightarrow> string list \<Rightarrow> string" where
  "col_index_name collection cols = ''idx_col_'' @ collection @ ''_'' @ join ''_'' cols"

definition field_sql :: "string \<Rightarrow> string" where
  "field_sql f = extract_pattern @ f @ field_end"

definition index_sql :: "string \<Rightarrow> string list \<Rightarrow> string" where
  "index_sql collection cols =
     ''CREATE INDEX '' @ col_index_name collection cols @ '' ON plugin_data(collection, '' @ join '', '' (map field_sql cols) @ '')''"

definition create_index :: "index_fault \<Rightarrow> string \<Rightarrow> string list \<Rightarrow> unit iop" where
  "create_index fault collection cols =
     s_bind (ix_stmt fault (index_sql collection cols)) (\<lambda>_ ixs.
       (Inr (), if col_index_name collection cols \<in> set (map fst ixs) then ixs
                else ixs @ [(col_index_name collection cols, Some (index_sql collection cols))]))"

definition declared_field_names :: "migrate_descriptor \<Rightarrow> string set" where
  "declared_field_names d = set (map mgf_name (mgd_fields d)) \<union> set (concat (mgd_indexes d))"

definition check_index :: "index_fault \<Rightarrow> migrate_descriptor \<Rightarrow> string \<Rightarrow> unit iop" where
  "check_index fault d idx_name =
     s_bind (extract_fields_from_index fault idx_name) (\<lambda>fields_in_index.
     s_check (check_all (\<lambda>field.
       if field \<in> declared_field_names d then Inr ()
       else Inl (BInvalidConfig (''schema conflict: field '' @ quoted field @ '' is referenced by existing index '' @ quoted idx_name @
         '' but is not present in the new descriptor for collection '' @ quoted (mgd_name d)))) fields_in_index))"

definition wanted_indexes :: "migrate_descriptor \<Rightarrow> string list list" where
  "wanted_indexes d =
     map (\<lambda>f. [mgf_name f]) (filter mgf_indexed (mgd_fields d)) @ filter (\<lambda>cols. cols \<noteq> []) (mgd_indexes d)"

definition execute_migration :: "index_fault \<Rightarrow> migrate_descriptor \<Rightarrow> unit iop" where
  "execute_migration fault d =
     s_bind (list_collection_indexes fault (mgd_name d)) (\<lambda>existing_indexes.
     s_bind (s_each (check_index fault d) existing_indexes) (\<lambda>_.
     s_each (create_index fault (mgd_name d)) (wanted_indexes d)))"

section \<open>Round trip of the index text\<close>

definition is_identifier :: "string \<Rightarrow> bool" where
  "is_identifier s \<longleftrightarrow> list_all (\<lambda>c. is_ascii_alphanumeric c \<or> c = CHR ''_'') s"

lemma first_occurrence: "q \<notin> set u \<Longrightarrow> takeWhile (\<lambda>x. x \<noteq> q) (u @ q # t) = u"
  by (induction u) auto

lemma find_split_first:
  assumes "q \<notin> set u" and "q \<notin> set a"
  shows "find_split (u @ q # v) (a @ (u @ q # v) @ b) = Some (a, b)"
  using assms(2)
proof (induction a)
  case Nil
  show ?case by (cases u) (auto simp: starts_with_def)
next
  case (Cons c a)
  have "\<not> starts_with ((c # a) @ (u @ q # v) @ b) (u @ q # v)"
  proof
    assume "starts_with ((c # a) @ (u @ q # v) @ b) (u @ q # v)"
    then obtain t where "(c # a @ u) @ q # v @ b = u @ q # v @ t" by (auto simp: starts_with_iff)
    with assms(1) Cons.prems have "c # a @ u = u"
      using first_occurrence [of q "c # a @ u" "v @ b"] first_occurrence [of q u "v @ t"] by simp
    then have "length (c # a @ u) = length u" by simp
    then show False by simp
  qed
  with Cons show ?case by simp
qed

lemma find_split_absent: "q \<notin> set s \<Longrightarrow> find_split (u @ q # v) s = None"
proof (induction s)
  case (Cons c s)
  have "\<not> starts_with (c # s) (u @ q # v)"
  proof
    assume "starts_with (c # s) (u @ q # v)"
    then obtain t where t: "c # s = u @ q # v @ t" by (auto simp: starts_with_iff)
    have "q \<in> set (c # s)" unfolding t by simp
    with Cons.prems show False by simp
  qed
  with Cons show ?case by simp
qed simp

abbreviation apostrophe :: char where
  "apostrophe \<equiv> CHR 0x27"

lemma pattern_split: "extract_pattern = ''json_extract(data, '' @ apostrophe # ''$.''" "field_end = [] @ apostrophe # '')''"
  by (simp_all add: extract_pattern_def field_end_def)

lemma extract_none: "apostrophe \<notin> set s \<Longrightarrow> extract_fields s = []"
  by (subst extract_fields.simps) (simp add: pattern_split find_split_absent del: append_Cons append.simps)

lemma extract_field:
  assumes "apostrophe \<notin> set a" and "apostrophe \<notin> set f"
  shows "extract_fields (a @ field_sql f @ b) = f # extract_fields b"
proof -
  have "find_split extract_pattern (a @ extract_pattern @ f @ field_end @ b) = Some (a, f @ field_end @ b)"
    unfolding pattern_split(1) by (rule find_split_first) (use assms in auto)
  moreover have "find_split field_end (f @ field_end @ b) = Some (f, b)"
    unfolding pattern_split(2) by (rule find_split_first) (use assms in auto)
  ultimately show ?thesis
    by (subst extract_fields.simps) (simp add: field_sql_def)
qed

lemma extract_joined:
  assumes "\<forall>f \<in> set fs. apostrophe \<notin> set f" and "apostrophe \<notin> set a"
  shows "extract_fields (a @ join '', '' (map field_sql fs) @ '')'') = fs"
  using assms
proof (induction fs arbitrary: a rule: induct_list012)
  case 1
  then show ?case by (simp add: extract_none)
next
  case (2 f)
  then show ?case using extract_field [of a f "'')''"] by (simp add: extract_none)
next
  case (3 f g fs)
  have "extract_fields (a @ field_sql f @ ('', '' @ join '', '' (map field_sql (g # fs)) @ '')'')) = f # g # fs"
    using extract_field [of a f] 3(1,3,4) 3(2) [of "'', ''"] by (simp del: append_Cons append.simps)
  then show ?case by simp
qed

lemma identifier_no_apostrophe: "is_identifier s \<Longrightarrow> apostrophe \<notin> set s"
  by (auto simp: is_identifier_def list_all_iff is_ascii_alphanumeric_def is_ascii_alphabetic_def is_ascii_digit_def)

lemma set_join: "set (join sep xs) \<subseteq> set sep \<union> \<Union> (set ` set xs)"
  by (induction sep xs rule: join.induct) auto

lemma extract_index_sql:
  assumes "is_identifier c" and "\<forall>f \<in> set fs. is_identifier f"
  shows "extract_fields (index_sql c fs) = fs"
proof -
  have "apostrophe \<notin> set (join ''_'' fs)"
    using set_join [of "''_''" fs] assms(2) identifier_no_apostrophe by fastforce
  then have "apostrophe \<notin> set (''CREATE INDEX '' @ col_index_name c fs @ '' ON plugin_data(collection, '')"
    using identifier_no_apostrophe [OF assms(1)] by (simp add: col_index_name_def)
  from extract_joined [OF _ this] assms(2) identifier_no_apostrophe show ?thesis
    unfolding index_sql_def by (simp only: append_assoc) blast
qed

section \<open>Idempotence\<close>

text \<open>Every index of the collection, as far as its name tells, has only declared fields.\<close>

definition conforms :: "migrate_descriptor \<Rightarrow> indexes \<Rightarrow> bool" where
  "conforms d ixs \<longleftrightarrow>
     (\<forall>n sql. map_of ixs n = Some (Some sql) \<longrightarrow> starts_with n (''idx_col_'' @ mgd_name d @ ''_'') \<longrightarrow>
        set (extract_fields sql) \<subseteq> declared_field_names d)"

definition has_indexes :: "migrate_descriptor \<Rightarrow> string list list \<Rightarrow> indexes \<Rightarrow> bool" where
  "has_indexes d cs ixs \<longleftrightarrow> (\<forall>fs \<in> set cs. col_index_name (mgd_name d) fs \<in> fst ` set ixs)"

lemma ix_stmt_ok: "ix_stmt fault text ixs = (Inr u, ixs') \<Longrightarrow> ixs' = ixs"
  by (auto simp: ix_stmt_def split: option.splits)

lemma check_index_ok:
  assumes "check_index fault d n ixs = (Inr u, ixs')"
  shows "ixs' = ixs \<and> (\<forall>sql. map_of ixs n = Some (Some sql) \<longrightarrow> set (extract_fields sql) \<subseteq> declared_field_names d)"
  using assms
  by (auto simp: check_index_def extract_fields_from_index_def s_bind_ok s_get_def s_check_def check_all_eq_Inr
      split: option.splits if_splits dest!: ix_stmt_ok)

lemma check_indexes_ok:
  assumes "s_each (check_index fault d) ns ixs = (Inr u, ixs')"
  shows "ixs' = ixs \<and> (\<forall>n \<in> set ns. \<forall>sql. map_of ixs n = Some (Some sql) \<longrightarrow> set (extract_fields sql) \<subseteq> declared_field_names d)"
  using assms by (induction ns) (auto simp: s_bind_ok s_return_def dest!: check_index_ok)

lemma wanted_declared: "fs \<in> set (wanted_indexes d) \<Longrightarrow> set fs \<subseteq> declared_field_names d"
  by (auto simp: wanted_indexes_def declared_field_names_def)

lemma conforms_append:
  assumes "conforms d ixs" and "set (extract_fields sql) \<subseteq> declared_field_names d"
  shows "conforms d (ixs @ [(n, Some sql)])"
  using assms by (simp add: conforms_def map_add_Some_iff split: if_splits)

lemma create_index_ok:
  assumes "create_index fault (mgd_name d) fs ixs = (Inr u, ixs')" and "conforms d ixs" and "set fs \<subseteq> declared_field_names d"
    and "is_identifier (mgd_name d)" and "\<forall>f \<in> set fs. is_identifier f"
  shows "conforms d ixs' \<and> col_index_name (mgd_name d) fs \<in> fst ` set ixs' \<and> fst ` set ixs \<subseteq> fst ` set ixs'"
proof (cases "col_index_name (mgd_name d) fs \<in> set (map fst ixs)")
  case True
  with assms(1) have "ixs' = ixs" by (simp add: create_index_def s_bind_def ix_stmt_def split: option.splits)
  with True assms(2) show ?thesis by simp
next
  case False
  with assms(1) have "ixs' = ixs @ [(col_index_name (mgd_name d) fs, Some (index_sql (mgd_name d) fs))]"
    by (simp add: create_index_def s_bind_def ix_stmt_def split: option.splits)
  with conforms_append [OF assms(2), of "index_sql (mgd_name d) fs"] extract_index_sql [OF assms(4, 5)] assms(3)
  show ?thesis by auto
qed

lemma create_indexes_ok:
  assumes "s_each (create_index fault (mgd_name d)) cs ixs = (Inr u, ixs')" and "conforms d ixs"
    and "\<forall>fs \<in> set cs. set fs \<subseteq> declared_field_names d \<and> (\<forall>f \<in> set fs. is_identifier f)" and "is_identifier (mgd_name d)"
  shows "conforms d ixs' \<and> has_indexes d cs ixs' \<and> fst ` set ixs \<subseteq> fst ` set ixs'"
  using assms(1-3)
proof (induction cs arbitrary: ixs)
  case Nil
  then show ?case by (simp add: s_return_def has_indexes_def)
next
  case (Cons fs cs)
  obtain u1 ixs1 where first: "create_index fault (mgd_name d) fs ixs = (Inr u1, ixs1)"
    and rest: "s_each (create_index fault (mgd_name d)) cs ixs1 = (Inr u, ixs')"
    using Cons.prems(1) by (auto simp: s_bind_ok)
  have "conforms d ixs1 \<and> col_index_name (mgd_name d) fs \<in> fst ` set ixs1 \<and> fst ` set ixs \<subseteq> fst ` set ixs1"
    using create_index_ok [OF first Cons.prems(2)] Cons.prems(3) assms(4) by simp
  moreover from this have "conforms d ixs' \<and> has_indexes d cs ixs' \<and> fst ` set ixs1 \<subseteq> fst ` set ixs'"
    using Cons.IH [OF rest] Cons.prems(3) by simp
  ultimately show ?case by (simp add: has_indexes_def) blast
qed

lemma checks_again:
  assumes "\<And>text ixs. fault text ixs = None" and "conforms d ixs"
    and "\<forall>n \<in> set ns. starts_with n (''idx_col_'' @ mgd_name d @ ''_'') \<and> n \<in> fst ` set ixs"
  shows "s_each (check_index fault d) ns ixs = (Inr (), ixs)"
  using assms(3)
proof (induction ns)
  case (Cons n ns)
  then have "map_of ixs n \<noteq> None" by (simp add: map_of_eq_None_iff)
  then obtain sql where n: "map_of ixs n = Some sql" by blast
  have "check_all (\<lambda>field. if field \<in> declared_field_names d then Inr () else Inl (e field)) (case sql of None \<Rightarrow> [] | Some t \<Rightarrow> extract_fields t) = Inr ()" for e
    using assms(2) n Cons.prems by (auto simp: check_all_eq_Inr conforms_def split: option.splits)
  then have "check_index fault d n ixs = (Inr (), ixs)"
    using n by (cases sql) (simp_all add: check_index_def extract_fields_from_index_def s_bind_def ix_stmt_def assms(1) s_get_def s_check_def s_return_def)
  with Cons show ?case by (simp add: s_bind_def)
qed (simp add: s_return_def)

lemma creates_again:
  assumes "\<And>text ixs. fault text ixs = None" and "has_indexes d cs ixs"
  shows "s_each (create_index fault (mgd_name d)) cs ixs = (Inr (), ixs)"
  using assms(2) by (induction cs) (auto simp: s_return_def s_bind_def create_index_def ix_stmt_def assms(1) has_indexes_def)

section \<open>Properties\<close>


definition sample_descriptor :: "string \<Rightarrow> string \<Rightarrow> migrate_descriptor" where
  "sample_descriptor c f = \<lparr>mgd_name = c, mgd_fields = [\<lparr>mgf_name = f, mgf_indexed = True\<rparr>], mgd_indexes = [[]]\<rparr>"


text \<open>
  The indexes of a collection are found by a prefix of their names, so a collection takes the indexes of another
  whose name continues its own with an underscore for its own.
\<close>

theorem foreign_index_conflicts:
  "fst (execute_migration (\<lambda>_ _. None) (sample_descriptor ''mail'' ''sent'') [(''idx_col_mail_rules_rank'', Some (index_sql ''mail_rules'' [''rank'']))]) =
     Inl (BInvalidConfig (''schema conflict: field '' @ quoted ''rank'' @ '' is referenced by existing index '' @ quoted ''idx_col_mail_rules_rank'' @
       '' but is not present in the new descriptor for collection '' @ quoted ''mail''))"
proof -
  have "extract_fields (index_sql ''mail_rules'' [''rank'']) = [''rank'']"
    by (rule extract_index_sql) (simp_all add: is_identifier_def is_ascii_alphanumeric_def is_ascii_alphabetic_def is_ascii_digit_def)
  then show ?thesis
    by (simp add: execute_migration_def list_collection_indexes_def check_index_def extract_fields_from_index_def s_bind_def ix_stmt_def
        s_get_def s_check_def starts_with_def sample_descriptor_def declared_field_names_def)
qed

end
