(* ===== verification/Legacy_Storage.thy ===== *)
theory Legacy_Storage
  imports Sqlite_Filter Workflow_Types
begin

text \<open>
  The storage adapter of the application (\<open>traits/src/legacy_storage.rs\<close>) and its SQLite implementation
  (\<open>storage-sqlite/src/legacy.rs\<close>): records under a plugin and a collection with a version for optimistic locking,
  the filter language with its translation to SQL, the audit log and the change events. The state is the two tables
  and the list of published events. SQLite is a parameter, which may fail a statement and evaluates the text of a
  query; so are the text form of JSON and of times, fresh ids and the clock. \<open>lg_overflow_checks\<close> says whether the
  build checks additions for overflow.
\<close>

section \<open>Records, filters and errors\<close>

datatype legacy_error = LNotFound | LVersionMismatch | LOther string | LPanic string

record legacy_record =
  rec_id :: string
  rec_plugin_id :: string
  rec_collection :: string
  rec_data :: json
  rec_version :: int
  rec_user_id :: "string option"
  rec_household_id :: "string option"
  rec_created_at :: timestamp
  rec_updated_at :: timestamp

datatype comparison_op = CGte | CLte | CGt | CLt

datatype query_filters =
  QueryFilters (qfs_equality: "(string \<times> json) list") (qfs_comparison: "(string \<times> comparison_op \<times> json) list")
    (qfs_text_search: "(string \<times> string) list") (qfs_and: "query_filters list") (qfs_or: "query_filters list")

definition default_filters :: query_filters where
  "default_filters = QueryFilters [] [] [] [] []"

record pagination =
  pg_limit :: nat
  pg_offset :: nat

definition default_pagination :: pagination where
  "default_pagination = \<lparr>pg_limit = 50, pg_offset = 0\<rparr>"

definition clamped :: "pagination \<Rightarrow> pagination" where
  "clamped p = p\<lparr>pg_limit := min (pg_limit p) 1000\<rparr>"

record legacy_result =
  lr_records :: "legacy_record list"
  lr_total :: nat
  lr_limit :: nat
  lr_offset :: nat

section \<open>State and environment\<close>

record legacy_row =
  lrow_id :: string
  lrow_plugin_id :: string
  lrow_collection :: string
  lrow_data :: string
  lrow_version :: int
  lrow_user_id :: "string option"
  lrow_household_id :: "string option"
  lrow_created_at :: string
  lrow_updated_at :: string

record legacy_audit =
  la_id :: string
  la_timestamp :: string
  la_event_type :: string
  la_collection :: "string option"
  la_document_id :: "string option"
  la_identity_subject :: "string option"
  la_plugin_id :: "string option"
  la_details :: "string option"

datatype change_type = Created | Updated | Deleted

type_synonym change_event = "string \<times> string \<times> change_type"

record legacy_store =
  lst_rows :: "legacy_row list"
  lst_audit :: "legacy_audit list"
  lst_events :: "change_event list"
  lst_draws :: nat

record legacy_env =
  lg_fault :: "string \<Rightarrow> legacy_store \<Rightarrow> string option"
  lg_select :: "string \<Rightarrow> sql_value list \<Rightarrow> legacy_row list \<Rightarrow> (string, legacy_row list) result"
  lg_count :: "string \<Rightarrow> sql_value list \<Rightarrow> legacy_row list \<Rightarrow> (string, nat) result"
  lg_to_string :: "json \<Rightarrow> (string, string) result"
  lg_from_str :: "string \<Rightarrow> (string, json) result"
  lg_display :: "json \<Rightarrow> string"
  lg_now :: "nat \<Rightarrow> timestamp"
  lg_rfc3339 :: "timestamp \<Rightarrow> string"
  lg_parse_time :: "string \<Rightarrow> (string, timestamp) result"
  lg_cutoff :: "nat \<Rightarrow> nat \<Rightarrow> string"
  lg_uuid :: "nat \<Rightarrow> string"
  lg_overflow_checks :: bool

type_synonym 'a lop = "(legacy_error, legacy_store, 'a) action"

definition lg_draw :: "(nat \<Rightarrow> 'a) \<Rightarrow> 'a lop" where
  "lg_draw f st = (Inr (f (lst_draws st)), st\<lparr>lst_draws := Suc (lst_draws st)\<rparr>)"

definition lg_stmt :: "legacy_env \<Rightarrow> string \<Rightarrow> unit lop" where
  "lg_stmt env text st = (case lg_fault env text st of None \<Rightarrow> (Inr (), st) | Some e \<Rightarrow> (Inl (LOther e), st))"

section \<open>Audit log and events\<close>

definition log_event_full ::
  "legacy_env \<Rightarrow> string \<Rightarrow> string option \<Rightarrow> string option \<Rightarrow> string option \<Rightarrow> string option \<Rightarrow> json option \<Rightarrow> unit lop" where
  "log_event_full env event_type collection document_id identity_subject plugin_id details =
     s_bind (lg_draw (lg_uuid env)) (\<lambda>i.
     s_bind (lg_draw (\<lambda>n. lg_rfc3339 env (lg_now env n))) (\<lambda>now.
     s_bind (s_check (map_err LOther (case details of None \<Rightarrow> Inr None | Some d \<Rightarrow> r_bind (lg_to_string env d) (\<lambda>s. Inr (Some s))))) (\<lambda>details_str.
     s_bind (lg_stmt env ''INSERT INTO audit_log'') (\<lambda>_ st.
       (Inr (), st\<lparr>lst_audit := lst_audit st @ [\<lparr>la_id = i, la_timestamp = now, la_event_type = event_type, la_collection = collection,
         la_document_id = document_id, la_identity_subject = identity_subject, la_plugin_id = plugin_id, la_details = details_str\<rparr>]\<rparr>)))))"

definition query_entries :: "legacy_env \<Rightarrow> nat \<Rightarrow> nat \<Rightarrow> (legacy_audit list \<times> nat) lop" where
  "query_entries env limit offset =
     s_bind (lg_stmt env ''SELECT COUNT(*) FROM audit_log'') (\<lambda>_.
     s_bind (s_get (\<lambda>st. Inr (length (lst_audit st)))) (\<lambda>count.
     s_bind (lg_stmt env ''SELECT FROM audit_log'') (\<lambda>_.
     s_get (\<lambda>st. Inr (take (min limit 1000) (drop offset (sort_by (\<lambda>a b. la_timestamp b < la_timestamp a) (lst_audit st))), count)))))"

definition audit_retention :: nat where
  "audit_retention = 90"

definition legacy_cleanup :: "legacy_env \<Rightarrow> nat lop" where
  "legacy_cleanup env =
     s_bind (lg_draw (\<lambda>n. lg_cutoff env n audit_retention)) (\<lambda>cutoff.
     s_bind (lg_stmt env ''DELETE FROM audit_log'') (\<lambda>_ st.
       (Inr (length (filter (\<lambda>a. la_timestamp a < cutoff) (lst_audit st))),
        st\<lparr>lst_audit := filter (\<lambda>a. \<not> la_timestamp a < cutoff) (lst_audit st)\<rparr>)))"

definition publish :: "change_event \<Rightarrow> unit lop" where
  "publish e st = (Inr (), st\<lparr>lst_events := lst_events st @ [e]\<rparr>)"

section \<open>Filters\<close>

definition validate_field_name :: "string \<Rightarrow> (string, unit) result" where
  "validate_field_name field =
     (if field = [] \<or> \<not> list_all (\<lambda>c. is_ascii_alphanumeric c \<or> c = CHR ''_'' \<or> c = CHR ''.'') field
      then Inl (''invalid filter field name: '' @ field) else Inr ())"

definition escape_like :: "string \<Rightarrow> string" where
  "escape_like v =
     replace_char CHR ''_'' [backslash, CHR ''_''] (replace_char CHR ''%'' [backslash, CHR ''%''] (replace_char backslash [backslash, backslash] v))"

fun legacy_op_sql :: "comparison_op \<Rightarrow> string" where
  "legacy_op_sql CGte = ''>=''"
| "legacy_op_sql CLte = ''<=''"
| "legacy_op_sql CGt = ''>''"
| "legacy_op_sql CLt = ''<''"

definition field_text :: "string \<Rightarrow> string" where
  "field_text f = ''json_extract(data, '' @ [CHR 0x27] @ ''$.'' @ f @ [CHR 0x27] @ '')''"

definition valid_field :: "string \<Rightarrow> bool" where
  "valid_field f = is_ok (validate_field_name f)"

definition equality_sql :: "(string \<times> json) list \<Rightarrow> (string \<times> json) list" where
  "equality_sql fs = map (\<lambda>(f, v). (field_text f @ '' = ?'', v)) (filter (valid_field \<circ> fst) fs)"

definition comparison_sql :: "(string \<times> comparison_op \<times> json) list \<Rightarrow> (string \<times> json) list" where
  "comparison_sql fs = map (\<lambda>(f, c, v). (field_text f @ '' '' @ legacy_op_sql c @ '' ?'', v)) (filter (valid_field \<circ> fst) fs)"

definition text_sql :: "(string \<times> string) list \<Rightarrow> (string \<times> json) list" where
  "text_sql fs = map (\<lambda>(f, t). (field_text f @ '' LIKE ? ESCAPE '' @ [CHR 0x27, backslash, CHR 0x27], JString (''%'' @ escape_like t @ ''%'')))
     (filter (valid_field \<circ> fst) fs)"

definition group_sql :: "string \<Rightarrow> string list \<times> json list \<Rightarrow> string list \<times> json list" where
  "group_sql sep = (\<lambda>(parts, binds). (if parts = [] then [] else [''('' @ join sep parts @ '')''], binds))"

text \<open>The parts and the bind values a filter adds, in their order.\<close>

fun build_filter_sql :: "query_filters \<Rightarrow> string list \<times> json list" where
  "build_filter_sql (QueryFilters eqs cmps texts ands ors) =
     (let leaves = equality_sql eqs @ comparison_sql cmps @ text_sql texts;
          groups = map (\<lambda>g. group_sql '' AND '' (build_filter_sql g)) ands @ map (\<lambda>g. group_sql '' OR '' (build_filter_sql g)) ors
      in (map fst leaves @ concat (map fst groups), map snd leaves @ concat (map snd groups)))"

section \<open>The adapter\<close>

definition row_to_record :: "legacy_env \<Rightarrow> legacy_row \<Rightarrow> (legacy_error, legacy_record) result" where
  "row_to_record env r =
     r_bind (map_err LOther (lg_from_str env (lrow_data r))) (\<lambda>data.
     r_bind (map_err LOther (lg_parse_time env (lrow_created_at r))) (\<lambda>created.
     r_bind (map_err LOther (lg_parse_time env (lrow_updated_at r))) (\<lambda>updated.
     Inr \<lparr>rec_id = lrow_id r, rec_plugin_id = lrow_plugin_id r, rec_collection = lrow_collection r, rec_data = data,
       rec_version = lrow_version r, rec_user_id = lrow_user_id r, rec_household_id = lrow_household_id r,
       rec_created_at = created, rec_updated_at = updated\<rparr>)))"

definition is_record :: "string \<Rightarrow> string \<Rightarrow> string \<Rightarrow> legacy_row \<Rightarrow> bool" where
  "is_record pid c i r \<longleftrightarrow> lrow_id r = i \<and> lrow_plugin_id r = pid \<and> lrow_collection r = c"

definition legacy_get :: "legacy_env \<Rightarrow> string \<Rightarrow> string \<Rightarrow> string \<Rightarrow> legacy_record option lop" where
  "legacy_get env pid c i =
     s_bind (lg_stmt env ''SELECT FROM plugin_data'') (\<lambda>_.
     s_get (\<lambda>st. case find (is_record pid c i) (lst_rows st) of
       None \<Rightarrow> Inr None
     | Some r \<Rightarrow> r_bind (row_to_record env r) (\<lambda>x. Inr (Some x))))"

definition legacy_create_with_id :: "legacy_env \<Rightarrow> string \<Rightarrow> string \<Rightarrow> string \<Rightarrow> json \<Rightarrow> legacy_record lop" where
  "legacy_create_with_id env pid c i data =
     s_bind (lg_draw (lg_now env)) (\<lambda>now.
     s_bind (s_check (map_err LOther (lg_to_string env data))) (\<lambda>data_str.
     s_bind (lg_stmt env ''INSERT INTO plugin_data'') (\<lambda>_.
     s_bind (\<lambda>st. if i \<in> set (map lrow_id (lst_rows st)) then (Inl (LOther ''UNIQUE constraint failed: plugin_data.id''), st)
       else (Inr (), st\<lparr>lst_rows := lst_rows st @ [\<lparr>lrow_id = i, lrow_plugin_id = pid, lrow_collection = c, lrow_data = data_str,
         lrow_version = 1, lrow_user_id = None, lrow_household_id = None, lrow_created_at = lg_rfc3339 env now,
         lrow_updated_at = lg_rfc3339 env now\<rparr>]\<rparr>)) (\<lambda>_.
     s_bind (log_event_full env ''system.storage.created'' (Some c) (Some i) None (Some pid) None) (\<lambda>_.
     s_bind (publish (c, i, Created)) (\<lambda>_.
     s_return \<lparr>rec_id = i, rec_plugin_id = pid, rec_collection = c, rec_data = data, rec_version = 1, rec_user_id = None,
       rec_household_id = None, rec_created_at = now, rec_updated_at = now\<rparr>))))))"

definition legacy_create :: "legacy_env \<Rightarrow> string \<Rightarrow> string \<Rightarrow> json \<Rightarrow> legacy_record lop" where
  "legacy_create env pid c data = s_bind (lg_draw (lg_uuid env)) (\<lambda>i. legacy_create_with_id env pid c i data)"

text \<open>\<open>version + 1\<close> on 64 bits.\<close>

definition next_version :: "bool \<Rightarrow> int \<Rightarrow> (legacy_error, int) result" where
  "next_version checks v =
     (if v + 1 < 2 ^ 63 then Inr (v + 1)
      else if checks then Inl (LPanic ''attempt to add with overflow'') else Inr (- (2 ^ 63)))"

definition version_details :: "int \<Rightarrow> json" where
  "version_details v = JObject [(''new_version'', JNumber (if 0 \<le> v then NPosInt (nat v) else NNegInt v))]"

text \<open>What follows the statement of an update that changed \<open>rows\<close> rows.\<close>

definition update_report :: "legacy_env \<Rightarrow> string \<Rightarrow> string \<Rightarrow> string \<Rightarrow> json \<Rightarrow> int \<Rightarrow> timestamp \<Rightarrow> nat \<Rightarrow> legacy_record lop" where
  "update_report env pid c i data new_version now rows =
     (if rows = 0 then
       s_bind (lg_stmt env ''SELECT EXISTS'') (\<lambda>_.
       s_get (\<lambda>st. if list_ex (is_record pid c i) (lst_rows st) then Inl LVersionMismatch else Inl LNotFound))
     else
       s_bind (lg_stmt env ''SELECT created_at'') (\<lambda>_.
       s_bind (s_get (\<lambda>st. ok_or (find (\<lambda>r. lrow_id r = i) (lst_rows st)) (LOther ''Query returned no rows''))) (\<lambda>row.
       s_bind (log_event_full env ''system.storage.updated'' (Some c) (Some i) None (Some pid)
         (Some (version_details new_version))) (\<lambda>_.
       s_bind (publish (c, i, Updated)) (\<lambda>_.
       s_bind (s_check (map_err LOther (lg_parse_time env (lrow_created_at row)))) (\<lambda>created.
       s_return \<lparr>rec_id = i, rec_plugin_id = pid, rec_collection = c, rec_data = data, rec_version = new_version, rec_user_id = None,
         rec_household_id = None, rec_created_at = created, rec_updated_at = now\<rparr>))))))"

definition updated_row :: "string \<Rightarrow> string \<Rightarrow> string \<Rightarrow> int \<Rightarrow> string \<Rightarrow> int \<Rightarrow> string \<Rightarrow> legacy_row \<Rightarrow> legacy_row" where
  "updated_row pid c i v data_str new_version now r =
     (if is_record pid c i r \<and> lrow_version r = v
      then r\<lparr>lrow_data := data_str, lrow_version := new_version, lrow_updated_at := now\<rparr> else r)"

definition legacy_update :: "legacy_env \<Rightarrow> string \<Rightarrow> string \<Rightarrow> string \<Rightarrow> json \<Rightarrow> int \<Rightarrow> legacy_record lop" where
  "legacy_update env pid c i data v =
     s_bind (lg_draw (lg_now env)) (\<lambda>now.
     s_bind (s_check (map_err LOther (lg_to_string env data))) (\<lambda>data_str.
     s_bind (s_check (next_version (lg_overflow_checks env) v)) (\<lambda>new_version.
     s_bind (lg_stmt env ''UPDATE plugin_data'') (\<lambda>_.
     s_bind (s_get (\<lambda>st. Inr (length (filter (\<lambda>r. is_record pid c i r \<and> lrow_version r = v) (lst_rows st))))) (\<lambda>rows.
     s_bind (\<lambda>st. (Inr (), st\<lparr>lst_rows := map (updated_row pid c i v data_str new_version (lg_rfc3339 env now)) (lst_rows st)\<rparr>)) (\<lambda>_.
     update_report env pid c i data new_version now rows))))))"

definition legacy_delete :: "legacy_env \<Rightarrow> string \<Rightarrow> string \<Rightarrow> string \<Rightarrow> bool lop" where
  "legacy_delete env pid c i =
     s_bind (lg_stmt env ''DELETE FROM plugin_data'') (\<lambda>_.
     s_bind (s_get (\<lambda>st. Inr (length (filter (is_record pid c i) (lst_rows st))))) (\<lambda>rows.
     s_bind (\<lambda>st. (Inr (), st\<lparr>lst_rows := filter (\<lambda>r. \<not> is_record pid c i r) (lst_rows st)\<rparr>)) (\<lambda>_.
     if 0 < rows then
       s_bind (log_event_full env ''system.storage.deleted'' (Some c) (Some i) None (Some pid) None) (\<lambda>_.
       s_bind (publish (c, i, Deleted)) (\<lambda>_. s_return True))
     else s_return False)))"

definition order_clause :: "(string \<times> sort_direction) option \<Rightarrow> (legacy_error, string) result" where
  "order_clause sort_opt =
     (case sort_opt of
        None \<Rightarrow> Inr []
      | Some (f, dir) \<Rightarrow>
          if list_all (\<lambda>c. is_ascii_alphanumeric c \<or> c = CHR ''_'') f
          then Inr (''ORDER BY '' @ field_text f @ '' '' @ (case dir of Asc \<Rightarrow> ''ASC'' | Desc \<Rightarrow> ''DESC''))
          else Inl (LOther (''invalid sort_by field name: '' @ f)))"

definition where_clause :: "query_filters \<Rightarrow> string" where
  "where_clause filters = join '' AND '' ([''plugin_id = ?'', ''collection = ?''] @ fst (build_filter_sql filters))"

definition where_binds :: "string \<Rightarrow> string \<Rightarrow> query_filters \<Rightarrow> json list" where
  "where_binds pid c filters = [JString pid, JString c] @ snd (build_filter_sql filters)"

definition data_sql :: "query_filters \<Rightarrow> string \<Rightarrow> string" where
  "data_sql filters order =
     ''SELECT id, plugin_id, collection, data, version, user_id, household_id, created_at, updated_at FROM plugin_data WHERE '' @
     where_clause filters @ '' '' @ order @ '' LIMIT ? OFFSET ?''"

definition legacy_query ::
  "legacy_env \<Rightarrow> string \<Rightarrow> string \<Rightarrow> query_filters \<Rightarrow> (string \<times> sort_direction) option \<Rightarrow> pagination \<Rightarrow> legacy_result lop" where
  "legacy_query env pid c filters sort_opt pagination =
     (let p = clamped pagination; binds = map (json_value_to_boxed_sql (lg_display env)) (where_binds pid c filters) in
     s_bind (s_get (\<lambda>st. map_err LOther (lg_count env (''SELECT COUNT(*) FROM plugin_data WHERE '' @ where_clause filters) binds (lst_rows st)))) (\<lambda>count.
     s_bind (s_check (order_clause sort_opt)) (\<lambda>order.
     s_bind (s_get (\<lambda>st. r_bind (map_err LOther (lg_select env (data_sql filters order)
         (binds @ [SqlInt (int (pg_limit p)), SqlInt (int (pg_offset p))]) (lst_rows st))) (map_r (row_to_record env)))) (\<lambda>records.
     s_return \<lparr>lr_records = records, lr_total = count, lr_limit = pg_limit p, lr_offset = pg_offset p\<rparr>))))"

definition legacy_list ::
  "legacy_env \<Rightarrow> string \<Rightarrow> string \<Rightarrow> (string \<times> sort_direction) option \<Rightarrow> pagination \<Rightarrow> legacy_result lop" where
  "legacy_list env pid c sort_opt pagination = legacy_query env pid c default_filters sort_opt pagination"

end
