(* ===== verification/Conflict.thy ===== *)
theory Conflict
  imports Legacy_Storage "HOL-Library.AList"
begin

text \<open>
  Conflicts between a local and a remote version of a record (\<open>apps/core/src/conflict.rs\<close>): detection against a base
  version, last write wins, the three-way merge of the fields of an object, and the in-memory store of conflicts. The
  order in which a \<open>HashSet\<close> or a \<open>HashMap\<close> is visited is a parameter.
\<close>

section \<open>Conflicts\<close>

datatype resolution_strategy = LastWriteWins | FieldLevelMerge | ManualResolution

datatype conflict_resolution = KeepLocal | KeepRemote | Merged json | RequiresManual

record conflict =
  cf_id :: string
  cf_collection :: string
  cf_record_id :: string
  cf_local_version :: legacy_record
  cf_remote_version :: legacy_record
  cf_strategy :: resolution_strategy
  cf_resolved :: bool
  cf_resolution :: "conflict_resolution option"
  cf_detected_at :: timestamp

definition strategy_for_collection :: "string \<Rightarrow> resolution_strategy" where
  "strategy_for_collection collection =
     (if collection = ''events'' \<or> collection = ''contacts'' then FieldLevelMerge
      else if collection = ''notes'' then ManualResolution else LastWriteWins)"

text \<open>The fresh id and the time are arguments.\<close>

definition detect_conflict :: "string \<Rightarrow> timestamp \<Rightarrow> legacy_record \<Rightarrow> legacy_record \<Rightarrow> int \<Rightarrow> conflict option" where
  "detect_conflict i now loc rem base_version =
     (if rec_version loc = rec_version rem then None
      else if rec_version loc = base_version \<or> rec_version rem = base_version then None
      else Some \<lparr>cf_id = i, cf_collection = rec_collection loc, cf_record_id = rec_id loc, cf_local_version = loc,
        cf_remote_version = rem, cf_strategy = strategy_for_collection (rec_collection loc), cf_resolved = False,
        cf_resolution = None, cf_detected_at = now\<rparr>)"

definition resolve_last_write_wins :: "conflict \<Rightarrow> conflict_resolution" where
  "resolve_last_write_wins c =
     (if rec_updated_at (cf_remote_version c) < rec_updated_at (cf_local_version c) then KeepLocal else KeepRemote)"

text \<open>What one field becomes; \<open>None\<close> when both sides changed it differently.\<close>

definition merge_field :: "json option \<Rightarrow> json option \<Rightarrow> json option \<Rightarrow> json option option" where
  "merge_field base_val local_val remote_val =
     (if local_val \<noteq> base_val \<and> remote_val \<noteq> base_val then (if local_val = remote_val then Some local_val else None)
      else if local_val \<noteq> base_val then Some local_val
      else if remote_val \<noteq> base_val then Some remote_val
      else Some (case base_val of Some v \<Rightarrow> Some v | None \<Rightarrow> (case local_val of Some v \<Rightarrow> Some v | None \<Rightarrow> remote_val)))"

fun merge_keys :: "jobject option \<Rightarrow> jobject \<Rightarrow> jobject \<Rightarrow> string list \<Rightarrow> jobject \<Rightarrow> jobject option" where
  "merge_keys base loc rem [] merged = Some merged"
| "merge_keys base loc rem (key # keys) merged =
     (case merge_field (Option.bind base (\<lambda>b. obj_get b key)) (obj_get loc key) (obj_get rem key) of
        None \<Rightarrow> None
      | Some None \<Rightarrow> merge_keys base loc rem keys merged
      | Some (Some v) \<Rightarrow> merge_keys base loc rem keys (obj_insert key v merged))"

definition all_keys :: "(string list \<Rightarrow> string list) \<Rightarrow> jobject \<Rightarrow> jobject \<Rightarrow> string list" where
  "all_keys order loc rem = order (remdups (map fst loc @ map fst rem))"

definition base_object :: "json option \<Rightarrow> jobject option" where
  "base_object base_data = Option.bind base_data as_object"

definition resolve_field_merge :: "(string list \<Rightarrow> string list) \<Rightarrow> conflict \<Rightarrow> json option \<Rightarrow> conflict_resolution" where
  "resolve_field_merge order c base_data =
     (case (as_object (rec_data (cf_local_version c)), as_object (rec_data (cf_remote_version c))) of
        (Some loc, Some rem) \<Rightarrow>
          (case merge_keys (base_object base_data) loc rem (all_keys order loc rem) [] of
             None \<Rightarrow> RequiresManual
           | Some merged \<Rightarrow> Merged (JObject merged))
      | _ \<Rightarrow> resolve_last_write_wins c)"

definition field_merge_needs_manual :: "(string list \<Rightarrow> string list) \<Rightarrow> conflict \<Rightarrow> json option \<Rightarrow> bool" where
  "field_merge_needs_manual order c base_data =
     (case (as_object (rec_data (cf_local_version c)), as_object (rec_data (cf_remote_version c))) of
        (Some loc, Some rem) \<Rightarrow>
          list_ex (\<lambda>key. let base_val = Option.bind (base_object base_data) (\<lambda>b. obj_get b key)
            in obj_get loc key \<noteq> base_val \<and> obj_get rem key \<noteq> base_val \<and> obj_get loc key \<noteq> obj_get rem key) (all_keys order loc rem)
      | _ \<Rightarrow> False)"

definition resolve_manual :: "conflict \<Rightarrow> conflict_resolution option" where
  "resolve_manual c = None"

section \<open>The store\<close>

type_synonym conflict_store = "(string \<times> conflict) list"

definition cs_add :: "conflict \<Rightarrow> conflict_store \<Rightarrow> conflict_store" where
  "cs_add c s = AList.update (cf_id c) c s"

definition cs_get :: "conflict_store \<Rightarrow> string \<Rightarrow> conflict option" where
  "cs_get s i = map_of s i"

definition list_unresolved :: "(conflict list \<Rightarrow> conflict list) \<Rightarrow> conflict_store \<Rightarrow> nat \<Rightarrow> nat \<Rightarrow> conflict list \<times> nat" where
  "list_unresolved order s limit offset =
     (let unresolved = filter (\<lambda>c. \<not> cf_resolved c) (order (map snd s))
      in (take limit (drop offset unresolved), length unresolved))"

definition cs_resolve :: "string \<Rightarrow> conflict_resolution \<Rightarrow> conflict_store \<Rightarrow> bool \<times> conflict_store" where
  "cs_resolve i r s =
     (case map_of s i of
        None \<Rightarrow> (False, s)
      | Some c \<Rightarrow> (True, AList.update i (c\<lparr>cf_resolved := True, cf_resolution := Some r\<rparr>) s))"

definition cs_remove :: "string \<Rightarrow> conflict_store \<Rightarrow> bool \<times> conflict_store" where
  "cs_remove i s = (map_of s i \<noteq> None, AList.delete i s)"

section \<open>The merge\<close>

lemma merge_keys_get:
  assumes "merge_keys base loc rem keys merged = Some out" and "distinct keys"
  shows "obj_get out k = (if k \<in> set keys
      then (case merge_field (Option.bind base (\<lambda>b. obj_get b k)) (obj_get loc k) (obj_get rem k) of
              Some (Some v) \<Rightarrow> Some v | _ \<Rightarrow> obj_get merged k)
      else obj_get merged k)"
  using assms by (induction keys arbitrary: merged) (auto simp: obj_get_insert split: option.splits)

lemma merge_keys_wf: "merge_keys base loc rem keys merged = Some out \<Longrightarrow> obj_wf merged \<Longrightarrow> obj_wf out"
  by (induction keys arbitrary: merged) (auto simp: obj_wf_insert split: option.splits)

lemma merge_keys_None:
  "merge_keys base loc rem keys merged = None \<longleftrightarrow>
     (\<exists>k \<in> set keys. merge_field (Option.bind base (\<lambda>b. obj_get b k)) (obj_get loc k) (obj_get rem k) = None)"
  by (induction keys arbitrary: merged) (auto split: option.splits)

lemma merge_field_swap: "merge_field b l r = merge_field b r l"
  by (auto simp: merge_field_def split: option.splits)

text \<open>
  The reference: a field that only one side changed has that side's value (or is gone with it), one that neither or
  both changed alike the common value, and a field changed in two ways has none.
\<close>

definition three_way :: "json option \<Rightarrow> json option \<Rightarrow> json option \<Rightarrow> json option option" where
  "three_way b l r = (if l = r then Some l else if l = b then Some r else if r = b then Some l else None)"

lemma merge_field_three_way: "merge_field b l r = three_way b l r"
  by (auto simp: merge_field_def three_way_def split: option.splits)

definition fair_order :: "(string list \<Rightarrow> string list) \<Rightarrow> bool" where
  "fair_order order \<longleftrightarrow> (\<forall>xs. mset (order xs) = mset xs)"

lemma all_keys_fair:
  assumes "fair_order order"
  shows "set (all_keys order loc rem) = fst ` set loc \<union> fst ` set rem" and "distinct (all_keys order loc rem)"
proof -
  have "mset (all_keys order loc rem) = mset (remdups (map fst loc @ map fst rem))"
    using assms by (simp add: all_keys_def fair_order_def)
  from mset_eq_setD [OF this] mset_eq_imp_distinct_iff [OF this]
  show "set (all_keys order loc rem) = fst ` set loc \<union> fst ` set rem" and "distinct (all_keys order loc rem)"
    by auto
qed

abbreviation field_at :: "json option \<Rightarrow> string \<Rightarrow> json option" where
  "field_at base_data k \<equiv> Option.bind (base_object base_data) (\<lambda>b. obj_get b k)"

lemma unmentioned: "k \<notin> fst ` set ob \<Longrightarrow> obj_get ob k = None"
  by (simp add: obj_get_None_iff obj_keys_def)

lemma resolve_merged_iff:
  assumes "fair_order order" and "rec_data (cf_local_version c) = JObject loc" and "rec_data (cf_remote_version c) = JObject rem"
  shows "resolve_field_merge order c base_data = Merged (JObject m) \<longleftrightarrow>
    obj_wf m \<and> (\<forall>k. three_way (field_at base_data k) (obj_get loc k) (obj_get rem k) = Some (obj_get m k))" (is "?L \<longleftrightarrow> ?R")
proof -
  note keys = all_keys_fair [OF assms(1), of loc rem]
  have spec: "obj_wf out \<and> (\<forall>k. three_way (field_at base_data k) (obj_get loc k) (obj_get rem k) = Some (obj_get out k))"
    if out: "merge_keys (base_object base_data) loc rem (all_keys order loc rem) [] = Some out" for out
  proof (intro conjI allI)
    show "obj_wf out" using merge_keys_wf [OF out] by simp
    fix k
    have "merge_keys (base_object base_data) loc rem (all_keys order loc rem) [] \<noteq> None" using out by simp
    then show "three_way (field_at base_data k) (obj_get loc k) (obj_get rem k) = Some (obj_get out k)"
      using merge_keys_get [OF out keys(2), of k] unmentioned [of k loc] unmentioned [of k rem]
      unfolding merge_keys_None keys(1) merge_field_three_way
      by (cases "k \<in> fst ` set loc \<union> fst ` set rem") (auto simp: three_way_def split: option.splits if_splits)
  qed
  show ?thesis
  proof
    assume ?L
    then show ?R using spec assms(2, 3) by (auto simp: resolve_field_merge_def split: option.splits)
  next
    assume R: ?R
    then have "merge_keys (base_object base_data) loc rem (all_keys order loc rem) [] \<noteq> None"
      unfolding merge_keys_None merge_field_three_way by simp
    then obtain out where out: "merge_keys (base_object base_data) loc rem (all_keys order loc rem) [] = Some out" by blast
    from spec [OF out] R have "out = m" by (intro obj_wf_ext) auto
    with out assms(2, 3) show ?L by (simp add: resolve_field_merge_def)
  qed
qed

lemma resolve_manual_iff:
  assumes "fair_order order" and "rec_data (cf_local_version c) = JObject loc" and "rec_data (cf_remote_version c) = JObject rem"
  shows "resolve_field_merge order c base_data = RequiresManual \<longleftrightarrow>
    (\<exists>k. three_way (field_at base_data k) (obj_get loc k) (obj_get rem k) = None)"
proof -
  have "(\<exists>k \<in> set (all_keys order loc rem). three_way (field_at base_data k) (obj_get loc k) (obj_get rem k) = None) \<longleftrightarrow>
    (\<exists>k. three_way (field_at base_data k) (obj_get loc k) (obj_get rem k) = None)"
    unfolding all_keys_fair(1) [OF assms(1)]
    using unmentioned [of _ loc] unmentioned [of _ rem] by (auto simp: three_way_def split: if_splits) (metis UnI1 UnI2 option.distinct(1))
  then show ?thesis
    using assms(2, 3) merge_keys_None [of "base_object base_data" loc rem "all_keys order loc rem" "[]"]
    by (auto simp: resolve_field_merge_def merge_field_three_way split: option.splits)
qed

section \<open>Properties\<close>

text \<open>
  C21: The field merge is a three-way merge. On two objects, whatever the order the keys are visited in: the merge
  yields an object exactly when that object has, for every field, the three-way merge of the base, the local and the
  remote value; it asks for a manual resolution exactly when some field was changed in two ways, which is also what
  the separate check reports; and it treats the two sides alike.
\<close>

theorem field_merge_is_three_way:
  assumes "fair_order order" and "rec_data (cf_local_version c) = JObject loc" and "rec_data (cf_remote_version c) = JObject rem"
  shows "(\<forall>m. resolve_field_merge order c base_data = Merged (JObject m) \<longleftrightarrow>
      obj_wf m \<and> (\<forall>k. three_way (field_at base_data k) (obj_get loc k) (obj_get rem k) = Some (obj_get m k))) \<and>
    (resolve_field_merge order c base_data = RequiresManual \<longleftrightarrow>
      (\<exists>k. three_way (field_at base_data k) (obj_get loc k) (obj_get rem k) = None)) \<and>
    (field_merge_needs_manual order c base_data \<longleftrightarrow> resolve_field_merge order c base_data = RequiresManual) \<and>
    (\<forall>order'. fair_order order' \<longrightarrow>
      resolve_field_merge order' (c\<lparr>cf_local_version := cf_remote_version c, cf_remote_version := cf_local_version c\<rparr>) base_data =
      resolve_field_merge order c base_data)"
proof (intro conjI allI impI)
  have "field_merge_needs_manual order c base_data \<longleftrightarrow>
      (\<exists>k \<in> set (all_keys order loc rem). merge_field (field_at base_data k) (obj_get loc k) (obj_get rem k) = None)"
    using assms(2, 3) by (auto simp: field_merge_needs_manual_def list_ex_iff Let_def merge_field_def split: option.splits if_splits)
  then show "field_merge_needs_manual order c base_data \<longleftrightarrow> resolve_field_merge order c base_data = RequiresManual"
    using assms(2, 3) merge_keys_None [of "base_object base_data" loc rem "all_keys order loc rem" "[]"]
    by (auto simp: resolve_field_merge_def split: option.splits)
next
  fix order' :: "string list \<Rightarrow> string list"
  assume fair: "fair_order order'"
  let ?c = "c\<lparr>cf_local_version := cf_remote_version c, cf_remote_version := cf_local_version c\<rparr>"
  have swap: "three_way b l r = three_way b r l" for b l r by (auto simp: three_way_def)
  have sides: "rec_data (cf_local_version ?c) = JObject rem" "rec_data (cf_remote_version ?c) = JObject loc"
    using assms(2, 3) by simp_all
  have same: "resolve_field_merge order' ?c base_data = Merged (JObject m) \<longleftrightarrow> resolve_field_merge order c base_data = Merged (JObject m)"
    "resolve_field_merge order' ?c base_data = RequiresManual \<longleftrightarrow> resolve_field_merge order c base_data = RequiresManual" for m
    unfolding resolve_merged_iff [OF assms] resolve_merged_iff [OF fair sides] resolve_manual_iff [OF assms]
      resolve_manual_iff [OF fair sides] swap [of _ "obj_get loc _"] by (rule refl)+
  have "resolve_field_merge order c base_data = RequiresManual \<or> (\<exists>m. resolve_field_merge order c base_data = Merged (JObject m))"
    using assms(2, 3) by (auto simp: resolve_field_merge_def split: option.splits)
  then show "resolve_field_merge order' ?c base_data = resolve_field_merge order c base_data"
    by (metis same)
qed (rule resolve_merged_iff [OF assms] resolve_manual_iff [OF assms])+

definition sample_side :: "jobject \<Rightarrow> legacy_record" where
  "sample_side ob = \<lparr>rec_id = ''r1'', rec_plugin_id = ''core'', rec_collection = ''events'', rec_data = JObject ob,
    rec_version = 2, rec_user_id = None, rec_household_id = None, rec_created_at = 0, rec_updated_at = 5\<rparr>"

definition sample_conflict :: conflict where
  "sample_conflict = \<lparr>cf_id = ''c1'', cf_collection = ''events'', cf_record_id = ''r1'',
    cf_local_version = sample_side [(''place'', JString ''Oslo''), (''title'', JString ''Call'')],
    cf_remote_version = sample_side [(''title'', JString ''Meeting'')],
    cf_strategy = FieldLevelMerge, cf_resolved = False, cf_resolution = None, cf_detected_at = 6\<rparr>"

theorem field_merge_is_three_way_witness:
  "resolve_field_merge rev sample_conflict (Some (JObject [(''title'', JString ''Call'')])) =
     Merged (JObject [(''place'', JString ''Oslo''), (''title'', JString ''Meeting'')]) \<and>
   resolve_field_merge rev sample_conflict None = RequiresManual"
proof -
  let ?l = "[(''place'', JString ''Oslo''), (''title'', JString ''Call'')]"
  let ?r = "[(''title'', JString ''Meeting'')]"
  let ?m = "[(''place'', JString ''Oslo''), (''title'', JString ''Meeting'')]"
  let ?b = "Some (JObject [(''title'', JString ''Call'')])"
  have fair: "fair_order rev" by (simp add: fair_order_def)
  have sides: "rec_data (cf_local_version sample_conflict) = JObject ?l" "rec_data (cf_remote_version sample_conflict) = JObject ?r"
    by (simp_all add: sample_conflict_def sample_side_def)
  note merge = field_merge_is_three_way [OF fair sides]
  have "three_way (field_at ?b k) (obj_get ?l k) (obj_get ?r k) = Some (obj_get ?m k)" for k
    by (auto simp: three_way_def base_object_def)
  moreover have "obj_wf ?m" by code_simp
  ultimately have "resolve_field_merge rev sample_conflict ?b = Merged (JObject ?m)"
    using merge [THEN conjunct1, THEN spec, THEN iffD2] by blast
  moreover have "three_way (field_at None ''title'') (obj_get ?l ''title'') (obj_get ?r ''title'') = None"
    by (simp add: three_way_def base_object_def)
  then have "resolve_field_merge rev sample_conflict None = RequiresManual"
    using merge [THEN conjunct2, THEN conjunct1, THEN iffD2] by blast
  ultimately show ?thesis by blast
qed

end
