(* ===== verification/Legacy_Props.thy ===== *)
theory Legacy_Props
  imports Legacy_Storage "HOL-Library.Sublist"
begin

text \<open>
  What the application's storage adapter guarantees: each operation stays within its plugin and collection, record ids
  stay unique, the effect of each operation on the records, optimistic locking, and the statement and the bind values
  of a query.
\<close>

section \<open>Frames\<close>

definition legacy_key :: "legacy_row \<Rightarrow> string \<times> string" where
  "legacy_key r = (lrow_plugin_id r, lrow_collection r)"

definition unique_ids :: "legacy_store \<Rightarrow> bool" where
  "unique_ids st \<longleftrightarrow> distinct (map lrow_id (lst_rows st))"

text \<open>Rows outside the given collections stay as they are, ids stay unique, and the two logs only grow.\<close>

definition confined_to :: "(string \<times> string) set \<Rightarrow> legacy_store \<Rightarrow> legacy_store \<Rightarrow> bool" where
  "confined_to S st st' \<longleftrightarrow>
     filter (\<lambda>r. legacy_key r \<notin> S) (lst_rows st') = filter (\<lambda>r. legacy_key r \<notin> S) (lst_rows st) \<and>
     (unique_ids st \<longrightarrow> unique_ids st') \<and>
     prefix (lst_audit st) (lst_audit st') \<and> prefix (lst_events st) (lst_events st')"

interpretation legacy_frame: state_order "confined_to S" for S
  by unfold_locales (auto simp: confined_to_def intro: prefix_order.trans)

lemma confined_logs:
  "moves (confined_to S) (lg_draw f)"
  "moves (confined_to S) (lg_stmt env sql)"
  "moves (confined_to S) (publish e)"
  "moves (confined_to S) (log_event_full env t c i u p d)"
proof -
  have app: "moves (confined_to S) (\<lambda>st. (Inr (), st\<lparr>lst_audit := lst_audit st @ [a]\<rparr>))" for a
    by (simp add: moves_def confined_to_def unique_ids_def)
  show "moves (confined_to S) (log_event_full env t c i u p d)"
    unfolding log_event_full_def by (intro legacy_frame.moves_intros app)
      (simp_all add: moves_def lg_draw_def lg_stmt_def confined_to_def unique_ids_def split: option.split)
qed (simp_all add: moves_def lg_draw_def lg_stmt_def publish_def confined_to_def unique_ids_def split: option.split)

lemma confined_ops:
  assumes "(pid, c) \<in> S"
  shows "moves (confined_to S) (legacy_get env pid c i)"
    and "moves (confined_to S) (legacy_create_with_id env pid c i data)"
    and "moves (confined_to S) (legacy_update env pid c i data v)"
    and "moves (confined_to S) (legacy_delete env pid c i)"
proof -
  have own: "is_record pid c i r \<Longrightarrow> legacy_key r \<in> S" for r
    using assms by (auto simp: is_record_def legacy_key_def)
  note frame = legacy_frame.moves_intros legacy_frame.moves_if confined_logs
  show "moves (confined_to S) (legacy_get env pid c i)"
    unfolding legacy_get_def by (intro frame)
  have ins: "moves (confined_to S) (\<lambda>st. if i \<in> set (map lrow_id (lst_rows st)) then (Inl e, st)
      else (Inr (), st\<lparr>lst_rows := lst_rows st @ [r]\<rparr>))" if "lrow_id r = i" "legacy_key r \<in> S" for e r
    using that by (auto simp: moves_def confined_to_def unique_ids_def)
  show "moves (confined_to S) (legacy_create_with_id env pid c i data)"
    unfolding legacy_create_with_id_def by (intro frame ins) (simp_all add: legacy_key_def assms)
  have upd: "moves (confined_to S) (\<lambda>st. (Inr (), st\<lparr>lst_rows := map (updated_row pid c i v t w u) (lst_rows st)\<rparr>))" for t w u
  proof -
    have "filter (\<lambda>r. legacy_key r \<notin> S) (map (updated_row pid c i v t w u) rs) = filter (\<lambda>r. legacy_key r \<notin> S) rs" for rs
      by (rule filter_map_same) (auto simp: legacy_key_def updated_row_def dest: own)
    moreover have "lrow_id \<circ> updated_row pid c i v t w u = lrow_id" by (auto simp: updated_row_def)
    ultimately show ?thesis unfolding moves_def confined_to_def unique_ids_def by simp
  qed
  show "moves (confined_to S) (legacy_update env pid c i data v)"
    unfolding legacy_update_def update_report_def by (intro frame upd)
  have del: "moves (confined_to S) (\<lambda>st. (Inr (), st\<lparr>lst_rows := filter (\<lambda>r. \<not> is_record pid c i r) (lst_rows st)\<rparr>))"
    by (auto simp: moves_def confined_to_def unique_ids_def distinct_map_filter dest: own intro!: filter_cong)
  show "moves (confined_to S) (legacy_delete env pid c i)"
    unfolding legacy_delete_def by (intro frame del)
qed

section \<open>The records\<close>

text \<open>The stored text and the version of each record, by plugin, collection and id.\<close>

definition legacy_view :: "legacy_store \<Rightarrow> string \<times> string \<times> string \<rightharpoonup> string \<times> int" where
  "legacy_view st = (\<lambda>(pid, c, i). map_option (\<lambda>r. (lrow_data r, lrow_version r)) (find (is_record pid c i) (lst_rows st)))"

lemma log_rows [simp]: "lst_rows (snd (log_event_full env t c i u p d st)) = lst_rows st"
  by (simp add: log_event_full_def s_bind_def lg_draw_def lg_stmt_def s_check_def split: option.splits sum.splits)

lemma log_rows_ok: "log_event_full env t c i u p d st = (x, st') \<Longrightarrow> lst_rows st' = lst_rows st"
  by (metis log_rows snd_conv)

lemma stmt_ok: "lg_stmt env sql st = (Inr u, st') \<Longrightarrow> st' = st"
  by (auto simp: lg_stmt_def split: option.splits)

lemma draw_ok: "lg_draw f st = (Inr x, st') \<Longrightarrow> lst_rows st' = lst_rows st"
  by (auto simp: lg_draw_def)

lemma publish_ok: "publish e st = (Inr u, st') \<Longrightarrow> lst_rows st' = lst_rows st"
  by (auto simp: publish_def)

lemmas op_ok = s_bind_ok s_check_def s_get_def s_return_def

lemma view_rows: "lst_rows st' = lst_rows st \<Longrightarrow> legacy_view st' = legacy_view st"
  by (simp add: legacy_view_def)

lemma is_record_same: "is_record p d j r \<Longrightarrow> is_record pid c i r \<longleftrightarrow> p = pid \<and> d = c \<and> j = i"
  by (auto simp: is_record_def)

lemma get_ok:
  assumes "legacy_get env pid c i st = (Inr r, st')"
  shows "st' = st \<and> map_option rec_version r = map_option snd (legacy_view st (pid, c, i)) \<and>
    (\<forall>x. r = Some x \<longrightarrow> (\<exists>stored. legacy_view st (pid, c, i) = Some (stored, rec_version x) \<and> lg_from_str env stored = Inr (rec_data x)))"
  using assms
  by (auto simp: legacy_get_def op_ok legacy_view_def row_to_record_def map_err_def r_bind_def
    dest!: stmt_ok split: option.splits sum.splits)

definition new_row :: "legacy_env \<Rightarrow> string \<Rightarrow> string \<Rightarrow> string \<Rightarrow> string \<Rightarrow> timestamp \<Rightarrow> legacy_row" where
  "new_row env pid c i stored now =
     \<lparr>lrow_id = i, lrow_plugin_id = pid, lrow_collection = c, lrow_data = stored, lrow_version = 1, lrow_user_id = None,
      lrow_household_id = None, lrow_created_at = lg_rfc3339 env now, lrow_updated_at = lg_rfc3339 env now\<rparr>"

definition new_record :: "string \<Rightarrow> string \<Rightarrow> string \<Rightarrow> json \<Rightarrow> timestamp \<Rightarrow> legacy_record" where
  "new_record pid c i data now =
     \<lparr>rec_id = i, rec_plugin_id = pid, rec_collection = c, rec_data = data, rec_version = 1, rec_user_id = None,
      rec_household_id = None, rec_created_at = now, rec_updated_at = now\<rparr>"

lemma create_row:
  assumes "legacy_create_with_id env pid c i data st = (Inr r, st')"
  obtains stored now where "lg_to_string env data = Inr stored" and "i \<notin> lrow_id ` set (lst_rows st)"
    and "lst_rows st' = lst_rows st @ [new_row env pid c i stored now]" and "r = new_record pid c i data now"
    and "now = lg_now env (lst_draws st)"
  using assms
  by (auto simp: legacy_create_with_id_def op_ok map_err_eq_Inr new_row_def new_record_def lg_draw_def
    dest!: stmt_ok publish_ok log_rows_ok split: if_splits)

lemma find_created:
  assumes "i \<notin> lrow_id ` set rs"
  shows "find (is_record p d j) (rs @ [new_row env pid c i stored now]) =
    (if (p, d, j) = (pid, c, i) then Some (new_row env pid c i stored now) else find (is_record p d j) rs)"
proof -
  have "find (is_record pid c i) rs = None" using assms by (auto simp: find_None_iff is_record_def)
  then show ?thesis by (auto simp: find_snoc is_record_def new_row_def split: option.split)
qed

lemma create_ok:
  assumes "legacy_create_with_id env pid c i data st = (Inr r, st')"
  obtains stored where "lg_to_string env data = Inr stored" and "legacy_view st' = (legacy_view st)((pid, c, i) \<mapsto> (stored, 1))"
    and "rec_id r = i" and "i \<notin> lrow_id ` set (lst_rows st)"
proof -
  from assms obtain stored now where new: "lg_to_string env data = Inr stored" "i \<notin> lrow_id ` set (lst_rows st)"
    "lst_rows st' = lst_rows st @ [new_row env pid c i stored now]" "r = new_record pid c i data now" "now = lg_now env (lst_draws st)" by (rule create_row)
  have "legacy_view st' = (legacy_view st)((pid, c, i) \<mapsto> (stored, 1))"
    using new by (auto simp: legacy_view_def find_created fun_eq_iff) (auto simp: new_row_def)
  from that [OF new(1) this _ new(2)] new(4) show thesis by (simp add: new_record_def)
qed

lemma delete_ok:
  assumes "legacy_delete env pid c i st = (Inr b, st')"
  shows "legacy_view st' = (legacy_view st)((pid, c, i) := None) \<and> (b \<longleftrightarrow> legacy_view st (pid, c, i) \<noteq> None)"
proof -
  from assms have st': "lst_rows st' = filter (\<lambda>r. \<not> is_record pid c i r) (lst_rows st)"
    and b: "b \<longleftrightarrow> filter (is_record pid c i) (lst_rows st) \<noteq> []"
    by (auto simp: legacy_delete_def op_ok dest!: stmt_ok publish_ok log_rows_ok split: if_splits)
  have "find (is_record p d j) (filter (\<lambda>r. \<not> is_record pid c i r) rs) =
      (if (p, d, j) = (pid, c, i) then None else find (is_record p d j) rs)" for p d j rs
    by (induction rs) (auto simp: is_record_same)
  moreover have "b \<longleftrightarrow> find (is_record pid c i) (lst_rows st) \<noteq> None"
    unfolding b by (auto simp: find_None_iff filter_empty_conv)
  ultimately show ?thesis by (auto simp: legacy_view_def st' fun_eq_iff)
qed

lemma next_version_differs: "next_version checks v = Inr w \<Longrightarrow> v < 2 ^ 63 \<Longrightarrow> w \<noteq> v"
  by (auto simp: next_version_def split: if_splits)

lemma find_unique:
  "distinct (map lrow_id rs) \<Longrightarrow> r \<in> set rs \<Longrightarrow> is_record pid c i r \<Longrightarrow> find (is_record pid c i) rs = Some r"
  by (induction rs) (auto simp: is_record_def)

lemma find_updated:
  assumes "distinct (map lrow_id rs)"
  shows "find (is_record p e j) (map (updated_row pid c i v d w now) rs) =
    map_option (updated_row pid c i v d w now) (find (is_record p e j) rs)"
proof -
  have "is_record p e j (updated_row pid c i v d w now r) = is_record p e j r" for r
    by (simp add: updated_row_def is_record_def)
  then show ?thesis by (induction rs) auto
qed

lemma confined_report: "moves (confined_to S) (update_report env pid c i data w now rows)"
  unfolding update_report_def by (intro legacy_frame.moves_intros legacy_frame.moves_if confined_logs)

lemma report_rows: "update_report env pid c i data w now rows st = (x, st') \<Longrightarrow> lst_rows st' = lst_rows st"
  using moves_snd [OF confined_report [of "{}"]] by (fastforce simp: confined_to_def)

lemma report_ok:
  "update_report env pid c i data w now rows st = (Inr r, st') \<Longrightarrow> rows \<noteq> 0 \<and> rec_version r = w \<and> rec_data r = data"
  by (auto simp: update_report_def op_ok split: if_splits)

lemma update_rows:
  assumes "legacy_update env pid c i data v st = (Inr r, st')"
  obtains now stored w where "lg_to_string env data = Inr stored" and "next_version (lg_overflow_checks env) v = Inr w"
    and "lst_rows st' = map (updated_row pid c i v stored w (lg_rfc3339 env now)) (lst_rows st)"
    and "filter (\<lambda>r. is_record pid c i r \<and> lrow_version r = v) (lst_rows st) \<noteq> []"
    and "rec_version r = w" and "rec_data r = data" and "now = lg_now env (lst_draws st)"
proof -
  from assms obtain now stored w s1 s2 where sto: "lg_to_string env data = Inr stored" "next_version (lg_overflow_checks env) v = Inr w"
    and pre: "lg_draw (lg_now env) st = (Inr now, s1)" "lg_stmt env ''UPDATE plugin_data'' s1 = (Inr (), s2)"
    and rep: "update_report env pid c i data w now (length (filter (\<lambda>r. is_record pid c i r \<and> lrow_version r = v) (lst_rows s2)))
      (s2\<lparr>lst_rows := map (updated_row pid c i v stored w (lg_rfc3339 env now)) (lst_rows s2)\<rparr>) = (Inr r, st')"
    unfolding legacy_update_def op_ok by (auto simp: map_err_eq_Inr)
  have s2: "lst_rows s2 = lst_rows st" using stmt_ok [OF pre(2)] draw_ok [OF pre(1)] by simp
  have now: "now = lg_now env (lst_draws st)" using pre(1) by (simp add: lg_draw_def)
  show thesis using sto now report_rows [OF rep] report_ok [OF rep] s2 by (intro that [of stored w now]) simp_all
qed

lemma update_ok:
  assumes "legacy_update env pid c i data v st = (Inr r, st')" and "unique_ids st"
  obtains stored w old where "lg_to_string env data = Inr stored" and "next_version (lg_overflow_checks env) v = Inr w"
    and "legacy_view st (pid, c, i) = Some (old, v)" and "legacy_view st' = (legacy_view st)((pid, c, i) \<mapsto> (stored, w))"
    and "rec_version r = w" and "rec_data r = data"
proof -
  from assms(1) obtain now stored w where sto: "lg_to_string env data = Inr stored" "next_version (lg_overflow_checks env) v = Inr w"
    and st': "lst_rows st' = map (updated_row pid c i v stored w (lg_rfc3339 env now)) (lst_rows st)"
    and some: "filter (\<lambda>r. is_record pid c i r \<and> lrow_version r = v) (lst_rows st) \<noteq> []"
    and r: "rec_version r = w" "rec_data r = data" by (rule update_rows)
  from some obtain row where row: "row \<in> set (lst_rows st)" "is_record pid c i row" "lrow_version row = v"
    by (auto simp: filter_empty_conv)
  with assms(2) have old: "find (is_record pid c i) (lst_rows st) = Some row" by (simp add: find_unique unique_ids_def)
  have other: "find (is_record p e j) (lst_rows st) = Some r' \<Longrightarrow> (p, e, j) \<noteq> (pid, c, i) \<Longrightarrow> \<not> is_record pid c i r'" for p e j r'
    by (auto simp: find_Some_iff is_record_def)
  have "legacy_view st' k = ((legacy_view st)((pid, c, i) \<mapsto> (stored, w))) k" for k
  proof (cases "k = (pid, c, i)")
    case True
    with assms(2) old row show ?thesis by (simp add: legacy_view_def st' unique_ids_def find_updated updated_row_def)
  next
    case False
    obtain p e j where k: "k = (p, e, j)" by (cases k) auto
    show ?thesis
    proof (cases "find (is_record p e j) (lst_rows st)")
      case None
      with False assms(2) k show ?thesis by (auto simp: legacy_view_def st' unique_ids_def find_updated)
    next
      case (Some r')
      from other [OF Some] False k have "updated_row pid c i v stored w (lg_rfc3339 env now) r' = r'" by (simp add: updated_row_def)
      with Some False assms(2) k show ?thesis by (auto simp: legacy_view_def st' unique_ids_def find_updated)
    qed
  qed
  then have "legacy_view st' = (legacy_view st)((pid, c, i) \<mapsto> (stored, w))" by (rule ext)
  with sto old row r show thesis by (intro that) (auto simp: legacy_view_def)
qed

text \<open>A record that is not at version \<open>v\<close> (or not there) is left alone by updates from \<open>v\<close>.\<close>

definition stale :: "string \<Rightarrow> string \<Rightarrow> string \<Rightarrow> int \<Rightarrow> legacy_store \<Rightarrow> bool" where
  "stale pid c i v st \<longleftrightarrow> (\<forall>r \<in> set (lst_rows st). is_record pid c i r \<longrightarrow> lrow_version r \<noteq> v)"

definition keeps_stale :: "string \<Rightarrow> string \<Rightarrow> string \<Rightarrow> int \<Rightarrow> legacy_store \<Rightarrow> legacy_store \<Rightarrow> bool" where
  "keeps_stale pid c i v st st' \<longleftrightarrow> (stale pid c i v st \<longrightarrow> lst_rows st' = lst_rows st)"

interpretation stale_frame: state_order "keeps_stale pid c i v" for pid c i v
  by unfold_locales (auto simp: keeps_stale_def stale_def)

lemma quiet_keeps_stale: "moves (confined_to {}) f \<Longrightarrow> moves (keeps_stale pid c i v) f"
  by (auto simp: moves_def keeps_stale_def confined_to_def)

lemma update_keeps_stale: "moves (keeps_stale pid c i v) (legacy_update env pid c i data v)"
proof -
  have "moves (keeps_stale pid c i v) (\<lambda>st. (Inr (), st\<lparr>lst_rows := map (updated_row pid c i v t w u) (lst_rows st)\<rparr>))" for t w u
    by (auto simp: moves_def keeps_stale_def stale_def updated_row_def intro!: map_idI)
  then show ?thesis
    unfolding legacy_update_def
    by (intro stale_frame.moves_intros confined_logs [THEN quiet_keeps_stale] confined_report [THEN quiet_keeps_stale])
qed

lemma stale_view: "unique_ids st \<Longrightarrow> stale pid c i v st \<longleftrightarrow> (\<forall>d. legacy_view st (pid, c, i) \<noteq> Some (d, v))"
  using find_unique [of "lst_rows st" _ pid c i] by (fastforce simp: stale_def legacy_view_def unique_ids_def dest: found)

text \<open>Several updates of one record, one after the other, all from the same version.\<close>

fun attempts :: "legacy_env \<Rightarrow> string \<Rightarrow> string \<Rightarrow> string \<Rightarrow> int \<Rightarrow> json list \<Rightarrow> legacy_store \<Rightarrow>
    (legacy_error, legacy_record) result list \<times> legacy_store" where
  "attempts env pid c i v [] st = ([], st)"
| "attempts env pid c i v (d # ds) st =
     (let (r, st1) = legacy_update env pid c i d v st; (rs, st2) = attempts env pid c i v ds st1 in (r # rs, st2))"

lemma update_unique: "legacy_update env pid c i d v st = (x, st') \<Longrightarrow> unique_ids st \<Longrightarrow> unique_ids st'"
  using moves_snd [OF confined_ops(3) [of pid c UNIV]] by (auto simp: confined_to_def)

lemma stale_attempts:
  "unique_ids st \<Longrightarrow> stale pid c i v st \<Longrightarrow> filter is_ok (fst (attempts env pid c i v ds st)) = []"
proof (induction ds arbitrary: st)
  case (Cons d ds)
  obtain x st1 where x: "legacy_update env pid c i d v st = (x, st1)" by (cases "legacy_update env pid c i d v st")
  have "lst_rows st1 = lst_rows st"
    using moves_snd [OF update_keeps_stale x] Cons.prems by (simp add: keeps_stale_def)
  then have st1: "stale pid c i v st1" "unique_ids st1" using Cons.prems by (simp_all add: stale_def unique_ids_def)
  have "\<not> is_ok x"
  proof
    assume "is_ok x"
    then obtain r where "x = Inr r" by (cases x) auto
    with update_ok [of env pid c i d v st r st1] x Cons.prems show False by (metis stale_view)
  qed
  with Cons.IH [OF st1(2, 1)] x show ?case by (simp add: case_prod_unfold Let_def)
qed simp

lemma attempts_once:
  assumes "unique_ids st" and "v < 2 ^ 63"
  shows "length (filter is_ok (fst (attempts env pid c i v ds st))) \<le> 1"
  using assms(1)
proof (induction ds arbitrary: st)
  case (Cons d ds)
  obtain x st1 where x: "legacy_update env pid c i d v st = (x, st1)" by (cases "legacy_update env pid c i d v st")
  note st1 = update_unique [OF x Cons.prems]
  show ?case
  proof (cases x)
    case (Inl e)
    with x Cons.IH [OF st1] show ?thesis by (simp add: case_prod_unfold Let_def)
  next
    case (Inr r)
    with x have "legacy_update env pid c i d v st = (Inr r, st1)" by simp
    from update_ok [OF this Cons.prems] obtain d' w
      where "legacy_view st1 (pid, c, i) = Some (d', w)" "next_version (lg_overflow_checks env) v = Inr w" by (metis fun_upd_same)
    with next_version_differs assms(2) have "stale pid c i v st1" by (fastforce simp: stale_view [OF st1])
    from stale_attempts [OF st1 this] x Inr show ?thesis by (simp add: case_prod_unfold Let_def)
  qed
qed simp

text \<open>Texts of JSON values and of the times the clock gives can be read back.\<close>

definition text_ok :: "legacy_env \<Rightarrow> bool" where
  "text_ok env \<longleftrightarrow> (\<forall>j t. lg_to_string env j = Inr t \<longrightarrow> lg_from_str env t = Inr j) \<and>
     (\<forall>n. lg_parse_time env (lg_rfc3339 env (lg_now env n)) = Inr (lg_now env n))"

section \<open>Without faults\<close>

text \<open>
  No statement fails, texts can be read back, and the details of an update have a text. In a readable table every row
  can be turned into a record.
\<close>

definition healthy_env :: "legacy_env \<Rightarrow> bool" where
  "healthy_env env \<longleftrightarrow> (\<forall>q st. lg_fault env q st = None) \<and> text_ok env \<and> (\<forall>v. is_ok (lg_to_string env (version_details v)))"

definition readable :: "legacy_env \<Rightarrow> legacy_store \<Rightarrow> bool" where
  "readable env st \<longleftrightarrow> unique_ids st \<and> (\<forall>r \<in> set (lst_rows st). is_ok (row_to_record env r))"

lemma row_to_record_ok:
  "is_ok (row_to_record env r) \<longleftrightarrow>
     is_ok (lg_from_str env (lrow_data r)) \<and> is_ok (lg_parse_time env (lrow_created_at r)) \<and> is_ok (lg_parse_time env (lrow_updated_at r))"
  by (auto simp: row_to_record_def r_bind_def map_err_def split: sum.splits)

lemma log_healthy:
  assumes "\<And>q st. lg_fault env q st = None" and "\<And>d. det = Some d \<Longrightarrow> is_ok (lg_to_string env d)"
  shows "\<exists>st'. log_event_full env t c i u p det st = (Inr (), st')"
  using assms by (cases det) (auto simp: log_event_full_def s_bind_def s_check_def lg_draw_def lg_stmt_def is_ok_iff r_bind_def)

lemma get_healthy:
  assumes "healthy_env env" and "readable env st"
  shows "\<exists>r. legacy_get env pid c i st = (Inr r, st) \<and> map_option rec_version r = map_option snd (legacy_view st (pid, c, i))"
proof -
  have "\<exists>r. legacy_get env pid c i st = (Inr r, st)"
    using assms by (auto simp: healthy_env_def readable_def legacy_get_def s_bind_def lg_stmt_def s_get_def is_ok_iff r_bind_def
      split: option.split dest!: found)
  then show ?thesis using get_ok by blast
qed

lemma create_healthy:
  assumes "healthy_env env" and "readable env st" and "i \<notin> lrow_id ` set (lst_rows st)" and "lg_to_string env data = Inr t"
  shows "\<exists>r st'. legacy_create_with_id env pid c i data st = (Inr r, st') \<and> readable env st' \<and>
    legacy_view st' = (legacy_view st)((pid, c, i) \<mapsto> (t, 1))"
proof -
  have nf: "lg_fault env q st = None" for q st using assms(1) by (simp add: healthy_env_def)
  have "\<exists>r st'. legacy_create_with_id env pid c i data st = (Inr r, st')"
    unfolding legacy_create_with_id_def s_bind_def lg_draw_def lg_stmt_def s_check_def publish_def s_return_def
    using assms(3, 4) nf log_healthy [OF nf, where det = None] by (auto split: prod.split sum.split) (metis Inl_Inr_False prod.inject)+
  then obtain r st' where cr: "legacy_create_with_id env pid c i data st = (Inr r, st')" by blast
  from create_ok [OF cr] assms(4) have view: "legacy_view st' = (legacy_view st)((pid, c, i) \<mapsto> (t, 1))" by (metis Inr_inject)
  from create_row [OF cr] assms(4) obtain now where rows: "lst_rows st' = lst_rows st @ [new_row env pid c i t now]" "now = lg_now env (lst_draws st)"
    by (metis Inr_inject)
  have "readable env st'"
    using assms rows by (auto simp: readable_def unique_ids_def row_to_record_ok healthy_env_def text_ok_def new_row_def)
  with cr view show ?thesis by blast
qed

lemma report_healthy:
  assumes "healthy_env env" and "rows \<noteq> 0" and "row \<in> set rs" and "lrow_id row = i"
    and "\<forall>x \<in> set rs. is_ok (row_to_record env x)"
  shows "\<exists>r st'. update_report env pid c i data w now rows (st\<lparr>lst_rows := map (updated_row pid c i v t w' now') rs\<rparr>) = (Inr r, st')"
proof -
  let ?st = "st\<lparr>lst_rows := map (updated_row pid c i v t w' now') rs\<rparr>"
  have nf: "lg_fault env q st = None" for q st using assms(1) by (simp add: healthy_env_def)
  obtain x where x: "find (\<lambda>r. lrow_id r = i) (lst_rows ?st) = Some x" "x \<in> set (lst_rows ?st)"
  proof (cases "find (\<lambda>r. lrow_id r = i) (lst_rows ?st)")
    case None
    have "lrow_id (updated_row pid c i v t w' now' row) = i" using assms(4) by (simp add: updated_row_def)
    with None assms(3) show thesis by (auto simp: find_None_iff)
  qed (auto dest: found intro: that)
  then obtain y where "y \<in> set rs" "lrow_created_at x = lrow_created_at y" by (auto simp: updated_row_def)
  with assms(5) have "is_ok (lg_parse_time env (lrow_created_at x))" by (simp add: row_to_record_ok)
  then obtain created where created: "lg_parse_time env (lrow_created_at x) = Inr created" by (auto simp: is_ok_iff)
  have "is_ok (lg_to_string env (version_details w))" using assms(1) by (simp add: healthy_env_def)
  then obtain st1 where "log_event_full env ''system.storage.updated'' (Some c) (Some i) None (Some pid) (Some (version_details w)) ?st = (Inr (), st1)"
    using log_healthy [OF nf, where det = "Some (version_details w)"] by blast
  with assms(2) nf x created show ?thesis
    by (simp add: update_report_def s_bind_def lg_stmt_def s_get_def s_check_def publish_def s_return_def)
qed

lemma update_healthy:
  assumes "healthy_env env" and "readable env st" and "legacy_view st (pid, c, i) = Some (old, v)" and "v + 1 < 2 ^ 63"
    and "lg_to_string env data = Inr t"
  shows "\<exists>r st'. legacy_update env pid c i data v st = (Inr r, st') \<and> readable env st' \<and>
    legacy_view st' = (legacy_view st)((pid, c, i) \<mapsto> (t, v + 1))"
proof -
  have nf: "lg_fault env q st = None" for q st using assms(1) by (simp add: healthy_env_def)
  have nv: "next_version (lg_overflow_checks env) v = Inr (v + 1)" using assms(4) by (simp add: next_version_def)
  from assms(3) obtain row where row: "row \<in> set (lst_rows st)" "is_record pid c i row" "lrow_version row = v"
    by (auto simp: legacy_view_def dest: found)
  have "\<exists>r st'. legacy_update env pid c i data v st = (Inr r, st')"
    unfolding legacy_update_def s_bind_def lg_draw_def lg_stmt_def s_check_def s_get_def
    using assms(5) nf nv row assms(2) by (auto simp: filter_empty_conv readable_def is_record_def intro!: report_healthy [OF assms(1)])
  then obtain r st' where up: "legacy_update env pid c i data v st = (Inr r, st')" by blast
  from assms(2) have uniq: "unique_ids st" by (simp add: readable_def)
  from update_ok [OF up uniq] assms(5) nv have view: "legacy_view st' = (legacy_view st)((pid, c, i) \<mapsto> (t, v + 1))" by (metis Inr_inject)
  from update_rows [OF up] assms(5) nv obtain now
    where rows: "lst_rows st' = map (updated_row pid c i v t (v + 1) (lg_rfc3339 env now)) (lst_rows st)" "now = lg_now env (lst_draws st)"
    by (metis Inr_inject)
  have "is_ok (row_to_record env (updated_row pid c i v t (v + 1) (lg_rfc3339 env now) x))" if "x \<in> set (lst_rows st)" for x
    using assms that rows by (auto simp: readable_def row_to_record_ok healthy_env_def text_ok_def updated_row_def)
  moreover have "unique_ids st'" using update_unique [OF up uniq] .
  ultimately have "readable env st'" by (auto simp: readable_def rows)
  with up view show ?thesis by blast
qed

section \<open>Queries\<close>

fun blank_filters :: "query_filters \<Rightarrow> query_filters" where
  "blank_filters (QueryFilters eqs cmps texts ands ors) =
     QueryFilters (map (\<lambda>(f, v). (f, JNull)) eqs) (map (\<lambda>(f, c, v). (f, c, JNull)) cmps) (map (\<lambda>(f, t). (f, [])) texts)
       (map blank_filters ands) (map blank_filters ors)"

lemma group_sql_cong: "fst p = fst q \<Longrightarrow> fst (group_sql sep p) = fst (group_sql sep q)"
  by (simp add: group_sql_def case_prod_unfold)

lemma leaves_blank:
  "map fst (equality_sql (map (\<lambda>(f, v). (f, JNull)) eqs)) = map fst (equality_sql eqs)"
  "map fst (comparison_sql (map (\<lambda>(f, c, v). (f, c, JNull)) cmps)) = map fst (comparison_sql cmps)"
  "map fst (text_sql (map (\<lambda>(f, t). (f, [])) texts)) = map fst (text_sql texts)"
  by (auto simp: equality_sql_def comparison_sql_def text_sql_def filter_map comp_def case_prod_unfold)

lemma build_blank_filters: "fst (build_filter_sql (blank_filters f)) = fst (build_filter_sql f)"
  by (induction f rule: build_filter_sql.induct)
    (auto simp: Let_def leaves_blank intro!: arg_cong2 [where f = append] arg_cong [where f = concat] group_sql_cong)

definition marks :: "string \<Rightarrow> nat" where
  "marks s = count_list s CHR ''?''"

lemma marks_Nil [simp]: "marks [] = 0"
  by (simp add: marks_def)

lemma marks_Cons [simp]: "marks (x # s) = (if x = CHR ''?'' then 1 else 0) + marks s"
  by (simp add: marks_def)

lemma marks_append [simp]: "marks (s @ t) = marks s + marks t"
  by (simp add: marks_def)

lemma marks_join: "marks sep = 0 \<Longrightarrow> marks (join sep xs) = sum_list (map marks xs)"
  by (induction sep xs rule: join.induct) auto

lemma marks_field:
  "list_all (\<lambda>c. is_ascii_alphanumeric c \<or> c = CHR ''_'' \<or> c = CHR ''.'') f \<Longrightarrow> marks (field_text f) = 0"
  by (auto simp: marks_def field_text_def list_all_iff count_list_0_iff is_ascii_alphanumeric_def is_ascii_alphabetic_def is_ascii_digit_def)

lemma marks_valid_field: "valid_field f \<Longrightarrow> marks (field_text f) = 0"
  by (rule marks_field) (auto simp: valid_field_def validate_field_name_def split: if_splits)

lemma marks_leaves:
  "map (marks \<circ> fst) (equality_sql eqs) = map (\<lambda>_. 1) (equality_sql eqs)"
  "map (marks \<circ> fst) (comparison_sql cmps) = map (\<lambda>_. 1) (comparison_sql cmps)"
  "map (marks \<circ> fst) (text_sql texts) = map (\<lambda>_. 1) (text_sql texts)"
proof -
  have "marks (legacy_op_sql c) = 0" for c by (cases c) simp_all
  then show "map (marks \<circ> fst) (equality_sql eqs) = map (\<lambda>_. 1) (equality_sql eqs)"
    "map (marks \<circ> fst) (comparison_sql cmps) = map (\<lambda>_. 1) (comparison_sql cmps)"
    "map (marks \<circ> fst) (text_sql texts) = map (\<lambda>_. 1) (text_sql texts)"
    using marks_valid_field by (auto simp: equality_sql_def comparison_sql_def text_sql_def case_prod_unfold)
qed

lemma marks_group:
  assumes "sum_list (map marks (fst p)) = length (snd p)" and "marks sep = 0"
  shows "sum_list (map marks (fst (group_sql sep p))) = length (snd (group_sql sep p))"
  using assms by (cases p) (auto simp: group_sql_def marks_join)

lemma marks_concat:
  "(\<And>p. p \<in> set ps \<Longrightarrow> sum_list (map marks (fst p)) = length (snd p)) \<Longrightarrow>
   sum_list (map marks (concat (map fst ps))) = length (concat (map snd ps))"
  by (induction ps) auto

lemma marks_build: "sum_list (map marks (fst (build_filter_sql f))) = length (snd (build_filter_sql f))"
proof (induction f rule: build_filter_sql.induct)
  case (1 eqs cmps texts ands ors)
  have sep: "marks '' AND '' = 0" "marks '' OR '' = 0" by simp_all
  let ?groups = "map (\<lambda>g. group_sql '' AND '' (build_filter_sql g)) ands @ map (\<lambda>g. group_sql '' OR '' (build_filter_sql g)) ors"
  have "sum_list (map marks (concat (map fst ?groups))) = length (concat (map snd ?groups))"
    using 1 by (intro marks_concat) (auto intro!: marks_group sep)
  moreover have "sum_list (map marks (map fst (equality_sql eqs @ comparison_sql cmps @ text_sql texts))) =
      length (equality_sql eqs @ comparison_sql cmps @ text_sql texts)"
    by (simp add: marks_leaves sum_list_triv)
  ultimately show ?case by (simp add: Let_def)
qed

section \<open>Properties\<close>

text \<open>
  C30: The adapter is confined to its plugin and collection. Whatever an operation of the adapter returns, faults of the
  database included, the rows of every other plugin and collection are the ones from before, record ids stay unique,
  and the audit log and the published events only grow.
\<close>

theorem adapter_confined:
  "confined_to {(pid, c)} st (snd (legacy_get env pid c i st)) \<and>
   confined_to {(pid, c)} st (snd (legacy_create env pid c data st)) \<and>
   confined_to {(pid, c)} st (snd (legacy_create_with_id env pid c i data st)) \<and>
   confined_to {(pid, c)} st (snd (legacy_update env pid c i data v st)) \<and>
   confined_to {(pid, c)} st (snd (legacy_delete env pid c i st)) \<and>
   confined_to {} st (snd (legacy_query env pid c filters sort_opt pagination st))"
proof -
  have "moves (confined_to {(pid, c)}) (legacy_create env pid c data)"
    unfolding legacy_create_def by (intro legacy_frame.moves_intros confined_logs confined_ops) simp
  moreover have "moves (confined_to {}) (legacy_query env pid c filters sort_opt pagination)"
    unfolding legacy_query_def Let_def by (intro legacy_frame.moves_intros)
  moreover note confined_ops [of pid c "{(pid, c)}", OF singletonI]
  ultimately show ?thesis unfolding moves_def by blast
qed

text \<open>
  C31: Optimistic locking. Of any number of updates of a record that were all prepared against the same version, at most
  one succeeds, also when the database fails some of them; and a successful one finds the record at that version, stores
  the new data and moves it to the next version.
\<close>

theorem one_update_per_version:
  assumes "unique_ids st" and "v < 2 ^ 63"
  shows "length (filter is_ok (fst (attempts env pid c i v ds st))) \<le> 1 \<and>
    (\<forall>d r st'. legacy_update env pid c i d v st = (Inr r, st') \<longrightarrow>
      (\<exists>stored old. lg_to_string env d = Inr stored \<and> legacy_view st (pid, c, i) = Some (old, v) \<and>
        legacy_view st' = (legacy_view st)((pid, c, i) \<mapsto> (stored, rec_version r)) \<and>
        next_version (lg_overflow_checks env) v = Inr (rec_version r)))"
  using attempts_once [OF assms] update_ok [OF _ assms(1)] by metis

text \<open>
  A record that was created is read back. With a JSON text and a time format that can be read back, the record that
  \<open>create\<close> returns has the given data at version 1 under an id that was not in use, the next read of that id returns
  the same record, and once it is deleted a read finds nothing.
\<close>

theorem created_record_is_read_back:
  assumes "text_ok env" and "legacy_create env pid c data st = (Inr r, st')" and "\<And>s. lg_fault env ''SELECT FROM plugin_data'' s = None"
  shows "rec_data r = data \<and> rec_version r = 1 \<and> rec_id r \<notin> lrow_id ` set (lst_rows st) \<and>
    legacy_get env pid c (rec_id r) st' = (Inr (Some r), st') \<and>
    (\<forall>b st''. legacy_delete env pid c (rec_id r) st' = (Inr b, st'') \<longrightarrow> b \<and> legacy_get env pid c (rec_id r) st'' = (Inr None, st''))"
proof -
  from assms(2) obtain i s0 where draw: "lg_draw (lg_uuid env) st = (Inr i, s0)" and cr: "legacy_create_with_id env pid c i data s0 = (Inr r, st')"
    by (auto simp: legacy_create_def s_bind_ok)
  from cr obtain stored now where new: "lg_to_string env data = Inr stored" "i \<notin> lrow_id ` set (lst_rows s0)"
    "lst_rows st' = lst_rows s0 @ [new_row env pid c i stored now]" "r = new_record pid c i data now" "now = lg_now env (lst_draws s0)" by (rule create_row)
  have s0: "lst_rows s0 = lst_rows st" using draw by (rule draw_ok)
  have row: "find (is_record pid c i) (lst_rows st') = Some (new_row env pid c i stored now)"
    using new by (simp add: find_created)
  have id: "rec_id r = i" using new(4) by (simp add: new_record_def)
  have "row_to_record env (new_row env pid c i stored now) = Inr r"
    using assms(1) new(1, 4, 5) by (simp add: row_to_record_def new_row_def new_record_def text_ok_def)
  then have "legacy_get env pid c (rec_id r) st' = (Inr (Some r), st')"
    using row assms(3) by (simp add: legacy_get_def s_bind_def lg_stmt_def s_get_def id)
  moreover have "b \<and> legacy_get env pid c (rec_id r) st'' = (Inr None, st'')" if "legacy_delete env pid c (rec_id r) st' = (Inr b, st'')" for b st''
  proof -
    from delete_ok [OF that] row have "b" and "legacy_view st'' (pid, c, i) = None" by (simp_all add: id legacy_view_def)
    then show ?thesis using assms(3) by (simp add: legacy_view_def id legacy_get_def s_bind_def lg_stmt_def s_get_def)
  qed
  ultimately show ?thesis using new s0 by (auto simp: new_record_def)
qed

text \<open>
  Queries are parameterised. Whatever the filter, the text of the statement depends on the values in it neither for
  the conditions nor for their number, and has exactly one placeholder per bound value: the plugin, the collection, the
  filter values, the limit and the offset. A field name that could end the string literal never reaches the text.
\<close>

theorem query_text_matches_binds:
  assumes "order_clause sort_opt = Inr order"
  shows "data_sql (blank_filters filters) order = data_sql filters order \<and>
    count_list (data_sql filters order) CHR ''?'' = length (where_binds pid c filters) + 2"
proof -
  have "marks order = 0"
    using assms by (auto simp: order_clause_def intro!: marks_field elim!: list.pred_mono_strong split: option.splits if_splits sort_direction.splits)
  moreover have "marks (where_clause filters) = 2 + length (snd (build_filter_sql filters))"
    unfolding where_clause_def by (subst marks_join) (simp_all add: marks_build)
  ultimately show ?thesis
    unfolding marks_def [symmetric] by (simp add: data_sql_def where_clause_def where_binds_def build_blank_filters)
qed

section \<open>Witnesses\<close>

fun sample_text :: "json \<Rightarrow> (string, string) result" where
  "sample_text (JString s) = Inr (CHR ''s'' # s)"
| "sample_text (JObject [(k, JNumber (NPosInt n))]) = (if k = ''new_version'' then Inr (CHR ''p'' # show_nat n) else Inl ''unsupported'')"
| "sample_text (JObject [(k, JNumber (NNegInt n))]) =
     (if k = ''new_version'' \<and> n < 0 then Inr (CHR ''n'' # show_nat (nat (- n))) else Inl ''unsupported'')"
| "sample_text j = Inl ''unsupported''"

fun sample_parse :: "string \<Rightarrow> (string, json) result" where
  "sample_parse [] = Inl ''empty''"
| "sample_parse (t # s) =
     (if t = CHR ''s'' then Inr (JString s)
      else if t = CHR ''p'' then Inr (JObject [(''new_version'', JNumber (NPosInt (the (parse_digits s))))])
      else Inr (JObject [(''new_version'', JNumber (NNegInt (- int (the (parse_digits s)))))]))"

definition sample_legacy :: legacy_env where
  "sample_legacy =
     \<lparr>lg_fault = (\<lambda>_ _. None), lg_select = (\<lambda>_ _ _. Inr []), lg_count = (\<lambda>_ _ _. Inr 0),
      lg_to_string = sample_text, lg_from_str = sample_parse, lg_display = (\<lambda>_. []), lg_now = (\<lambda>_. 0), lg_rfc3339 = (\<lambda>_. ''1970''),
      lg_parse_time = (\<lambda>_. Inr 0), lg_cutoff = (\<lambda>_ _. []), lg_uuid = (\<lambda>_. ''r1''), lg_overflow_checks = True\<rparr>"

definition empty_store :: legacy_store where
  "empty_store = \<lparr>lst_rows = [], lst_audit = [], lst_events = [], lst_draws = 0\<rparr>"

definition sample_store :: legacy_store where
  "sample_store = snd (legacy_create sample_legacy ''core'' ''notes'' (JString ''one'') empty_store)"

lemma sample_text_back: "sample_text j = Inr t \<Longrightarrow> sample_parse t = Inr j"
  by (induction j rule: sample_text.induct) (auto simp: parse_digits_show_nat split: if_splits)

lemma text_ok_sample: "text_ok sample_legacy"
  by (simp add: text_ok_def sample_legacy_def sample_text_back)

lemma healthy_sample: "healthy_env sample_legacy"
  using text_ok_sample by (simp add: healthy_env_def sample_legacy_def version_details_def)

lemma sample_legacy_simps [simp]:
  "lg_fault sample_legacy q st = None" "lg_to_string sample_legacy (JString s) = Inr (CHR ''s'' # s)" "lg_uuid sample_legacy n = ''r1''"
  "lg_now sample_legacy n = 0" "lg_rfc3339 sample_legacy t = ''1970''" "lg_overflow_checks sample_legacy"
  by (simp_all add: sample_legacy_def)

lemma sample_store_rows: "lst_rows sample_store = [new_row sample_legacy ''core'' ''notes'' ''r1'' ''sone'' 0]"
  by (simp add: sample_store_def empty_store_def legacy_create_def legacy_create_with_id_def log_event_full_def s_bind_def s_check_def
    s_return_def lg_draw_def lg_stmt_def publish_def new_row_def)

theorem one_update_per_version_witness:
  "length (filter is_ok (fst (attempts sample_legacy ''core'' ''notes'' ''r1'' 1 [JString ''two'', JString ''three''] sample_store))) \<le> 1 \<and>
   legacy_view sample_store (''core'', ''notes'', ''r1'') = Some (''sone'', 1)"
  using one_update_per_version [of sample_store 1 sample_legacy "''core''" "''notes''" "''r1''" "[JString ''two'', JString ''three'']"]
  by (simp add: unique_ids_def sample_store_rows legacy_view_def is_record_def new_row_def)

theorem created_record_is_read_back_witness:
  "\<exists>r. legacy_get sample_legacy ''core'' ''notes'' ''r1'' sample_store = (Inr (Some r), sample_store) \<and> rec_data r = JString ''one''"
proof -
  obtain r where r: "legacy_create sample_legacy ''core'' ''notes'' (JString ''one'') empty_store = (Inr r, sample_store)" "rec_id r = ''r1''"
    by (simp add: sample_store_def empty_store_def legacy_create_def legacy_create_with_id_def log_event_full_def s_bind_def s_check_def
      s_return_def lg_draw_def lg_stmt_def publish_def)
  from created_record_is_read_back [OF text_ok_sample this(1)] this(2) show ?thesis by auto
qed

theorem query_text_matches_binds_witness:
  "count_list (data_sql (QueryFilters [(''title'', JString ''?'')] [] [(''body'', ''%'')] [] []) []) CHR ''?'' = 6"
  using query_text_matches_binds [of None "[]" "QueryFilters [(''title'', JString ''?'')] [] [(''body'', ''%'')] [] []" "''core''" "''notes''"]
  by (simp add: order_clause_def where_binds_def equality_sql_def comparison_sql_def text_sql_def valid_field_def validate_field_name_def
    is_ascii_alphanumeric_def is_ascii_alphabetic_def is_ascii_digit_def)

end
