(* ===== verification/Sync.thy ===== *)
theory Sync
  imports Legacy_Props "HOL-Library.AList"
begin

text \<open>
  Replication between instances: the application of pulled changes to a storage adapter
  (\<open>apps/core/src/sync_primitives.rs\<close>) and the federation store with its pull loop
  (\<open>apps/core/src/federation.rs\<close>). A storage adapter is a record of operations, as the trait object of the code; the
  SQLite adapter is one. The TLS library, the HTTP client, the decoder of a response, fresh ids, the clock and the order
  in which a \<open>HashMap\<close> is listed are parameters. Counts of records are lengths of lists in memory and are kept as
  naturals.
\<close>

section \<open>Applying changes\<close>

record 's storage_adapter =
  sa_get :: "string \<Rightarrow> string \<Rightarrow> string \<Rightarrow> (legacy_error, 's, legacy_record option) action"
  sa_create_with_id :: "string \<Rightarrow> string \<Rightarrow> string \<Rightarrow> json \<Rightarrow> (legacy_error, 's, legacy_record) action"
  sa_update :: "string \<Rightarrow> string \<Rightarrow> string \<Rightarrow> json \<Rightarrow> int \<Rightarrow> (legacy_error, 's, legacy_record) action"
  sa_delete :: "string \<Rightarrow> string \<Rightarrow> string \<Rightarrow> (legacy_error, 's, bool) action"

definition sqlite_storage_adapter :: "legacy_env \<Rightarrow> legacy_store storage_adapter" where
  "sqlite_storage_adapter env =
     \<lparr>sa_get = legacy_get env, sa_create_with_id = legacy_create_with_id env, sa_update = legacy_update env,
      sa_delete = legacy_delete env\<rparr>"

datatype change_operation = OpCreate | OpUpdate | OpDelete

record change_record =
  cg_id :: string
  cg_collection :: string
  cg_operation :: change_operation
  cg_data :: "json option"
  cg_version :: int
  cg_timestamp :: timestamp

record pull_response =
  pull_changes :: "change_record list"
  pull_cursor :: string

definition discard :: "('e, 's, 'a) action \<Rightarrow> ('e, 's, unit) action" where
  "discard f = s_bind f (\<lambda>_. s_return ())"

definition apply_change :: "'s storage_adapter \<Rightarrow> string \<Rightarrow> change_record \<Rightarrow> (legacy_error, 's, unit) action" where
  "apply_change storage namespace change =
     (case cg_operation change of
        OpCreate \<Rightarrow>
          (case cg_data change of
             None \<Rightarrow> s_return ()
           | Some data \<Rightarrow> discard (sa_create_with_id storage namespace (cg_collection change) (cg_id change) data))
      | OpUpdate \<Rightarrow>
          (case cg_data change of
             None \<Rightarrow> s_return ()
           | Some data \<Rightarrow>
               s_bind (sa_get storage namespace (cg_collection change) (cg_id change)) (\<lambda>found.
               case found of
                 Some existing \<Rightarrow>
                   if rec_version existing < cg_version change
                   then discard (sa_update storage namespace (cg_collection change) (cg_id change) data (rec_version existing))
                   else s_return ()
               | None \<Rightarrow> discard (sa_create_with_id storage namespace (cg_collection change) (cg_id change) data)))
      | OpDelete \<Rightarrow>
          s_bind (sa_get storage namespace (cg_collection change) (cg_id change)) (\<lambda>found.
          case found of
            Some existing \<Rightarrow>
              if cg_version change \<le> rec_version existing then s_return ()
              else discard (sa_delete storage namespace (cg_collection change) (cg_id change))
          | None \<Rightarrow> discard (sa_delete storage namespace (cg_collection change) (cg_id change))))"

section \<open>Cursors\<close>

type_synonym sync_cursors = "string \<rightharpoonup> (string \<rightharpoonup> string)"

definition cursors_get :: "sync_cursors \<Rightarrow> string \<Rightarrow> string \<Rightarrow> string option" where
  "cursors_get cs source collection = Option.bind (cs source) (\<lambda>cols. cols collection)"

definition cursors_set :: "string \<Rightarrow> string \<Rightarrow> string \<Rightarrow> sync_cursors \<Rightarrow> sync_cursors" where
  "cursors_set source collection cursor cs =
     cs(source \<mapsto> (case cs source of Some cols \<Rightarrow> cols | None \<Rightarrow> Map.empty)(collection \<mapsto> cursor))"

section \<open>The federation store\<close>

datatype peer_status = PeerPending | PeerConnected | PeerSyncing | PeerError | PeerDisabled

record federation_peer =
  fp_id :: string
  fp_name :: string
  fp_endpoint :: string
  fp_collections :: "string list"
  fp_ca_cert_path :: "string option"
  fp_client_cert_path :: "string option"
  fp_client_key_path :: "string option"
  fp_status :: peer_status
  fp_last_sync_at :: "timestamp option"
  fp_last_sync_records :: "nat option"
  fp_created_at :: timestamp
  fp_updated_at :: timestamp

record peer_request =
  pr_name :: string
  pr_endpoint :: string
  pr_collections :: "string list"
  pr_ca_cert_path :: "string option"
  pr_client_cert_path :: "string option"
  pr_client_key_path :: "string option"

record sync_result =
  sy_peer_id :: string
  sy_collections_synced :: "string list"
  sy_records_pulled :: nat
  sy_records_pushed :: nat
  sy_conflicts :: nat
  sy_success :: bool
  sy_error :: "string option"
  sy_completed_at :: timestamp

record peer_summary =
  su_id :: string
  su_name :: string
  su_status :: peer_status
  su_collections :: "string list"
  su_last_sync_at :: "timestamp option"
  su_last_sync_records :: "nat option"

record federation_status =
  fd_enabled :: bool
  fd_peer_count :: nat
  fd_peers :: "peer_summary list"

record federation_store =
  fs_peers :: "(string \<times> federation_peer) list"
  fs_sync_history :: "sync_result list"
  fs_cursors :: sync_cursors

definition max_sync_history :: nat where
  "max_sync_history = 100"

definition federation_store_new :: federation_store where
  "federation_store_new = \<lparr>fs_peers = [], fs_sync_history = [], fs_cursors = Map.empty\<rparr>"

text \<open>The fresh id and the time are arguments.\<close>

definition add_peer :: "string \<Rightarrow> timestamp \<Rightarrow> peer_request \<Rightarrow> federation_store \<Rightarrow> federation_peer \<times> federation_store" where
  "add_peer i now req s =
     (let peer = \<lparr>fp_id = i, fp_name = pr_name req, fp_endpoint = pr_endpoint req, fp_collections = pr_collections req,
        fp_ca_cert_path = pr_ca_cert_path req, fp_client_cert_path = pr_client_cert_path req,
        fp_client_key_path = pr_client_key_path req, fp_status = PeerPending, fp_last_sync_at = None,
        fp_last_sync_records = None, fp_created_at = now, fp_updated_at = now\<rparr>
      in (peer, s\<lparr>fs_peers := AList.update i peer (fs_peers s)\<rparr>))"

definition get_peer :: "federation_store \<Rightarrow> string \<Rightarrow> federation_peer option" where
  "get_peer s i = map_of (fs_peers s) i"

definition list_peers :: "(federation_peer list \<Rightarrow> federation_peer list) \<Rightarrow> federation_store \<Rightarrow> federation_peer list" where
  "list_peers order s = order (map snd (fs_peers s))"

definition remove_peer :: "string \<Rightarrow> federation_store \<Rightarrow> bool \<times> federation_store" where
  "remove_peer i s = (map_of (fs_peers s) i \<noteq> None, s\<lparr>fs_peers := AList.delete i (fs_peers s)\<rparr>)"

definition update_peer_status :: "string \<Rightarrow> peer_status \<Rightarrow> timestamp \<Rightarrow> (string, federation_store, unit) action" where
  "update_peer_status i status now s =
     (case map_of (fs_peers s) i of
        None \<Rightarrow> (Inl (''peer not found: '' @ i), s)
      | Some peer \<Rightarrow> (Inr (), s\<lparr>fs_peers := AList.update i (peer\<lparr>fp_status := status, fp_updated_at := now\<rparr>) (fs_peers s)\<rparr>))"

definition synced_peer :: "sync_result \<Rightarrow> timestamp \<Rightarrow> federation_peer \<Rightarrow> federation_peer" where
  "synced_peer r now peer =
     (if sy_success r
      then peer\<lparr>fp_status := PeerConnected, fp_last_sync_at := Some (sy_completed_at r),
        fp_last_sync_records := Some (sy_records_pulled r + sy_records_pushed r), fp_updated_at := now\<rparr>
      else peer\<lparr>fp_status := PeerError, fp_updated_at := now\<rparr>)"

definition record_sync :: "sync_result \<Rightarrow> timestamp \<Rightarrow> federation_store \<Rightarrow> federation_store" where
  "record_sync r now s =
     (let peers = (case map_of (fs_peers s) (sy_peer_id r) of
            None \<Rightarrow> fs_peers s
          | Some peer \<Rightarrow> AList.update (sy_peer_id r) (synced_peer r now peer) (fs_peers s));
          history = fs_sync_history s @ [r];
          history' = (if max_sync_history < length history then drop (length history - max_sync_history) history else history)
      in s\<lparr>fs_peers := peers, fs_sync_history := history'\<rparr>)"

definition peer_summary_of :: "federation_peer \<Rightarrow> peer_summary" where
  "peer_summary_of p =
     \<lparr>su_id = fp_id p, su_name = fp_name p, su_status = fp_status p, su_collections = fp_collections p,
      su_last_sync_at = fp_last_sync_at p, su_last_sync_records = fp_last_sync_records p\<rparr>"

definition fed_status :: "(federation_peer list \<Rightarrow> federation_peer list) \<Rightarrow> federation_store \<Rightarrow> federation_status" where
  "fed_status order s =
     \<lparr>fd_enabled = (fs_peers s \<noteq> []), fd_peer_count = length (fs_peers s),
      fd_peers = map peer_summary_of (order (map snd (fs_peers s)))\<rparr>"

definition get_cursor :: "federation_store \<Rightarrow> string \<Rightarrow> string \<Rightarrow> string option" where
  "get_cursor s peer_id collection = cursors_get (fs_cursors s) peer_id collection"

definition set_cursor :: "string \<Rightarrow> string \<Rightarrow> string \<Rightarrow> federation_store \<Rightarrow> federation_store" where
  "set_cursor peer_id collection cursor s = s\<lparr>fs_cursors := cursors_set peer_id collection cursor (fs_cursors s)\<rparr>"

definition sync_history_for_peer :: "federation_store \<Rightarrow> string \<Rightarrow> sync_result list" where
  "sync_history_for_peer s peer_id = filter (\<lambda>r. sy_peer_id r = peer_id) (fs_sync_history s)"

section \<open>Pulling from a peer\<close>

text \<open>
  The libraries: reading a file, decoding a certificate and an identity, building a client from them, sending a request
  (the result depends on when it is sent), decoding the body of a response, and URL encoding.
\<close>

record ('cert, 'client) fed_env =
  fv_read :: "string \<Rightarrow> (string, string) result"
  fv_certificate :: "string \<Rightarrow> (string, 'cert) result"
  fv_identity :: "string \<Rightarrow> (string, 'cert) result"
  fv_build :: "'cert option \<Rightarrow> 'cert option \<Rightarrow> (string, 'client) result"
  fv_send :: "'client \<Rightarrow> string \<Rightarrow> nat \<Rightarrow> (string, nat \<times> string) result"
  fv_json :: "string \<Rightarrow> (string, pull_response) result"
  fv_encode :: "string \<Rightarrow> string"
  fv_now :: "nat \<Rightarrow> timestamp"

definition quoted_path :: "string \<Rightarrow> string" where
  "quoted_path p = [CHR 0x27] @ p @ [CHR 0x27]"

definition load_ca :: "('cert, 'client) fed_env \<Rightarrow> federation_peer \<Rightarrow> (string, 'cert option) result" where
  "load_ca fv peer =
     (case fp_ca_cert_path peer of
        None \<Rightarrow> Inr None
      | Some p \<Rightarrow>
          r_bind (map_err (\<lambda>e. ''failed to read CA cert '' @ quoted_path p @ '': '' @ e) (fv_read fv p)) (\<lambda>pem.
          r_bind (map_err (\<lambda>e. ''invalid CA cert '' @ quoted_path p @ '': '' @ e) (fv_certificate fv pem)) (\<lambda>cert.
          Inr (Some cert))))"

definition load_identity :: "('cert, 'client) fed_env \<Rightarrow> federation_peer \<Rightarrow> (string, 'cert option) result" where
  "load_identity fv peer =
     (case (fp_client_cert_path peer, fp_client_key_path peer) of
        (Some cp, Some kp) \<Rightarrow>
          r_bind (map_err (\<lambda>e. ''failed to read client cert '' @ quoted_path cp @ '': '' @ e) (fv_read fv cp)) (\<lambda>cert_pem.
          r_bind (map_err (\<lambda>e. ''failed to read client key '' @ quoted_path kp @ '': '' @ e) (fv_read fv kp)) (\<lambda>key_pem.
          r_bind (map_err (\<lambda>e. ''invalid client identity: '' @ e) (fv_identity fv (cert_pem @ key_pem))) (\<lambda>identity.
          Inr (Some identity))))
      | _ \<Rightarrow> Inr None)"

definition build_mtls_client :: "('cert, 'client) fed_env \<Rightarrow> federation_peer \<Rightarrow> (string, 'client) result" where
  "build_mtls_client fv peer =
     r_bind (load_ca fv peer) (\<lambda>ca.
     r_bind (load_identity fv peer) (\<lambda>identity.
     map_err (\<lambda>e. ''failed to build mTLS client: '' @ e) (fv_build fv ca identity)))"

record 's fed_world =
  fw_store :: federation_store
  fw_storage :: 's
  fw_draws :: nat

definition apply_federation_change :: "'s storage_adapter \<Rightarrow> string \<Rightarrow> change_record \<Rightarrow> (legacy_error, 's, unit) action" where
  "apply_federation_change storage peer_id change = apply_change storage (''federation:'' @ peer_id) change"

text \<open>The changes of a response, one after the other; the number of those that failed.\<close>

fun apply_all :: "'s storage_adapter \<Rightarrow> string \<Rightarrow> change_record list \<Rightarrow> 's \<Rightarrow> nat \<times> 's" where
  "apply_all storage peer_id [] st = (0, st)"
| "apply_all storage peer_id (ch # chs) st =
     (let (r, st1) = apply_federation_change storage peer_id ch st; (n, st2) = apply_all storage peer_id chs st1
      in (if is_ok r then n else Suc n, st2))"

definition changes_url :: "('cert, 'client) fed_env \<Rightarrow> federation_peer \<Rightarrow> string \<Rightarrow> string \<Rightarrow> string" where
  "changes_url fv peer collection cursor =
     fp_endpoint peer @ ''/api/federation/changes/'' @ fv_encode fv collection @ ''?since='' @ fv_encode fv cursor"

definition pull :: "('cert, 'client) fed_env \<Rightarrow> 'client \<Rightarrow> string \<Rightarrow> nat \<Rightarrow> pull_response option" where
  "pull fv client url n =
     (case fv_send fv client url n of
        Inl e \<Rightarrow> None
      | Inr (status, body) \<Rightarrow>
          if 200 \<le> status \<and> status < 300
          then (case fv_json fv body of Inl e \<Rightarrow> None | Inr p \<Rightarrow> Some p)
          else None)"

text \<open>What one collection adds: records pulled, conflicts, and itself when the pull succeeded.\<close>

definition sync_collection ::
  "('cert, 'client) fed_env \<Rightarrow> 's storage_adapter \<Rightarrow> 'client \<Rightarrow> federation_peer \<Rightarrow> string \<Rightarrow> 's fed_world \<Rightarrow>
    (nat \<times> nat \<times> string list) \<times> 's fed_world" where
  "sync_collection fv storage client peer collection w =
     (let cursor = (case get_cursor (fw_store w) (fp_id peer) collection of Some c \<Rightarrow> c | None \<Rightarrow> []);
          w1 = w\<lparr>fw_draws := Suc (fw_draws w)\<rparr>
      in case pull fv client (changes_url fv peer collection cursor) (fw_draws w) of
           None \<Rightarrow> ((0, 0, []), w1)
         | Some p \<Rightarrow>
             (let (conflicts, st) = apply_all storage (fp_id peer) (pull_changes p) (fw_storage w1)
              in ((length (pull_changes p), conflicts, [collection]),
                  w1\<lparr>fw_storage := st,
                    fw_store := (if pull_cursor p = [] then fw_store w1
                      else set_cursor (fp_id peer) collection (pull_cursor p) (fw_store w1))\<rparr>)))"

fun sync_collections ::
  "('cert, 'client) fed_env \<Rightarrow> 's storage_adapter \<Rightarrow> 'client \<Rightarrow> federation_peer \<Rightarrow> string list \<Rightarrow> 's fed_world \<Rightarrow>
    (nat \<times> nat \<times> string list) \<times> 's fed_world" where
  "sync_collections fv storage client peer [] w = ((0, 0, []), w)"
| "sync_collections fv storage client peer (c # cs) w =
     (let ((p, k, s), w1) = sync_collection fv storage client peer c w;
          ((p', k', s'), w2) = sync_collections fv storage client peer cs w1
      in ((p + p', k + k', s @ s'), w2))"

definition wanted_collections :: "federation_peer \<Rightarrow> string list option \<Rightarrow> string list" where
  "wanted_collections peer collections_filter =
     (case collections_filter of
        Some fs \<Rightarrow> filter (\<lambda>c. c \<in> set fs) (fp_collections peer)
      | None \<Rightarrow> fp_collections peer)"

definition sync_report :: "federation_peer \<Rightarrow> nat \<times> nat \<times> string list \<Rightarrow> string option \<Rightarrow> timestamp \<Rightarrow> sync_result" where
  "sync_report peer = (\<lambda>(pulled, conflicts, synced) err now.
     \<lparr>sy_peer_id = fp_id peer, sy_collections_synced = synced, sy_records_pulled = pulled, sy_records_pushed = 0,
      sy_conflicts = conflicts, sy_success = (err = None), sy_error = err, sy_completed_at = now\<rparr>)"

definition sync_with_peer ::
  "('cert, 'client) fed_env \<Rightarrow> 's storage_adapter \<Rightarrow> federation_peer \<Rightarrow> string list option \<Rightarrow> 's fed_world \<Rightarrow> sync_result \<times> 's fed_world" where
  "sync_with_peer fv storage peer collections_filter w =
     (let collections = wanted_collections peer collections_filter in
      if collections = [] then (sync_report peer (0, 0, []) None (fv_now fv (fw_draws w)), w)
      else case build_mtls_client fv peer of
        Inl e \<Rightarrow> (sync_report peer (0, 0, []) (Some (''mTLS client build failed: '' @ e)) (fv_now fv (fw_draws w)), w)
      | Inr client \<Rightarrow>
          (let (totals, w') = sync_collections fv storage client peer collections w
           in (sync_report peer totals None (fv_now fv (fw_draws w')), w')))"

end
