(* ===== verification/Sync_Props.thy ===== *)
theory Sync_Props
  imports Sync
begin

text \<open>
  Replication. Two contracts of a storage adapter, \<open>confined_store\<close> and \<open>versioned_store\<close>, carry the lemmas on applied
  changes and on the pull loop; the SQLite adapter satisfies both.
\<close>

section \<open>Replication stays in its namespace\<close>

text \<open>What the pull loop keeps: the storage outside the peer's namespace, the peers, the history, and the cursors of others.\<close>

definition keeps_world :: "(string \<Rightarrow> 's \<Rightarrow> 's \<Rightarrow> bool) \<Rightarrow> federation_peer \<Rightarrow> 's fed_world \<Rightarrow> 's fed_world \<Rightarrow> bool" where
  "keeps_world outside peer w w' \<longleftrightarrow>
     outside (''federation:'' @ fp_id peer) (fw_storage w) (fw_storage w') \<and>
     fs_peers (fw_store w') = fs_peers (fw_store w) \<and> fs_sync_history (fw_store w') = fs_sync_history (fw_store w) \<and>
     (\<forall>p c. p \<noteq> fp_id peer \<longrightarrow> get_cursor (fw_store w') p c = get_cursor (fw_store w) p c)"

locale confined_store =
  fixes storage :: "'s storage_adapter"
    and outside :: "string \<Rightarrow> 's \<Rightarrow> 's \<Rightarrow> bool"
  assumes order: "state_order (outside ns)"
    and get_outside: "moves (outside ns) (sa_get storage ns c i)"
    and create_outside: "moves (outside ns) (sa_create_with_id storage ns c i data)"
    and update_outside: "moves (outside ns) (sa_update storage ns c i data v)"
    and delete_outside: "moves (outside ns) (sa_delete storage ns c i)"
begin

lemmas outside_intros = state_order.moves_intros [OF order] state_order.moves_if [OF order]
  get_outside create_outside update_outside delete_outside

lemma discard_outside: "moves (outside ns) f \<Longrightarrow> moves (outside ns) (discard f)"
  unfolding discard_def by (intro outside_intros)

lemma apply_change_outside: "moves (outside ns) (apply_change storage ns ch)"
  unfolding apply_change_def
  by (cases "cg_operation ch"; cases "cg_data ch")
    (auto intro!: outside_intros discard_outside split: option.split)

lemma apply_all_outside: "outside (''federation:'' @ p) st (snd (apply_all storage p chs st))"
proof (induction chs arbitrary: st)
  case Nil
  then show ?case using state_order.R_refl [OF order] by simp
next
  case (Cons ch chs)
  have "outside (''federation:'' @ p) st (snd (apply_federation_change storage p ch st))"
    using apply_change_outside by (simp add: moves_def apply_federation_change_def)
  then show ?case using Cons.IH state_order.R_trans [OF order] by (simp add: case_prod_unfold Let_def)
qed

lemma keeps_world_refl: "keeps_world outside peer w w"
  using state_order.R_refl [OF order] by (simp add: keeps_world_def)

lemma keeps_world_trans: "keeps_world outside peer w w' \<Longrightarrow> keeps_world outside peer w' w'' \<Longrightarrow> keeps_world outside peer w w''"
  using state_order.R_trans [OF order] unfolding keeps_world_def by (elim conjE, intro conjI) (blast, simp_all)

lemma sync_collection_keeps: "keeps_world outside peer w (snd (sync_collection fv storage client peer c w))"
  using keeps_world_refl [of peer w] apply_all_outside [of "fp_id peer" "fw_storage w"]
  by (auto simp: sync_collection_def Let_def keeps_world_def case_prod_unfold get_cursor_def set_cursor_def cursors_get_def
    cursors_set_def split: option.split)

lemma sync_collections_keep: "keeps_world outside peer w (snd (sync_collections fv storage client peer cs w))"
proof (induction cs arbitrary: w)
  case (Cons c cs)
  show ?case
    using keeps_world_trans [OF sync_collection_keeps [of peer w fv client c] Cons.IH] by (simp add: case_prod_unfold Let_def)
qed (simp add: keeps_world_refl)

lemma sync_keeps: "keeps_world outside peer w (snd (sync_with_peer fv storage peer cf w))"
  using sync_collections_keep keeps_world_refl
  by (auto simp: sync_with_peer_def Let_def case_prod_unfold split: sum.split)

end

text \<open>The SQLite adapter stays in the namespace it is given.\<close>

interpretation sqlite_sync: confined_store "sqlite_storage_adapter env" "\<lambda>ns. confined_to ({ns} \<times> UNIV)" for env
  by unfold_locales
    (auto simp: sqlite_storage_adapter_def intro!: confined_ops intro: legacy_frame.R_refl legacy_frame.R_trans)

section \<open>Replication in order\<close>

text \<open>
  A store in which, under \<open>healthy\<close> conditions, a read finds what is there and a write of data with a text takes effect;
  \<open>view\<close> is the stored text and the version of each record, \<open>unused\<close> says that an id is free.
\<close>

locale versioned_store =
  fixes storage :: "'s storage_adapter"
    and view :: "'s \<Rightarrow> string \<times> string \<times> string \<rightharpoonup> string \<times> int"
    and sound :: "'s \<Rightarrow> bool"
    and unused :: "string \<Rightarrow> 's \<Rightarrow> bool"
    and enc :: "json \<Rightarrow> string option"
    and healthy :: bool
  assumes get_view: "healthy \<Longrightarrow> sound st \<Longrightarrow>
      \<exists>r. sa_get storage ns c i st = (Inr r, st) \<and> map_option rec_version r = map_option snd (view st (ns, c, i))"
    and create_view: "healthy \<Longrightarrow> sound st \<Longrightarrow> unused i st \<Longrightarrow> enc data = Some t \<Longrightarrow>
      \<exists>r st'. sa_create_with_id storage ns c i data st = (Inr r, st') \<and> sound st' \<and> view st' = (view st)((ns, c, i) \<mapsto> (t, 1))"
    and update_view: "healthy \<Longrightarrow> sound st \<Longrightarrow> view st (ns, c, i) = Some (old, v) \<Longrightarrow> v + 1 < 2 ^ 63 \<Longrightarrow> enc data = Some t \<Longrightarrow>
      \<exists>r st'. sa_update storage ns c i data v st = (Inr r, st') \<and> sound st' \<and> view st' = (view st)((ns, c, i) \<mapsto> (t, v + 1))"
begin

lemma apply_create:
  assumes "healthy" "sound st" "unused (cg_id ch) st" "cg_operation ch = OpCreate" "cg_data ch = Some d" "enc d = Some t"
  shows "\<exists>st'. apply_change storage ns ch st = (Inr (), st') \<and> sound st' \<and> view st' = (view st)((ns, cg_collection ch, cg_id ch) \<mapsto> (t, 1))"
  using create_view [OF assms(1-3, 6), of ns "cg_collection ch"] assms(4, 5)
  by (auto simp: apply_change_def discard_def s_bind_def s_return_def)

lemma apply_update:
  assumes "healthy" "sound st" "cg_operation ch = OpUpdate" "cg_data ch = Some d" "enc d = Some t"
    and "view st (ns, cg_collection ch, cg_id ch) = Some (old, v)" and "v < cg_version ch" and "cg_version ch < 2 ^ 63"
  shows "\<exists>st'. apply_change storage ns ch st = (Inr (), st') \<and> sound st' \<and> view st' = (view st)((ns, cg_collection ch, cg_id ch) \<mapsto> (t, v + 1))"
proof -
  from get_view [OF assms(1, 2), of ns "cg_collection ch" "cg_id ch"] assms(6) obtain r
    where r: "sa_get storage ns (cg_collection ch) (cg_id ch) st = (Inr (Some r), st)" "rec_version r = v" by auto
  have "v + 1 < 2 ^ 63" using assms(7, 8) by simp
  from update_view [OF assms(1, 2, 6) this assms(5)] r assms(3, 4, 7) show ?thesis
    by (auto simp: apply_change_def discard_def s_bind_def s_return_def)
qed


lemma replay_updates:
  assumes "healthy" "sound st" "view st (ns, c, i) = Some (old, v)"
    and "\<forall>ch \<in> set chs. cg_operation ch = OpUpdate \<and> cg_collection ch = c \<and> cg_id ch = i \<and> cg_version ch < 2 ^ 63 \<and>
      (\<exists>d t. cg_data ch = Some d \<and> enc d = Some t)"
    and "sorted_wrt (<) (v # map cg_version chs)"
  shows "\<exists>st'. s_each (apply_change storage ns) chs st = (Inr (), st') \<and> sound st' \<and>
    view st' = (view st)((ns, c, i) \<mapsto>
      (if chs = [] then old else the (enc (the (cg_data (last chs)))), v + int (length chs)))"
  using assms(2-5)
proof (induction chs arbitrary: st old v)
  case Nil
  then have "view st = (view st)((ns, c, i) \<mapsto> (old, v))" by (simp only: fun_upd_idem)
  with Nil show ?case by (simp add: s_return_def)
next
  case (Cons ch chs)
  from Cons.prems(3) obtain d t where d: "cg_data ch = Some d" "enc d = Some t" and ch: "cg_operation ch = OpUpdate" "cg_collection ch = c" "cg_id ch = i"
      "cg_version ch < 2 ^ 63" by auto
  have after: "v < cg_version ch" "\<forall>y \<in> set chs. cg_version ch < cg_version y" using Cons.prems(4) by simp_all
  have old: "view st (ns, cg_collection ch, cg_id ch) = Some (old, v)" using Cons.prems(2) ch by simp
  from apply_update [OF assms(1) Cons.prems(1) ch(1) d old after(1) ch(4)] obtain st1
    where st1: "apply_change storage ns ch st = (Inr (), st1)" "sound st1" "view st1 = (view st)((ns, c, i) \<mapsto> (t, v + 1))"
    unfolding ch(2, 3) by blast
  have "v + 1 < cg_version y" if "y \<in> set chs" for y using after that by (meson dual_order.strict_trans2 zless_imp_add1_zle)
  then have "sorted_wrt (<) ((v + 1) # map cg_version chs)" using Cons.prems(4) by simp
  moreover have "view st1 (ns, c, i) = Some (t, v + 1)" using st1(3) by simp
  moreover have "\<forall>ch \<in> set chs. cg_operation ch = OpUpdate \<and> cg_collection ch = c \<and> cg_id ch = i \<and> cg_version ch < 2 ^ 63 \<and>
      (\<exists>d t. cg_data ch = Some d \<and> enc d = Some t)" using Cons.prems(3) by simp
  ultimately obtain st' where st': "s_each (apply_change storage ns) chs st1 = (Inr (), st')" "sound st'"
      "view st' = (view st1)((ns, c, i) \<mapsto> (if chs = [] then t else the (enc (the (cg_data (last chs)))), v + 1 + int (length chs)))"
    using Cons.IH [OF st1(2)] by blast
  have "s_each (apply_change storage ns) (ch # chs) st = (Inr (), st')" using st1(1) st'(1) by (simp add: s_bind_def)
  moreover have "view st' = (view st)((ns, c, i) \<mapsto>
      (if ch # chs = [] then old else the (enc (the (cg_data (last (ch # chs))))), v + int (length (ch # chs))))"
    unfolding st'(3) st1(3) using d by (simp add: add.assoc)
  ultimately show ?case using st'(2) by blast
qed

end
definition text_of :: "legacy_env \<Rightarrow> json \<Rightarrow> string option" where
  "text_of env data = (case lg_to_string env data of Inl e \<Rightarrow> None | Inr t \<Rightarrow> Some t)"

definition free_id :: "string \<Rightarrow> legacy_store \<Rightarrow> bool" where
  "free_id i st \<longleftrightarrow> i \<notin> lrow_id ` set (lst_rows st)"

interpretation sqlite_replica:
  versioned_store "sqlite_storage_adapter env" legacy_view "readable env" free_id "text_of env" "healthy_env env" for env
  by unfold_locales
    (auto simp: sqlite_storage_adapter_def text_of_def free_id_def get_healthy create_healthy update_healthy split: sum.splits)

section \<open>The federation store\<close>

text \<open>The operations of the store, one step each.\<close>

inductive fed_step :: "federation_store \<Rightarrow> federation_store \<Rightarrow> bool" where
  add: "fed_step s (snd (add_peer i now req s))"
| remove: "fed_step s (snd (remove_peer i s))"
| status: "fed_step s (snd (update_peer_status i st now s))"
| sync: "fed_step s (record_sync r now s)"
| cursor: "fed_step s (set_cursor p c cur s)"

definition ids_match :: "(string \<times> federation_peer) list \<Rightarrow> bool" where
  "ids_match ps \<longleftrightarrow> distinct (map fst ps) \<and> list_all (\<lambda>(i, p). fp_id p = i) ps"

definition fed_inv :: "federation_store \<Rightarrow> bool" where
  "fed_inv s \<longleftrightarrow> length (fs_sync_history s) \<le> max_sync_history \<and> ids_match (fs_peers s)"

lemma update_keeps_ids: "ids_match ps \<Longrightarrow> fp_id q = j \<Longrightarrow> ids_match (AList.update j q ps)"
proof -
  have "list_all (\<lambda>(i, p). fp_id p = i) ps \<Longrightarrow> fp_id q = j \<Longrightarrow> list_all (\<lambda>(i, p). fp_id p = i) (AList.update j q ps)"
    by (induction ps) auto
  then show "ids_match ps \<Longrightarrow> fp_id q = j \<Longrightarrow> ids_match (AList.update j q ps)" by (simp add: ids_match_def distinct_update)
qed

lemma delete_keeps_ids: "ids_match ps \<Longrightarrow> ids_match (AList.delete j ps)"
  by (auto simp: ids_match_def list_all_iff AList.delete_eq distinct_map_filter)

lemma peer_at: "ids_match ps \<Longrightarrow> map_of ps j = Some p \<Longrightarrow> fp_id p = j"
  by (auto simp: ids_match_def list_all_iff dest!: map_of_SomeD)

lemma fed_step_inv: "fed_step s s' \<Longrightarrow> fed_inv s \<Longrightarrow> fed_inv s'"
proof (induction rule: fed_step.induct)
  case (add s i now req)
  then show ?case by (simp add: fed_inv_def add_peer_def Let_def update_keeps_ids)
next
  case (remove s i)
  then show ?case by (simp add: fed_inv_def remove_peer_def delete_keeps_ids)
next
  case (status s i st now)
  then have inv: "length (fs_sync_history s) \<le> max_sync_history" "ids_match (fs_peers s)" by (simp_all add: fed_inv_def)
  show ?case
  proof (cases "map_of (fs_peers s) i")
    case (Some p)
    from peer_at [OF inv(2) Some] have "fp_id (p\<lparr>fp_status := st, fp_updated_at := now\<rparr>) = i" by simp
    from update_keeps_ids [OF inv(2) this] inv(1) Some show ?thesis by (simp add: fed_inv_def update_peer_status_def)
  qed (simp add: inv fed_inv_def update_peer_status_def)
next
  case (sync s r now)
  then have inv: "ids_match (fs_peers s)" by (simp add: fed_inv_def)
  have len: "length (fs_sync_history (record_sync r now s)) \<le> max_sync_history"
    using sync by (simp add: fed_inv_def record_sync_def Let_def max_sync_history_def)
  show ?case
  proof (cases "map_of (fs_peers s) (sy_peer_id r)")
    case (Some p)
    from peer_at [OF inv Some] have "fp_id (synced_peer r now p) = sy_peer_id r" by (simp add: synced_peer_def)
    from update_keeps_ids [OF inv this] len Some show ?thesis by (simp add: fed_inv_def record_sync_def Let_def)
  next
    case None
    with inv len show ?thesis by (simp add: fed_inv_def record_sync_def Let_def)
  qed
next
  case (cursor s p c cur)
  then show ?case by (simp add: fed_inv_def set_cursor_def)
qed

lemma fed_reachable_inv: "fed_step\<^sup>*\<^sup>* federation_store_new s \<Longrightarrow> fed_inv s"
proof (induction rule: rtranclp_induct)
  case base
  show ?case by (simp add: fed_inv_def federation_store_new_def ids_match_def)
next
  case (step s s')
  from fed_step_inv [OF step(2, 3)] show ?case .
qed

section \<open>Properties\<close>

text \<open>
  C20: A peer reaches only its own namespace. Whatever a peer answers, a pull from it into the SQLite adapter leaves the
  rows of every plugin other than \<open>federation:<peer>\<close> as they were, keeps record ids unique, and leaves the registered
  peers, the history and the cursors of all other peers alone.
\<close>

theorem sync_confined:
  "keeps_world (\<lambda>ns. confined_to ({ns} \<times> UNIV)) peer w (snd (sync_with_peer fv (sqlite_storage_adapter env) peer cf w))"
  by (rule sqlite_sync.sync_keeps)

text \<open>
  C15: Changes that arrive in order are all replicated. On a table without faults, the creation of a record with an unused
  id and then updates of it, with rising versions, are all applied: the record ends with the data of the last change, and
  no other record changes. (The local version counts the changes and so never passes the remote one.)
\<close>

theorem replication_in_order:
  assumes "healthy_env env" and "readable env st" and "free_id (cg_id ch) st"
    and "cg_operation ch = OpCreate" and "cg_data ch = Some d" and "text_of env d = Some t"
    and "\<forall>u \<in> set us. cg_operation u = OpUpdate \<and> cg_collection u = cg_collection ch \<and> cg_id u = cg_id ch \<and> cg_version u < 2 ^ 63 \<and>
      (\<exists>d t. cg_data u = Some d \<and> text_of env d = Some t)"
    and "sorted_wrt (<) (1 # map cg_version us)"
  shows "\<exists>st'. s_each (apply_change (sqlite_storage_adapter env) ns) (ch # us) st = (Inr (), st') \<and>
    legacy_view st' = (legacy_view st)((ns, cg_collection ch, cg_id ch) \<mapsto>
      (if us = [] then t else the (text_of env (the (cg_data (last us)))), 1 + int (length us)))"
proof -
  from sqlite_replica.apply_create [OF assms(1-6), of ns] obtain st1
    where st1: "apply_change (sqlite_storage_adapter env) ns ch st = (Inr (), st1)" "readable env st1"
      "legacy_view st1 = (legacy_view st)((ns, cg_collection ch, cg_id ch) \<mapsto> (t, 1))" by blast
  then have "legacy_view st1 (ns, cg_collection ch, cg_id ch) = Some (t, 1)" by simp
  from sqlite_replica.replay_updates [OF assms(1) st1(2) this assms(7, 8)] obtain st'
    where st': "s_each (apply_change (sqlite_storage_adapter env) ns) us st1 = (Inr (), st')"
      "legacy_view st' = (legacy_view st1)((ns, cg_collection ch, cg_id ch) \<mapsto>
        (if us = [] then t else the (text_of env (the (cg_data (last us)))), 1 + int (length us)))" by blast
  have "s_each (apply_change (sqlite_storage_adapter env) ns) (ch # us) st = (Inr (), st')"
    using st1(1) st'(1) by (simp add: s_bind_def)
  moreover have "legacy_view st' = (legacy_view st)((ns, cg_collection ch, cg_id ch) \<mapsto>
      (if us = [] then t else the (text_of env (the (cg_data (last us)))), 1 + int (length us)))"
    unfolding st'(2) st1(3) by (rule fun_upd_upd)
  ultimately show ?thesis by blast
qed

text \<open>
  C34: The federation store. In every state that its operations reach, the history has at most 100 entries, no two peers
  share an id, and each peer is stored under its own id.
\<close>

theorem federation_store_invariant:
  assumes "fed_step\<^sup>*\<^sup>* federation_store_new s"
  shows "length (fs_sync_history s) \<le> 100 \<and> distinct (map fst (fs_peers s)) \<and> (\<forall>i p. get_peer s i = Some p \<longrightarrow> fp_id p = i)"
proof -
  have inv: "length (fs_sync_history s) \<le> max_sync_history" "ids_match (fs_peers s)"
    using fed_reachable_inv [OF assms] by (simp_all add: fed_inv_def)
  then show ?thesis using peer_at [OF inv(2)] unfolding max_sync_history_def ids_match_def get_peer_def by blast
qed

section \<open>Witnesses and limits\<close>

definition sample_change :: "change_operation \<Rightarrow> int \<Rightarrow> string \<Rightarrow> change_record" where
  "sample_change cop v s = \<lparr>cg_id = ''x1'', cg_collection = ''events'', cg_operation = cop, cg_data = Some (JString s), cg_version = v,
     cg_timestamp = 0\<rparr>"

abbreviation sample_adapter :: "legacy_store storage_adapter" where
  "sample_adapter \<equiv> sqlite_storage_adapter sample_legacy"

theorem replication_in_order_witness:
  "\<exists>st'. s_each (apply_change sample_adapter ''federation:hub'')
     [sample_change OpCreate 1 ''a'', sample_change OpUpdate 2 ''b'', sample_change OpUpdate 7 ''c''] empty_store = (Inr (), st') \<and>
   legacy_view st' (''federation:hub'', ''events'', ''x1'') = Some (''sc'', 3)"
  using replication_in_order [OF healthy_sample, of empty_store "sample_change OpCreate 1 ''a''" "JString ''a''" "''sa''"
    "[sample_change OpUpdate 2 ''b'', sample_change OpUpdate 7 ''c'']" "''federation:hub''"]
  by (auto simp: readable_def unique_ids_def empty_store_def free_id_def sample_change_def text_of_def)

theorem federation_store_invariant_witness:
  "length (fs_sync_history (record_sync (sync_report \<lparr>fp_id = ''hub'', fp_name = ''Hub'', fp_endpoint = [], fp_collections = [],
     fp_ca_cert_path = None, fp_client_cert_path = None, fp_client_key_path = None, fp_status = PeerPending, fp_last_sync_at = None,
     fp_last_sync_records = None, fp_created_at = 0, fp_updated_at = 0\<rparr> (0, 0, []) None 5) 5 federation_store_new)) \<le> 100"
  using federation_store_invariant [OF r_into_rtranclp [of fed_step, OF fed_step.sync]] by blast

text \<open>
  Out of order it is not the last write that wins. An applied update does not take over the remote version but raises the
  local one by one, so a late update with a version below one that was already applied still looks newer than the local
  record and overwrites it.
\<close>

theorem late_update_overwrites:
  "\<exists>st'. s_each (apply_change sample_adapter ''federation:hub'')
     [sample_change OpCreate 1 ''a'', sample_change OpUpdate 7 ''new'', sample_change OpUpdate 3 ''old''] empty_store = (Inr (), st') \<and>
   legacy_view st' (''federation:hub'', ''events'', ''x1'') = Some (''sold'', 3)"
proof -
  let ?k = "(''federation:hub'', ''events'', ''x1'')"
  have st: "readable sample_legacy empty_store" "free_id ''x1'' empty_store"
    by (simp_all add: readable_def unique_ids_def empty_store_def free_id_def)
  have ch: "cg_id (sample_change a v s) = ''x1''" "cg_collection (sample_change a v s) = ''events''" "cg_operation (sample_change a v s) = a"
    "cg_data (sample_change a v s) = Some (JString s)" "cg_version (sample_change a v s) = v"
    "text_of sample_legacy (JString s) = Some (CHR ''s'' # s)" for a v s
    by (simp_all add: sample_change_def text_of_def)
  note create = sqlite_replica.apply_create [OF healthy_sample, where ns = "''federation:hub''"]
  note update = sqlite_replica.apply_update [OF healthy_sample, where ns = "''federation:hub''"]
  obtain s1 where s1: "apply_change sample_adapter ''federation:hub'' (sample_change OpCreate 1 ''a'') empty_store = (Inr (), s1)"
    "readable sample_legacy s1" "legacy_view s1 ?k = Some (''sa'', 1)"
    using create [of empty_store "sample_change OpCreate 1 ''a''" "JString ''a''" "''sa''"] st by (auto simp: ch)
  obtain s2 where s2: "apply_change sample_adapter ''federation:hub'' (sample_change OpUpdate 7 ''new'') s1 = (Inr (), s2)"
    "readable sample_legacy s2" "legacy_view s2 ?k = Some (''snew'', 2)"
    using update [of s1 "sample_change OpUpdate 7 ''new''" "JString ''new''" "''snew''" "''sa''" 1] s1(2, 3) by (auto simp: ch)
  obtain s3 where "apply_change sample_adapter ''federation:hub'' (sample_change OpUpdate 3 ''old'') s2 = (Inr (), s3)"
    "legacy_view s3 ?k = Some (''sold'', 3)"
    using update [of s2 "sample_change OpUpdate 3 ''old''" "JString ''old''" "''sold''" "''snew''" 2] s2(2, 3) by (auto simp: ch)
  with s1(1) s2(1) show ?thesis by (simp add: s_bind_def s_return_def)
qed

end
