(* ===== verification/Auth.thy ===== *)
theory Auth
  imports Host_Props "HOL-Library.AList"
begin

text \<open>
  Authentication (\<open>packages/auth\<close>: \<open>error.rs\<close>, \<open>types.rs\<close>, \<open>config.rs\<close>, \<open>lib.rs\<close>, \<open>handlers/\<close>) and the middleware of
  the REST transport that applies it (\<open>transport-rest/src/middleware/auth.rs\<close>): the limiter of failed attempts, API keys
  kept in a storage backend, the OIDC provider with its cache of keys, and the dispatch on the \<open>Authorization\<close> header.
  JWT, JWKS and HTTP libraries, base64, random bytes, fresh ids and the clock are parameters. Instants are nanoseconds.
\<close>

section \<open>Errors and types\<close>

datatype auth_error =
    TokenMissing
  | TokenExpired
  | TokenInvalid string
  | ProviderUnreachable string
  | ConfigInvalid string
  | RateLimited nat
  | KeyRevoked
  | KeyInvalid
  | AuthPanic string

fun auth_error_to_string :: "auth_error \<Rightarrow> string" where
  "auth_error_to_string TokenMissing = ''no authorization header present''"
| "auth_error_to_string TokenExpired = ''token expired''"
| "auth_error_to_string (TokenInvalid e) = ''token validation failed: '' @ e"
| "auth_error_to_string (ProviderUnreachable e) = ''authentication provider unreachable: '' @ e"
| "auth_error_to_string (ConfigInvalid e) = ''invalid auth configuration: '' @ e"
| "auth_error_to_string (RateLimited n) = ''rate limit exceeded, retry after '' @ show_nat n @ ''s''"
| "auth_error_to_string KeyRevoked = ''API key has been revoked''"
| "auth_error_to_string KeyInvalid = ''invalid API key''"
| "auth_error_to_string (AuthPanic m) = m"

fun auth_error_code :: "auth_error \<Rightarrow> string" where
  "auth_error_code TokenMissing = ''AUTH_001''"
| "auth_error_code TokenExpired = ''AUTH_002''"
| "auth_error_code (TokenInvalid _) = ''AUTH_003''"
| "auth_error_code (ProviderUnreachable _) = ''AUTH_004''"
| "auth_error_code (ConfigInvalid _) = ''AUTH_005''"
| "auth_error_code (RateLimited _) = ''AUTH_006''"
| "auth_error_code KeyRevoked = ''AUTH_007''"
| "auth_error_code KeyInvalid = ''AUTH_008''"
| "auth_error_code (AuthPanic _) = []"

fun auth_error_severity :: "auth_error \<Rightarrow> severity" where
  "auth_error_severity (ProviderUnreachable _) = Retryable"
| "auth_error_severity _ = Fatal"

record auth_identity =
  ai_user_id :: string
  ai_provider :: string
  ai_scopes :: "string list"
  ai_authenticated_at :: timestamp

record api_key_record =
  ak_id :: uuid
  ak_name :: string
  ak_key_hash :: string
  ak_salt :: string
  ak_scopes :: "string list"
  ak_created_at :: timestamp
  ak_expires_at :: "timestamp option"
  ak_revoked :: bool
  ak_last_used :: "timestamp option"

record api_key_metadata =
  km_id :: uuid
  km_name :: string
  km_scopes :: "string list"
  km_created_at :: timestamp
  km_expires_at :: "timestamp option"
  km_revoked :: bool
  km_last_used :: "timestamp option"

definition metadata_from :: "api_key_record \<Rightarrow> api_key_metadata" where
  "metadata_from r =
     \<lparr>km_id = ak_id r, km_name = ak_name r, km_scopes = ak_scopes r, km_created_at = ak_created_at r,
      km_expires_at = ak_expires_at r, km_revoked = ak_revoked r, km_last_used = ak_last_used r\<rparr>"

record auth_config =
  ac_provider :: string
  ac_issuer :: "string option"
  ac_audience :: "string option"
  ac_jwks_refresh_interval :: nat

definition auth_config_default :: auth_config where
  "auth_config_default = \<lparr>ac_provider = ''pocket-id'', ac_issuer = None, ac_audience = None, ac_jwks_refresh_interval = 3600\<rparr>"

definition auth_config_validate :: "auth_config \<Rightarrow> (string, unit) result" where
  "auth_config_validate c =
     (if ac_provider c = ''pocket-id'' \<and> ac_issuer c = None
      then Inl (''issuer is required when provider is '' @ [CHR 0x22] @ ''pocket-id'' @ [CHR 0x22]) else Inr ())"

section \<open>Failed attempts\<close>

type_synonym failures = "(string \<times> nat list) list"

record rate_limiter =
  rl_max_failures :: nat
  rl_window_secs :: nat

definition rate_limiter_new :: rate_limiter where
  "rate_limiter_new = \<lparr>rl_max_failures = 5, rl_window_secs = 60\<rparr>"

definition nanos :: nat where
  "nanos = 1000000000"

definition rl_window :: "rate_limiter \<Rightarrow> nat" where
  "rl_window rl = rl_window_secs rl * nanos"

definition recent :: "rate_limiter \<Rightarrow> nat \<Rightarrow> nat list \<Rightarrow> nat list" where
  "recent rl now entries = filter (\<lambda>t. now - t < rl_window rl) entries"

definition is_rate_limited :: "rate_limiter \<Rightarrow> string \<Rightarrow> nat \<Rightarrow> failures \<Rightarrow> nat option \<times> failures" where
  "is_rate_limited rl ip now m =
     (case map_of m ip of
        None \<Rightarrow> (None, m)
      | Some entries \<Rightarrow>
          (let entries = recent rl now entries in
           if entries = [] then (None, AList.delete ip m)
           else (if rl_max_failures rl \<le> length entries
                 then (let retry_after = rl_window_secs rl - (now - hd entries) div nanos
                       in Some (if retry_after = 0 then 1 else retry_after))
                 else None, AList.update ip entries m)))"

definition record_failure :: "string \<Rightarrow> nat \<Rightarrow> failures \<Rightarrow> failures" where
  "record_failure ip now m = AList.update ip ((case map_of m ip of Some es \<Rightarrow> es | None \<Rightarrow> []) @ [now]) m"

definition rl_cleanup :: "rate_limiter \<Rightarrow> nat \<Rightarrow> failures \<Rightarrow> failures" where
  "rl_cleanup rl now m = filter (\<lambda>(ip, es). es \<noteq> []) (map (\<lambda>(ip, es). (ip, recent rl now es)) m)"

definition tracked_ips :: "failures \<Rightarrow> nat" where
  "tracked_ips m = length m"

section \<open>API keys\<close>

record key_env =
  kv_random :: "nat \<Rightarrow> nat \<Rightarrow> string option"
  kv_lib :: crypto_lib
  kv_b64 :: "string \<Rightarrow> string"
  kv_unb64 :: "string \<Rightarrow> string option"
  kv_now :: "nat \<Rightarrow> timestamp"
  kv_uuid :: "nat \<Rightarrow> uuid"
  kv_time :: "timestamp \<Rightarrow> string"
  kv_from_value :: "json \<Rightarrow> (string, api_key_record) result"
  kv_compile :: schema_compiler

record 's key_state =
  ks_storage :: 's
  ks_draws :: nat

type_synonym ('s, 'a) kop = "(auth_error, 's key_state, 'a) action"

definition k_draw :: "(nat \<Rightarrow> 'a) \<Rightarrow> ('s, 'a) kop" where
  "k_draw f st = (Inr (f (ks_draws st)), st\<lparr>ks_draws := Suc (ks_draws st)\<rparr>)"

definition k_random :: "key_env \<Rightarrow> nat \<Rightarrow> ('s, string) kop" where
  "k_random kv n = s_bind (k_draw (kv_random kv n)) (\<lambda>r. s_check (ok_or r (AuthPanic ''OS RNG should not fail'')))"

definition k_storage :: "(string, 's, 'a) action \<Rightarrow> ('s, 'a) kop" where
  "k_storage f st =
     (case f (ks_storage st) of (r, s) \<Rightarrow> (map_err (\<lambda>e. ConfigInvalid (''storage error: '' @ e)) r, st\<lparr>ks_storage := s\<rparr>))"

definition auth_plugin_id :: string where
  "auth_plugin_id = ''core.auth''"

definition keys_collection :: string where
  "keys_collection = ''credentials''"

text \<open>The derived serialisation of a key record.\<close>

definition opt_time :: "key_env \<Rightarrow> timestamp option \<Rightarrow> json" where
  "opt_time kv t = (case t of Some t \<Rightarrow> JString (kv_time kv t) | None \<Rightarrow> JNull)"

definition key_record_to_value :: "key_env \<Rightarrow> api_key_record \<Rightarrow> json" where
  "key_record_to_value kv r = JObject (obj_of
     [(''id'', JString (ak_id r)), (''name'', JString (ak_name r)), (''key_hash'', JString (ak_key_hash r)), (''salt'', JString (ak_salt r)),
      (''scopes'', JArray (map JString (ak_scopes r))), (''created_at'', JString (kv_time kv (ak_created_at r))),
      (''expires_at'', opt_time kv (ak_expires_at r)), (''revoked'', JBool (ak_revoked r)), (''last_used'', opt_time kv (ak_last_used r))])"

definition record_to_pipeline_message :: "key_env \<Rightarrow> api_key_record \<Rightarrow> ('s, pipeline_message) kop" where
  "record_to_pipeline_message kv r =
     s_bind (s_check (map_err (\<lambda>e. ConfigInvalid (''schema validation error: '' @ e))
       (schema_validated_new (kv_compile kv) (key_record_to_value kv r) (JObject [])))) (\<lambda>validated.
     s_bind (k_draw (kv_now kv)) (\<lambda>now.
     s_return \<lparr>metadata = \<lparr>correlation_id = ak_id r, msg_source = ''core.auth.keys'', msg_timestamp = now, auth_context = None,
       warnings = []\<rparr>, payload = Custom validated\<rparr>))"

definition extract_key_record :: "key_env \<Rightarrow> pipeline_message \<Rightarrow> (auth_error, api_key_record) result" where
  "extract_key_record kv msg =
     map_err (\<lambda>e. ConfigInvalid (''failed to deserialize API key record: '' @ e))
       (kv_from_value kv (case payload msg of Custom v \<Rightarrow> v | Cdm k v \<Rightarrow> cdm_to_value k v))"

definition create_key ::
  "key_env \<Rightarrow> 's storage_backend \<Rightarrow> string \<Rightarrow> string list \<Rightarrow> timestamp option \<Rightarrow> ('s, string \<times> api_key_record) kop" where
  "create_key kv storage name scopes expires_at =
     s_bind (k_random kv 32) (\<lambda>raw_bytes.
     s_bind (k_random kv 16) (\<lambda>salt.
     s_bind (k_draw (kv_now kv)) (\<lambda>now.
     s_bind (k_draw (kv_uuid kv)) (\<lambda>i.
     let raw_key = kv_b64 kv raw_bytes;
         r = \<lparr>ak_id = i, ak_name = name, ak_key_hash = kv_b64 kv (hmac_sign (kv_lib kv) salt raw_key), ak_salt = kv_b64 kv salt,
           ak_scopes = scopes, ak_created_at = now, ak_expires_at = expires_at, ak_revoked = False, ak_last_used = None\<rparr>
     in s_bind (record_to_pipeline_message kv r) (\<lambda>data.
        s_bind (k_storage (sb_mutate storage (MInsert auth_plugin_id keys_collection data))) (\<lambda>_.
        s_return (raw_key, r)))))))"

definition all_keys_query :: storage_query where
  "all_keys_query = \<lparr>sq_collection = keys_collection, sq_plugin_id = auth_plugin_id, sq_filters = [], sq_sort = [], sq_limit = None,
     sq_offset = None\<rparr>"

definition key_records :: "key_env \<Rightarrow> pipeline_message list \<Rightarrow> api_key_record list" where
  "key_records kv msgs = List.map_filter (\<lambda>m. case extract_key_record kv m of Inr r \<Rightarrow> Some r | Inl e \<Rightarrow> None) msgs"

definition list_key_records :: "key_env \<Rightarrow> 's storage_backend \<Rightarrow> ('s, api_key_record list) kop" where
  "list_key_records kv storage =
     s_bind (k_storage (sb_execute storage all_keys_query)) (\<lambda>results. s_return (key_records kv results))"

definition list_keys :: "key_env \<Rightarrow> 's storage_backend \<Rightarrow> ('s, api_key_metadata list) kop" where
  "list_keys kv storage = s_bind (list_key_records kv storage) (\<lambda>rs. s_return (map metadata_from rs))"

definition key_query :: "uuid \<Rightarrow> storage_query" where
  "key_query i = all_keys_query\<lparr>sq_filters := [\<lparr>qf_field = ''id'', qf_operator = QEq, qf_value = JString i\<rparr>], sq_limit := Some 1\<rparr>"

definition find_key_by_id :: "key_env \<Rightarrow> 's storage_backend \<Rightarrow> uuid \<Rightarrow> ('s, api_key_record) kop" where
  "find_key_by_id kv storage i =
     s_bind (k_storage (sb_execute storage (key_query i))) (\<lambda>results.
     s_check (case results of [] \<Rightarrow> Inl KeyInvalid | msg # _ \<Rightarrow> extract_key_record kv msg))"

definition revoke_key :: "key_env \<Rightarrow> 's storage_backend \<Rightarrow> uuid \<Rightarrow> ('s, unit) kop" where
  "revoke_key kv storage i =
     s_bind (find_key_by_id kv storage i) (\<lambda>r.
     s_bind (record_to_pipeline_message kv (r\<lparr>ak_revoked := True\<rparr>)) (\<lambda>data.
     k_storage (sb_mutate storage (MUpdate auth_plugin_id keys_collection i data 1))))"

text \<open>The update of \<open>last_used\<close>, whose failure is ignored.\<close>

definition touch_key :: "key_env \<Rightarrow> 's storage_backend \<Rightarrow> api_key_record \<Rightarrow> ('s, unit) kop" where
  "touch_key kv storage r =
     s_bind (k_draw (kv_now kv)) (\<lambda>now st.
       case record_to_pipeline_message kv (r\<lparr>ak_last_used := Some now\<rparr>) st of
         (Inl e, st1) \<Rightarrow> (Inr (), st1)
       | (Inr data, st1) \<Rightarrow> (Inr (), snd (k_storage (sb_mutate storage (MUpdate auth_plugin_id keys_collection (ak_id r) data 1)) st1)))"

fun check_keys :: "key_env \<Rightarrow> 's storage_backend \<Rightarrow> string \<Rightarrow> api_key_record list \<Rightarrow> ('s, auth_identity) kop" where
  "check_keys kv storage raw_key [] = s_fail KeyInvalid"
| "check_keys kv storage raw_key (r # rs) =
     s_bind (s_check (ok_or (kv_unb64 kv (ak_salt r)) KeyInvalid)) (\<lambda>salt.
     s_bind (s_check (ok_or (kv_unb64 kv (ak_key_hash r)) KeyInvalid)) (\<lambda>stored_hash.
     if \<not> hmac_verify (kv_lib kv) salt raw_key stored_hash then check_keys kv storage raw_key rs
     else if ak_revoked r then s_fail KeyRevoked
     else
       s_bind (case ak_expires_at r of
           None \<Rightarrow> s_return ()
         | Some t \<Rightarrow> s_bind (k_draw (kv_now kv)) (\<lambda>now. s_check (if t < now then Inl KeyRevoked else Inr ()))) (\<lambda>_.
       s_bind (touch_key kv storage r) (\<lambda>_.
       s_bind (k_draw (kv_now kv)) (\<lambda>now.
       s_return \<lparr>ai_user_id = ak_id r, ai_provider = ''api-key'', ai_scopes = ak_scopes r, ai_authenticated_at = now\<rparr>)))))"

definition validate_key :: "key_env \<Rightarrow> 's storage_backend \<Rightarrow> string \<Rightarrow> ('s, auth_identity) kop" where
  "validate_key kv storage raw_key = s_bind (list_key_records kv storage) (check_keys kv storage raw_key)"

section \<open>Providers\<close>

record 'w auth_provider =
  ap_validate_token :: "string \<Rightarrow> (auth_error, 'w, auth_identity) action"
  ap_validate_key :: "string \<Rightarrow> (auth_error, 'w, auth_identity) action"
  ap_revoke_key :: "uuid \<Rightarrow> (auth_error, 'w, unit) action"

definition api_key_provider :: "key_env \<Rightarrow> 's storage_backend \<Rightarrow> 's key_state auth_provider" where
  "api_key_provider kv storage =
     \<lparr>ap_validate_token = (\<lambda>_. s_fail (TokenInvalid ''api-key provider does not support bearer tokens'')),
      ap_validate_key = validate_key kv storage, ap_revoke_key = revoke_key kv storage\<rparr>"

section \<open>The OIDC provider\<close>

record jwk =
  jwk_kid :: "string option"
  jwk_kty :: string
  jwk_alg :: "string option"
  jwk_n :: "string option"
  jwk_e :: "string option"
  jwk_x :: "string option"
  jwk_crv :: "string option"

datatype jwt_algorithm = RS256 | EdDSA

record 'k cached_key =
  ck_kid :: "string option"
  ck_algorithm :: jwt_algorithm
  ck_decoding_key :: 'k

record 'k jwks_cache =
  jc_keys :: "'k cached_key list"
  jc_last_refresh :: int
  jc_jwks_uri :: "string option"
  jc_draws :: nat

record jwt_claims =
  jw_sub :: "string option"
  jw_iss :: "string option"
  jw_aud :: "json option"
  jw_exp :: "nat option"
  jw_scope :: "json option"

text \<open>What a token is decoded against.\<close>

record jwt_validation =
  va_algorithm :: jwt_algorithm
  va_issuer :: "string list"
  va_audience :: "string list option"
  va_required :: "string list"

datatype jwt_error = ExpiredSignature | InvalidIssuer | InvalidAudience | OtherJwtError string

record 'k oidc_env =
  ov_get :: "string \<Rightarrow> nat \<Rightarrow> (string, nat \<times> string) result"
  ov_status :: "nat \<Rightarrow> string"
  ov_discovery :: "string \<Rightarrow> (string, string) result"
  ov_jwks :: "string \<Rightarrow> (string, jwk list) result"
  ov_unb64 :: "string \<Rightarrow> string option"
  ov_ed_key :: "string \<Rightarrow> 'k"
  ov_rsa_key :: "string \<Rightarrow> string \<Rightarrow> 'k option"
  ov_header :: "string \<Rightarrow> (string, string option) result"
  ov_decode :: "string \<Rightarrow> 'k \<Rightarrow> jwt_validation \<Rightarrow> nat \<Rightarrow> (jwt_error, jwt_claims) result"
  ov_client :: "(string, unit) result"
  ov_instant :: "nat \<Rightarrow> int"
  ov_instant_sub :: "int \<Rightarrow> nat \<Rightarrow> int option"
  ov_now :: "nat \<Rightarrow> timestamp"
  ov_overflow_checks :: bool

record pocket_id =
  pk_issuer :: string
  pk_audience :: "string option"
  pk_jwks_refresh_interval :: nat

type_synonym ('k, 'a) oop = "(auth_error, 'k jwks_cache, 'a) action"

definition o_draw :: "(nat \<Rightarrow> 'a) \<Rightarrow> ('k, 'a) oop" where
  "o_draw f st = (Inr (f (jc_draws st)), st\<lparr>jc_draws := Suc (jc_draws st)\<rparr>)"

text \<open>\<open>interval + 1\<close> on 64 bits, and an instant that many seconds in the past.\<close>

definition stale_instant :: "'k oidc_env \<Rightarrow> nat \<Rightarrow> nat \<Rightarrow> (auth_error, int) result" where
  "stale_instant ov n interval =
     (if interval + 1 = 2 ^ 64 \<and> ov_overflow_checks ov then Inl (AuthPanic ''attempt to add with overflow'')
      else ok_or (ov_instant_sub ov (ov_instant ov n) ((interval + 1) mod 2 ^ 64))
        (AuthPanic ''overflow when subtracting duration from instant''))"

definition pocket_id_new :: "'k oidc_env \<Rightarrow> nat \<Rightarrow> auth_config \<Rightarrow> (auth_error, pocket_id \<times> 'k jwks_cache) result" where
  "pocket_id_new ov n config =
     r_bind (ok_or (ac_issuer config) (ConfigInvalid ''issuer is required for pocket-id provider'')) (\<lambda>issuer.
     r_bind (stale_instant ov n (ac_jwks_refresh_interval config)) (\<lambda>past.
     r_bind (map_err (\<lambda>e. ConfigInvalid (''failed to create HTTP client: '' @ e)) (ov_client ov)) (\<lambda>_.
     Inr (\<lparr>pk_issuer = issuer, pk_audience = ac_audience config, pk_jwks_refresh_interval = ac_jwks_refresh_interval config\<rparr>,
          \<lparr>jc_keys = [], jc_last_refresh = past, jc_jwks_uri = None, jc_draws = Suc n\<rparr>))))"

text \<open>A request whose answer must have a success status and decode.\<close>

definition fetch :: "'k oidc_env \<Rightarrow> string \<Rightarrow> string \<Rightarrow> string \<Rightarrow> string \<Rightarrow> (string \<Rightarrow> (string, 'a) result) \<Rightarrow> ('k, 'a) oop" where
  "fetch ov url what_failed endpoint invalid decoder =
     s_bind (o_draw (ov_get ov url)) (\<lambda>r.
     s_check (case r of
        Inl e \<Rightarrow> Inl (ProviderUnreachable (what_failed @ '': '' @ e))
      | Inr (code, body) \<Rightarrow>
          if 200 \<le> code \<and> code < 300
          then map_err (\<lambda>e. ProviderUnreachable (invalid @ '': '' @ e)) (decoder body)
          else Inl (ProviderUnreachable (endpoint @ '' returned status '' @ ov_status ov code))))"

definition discover_jwks_uri :: "'k oidc_env \<Rightarrow> pocket_id \<Rightarrow> ('k, string) oop" where
  "discover_jwks_uri ov p =
     fetch ov (trim_end_char CHR ''/'' (pk_issuer p) @ ''/.well-known/openid-configuration'')
       ''OIDC discovery failed'' ''OIDC discovery'' ''invalid discovery document'' (ov_discovery ov)"

definition parse_jwk :: "'k oidc_env \<Rightarrow> jwk \<Rightarrow> 'k cached_key option" where
  "parse_jwk ov k =
     (if jwk_kty k = ''OKP'' then
        if jwk_crv k \<noteq> Some ''Ed25519'' then None
        else Option.bind (jwk_x k) (\<lambda>x. Option.bind (ov_unb64 ov x) (\<lambda>der.
          Some \<lparr>ck_kid = jwk_kid k, ck_algorithm = EdDSA, ck_decoding_key = ov_ed_key ov der\<rparr>))
      else if jwk_kty k = ''RSA'' then
        Option.bind (jwk_n k) (\<lambda>n. Option.bind (jwk_e k) (\<lambda>e. Option.bind (ov_rsa_key ov n e) (\<lambda>key.
          Some \<lparr>ck_kid = jwk_kid k, ck_algorithm = RS256, ck_decoding_key = key\<rparr>)))
      else None)"

definition fetch_jwks :: "'k oidc_env \<Rightarrow> string \<Rightarrow> ('k, 'k cached_key list) oop" where
  "fetch_jwks ov uri =
     s_bind (fetch ov uri ''JWKS fetch failed'' ''JWKS endpoint'' ''invalid JWKS response'' (ov_jwks ov)) (\<lambda>jwks.
     s_return (List.map_filter (parse_jwk ov) jwks))"

definition refresh_keys :: "'k oidc_env \<Rightarrow> pocket_id \<Rightarrow> ('k, unit) oop" where
  "refresh_keys ov p =
     s_bind (s_get (\<lambda>st. Inr (jc_jwks_uri st))) (\<lambda>known.
     s_bind (case known of
         Some uri \<Rightarrow> s_return uri
       | None \<Rightarrow> s_bind (discover_jwks_uri ov p) (\<lambda>uri st. (Inr uri, st\<lparr>jc_jwks_uri := Some uri\<rparr>))) (\<lambda>uri.
     s_bind (fetch_jwks ov uri) (\<lambda>keys.
     s_bind (o_draw (ov_instant ov)) (\<lambda>now st. (Inr (), st\<lparr>jc_keys := keys, jc_last_refresh := now\<rparr>)))))"

definition refresh_keys_if_needed :: "'k oidc_env \<Rightarrow> pocket_id \<Rightarrow> ('k, unit) oop" where
  "refresh_keys_if_needed ov p =
     s_bind (o_draw (ov_instant ov)) (\<lambda>now.
     s_bind (s_get (\<lambda>st. Inr (nat ((now - jc_last_refresh st) div int nanos)))) (\<lambda>elapsed.
     if pk_jwks_refresh_interval p \<le> elapsed then refresh_keys ov p else s_return ()))"

definition find_key :: "string option \<Rightarrow> 'k cached_key list \<Rightarrow> 'k cached_key option" where
  "find_key kid keys =
     (case kid of
        Some k \<Rightarrow> find (\<lambda>x. ck_kid x = Some k) keys
      | None \<Rightarrow> (case keys of [x] \<Rightarrow> Some x | _ \<Rightarrow> None))"

definition validation_for :: "pocket_id \<Rightarrow> 'k cached_key \<Rightarrow> jwt_validation" where
  "validation_for p key =
     \<lparr>va_algorithm = ck_algorithm key, va_issuer = [pk_issuer p], va_audience = map_option (\<lambda>a. [a]) (pk_audience p),
      va_required = [''exp'', ''sub'', ''iss'']\<rparr>"

fun jwt_error_to_auth :: "jwt_error \<Rightarrow> auth_error" where
  "jwt_error_to_auth ExpiredSignature = TokenExpired"
| "jwt_error_to_auth InvalidIssuer = TokenInvalid ''invalid issuer''"
| "jwt_error_to_auth InvalidAudience = TokenInvalid ''invalid audience''"
| "jwt_error_to_auth (OtherJwtError e) = TokenInvalid (''JWT validation failed: '' @ e)"

definition decode_and_validate :: "'k oidc_env \<Rightarrow> pocket_id \<Rightarrow> string \<Rightarrow> ('k, jwt_claims) oop" where
  "decode_and_validate ov p token =
     s_bind (s_check (map_err (\<lambda>e. TokenInvalid (''malformed JWT header: '' @ e)) (ov_header ov token))) (\<lambda>kid.
     s_bind (s_get (\<lambda>st. Inr (find_key kid (jc_keys st)))) (\<lambda>key.
     s_bind (case key of
         Some k \<Rightarrow> s_return (Some k)
       | None \<Rightarrow> s_bind (refresh_keys ov p) (\<lambda>_. s_get (\<lambda>st. Inr (find_key kid (jc_keys st))))) (\<lambda>key.
     s_bind (s_check (ok_or key (TokenInvalid (''no matching key found for kid: '' @ (case kid of Some k \<Rightarrow> k | None \<Rightarrow> ''<none>''))))) (\<lambda>k.
     s_bind (o_draw (ov_decode ov token (ck_decoding_key k) (validation_for p k))) (\<lambda>r.
     s_check (map_err jwt_error_to_auth r))))))"

definition extract_scopes :: "jwt_claims \<Rightarrow> string list" where
  "extract_scopes c =
     (case jw_scope c of
        Some (JString s) \<Rightarrow> split_whitespace s
      | Some (JArray xs) \<Rightarrow> List.map_filter as_str xs
      | _ \<Rightarrow> [])"

definition pocket_validate_token :: "'k oidc_env \<Rightarrow> pocket_id \<Rightarrow> string \<Rightarrow> ('k, auth_identity) oop" where
  "pocket_validate_token ov p token =
     s_bind (refresh_keys_if_needed ov p) (\<lambda>_.
     s_bind (decode_and_validate ov p token) (\<lambda>claims.
     s_bind (s_check (ok_or (jw_sub claims) (TokenInvalid ''missing sub claim''))) (\<lambda>user_id.
     s_bind (o_draw (ov_now ov)) (\<lambda>now.
     s_return \<lparr>ai_user_id = user_id, ai_provider = ''pocket-id'', ai_scopes = extract_scopes claims, ai_authenticated_at = now\<rparr>))))"

definition pocket_id_provider :: "'k oidc_env \<Rightarrow> pocket_id \<Rightarrow> 'k jwks_cache auth_provider" where
  "pocket_id_provider ov p =
     \<lparr>ap_validate_token = pocket_validate_token ov p, ap_validate_key = (\<lambda>_. s_fail KeyInvalid), ap_revoke_key = (\<lambda>_. s_fail KeyInvalid)\<rparr>"

text \<open>The provider of a configuration: the OIDC one, or the keys of the given storage.\<close>

datatype ('k, 's) chosen_provider = PocketId pocket_id "'k jwks_cache" | ApiKeys 's

definition create_auth_provider ::
  "'k oidc_env \<Rightarrow> nat \<Rightarrow> auth_config \<Rightarrow> 's option \<Rightarrow> (auth_error, ('k, 's) chosen_provider) result" where
  "create_auth_provider ov n config storage =
     r_bind (map_err ConfigInvalid (auth_config_validate config)) (\<lambda>_.
     if ac_provider config = ''pocket-id'' then r_bind (pocket_id_new ov n config) (\<lambda>(p, cache). Inr (PocketId p cache))
     else if ac_provider config = ''api-key'' then
       r_bind (ok_or storage (ConfigInvalid ''api-key provider requires a storage backend'')) (\<lambda>st. Inr (ApiKeys st))
     else Inl (ConfigInvalid (''unknown auth provider: '' @ ac_provider config)))"

section \<open>Requests\<close>

record 'w auth_world =
  aw_provider :: 'w
  aw_failures :: failures

text \<open>The provider's answer to a header.\<close>

definition consult :: "'w auth_provider \<Rightarrow> string \<Rightarrow> (auth_error, 'w, auth_identity) action" where
  "consult provider header =
     (case strip_prefix header ''Bearer '' of
        Some token \<Rightarrow> ap_validate_token provider token
      | None \<Rightarrow>
          (case strip_prefix header ''ApiKey '' of
             Some key \<Rightarrow> ap_validate_key provider key
           | None \<Rightarrow> s_fail (TokenInvalid ''unsupported authorization scheme'')))"

text \<open>\<open>t1\<close> and \<open>t2\<close> are the instants of the check and of the recording of a failure.\<close>

definition validate_request ::
  "'w auth_provider \<Rightarrow> rate_limiter \<Rightarrow> string option \<Rightarrow> string \<Rightarrow> nat \<Rightarrow> nat \<Rightarrow> (auth_error, 'w auth_world, auth_identity) action" where
  "validate_request provider rl auth_header client_ip t1 t2 w =
     (case is_rate_limited rl client_ip t1 (aw_failures w) of
        (Some retry_after, m) \<Rightarrow> (Inl (RateLimited retry_after), w\<lparr>aw_failures := m\<rparr>)
      | (None, m) \<Rightarrow>
          (case auth_header of
             None \<Rightarrow> (Inl TokenMissing, w\<lparr>aw_failures := m\<rparr>)
           | Some header \<Rightarrow>
               (case consult provider header (aw_provider w) of
                  (Inl e, p) \<Rightarrow> (Inl e, \<lparr>aw_provider = p, aw_failures = record_failure client_ip t2 m\<rparr>)
                | (Inr identity, p) \<Rightarrow> (Inr identity, \<lparr>aw_provider = p, aw_failures = m\<rparr>))))"

section \<open>The middleware of the REST transport\<close>

record identity =
  id_subject :: string
  id_issuer :: string
  id_claims :: "string \<rightharpoonup> json"

definition auth_identity_to_identity :: "auth_identity \<Rightarrow> identity" where
  "auth_identity_to_identity a =
     \<lparr>id_subject = ai_user_id a, id_issuer = ai_provider a,
      id_claims = (if ai_scopes a = [] then Map.empty else [''scopes'' \<mapsto> JArray (map JString (ai_scopes a))])\<rparr>"

text \<open>A header whose value is not text counts as absent.\<close>

record rest_request =
  rr_method :: string
  rr_matched_path :: "string option"
  rr_path :: string
  rr_headers :: "string \<rightharpoonup> string"

datatype rest_outcome = Forward "identity option" | Respond nat json

definition error_body :: "string \<Rightarrow> string \<Rightarrow> json" where
  "error_body code message = JObject (obj_of [(''error'', JObject (obj_of [(''code'', JString code), (''message'', JString message)]))])"

fun auth_error_response :: "auth_error \<Rightarrow> rest_outcome" where
  "auth_error_response TokenMissing = Respond 401 (error_body ''AUTH_001'' ''Authorization header required'')"
| "auth_error_response TokenExpired = Respond 401 (error_body ''AUTH_002'' ''Token has expired'')"
| "auth_error_response (TokenInvalid _) = Respond 401 (error_body ''AUTH_003'' ''Invalid token'')"
| "auth_error_response (ProviderUnreachable _) = Respond 503 (error_body ''AUTH_004'' ''Authentication service unavailable'')"
| "auth_error_response (RateLimited n) =
     Respond 429 (error_body ''AUTH_006'' (''Too many failed attempts, retry after '' @ show_nat n @ ''s''))"
| "auth_error_response KeyRevoked = Respond 401 (error_body ''AUTH_007'' ''API key has been revoked'')"
| "auth_error_response KeyInvalid = Respond 401 (error_body ''AUTH_008'' ''Invalid API key'')"
| "auth_error_response (ConfigInvalid _) = Respond 500 (error_body ''AUTH_005'' ''Authentication configuration error'')"
| "auth_error_response (AuthPanic m) = Respond 500 JNull"

definition route_key :: "rest_request \<Rightarrow> string" where
  "route_key r = rr_method r @ '' '' @ (case rr_matched_path r of Some p \<Rightarrow> p | None \<Rightarrow> rr_path r)"

definition auth_middleware ::
  "'w auth_provider \<Rightarrow> rate_limiter \<Rightarrow> string set \<Rightarrow> rest_request \<Rightarrow> nat \<Rightarrow> nat \<Rightarrow> 'w auth_world \<Rightarrow> rest_outcome \<times> 'w auth_world" where
  "auth_middleware provider rl public_routes r t1 t2 w =
     (if route_key r \<in> public_routes then (Forward None, w)
      else
        (let client_ip = (case rr_headers r ''x-forwarded-for'' of Some ip \<Rightarrow> ip | None \<Rightarrow> ''unknown'') in
         case validate_request provider rl (rr_headers r ''authorization'') client_ip t1 t2 w of
           (Inr auth, w') \<Rightarrow> (Forward (Some (auth_identity_to_identity auth)), w')
         | (Inl err, w') \<Rightarrow> (auth_error_response err, w')))"

end
