(* ===== verification/Auth_Props.thy ===== *)
theory Auth_Props
  imports Auth
begin

text \<open>
  What authentication guarantees: a bound on failed attempts under concurrent requests, what an accepted API key and an
  accepted token stand for, that the REST middleware forwards nothing else, and that the storage backend does not take
  API keys.
\<close>

section \<open>Failed attempts\<close>

text \<open>
  Requests of many clients in parallel: a request passes the check and is then in flight until its outcome is known. At
  most \<open>k\<close> requests of a client are in flight at once. The log has every recorded failure, the last first.
\<close>

record lim_state =
  ls_failures :: failures
  ls_inflight :: "string \<Rightarrow> nat"
  ls_log :: "(string \<times> nat) list"
  ls_now :: nat

inductive lim_step :: "rate_limiter \<Rightarrow> nat \<Rightarrow> lim_state \<Rightarrow> lim_state \<Rightarrow> bool" for rl k where
  pass: "ls_now s \<le> t \<Longrightarrow> is_rate_limited rl ip t (ls_failures s) = (None, m) \<Longrightarrow> ls_inflight s ip < k \<Longrightarrow>
    lim_step rl k s (s\<lparr>ls_failures := m, ls_inflight := (ls_inflight s)(ip := Suc (ls_inflight s ip)), ls_now := t\<rparr>)"
| refuse: "ls_now s \<le> t \<Longrightarrow> is_rate_limited rl ip t (ls_failures s) = (Some n, m) \<Longrightarrow>
    lim_step rl k s (s\<lparr>ls_failures := m, ls_now := t\<rparr>)"
| failed: "ls_now s \<le> t \<Longrightarrow> 0 < ls_inflight s ip \<Longrightarrow>
    lim_step rl k s (s\<lparr>ls_failures := record_failure ip t (ls_failures s), ls_inflight := (ls_inflight s)(ip := ls_inflight s ip - 1),
      ls_log := (ip, t) # ls_log s, ls_now := t\<rparr>)"
| ended: "0 < ls_inflight s ip \<Longrightarrow> lim_step rl k s (s\<lparr>ls_inflight := (ls_inflight s)(ip := ls_inflight s ip - 1)\<rparr>)"
| clean: "ls_now s \<le> t \<Longrightarrow> lim_step rl k s (s\<lparr>ls_failures := rl_cleanup rl t (ls_failures s), ls_now := t\<rparr>)"

definition lim_start :: lim_state where
  "lim_start = \<lparr>ls_failures = [], ls_inflight = (\<lambda>_. 0), ls_log = [], ls_now = 0\<rparr>"

definition failures_of :: "string \<Rightarrow> lim_state \<Rightarrow> nat list" where
  "failures_of ip s = rev (map snd (filter (\<lambda>e. fst e = ip) (ls_log s)))"

text \<open>The tracked failures are the logged ones, up to those that no later check can count.\<close>

definition tracks :: "rate_limiter \<Rightarrow> nat \<Rightarrow> nat list \<Rightarrow> nat list \<Rightarrow> bool" where
  "tracks rl now es fs \<longleftrightarrow> (\<forall>T \<ge> now. recent rl T es = recent rl T fs)"

definition entries_of :: "failures \<Rightarrow> string \<Rightarrow> nat list" where
  "entries_of m ip = (case map_of m ip of Some es \<Rightarrow> es | None \<Rightarrow> [])"

lemma recent_append: "recent rl T (es @ fs) = recent rl T es @ recent rl T fs"
  by (simp add: recent_def)

lemma recent_twice: "now \<le> T \<Longrightarrow> recent rl T (recent rl now es) = recent rl T es"
  by (induction es) (auto simp: recent_def)

lemma recent_mono: "now \<le> T \<Longrightarrow> length (recent rl T es) \<le> length (recent rl now es)"
  by (induction es) (auto simp: recent_def)

lemma tracks_later: "tracks rl now es fs \<Longrightarrow> now \<le> t \<Longrightarrow> tracks rl t es fs"
  by (simp add: tracks_def)

lemma tracks_prune: "tracks rl now es fs \<Longrightarrow> now \<le> t \<Longrightarrow> tracks rl t (recent rl t es) fs"
  by (simp add: tracks_def recent_twice)

lemma tracks_snoc: "tracks rl now es fs \<Longrightarrow> now \<le> t \<Longrightarrow> tracks rl t (es @ [t]) (fs @ [t])"
  by (simp add: tracks_def recent_append)

lemma limited_entries:
  assumes "is_rate_limited rl ip t m = (r, m')"
  shows "entries_of m' ip' = (if ip' = ip then recent rl t (entries_of m ip) else entries_of m ip')"
    and "r = None \<longleftrightarrow> recent rl t (entries_of m ip) = [] \<or> length (recent rl t (entries_of m ip)) < rl_max_failures rl"
proof -
  have "entries_of m' ip' = (if ip' = ip then recent rl t (entries_of m ip) else entries_of m ip') \<and>
    (r = None \<longleftrightarrow> recent rl t (entries_of m ip) = [] \<or> length (recent rl t (entries_of m ip)) < rl_max_failures rl)"
  proof (cases "map_of m ip")
    case None
    with assms show ?thesis by (auto simp: is_rate_limited_def entries_of_def recent_def)
  next
    case (Some es)
    show ?thesis
    proof (cases "recent rl t es = []")
      case True
      with Some assms show ?thesis by (auto simp: is_rate_limited_def entries_of_def delete_conv')
    next
      case False
      with Some assms show ?thesis by (auto simp: is_rate_limited_def entries_of_def update_conv' Let_def split: if_splits)
    qed
  qed
  then show "entries_of m' ip' = (if ip' = ip then recent rl t (entries_of m ip) else entries_of m ip')"
    and "r = None \<longleftrightarrow> recent rl t (entries_of m ip) = [] \<or> length (recent rl t (entries_of m ip)) < rl_max_failures rl" by auto
qed

lemma recorded_entries: "entries_of (record_failure ip t m) ip' = (if ip' = ip then entries_of m ip @ [t] else entries_of m ip')"
  by (simp add: record_failure_def entries_of_def update_conv')

lemma cleaned_entries:
  assumes "distinct (map fst m)"
  shows "entries_of (rl_cleanup rl t m) ip = recent rl t (entries_of m ip)" and "distinct (map fst (rl_cleanup rl t m))"
  using assms
proof (induction m)
  case (Cons e m)
  obtain i es where e: "e = (i, es)" by (cases e)
  { case 1
    then have "map_of (rl_cleanup rl t m) i = None" using e by (force simp: map_of_eq_None_iff rl_cleanup_def)
    with 1 e Cons show ?case by (auto simp: entries_of_def rl_cleanup_def recent_def)
  next
    case 2
    with Cons e show ?case by (force simp: rl_cleanup_def)
  }
qed (simp_all add: entries_of_def rl_cleanup_def recent_def)

definition lim_inv :: "rate_limiter \<Rightarrow> nat \<Rightarrow> lim_state \<Rightarrow> bool" where
  "lim_inv rl k s \<longleftrightarrow> distinct (map fst (ls_failures s)) \<and>
     (\<forall>ip. tracks rl (ls_now s) (entries_of (ls_failures s) ip) (failures_of ip s) \<and>
       length (recent rl (ls_now s) (failures_of ip s)) + ls_inflight s ip \<le> max (rl_max_failures rl) 1 - 1 + k)"

lemma limited_distinct: "is_rate_limited rl ip t m = (r, m') \<Longrightarrow> distinct (map fst m) \<Longrightarrow> distinct (map fst m')"
  by (auto simp: is_rate_limited_def Let_def distinct_update distinct_delete split: option.splits if_splits)

lemma lim_inv_later:
  assumes "lim_inv rl k s" and "ls_now s \<le> t"
  shows "tracks rl t (entries_of (ls_failures s) ip) (failures_of ip s)"
    and "length (recent rl t (failures_of ip s)) + ls_inflight s ip \<le> max (rl_max_failures rl) 1 - 1 + k"
proof -
  from assms show "tracks rl t (entries_of (ls_failures s) ip) (failures_of ip s)" unfolding lim_inv_def by (blast intro: tracks_later)
  from assms(1) have "length (recent rl (ls_now s) (failures_of ip s)) + ls_inflight s ip \<le> max (rl_max_failures rl) 1 - 1 + k"
    unfolding lim_inv_def by blast
  with recent_mono [OF assms(2), of rl "failures_of ip s"]
  show "length (recent rl t (failures_of ip s)) + ls_inflight s ip \<le> max (rl_max_failures rl) 1 - 1 + k" by linarith
qed

lemma failures_of_simps [simp]:
  "failures_of ip (s\<lparr>ls_failures := m\<rparr>) = failures_of ip s"
  "failures_of ip (s\<lparr>ls_inflight := f\<rparr>) = failures_of ip s"
  "failures_of ip (s\<lparr>ls_now := t\<rparr>) = failures_of ip s"
  by (simp_all add: failures_of_def)

lemma lim_step_inv: "lim_step rl k s s' \<Longrightarrow> lim_inv rl k s \<Longrightarrow> lim_inv rl k s'"
proof (induction rule: lim_step.induct)
  case (pass s t ip m)
  note later = lim_inv_later [OF pass(4) pass(1)]
  note ent = limited_entries(1) [OF pass(2)]
  have tr: "tracks rl t (entries_of m j) (failures_of j s)" for j
    using later(1) [of j] unfolding ent by (auto simp: tracks_def recent_twice)
  have "recent rl t (failures_of ip s) = recent rl t (entries_of (ls_failures s) ip)" using later(1) [of ip] by (simp add: tracks_def)
  then have "length (recent rl t (failures_of ip s)) \<le> max (rl_max_failures rl) 1 - 1"
    using limited_entries(2) [OF pass(2)] by auto
  with later(2) pass(3) have "length (recent rl t (failures_of j s)) + ((ls_inflight s)(ip := Suc (ls_inflight s ip))) j
      \<le> max (rl_max_failures rl) 1 - 1 + k" for j by (cases "j = ip") auto
  with tr limited_distinct [OF pass(2)] pass(4) show ?case by (simp add: lim_inv_def)
next
  case (refuse s t ip n m)
  note later = lim_inv_later [OF refuse(3) refuse(1)]
  have tr: "tracks rl t (entries_of m j) (failures_of j s)" for j
    using later(1) [of j] unfolding limited_entries(1) [OF refuse(2)] by (auto simp: tracks_def recent_twice)
  with later(2) limited_distinct [OF refuse(2)] refuse(3) show ?case by (simp add: lim_inv_def)
next
  case (failed s t ip)
  note later = lim_inv_later [OF failed(3) failed(1)]
  have tr: "tracks rl t (entries_of (record_failure ip t (ls_failures s)) j) (if ip = j then failures_of j s @ [t] else failures_of j s)" for j
    using later(1) [of j] by (auto simp: recorded_entries intro: tracks_snoc)
  have "length (recent rl t (if ip = j then failures_of j s @ [t] else failures_of j s)) +
      ((ls_inflight s)(ip := ls_inflight s ip - 1)) j \<le> max (rl_max_failures rl) 1 - 1 + k" for j
    using later(2) [of j] failed(2) by (auto simp: recent_def)
  moreover have "distinct (map fst (record_failure ip t (ls_failures s)))"
    using failed(3) by (simp add: lim_inv_def record_failure_def distinct_update)
  moreover have "failures_of j (s\<lparr>ls_failures := m, ls_inflight := f, ls_log := (ip, t) # ls_log s, ls_now := t\<rparr>) =
      (if ip = j then failures_of j s @ [t] else failures_of j s)" for j m f by (simp add: failures_of_def)
  ultimately show ?case using tr unfolding lim_inv_def by simp
next
  case (ended s ip)
  then have "length (recent rl (ls_now s) (failures_of j s)) + ((ls_inflight s)(ip := ls_inflight s ip - 1)) j
      \<le> max (rl_max_failures rl) 1 - 1 + k" for j
    unfolding lim_inv_def by (cases "j = ip") (auto dest!: spec [of _ j])
  with ended(2) show ?case by (simp add: lim_inv_def)
next
  case (clean s t)
  note later = lim_inv_later [OF clean(2) clean(1)]
  from clean(2) have d: "distinct (map fst (ls_failures s))" by (simp add: lim_inv_def)
  have tr: "tracks rl t (entries_of (rl_cleanup rl t (ls_failures s)) j) (failures_of j s)" for j
    using later(1) [of j] unfolding cleaned_entries(1) [OF d] by (simp add: tracks_def recent_twice)
  with later(2) cleaned_entries(2) [OF d] show ?case by (simp add: lim_inv_def)
qed

lemma lim_reachable_inv: "(lim_step rl k)\<^sup>*\<^sup>* lim_start s \<Longrightarrow> lim_inv rl k s"
proof (induction rule: rtranclp_induct)
  case base
  show ?case by (simp add: lim_inv_def lim_start_def failures_of_def entries_of_def tracks_def recent_def)
next
  case (step s s')
  from lim_step_inv [OF step(2, 3)] show ?case .
qed

section \<open>API keys\<close>

text \<open>A record that the raw key opens at some instant the clock gave.\<close>

definition opens :: "key_env \<Rightarrow> string \<Rightarrow> api_key_record \<Rightarrow> bool" where
  "opens kv raw_key r \<longleftrightarrow>
     (\<exists>salt. kv_unb64 kv (ak_salt r) = Some salt \<and> kv_unb64 kv (ak_key_hash r) = Some (hmac_sign (kv_lib kv) salt raw_key)) \<and>
     \<not> ak_revoked r \<and> (\<forall>t. ak_expires_at r = Some t \<longrightarrow> (\<exists>n. kv_now kv n \<le> t))"

lemma check_keys_ok:
  assumes "check_keys kv storage raw_key rs st = (Inr a, st')"
  shows "\<exists>r \<in> set rs. opens kv raw_key r \<and> ai_user_id a = ak_id r \<and> ai_scopes a = ak_scopes r \<and> ai_provider a = ''api-key''"
  using assms
proof (induction rs)
  case Nil
  then show ?case by (simp add: s_fail_def)
next
  case (Cons r rs)
  from Cons.prems obtain salt hash where dec: "kv_unb64 kv (ak_salt r) = Some salt" "kv_unb64 kv (ak_key_hash r) = Some hash"
    by (auto simp: s_bind_ok s_check_def ok_or_def split: option.splits)
  show ?case
  proof (cases "hmac_verify (kv_lib kv) salt raw_key hash")
    case False
    with Cons dec show ?thesis by (auto simp: ok_or_def)
  next
    case True
    with Cons.prems dec have "opens kv raw_key r \<and> ai_user_id a = ak_id r \<and> ai_scopes a = ak_scopes r \<and> ai_provider a = ''api-key''"
      by (auto simp: ok_or_def s_bind_ok s_fail_def s_check_def s_return_def k_draw_def opens_def hmac_verify_def hmac_sign_def not_less
        split: if_splits option.splits)
    then show ?thesis by simp
  qed
qed

lemma key_records_set: "r \<in> set (key_records kv msgs) \<longleftrightarrow> (\<exists>m \<in> set msgs. extract_key_record kv m = Inr r)"
proof -
  have "(case x of Inl e \<Rightarrow> None | Inr r \<Rightarrow> Some r) = Some r \<longleftrightarrow> x = Inr r" for x :: "(auth_error, api_key_record) result" by (cases x) auto
  then show ?thesis by (simp add: key_records_def mem_map_filter)
qed

section \<open>Keys of the OIDC provider\<close>

definition discovery_url :: "pocket_id \<Rightarrow> string" where
  "discovery_url p = trim_end_char CHR ''/'' (pk_issuer p) @ ''/.well-known/openid-configuration''"

definition uri_from_issuer :: "'k oidc_env \<Rightarrow> pocket_id \<Rightarrow> string \<Rightarrow> bool" where
  "uri_from_issuer ov p uri \<longleftrightarrow>
     (\<exists>n code body. ov_get ov (discovery_url p) n = Inr (code, body) \<and> 200 \<le> code \<and> code < 300 \<and> ov_discovery ov body = Inr uri)"

definition key_from_issuer :: "'k oidc_env \<Rightarrow> pocket_id \<Rightarrow> 'k cached_key \<Rightarrow> bool" where
  "key_from_issuer ov p key \<longleftrightarrow>
     (\<exists>uri n code body jwks k. uri_from_issuer ov p uri \<and> ov_get ov uri n = Inr (code, body) \<and> ov_jwks ov body = Inr jwks \<and>
       k \<in> set jwks \<and> parse_jwk ov k = Some key)"

definition cache_ok :: "'k oidc_env \<Rightarrow> pocket_id \<Rightarrow> 'k jwks_cache \<Rightarrow> bool" where
  "cache_ok ov p c \<longleftrightarrow> (\<forall>key \<in> set (jc_keys c). key_from_issuer ov p key) \<and> (\<forall>uri. jc_jwks_uri c = Some uri \<longrightarrow> uri_from_issuer ov p uri)"

definition keeps_cache :: "'k oidc_env \<Rightarrow> pocket_id \<Rightarrow> 'k jwks_cache \<Rightarrow> 'k jwks_cache \<Rightarrow> bool" where
  "keeps_cache ov p c c' \<longleftrightarrow> (cache_ok ov p c \<longrightarrow> cache_ok ov p c')"

interpretation cached: state_order "keeps_cache ov p" for ov p
  by unfold_locales (auto simp: keeps_cache_def)

lemma draw_keeps_cache: "moves (keeps_cache ov p) (o_draw f)"
  by (simp add: moves_def o_draw_def keeps_cache_def cache_ok_def)

lemma fetch_ok:
  assumes "fetch ov url a b c dec st = (Inr x, st')"
  shows "(\<exists>n code body. ov_get ov url n = Inr (code, body) \<and> 200 \<le> code \<and> code < 300 \<and> dec body = Inr x) \<and>
    jc_keys st' = jc_keys st \<and> jc_jwks_uri st' = jc_jwks_uri st"
  using assms
  by (auto simp: fetch_def s_bind_ok s_check_def o_draw_def map_err_eq_Inr split: sum.splits if_splits) blast

lemma fetch_keeps_cache: "moves (keeps_cache ov p) (fetch ov url a b c dec)"
  unfolding fetch_def by (intro cached.moves_intros draw_keeps_cache)

lemma fetch_jwks_ok:
  assumes "fetch_jwks ov uri st = (Inr keys, st')" and "uri_from_issuer ov p uri"
  shows "(\<forall>key \<in> set keys. key_from_issuer ov p key) \<and> jc_keys st' = jc_keys st \<and> jc_jwks_uri st' = jc_jwks_uri st"
proof -
  from assms(1) obtain jwks where f: "fetch ov uri ''JWKS fetch failed'' ''JWKS endpoint'' ''invalid JWKS response'' (ov_jwks ov) st = (Inr jwks, st')"
    and keys: "keys = List.map_filter (parse_jwk ov) jwks"
    by (auto simp: fetch_jwks_def s_bind_ok s_return_def)
  note got = fetch_ok [OF f]
  have "key_from_issuer ov p key" if "key \<in> set keys" for key
    using that got assms(2) unfolding keys mem_map_filter key_from_issuer_def by blast
  with got show ?thesis by blast
qed

lemma store_keys:
  assumes "uri_from_issuer ov p uri"
  shows "moves (keeps_cache ov p) (s_bind (fetch_jwks ov uri) (\<lambda>keys. s_bind (o_draw (ov_instant ov)) (\<lambda>now st.
    (Inr (), st\<lparr>jc_keys := keys, jc_last_refresh := now\<rparr>))))" (is "moves _ ?f")
  unfolding moves_def
proof
  fix st
  obtain r st1 where r: "fetch_jwks ov uri st = (r, st1)" by (cases "fetch_jwks ov uri st")
  show "keeps_cache ov p st (snd (?f st))"
  proof (cases r)
    case (Inl e)
    have "moves (keeps_cache ov p) (fetch_jwks ov uri)"
      unfolding fetch_jwks_def by (intro cached.moves_intros fetch_keeps_cache)
    from moves_snd [OF this r] Inl r show ?thesis by (simp add: s_bind_def)
  next
    case (Inr keys)
    with fetch_jwks_ok [OF _ assms, of st keys st1] r show ?thesis
      by (auto simp: s_bind_def o_draw_def keeps_cache_def cache_ok_def)
  qed
qed

lemma refresh_keeps_cache: "moves (keeps_cache ov p) (refresh_keys ov p)"
  unfolding moves_def
proof
  fix st
  show "keeps_cache ov p st (snd (refresh_keys ov p st))"
  proof (cases "jc_jwks_uri st")
    case (Some uri)
    show ?thesis
    proof (cases "cache_ok ov p st")
      case True
      with Some have "uri_from_issuer ov p uri" by (simp add: cache_ok_def)
      from store_keys [OF this] Some show ?thesis by (simp add: moves_def refresh_keys_def s_bind_def s_get_def s_return_def)
    qed (simp add: keeps_cache_def)
  next
    case None
    obtain r st1 where r: "discover_jwks_uri ov p st = (r, st1)" by (cases "discover_jwks_uri ov p st")
    show ?thesis
    proof (cases r)
      case (Inl e)
      from moves_snd [OF fetch_keeps_cache r [unfolded discover_jwks_uri_def]] None Inl r
      show ?thesis by (simp add: refresh_keys_def s_bind_def s_get_def)
    next
      case (Inr uri)
      from fetch_ok [OF r [unfolded discover_jwks_uri_def Inr]]
      have uri: "uri_from_issuer ov p uri" and st1: "jc_keys st1 = jc_keys st"
        by (auto simp: uri_from_issuer_def discovery_url_def)
      have "keeps_cache ov p st (st1\<lparr>jc_jwks_uri := Some uri\<rparr>)" using uri st1 by (simp add: keeps_cache_def cache_ok_def)
      then show ?thesis
        using store_keys [OF uri] None Inr r
        by (auto simp: moves_def refresh_keys_def s_bind_def s_get_def intro: cached.R_trans)
    qed
  qed
qed

lemma token_keeps_cache: "moves (keeps_cache ov p) (pocket_validate_token ov p token)"
proof -
  have "moves (keeps_cache ov p) (decode_and_validate ov p token)"
    unfolding decode_and_validate_def
    by (intro cached.moves_intros draw_keeps_cache) (auto intro!: cached.moves_intros refresh_keeps_cache split: option.split)
  then show ?thesis
    unfolding pocket_validate_token_def refresh_keys_if_needed_def
    by (intro cached.moves_intros cached.moves_if draw_keeps_cache refresh_keeps_cache)
qed

lemma find_key_in: "find_key kid keys = Some key \<Longrightarrow> key \<in> set keys"
  by (auto simp: find_key_def dest: found split: option.splits list.splits)

lemma decode_ok:
  assumes "decode_and_validate ov p token st = (Inr claims, st')" and "cache_ok ov p st"
  shows "\<exists>key n. key_from_issuer ov p key \<and> ov_decode ov token (ck_decoding_key key) (validation_for p key) n = Inr claims"
proof -
  from assms(1) obtain kid key st1 where key: "find_key kid (jc_keys st1) = Some key" and st1: "st1 = st \<or> (\<exists>u. refresh_keys ov p st = (Inr u, st1))"
    and dec: "ov_decode ov token (ck_decoding_key key) (validation_for p key) (jc_draws st1) = Inr claims"
    by (auto simp: decode_and_validate_def s_bind_ok s_check_def s_get_def s_return_def ok_or_eq_Inr map_err_eq_Inr o_draw_def
      split: option.splits)
  from st1 have "cache_ok ov p st1" using assms(2) moves_snd [OF refresh_keeps_cache [of ov p]] by (auto simp: keeps_cache_def)
  with find_key_in [OF key] dec show ?thesis by (auto simp: cache_ok_def)
qed

definition oidc_run :: "'k oidc_env \<Rightarrow> pocket_id \<Rightarrow> string list \<Rightarrow> 'k jwks_cache \<Rightarrow> 'k jwks_cache" where
  "oidc_run ov p tokens c = fold (\<lambda>t c. snd (pocket_validate_token ov p t c)) tokens c"

lemma oidc_run_ok: "cache_ok ov p c \<Longrightarrow> cache_ok ov p (oidc_run ov p tokens c)"
  unfolding oidc_run_def using token_keeps_cache [of ov p]
  by (induction tokens arbitrary: c) (auto simp: moves_def keeps_cache_def)

lemma token_ok:
  assumes "pocket_validate_token ov p token st = (Inr a, st')" and "cache_ok ov p st"
  shows "\<exists>key n claims. key_from_issuer ov p key \<and> ov_decode ov token (ck_decoding_key key) (validation_for p key) n = Inr claims \<and>
    jw_sub claims = Some (ai_user_id a) \<and> ai_scopes a = extract_scopes claims \<and> ai_provider a = ''pocket-id''"
proof -
  from assms(1) obtain st1 st2 claims where st1: "refresh_keys_if_needed ov p st = (Inr (), st1)"
    and dec: "decode_and_validate ov p token st1 = (Inr claims, st2)" and sub: "jw_sub claims = Some (ai_user_id a)"
    and a: "ai_scopes a = extract_scopes claims" "ai_provider a = ''pocket-id''"
    by (auto simp: pocket_validate_token_def s_bind_ok s_check_def s_return_def ok_or_eq_Inr o_draw_def)
  have "moves (keeps_cache ov p) (refresh_keys_if_needed ov p)"
    unfolding refresh_keys_if_needed_def by (intro cached.moves_intros cached.moves_if draw_keeps_cache refresh_keeps_cache)
  from moves_snd [OF this st1] assms(2) have "cache_ok ov p st1" by (simp add: keeps_cache_def)
  from decode_ok [OF dec this] sub a show ?thesis by blast
qed

section \<open>The storage behind the keys\<close>

lemma key_value_fields: "json_get (key_record_to_value kv r) ''credential_type'' = None"
  by (simp add: key_record_to_value_def json_get_def obj_of_def obj_get_insert)

lemma insert_rejected:
  assumes "be_canonical env ''credentials'' = Some v" and "\<And>j. json_get j ''credential_type'' = None \<Longrightarrow> v j \<noteq> []"
    and "\<And>j t. be_to_string env j = Inr t \<Longrightarrow> be_from_str env t = Inr j"
    and "json_get (payload_value (payload data)) ''credential_type'' = None"
  shows "\<exists>e st'. execute_mutation env (MInsert pid ''credentials'' data) st = (Inl e, st') \<and> ss_rows st' = ss_rows st"
proof (cases "be_to_string env (payload_value (payload data))")
  case (Inl e)
  then show ?thesis by (simp add: execute_mutation.simps s_bind_def draw_def s_check_def serialize_payload_def)
next
  case (Inr t)
  with assms(3) have "be_from_str env t = Inr (payload_value (payload data))" by simp
  moreover from assms(2, 4) obtain e es where "v (payload_value (payload data)) = e # es" by (meson neq_Nil_conv)
  ultimately show ?thesis
    using Inr assms(1)
    by (simp add: execute_mutation.simps s_bind_def draw_def s_check_def s_get_def serialize_payload_def validate_data_def
      validate_canonical_def is_canonical_def canonical_collections_def no_schema_errors_def)
qed

text \<open>An operation that always fails and leaves the table alone; one that leaves it alone.\<close>

definition refuses :: "(sqlite_storage, 'a) kop \<Rightarrow> bool" where
  "refuses f \<longleftrightarrow> (\<forall>s. \<exists>e s'. f s = (Inl e, s') \<and> ss_rows (ks_storage s') = ss_rows (ks_storage s))"

definition quiet :: "(sqlite_storage, 'a) kop \<Rightarrow> bool" where
  "quiet f \<longleftrightarrow> moves (\<lambda>s s'. ss_rows (ks_storage s') = ss_rows (ks_storage s)) f"

interpretation quiet: state_order "\<lambda>s s' :: sqlite_storage key_state. ss_rows (ks_storage s') = ss_rows (ks_storage s)"
  by unfold_locales simp_all

lemma quiet_ops: "quiet (k_draw f)" "quiet (s_check r)" "quiet (record_to_pipeline_message kv x)"
  "quiet (s_bind (k_draw f) (\<lambda>y. s_check (g y)))"
proof -
  have d: "moves (\<lambda>s s'. ss_rows (ks_storage s') = ss_rows (ks_storage s)) (k_draw f)" for f :: "nat \<Rightarrow> 'c"
    by (simp add: moves_def k_draw_def)
  show "quiet (k_draw f)" "quiet (s_check r)" "quiet (record_to_pipeline_message kv x)" "quiet (s_bind (k_draw f) (\<lambda>y. s_check (g y)))"
    unfolding quiet_def record_to_pipeline_message_def
    by (intro quiet.moves_intros d | (simp add: moves_def k_draw_def; fail))+
qed

lemma refuses_bind:
  assumes "quiet f" and "\<And>x s s'. f s = (Inr x, s') \<Longrightarrow> refuses (g x)"
  shows "refuses (s_bind f g)"
  unfolding refuses_def
proof
  fix s
  obtain r s1 where f: "f s = (r, s1)" by (cases "f s")
  with assms(1) have rows: "ss_rows (ks_storage s1) = ss_rows (ks_storage s)" unfolding quiet_def by (auto dest: moves_snd)
  show "\<exists>e s'. s_bind f g s = (Inl e, s') \<and> ss_rows (ks_storage s') = ss_rows (ks_storage s)"
  proof (cases r)
    case (Inr x)
    with assms(2) [of s x s1] f obtain e s' where "g x s1 = (Inl e, s')" "ss_rows (ks_storage s') = ss_rows (ks_storage s1)"
      unfolding refuses_def by blast
    with Inr f rows show ?thesis by (simp add: s_bind_def)
  qed (simp add: f rows s_bind_def)
qed

lemma refuses_first: "refuses f \<Longrightarrow> refuses (s_bind f g)"
proof (unfold refuses_def, intro allI)
  fix s
  assume "\<forall>s. \<exists>e s'. f s = (Inl e, s') \<and> ss_rows (ks_storage s') = ss_rows (ks_storage s)"
  then obtain e s' where "f s = (Inl e, s')" "ss_rows (ks_storage s') = ss_rows (ks_storage s)" by blast
  then show "\<exists>e s'. s_bind f g s = (Inl e, s') \<and> ss_rows (ks_storage s') = ss_rows (ks_storage s)" by (simp add: s_bind_def)
qed

lemma message_fields:
  "record_to_pipeline_message kv r s = (Inr d, s') \<Longrightarrow> json_get (payload_value (payload d)) ''credential_type'' = None"
  using key_value_fields [of kv r]
  by (auto simp: record_to_pipeline_message_def s_bind_ok s_check_def s_return_def k_draw_def schema_validated_new_def map_err_eq_Inr
    split: sum.splits)

section \<open>Requests as steps of the limiter\<close>

lemma request_is_steps:
  assumes "ls_failures s = aw_failures w" and "ls_now s \<le> t1" and "t1 \<le> t2" and "ls_inflight s ip < k"
    and "validate_request provider rl header ip t1 t2 w = (r, w')"
  shows "\<exists>s'. (lim_step rl k)\<^sup>*\<^sup>* s s' \<and> ls_failures s' = aw_failures w' \<and> ls_inflight s' = ls_inflight s \<and>
    (aw_provider w' \<noteq> aw_provider w \<and> \<not> is_ok r \<longrightarrow> ls_log s' = (ip, t2) # ls_log s)"
proof -
  obtain lim m where lim: "is_rate_limited rl ip t1 (ls_failures s) = (lim, m)" by (cases "is_rate_limited rl ip t1 (ls_failures s)")
  show ?thesis
  proof (cases lim)
    case (Some n)
    with lim_step.refuse [OF assms(2), of rl ip n m k] lim assms(1, 5) show ?thesis
      by (intro exI [of _ "s\<lparr>ls_failures := m, ls_now := t1\<rparr>"]) (auto simp: validate_request_def)
  next
    case None
    let ?s1 = "s\<lparr>ls_failures := m, ls_inflight := (ls_inflight s)(ip := Suc (ls_inflight s ip)), ls_now := t1\<rparr>"
    let ?ended = "?s1\<lparr>ls_inflight := (ls_inflight ?s1)(ip := ls_inflight ?s1 ip - 1)\<rparr>"
    let ?failed = "?s1\<lparr>ls_failures := record_failure ip t2 (ls_failures ?s1), ls_inflight := (ls_inflight ?s1)(ip := ls_inflight ?s1 ip - 1),
      ls_log := (ip, t2) # ls_log ?s1, ls_now := t2\<rparr>"
    have s1: "lim_step rl k s ?s1" using lim_step.pass [OF assms(2) _ assms(4)] lim None by simp
    have ended: "(lim_step rl k)\<^sup>*\<^sup>* s ?ended" using s1 lim_step.ended [of ?s1 ip rl k] by simp
    have failed: "(lim_step rl k)\<^sup>*\<^sup>* s ?failed" using s1 lim_step.failed [of ?s1 t2 ip rl k] assms(3) by simp
    show ?thesis
    proof (cases header)
      case None
      with ended lim \<open>lim = None\<close> assms(1, 5) show ?thesis by (intro exI [of _ ?ended]) (auto simp: validate_request_def)
    next
      case (Some h)
      obtain x p where x: "consult provider h (aw_provider w) = (x, p)" by (cases "consult provider h (aw_provider w)")
      show ?thesis
      proof (cases x)
        case (Inl e)
        with failed lim None x \<open>lim = None\<close> Some assms(1, 5) show ?thesis by (intro exI [of _ ?failed]) (auto simp: validate_request_def)
      next
        case (Inr a)
        with ended lim None x \<open>lim = None\<close> Some assms(1, 5) show ?thesis by (intro exI [of _ ?ended]) (auto simp: validate_request_def)
      qed
    qed
  qed
qed

section \<open>Properties\<close>

text \<open>
  C16: Failed attempts are bounded. However the requests of many clients overlap, with at most \<open>k\<close> requests of one client
  address in flight at once: within any window of the limiter, the recorded failures of the address and its requests in
  flight are together fewer than the maximum plus \<open>k\<close> (a maximum of 0 counts as 1). For requests one after the other
  that is at most the maximum.
\<close>

theorem failed_attempts_bounded:
  assumes "(lim_step rl k)\<^sup>*\<^sup>* lim_start s"
  shows "length (filter (\<lambda>(i, t). i = ip \<and> ls_now s - t < rl_window rl) (ls_log s)) + ls_inflight s ip
    \<le> max (rl_max_failures rl) 1 - 1 + k"
proof -
  have "length (recent rl (ls_now s) (failures_of ip s)) = length (filter (\<lambda>(i, t). i = ip \<and> ls_now s - t < rl_window rl) (ls_log s))"
    by (simp add: recent_def failures_of_def rev_filter [symmetric] filter_map comp_def case_prod_unfold conj_commute)
  with lim_reachable_inv [OF assms] show ?thesis unfolding lim_inv_def by metis
qed



text \<open>
  The SQLite backend takes no API keys. Keys are inserted into the canonical collection of credentials, whose schema
  requires a \<open>credential_type\<close>, and the serialised key record has none: with a validator that enforces the required
  fields, \<open>create_key\<close> fails in every state and stores nothing.
\<close>

theorem api_keys_rejected_by_storage:
  assumes "be_canonical env ''credentials'' = Some v" and "\<And>j. json_get j ''credential_type'' = None \<Longrightarrow> v j \<noteq> []"
    and "\<And>j t. be_to_string env j = Inr t \<Longrightarrow> be_from_str env t = Inr j"
  shows "\<exists>e st'. create_key kv (sqlite_backend env) name scopes expires_at st = (Inl e, st') \<and>
    ss_rows (ks_storage st') = ss_rows (ks_storage st)"
proof -
  have ins: "refuses (k_storage (sb_mutate (sqlite_backend env) (MInsert auth_plugin_id keys_collection d)))"
    if "json_get (payload_value (payload d)) ''credential_type'' = None" for d
    unfolding refuses_def
  proof
    fix s :: "sqlite_storage key_state"
    from insert_rejected [OF assms that, of auth_plugin_id "ks_storage s"] obtain e st'
      where "execute_mutation env (MInsert auth_plugin_id ''credentials'' d) (ks_storage s) = (Inl e, st')" "ss_rows st' = ss_rows (ks_storage s)"
      by blast
    then show "\<exists>e s'. k_storage (sb_mutate (sqlite_backend env) (MInsert auth_plugin_id keys_collection d)) s = (Inl e, s') \<and>
        ss_rows (ks_storage s') = ss_rows (ks_storage s)"
      by (simp add: k_storage_def sqlite_backend_def with_text_def keys_collection_def)
  qed
  have "refuses (create_key kv (sqlite_backend env) name scopes expires_at)"
    unfolding create_key_def k_random_def Let_def
    by ((rule refuses_bind, rule quiet_ops)+, rule refuses_first, rule ins, erule message_fields)
  then show ?thesis unfolding refuses_def by blast
qed

section \<open>Witnesses\<close>

definition sample_failed :: lim_state where
  "sample_failed = \<lparr>ls_failures = record_failure ''ip'' 2 [], ls_inflight = (\<lambda>_. 0), ls_log = [(''ip'', 2)], ls_now = 2\<rparr>"

theorem failed_attempts_bounded_witness:
  "length (filter (\<lambda>(i, t). i = ''ip'' \<and> ls_now sample_failed - t < rl_window rate_limiter_new) (ls_log sample_failed)) +
     ls_inflight sample_failed ''ip'' \<le> max (rl_max_failures rate_limiter_new) 1 - 1 + 1"
proof -
  let ?s1 = "lim_start\<lparr>ls_failures := [], ls_inflight := (ls_inflight lim_start)(''ip'' := Suc (ls_inflight lim_start ''ip'')), ls_now := 1\<rparr>"
  have "lim_step rate_limiter_new 1 lim_start ?s1"
    by (rule lim_step.pass) (simp_all add: lim_start_def is_rate_limited_def)
  moreover have "lim_step rate_limiter_new 1 ?s1 sample_failed"
    using lim_step.failed [of ?s1 2 "''ip''" rate_limiter_new 1] by (simp add: lim_start_def sample_failed_def fun_upd_idem)
  ultimately have "(lim_step rate_limiter_new 1)\<^sup>*\<^sup>* lim_start sample_failed" by simp
  from failed_attempts_bounded [OF this, of "''ip''"] show ?thesis .
qed

definition sample_oidc :: "string oidc_env" where
  "sample_oidc =
     \<lparr>ov_get = (\<lambda>url _. Inr (200, url)), ov_status = show_nat, ov_discovery = (\<lambda>_. Inr ''keys''),
      ov_jwks = (\<lambda>_. Inr [\<lparr>jwk_kid = Some ''k1'', jwk_kty = ''RSA'', jwk_alg = None, jwk_n = Some ''n'', jwk_e = Some ''e'', jwk_x = None, jwk_crv = None\<rparr>]),
      ov_unb64 = Some, ov_ed_key = (\<lambda>x. x), ov_rsa_key = (\<lambda>n e. Some (n @ e)), ov_header = (\<lambda>_. Inr (Some ''k1'')),
      ov_decode = (\<lambda>token _ _ _. if token = ''t1'' then Inr \<lparr>jw_sub = Some ''ada'', jw_iss = None, jw_aud = None, jw_exp = None, jw_scope = None\<rparr>
        else Inl ExpiredSignature),
      ov_client = Inr (), ov_instant = (\<lambda>_. 0), ov_instant_sub = (\<lambda>t n. Some (t - int n * 1000000000)), ov_now = (\<lambda>_. 0), ov_overflow_checks = True\<rparr>"

definition sample_provider :: pocket_id where
  "sample_provider = \<lparr>pk_issuer = ''https://id'', pk_audience = None, pk_jwks_refresh_interval = 3600\<rparr>"

definition sample_cache :: "string jwks_cache" where
  "sample_cache = \<lparr>jc_keys = [], jc_last_refresh = - 3601000000000, jc_jwks_uri = None, jc_draws = 1\<rparr>"

definition sample_request :: rest_request where
  "sample_request = \<lparr>rr_method = ''GET'', rr_matched_path = None, rr_path = ''/api'', rr_headers = [''authorization'' \<mapsto> ''Bearer t1'']\<rparr>"


definition sample_keys :: key_env where
  "sample_keys =
     \<lparr>kv_random = (\<lambda>n _. Some (replicate n CHR ''r'')), kv_lib = sample_lib, kv_b64 = (\<lambda>b. b), kv_unb64 = Some, kv_now = (\<lambda>_. 10),
      kv_uuid = (\<lambda>_. ''key-1''), kv_time = show_int,
      kv_from_value = (\<lambda>_. Inr \<lparr>ak_id = ''key-1'', ak_name = ''ci'', ak_key_hash = ''saltraw'', ak_salt = ''salt'', ak_scopes = [''read''],
        ak_created_at = 0, ak_expires_at = Some 20, ak_revoked = False, ak_last_used = None\<rparr>),
      kv_compile = (\<lambda>_. Inr (\<lambda>_. Inr ()))\<rparr>"

definition sample_key_store :: "unit storage_backend" where
  "sample_key_store =
     \<lparr>sb_execute = (\<lambda>_ s. (Inr [\<lparr>metadata = \<lparr>correlation_id = ''key-1'', msg_source = [], msg_timestamp = 0, auth_context = None, warnings = []\<rparr>,
        payload = Custom JNull\<rparr>], s)), sb_mutate = (\<lambda>_ s. (Inl ''read only'', s))\<rparr>"


definition strict_backend :: backend_env where
  "strict_backend = sample_backend\<lparr>be_canonical := \<lambda>_. Some (\<lambda>j. if json_get j ''credential_type'' = None then [''missing''] else [])\<rparr>"

theorem api_keys_rejected_by_storage_witness:
  "\<exists>e st'. create_key sample_keys (sqlite_backend strict_backend) ''ci'' [''read''] None \<lparr>ks_storage = sample_storage, ks_draws = 0\<rparr> = (Inl e, st') \<and>
    ss_rows (ks_storage st') = ss_rows sample_storage"
proof -
  have "be_to_string strict_backend j = Inr t \<Longrightarrow> be_from_str strict_backend t = Inr j" for j t
    by (auto simp: strict_backend_def sample_backend_def sample_texts_def split: if_splits)
  from api_keys_rejected_by_storage [of strict_backend, OF _ _ this, of _ sample_keys "''ci''" "[''read'']" None
      "\<lparr>ks_storage = sample_storage, ks_draws = 0\<rparr>"] show ?thesis
    by (simp add: strict_backend_def)
qed

end
