(* ===== verification/Backup.thy ===== *)
theory Backup
  imports Crypto "HOL-Library.AList"
begin

text \<open>
  The backup plugin (\<open>plugins/engine/backup/src\<close>): archives of records, serialised, compressed and
  encrypted under a passphrase, put beside their manifest into a backend, restored after a checksum
  test, and removed by the retention policy; and the local directory backend, with its path check.
  The serialiser, gzip and SHA-256 are the fields of \<open>backup_lib\<close>, the cipher and Argon2 those of
  \<open>crypto_lib\<close>, the failures of the file system the fields of \<open>local_os\<close>. A file is named by the
  components of its path.
\<close>

section \<open>Types\<close>

record backup_argon2 =
  ba_memory_mb :: "32 word"
  ba_iterations :: "32 word"
  ba_parallelism :: "32 word"

definition default_backup_argon2 :: backup_argon2 where
  "default_backup_argon2 = \<lparr>ba_memory_mb = 64, ba_iterations = 3, ba_parallelism = 1\<rparr>"

record retention_policy =
  rp_max_count :: nat
  rp_retention_days :: "nat option"

datatype backup_type = FullBackup | IncrementalBackup

record backup_manifest =
  bm_id :: string
  bm_created_at :: int
  bm_backup_type :: backup_type
  bm_collections :: "string list"
  bm_record_counts :: "(string \<times> nat) list"
  bm_compressed_size :: nat
  bm_checksum :: string
  bm_parent_id :: "string option"
  bm_cursor :: "string option"

record backup_record =
  br_id :: string
  br_plugin_id :: string
  br_collection :: string
  br_data :: json
  br_version :: int
  br_user_id :: "string option"
  br_household_id :: "string option"
  br_created_at :: int
  br_updated_at :: int

record restore_result =
  rr_records_restored :: "(string \<times> nat) list"
  rr_total_restored :: nat
  rr_integrity_verified :: bool

record backup_archive =
  bar_manifest :: backup_manifest
  bar_records :: "backup_record list"

text \<open>
  What the plugin takes from its libraries. Reading a gzip stream gives the bytes decoded so far and the
  error that ended it, if one did.
\<close>

record backup_lib =
  bl_crypto :: crypto_lib
  bl_archive_to_vec :: "backup_archive \<Rightarrow> (string, string) result"
  bl_archive_from_slice :: "string \<Rightarrow> (string, backup_archive) result"
  bl_manifest_to_vec :: "backup_manifest \<Rightarrow> (string, string) result"
  bl_manifest_from_slice :: "string \<Rightarrow> (string, backup_manifest) result"
  bl_gzip :: "string \<Rightarrow> (string, string) result"
  bl_gunzip :: "string \<Rightarrow> string \<times> string option"
  bl_sha256_hex :: "string \<Rightarrow> string"
  bl_format :: "int \<Rightarrow> string"
  bl_rfc3339 :: "int \<Rightarrow> string"
  bl_hash_order :: "string list \<Rightarrow> string list"

text \<open>What one call draws: the clock, the salt and the nonce.\<close>

record backup_draw =
  bd_now :: int
  bd_salt :: string
  bd_nonce :: string

section \<open>Encryption (\<open>crypto.rs\<close>)\<close>

definition salt_length :: nat where
  "salt_length = 16"

definition key_length :: nat where
  "key_length = 32"

text \<open>The memory cost is multiplied at 32 bits.\<close>

definition backup_derive_key :: "backup_lib \<Rightarrow> string \<Rightarrow> string \<Rightarrow> backup_argon2 \<Rightarrow> (string, string) result" where
  "backup_derive_key lib passphrase salt p =
     (let mem = unat (ba_memory_mb p * 1024); t = unat (ba_iterations p); par = unat (ba_parallelism p) in
      r_bind (map_err (\<lambda>e. ''invalid Argon2 parameters: '' @ e) (cl_argon2_params (bl_crypto lib) mem t par))
        (\<lambda>_. map_err (\<lambda>e. ''Argon2 key derivation failed: '' @ e)
           (cl_argon2 (bl_crypto lib) mem t par passphrase salt)))"

definition max_decompressed_size :: nat where
  "max_decompressed_size = 256 * 1024 * 1024"

definition bomb_error :: string where
  "bomb_error = ''decompressed data exceeds maximum size (268435456 bytes); possible decompression bomb''"

definition decompress :: "backup_lib \<Rightarrow> string \<Rightarrow> (string, string) result" where
  "decompress lib d =
     (case bl_gunzip lib d of (out, err) \<Rightarrow>
        if max_decompressed_size < length out then Inl bomb_error
        else case err of Some e \<Rightarrow> Inl e | None \<Rightarrow> Inr out)"

definition backup_encrypt :: "backup_lib \<Rightarrow> string \<Rightarrow> string \<Rightarrow> string \<Rightarrow> (string, string) result" where
  "backup_encrypt lib nonce plaintext key =
     (if length key \<noteq> key_length then Inl ''encryption key must be 32 bytes''
      else map_err (\<lambda>e. ''AES-256-GCM encryption failed: '' @ crypto_error_to_string e)
        (encrypt (bl_crypto lib) nonce key plaintext))"

definition backup_decrypt :: "backup_lib \<Rightarrow> string \<Rightarrow> string \<Rightarrow> (string, string) result" where
  "backup_decrypt lib encrypted key =
     (if length key \<noteq> key_length then Inl ''encryption key must be 32 bytes''
      else map_err (\<lambda>e. ''backup integrity check failed: authentication failed (wrong passphrase or corrupted data): ''
          @ crypto_error_to_string e)
        (decrypt (bl_crypto lib) key encrypted))"

section \<open>The backend\<close>

record 's backup_backend =
  bb_put :: "string \<Rightarrow> string \<Rightarrow> (string, 's, unit) action"
  bb_get :: "string \<Rightarrow> (string, 's, string) action"
  bb_delete :: "string \<Rightarrow> (string, 's, bool) action"
  bb_exists :: "string \<Rightarrow> (string, 's, bool) action"

section \<open>Creating backups (\<open>engine.rs\<close>)\<close>

definition count_collection :: "backup_record \<Rightarrow> (string \<times> nat) list \<Rightarrow> (string \<times> nat) list" where
  "count_collection rec counts = AList.map_default (br_collection rec) 1 (\<lambda>n. n + 1) counts"

definition record_counts :: "backup_record list \<Rightarrow> (string \<times> nat) list" where
  "record_counts recs = fold count_collection recs []"

text \<open>The collections in the order in which the records name them first.\<close>

definition seen_collections :: "backup_record list \<Rightarrow> string list" where
  "seen_collections recs =
     fold (\<lambda>rec cols. if br_collection rec \<in> set cols then cols else cols @ [br_collection rec]) recs []"

text \<open>Serialise, compress, encrypt and put the salt in front; the compressed size is kept for the manifest.\<close>

definition seal_archive ::
  "backup_lib \<Rightarrow> backup_draw \<Rightarrow> string \<Rightarrow> backup_argon2 \<Rightarrow> backup_archive \<Rightarrow> (string, string \<times> nat) result" where
  "seal_archive lib d passphrase p archive =
     r_bind (bl_archive_to_vec lib archive) (\<lambda>js.
     r_bind (bl_gzip lib js) (\<lambda>compressed.
     r_bind (backup_derive_key lib passphrase (bd_salt d) p) (\<lambda>key.
     r_bind (backup_encrypt lib (bd_nonce d) compressed key) (\<lambda>encrypted.
     Inr (bd_salt d @ encrypted, length compressed)))))"

definition enc_key :: "string \<Rightarrow> string" where
  "enc_key i = i @ ''.enc''"

definition manifest_key :: "string \<Rightarrow> string" where
  "manifest_key i = i @ ''.manifest.json''"

definition store_backup ::
  "backup_lib \<Rightarrow> 's backup_backend \<Rightarrow> backup_manifest \<Rightarrow> string \<times> nat \<Rightarrow> (string, 's, backup_manifest) action" where
  "store_backup lib be draft sealed =
     (let m = draft\<lparr>bm_compressed_size := snd sealed, bm_checksum := bl_sha256_hex lib (fst sealed)\<rparr> in
      s_bind (bb_put be (enc_key (bm_id m)) (fst sealed)) (\<lambda>_.
      s_bind (s_check (bl_manifest_to_vec lib m)) (\<lambda>js.
      s_bind (bb_put be (manifest_key (bm_id m)) js) (\<lambda>_.
      s_return m))))"

definition full_manifest :: "backup_lib \<Rightarrow> backup_draw \<Rightarrow> backup_record list \<Rightarrow> backup_manifest" where
  "full_manifest lib d recs =
     \<lparr>bm_id = ''full-'' @ bl_format lib (bd_now d), bm_created_at = bd_now d, bm_backup_type = FullBackup,
      bm_collections = seen_collections recs, bm_record_counts = record_counts recs,
      bm_compressed_size = 0, bm_checksum = [], bm_parent_id = None,
      bm_cursor = Some (bl_rfc3339 lib (bd_now d))\<rparr>"

definition create_full_backup ::
  "backup_lib \<Rightarrow> backup_draw \<Rightarrow> 's backup_backend \<Rightarrow> backup_record list \<Rightarrow> string \<Rightarrow> backup_argon2
     \<Rightarrow> (string, 's, backup_manifest) action" where
  "create_full_backup lib d be recs passphrase p =
     (let draft = full_manifest lib d recs in
      s_bind (s_check (seal_archive lib d passphrase p \<lparr>bar_manifest = draft, bar_records = recs\<rparr>))
        (store_backup lib be draft))"

text \<open>An incremental backup lists its collections in the order of a hash set.\<close>

definition incremental_manifest ::
  "backup_lib \<Rightarrow> backup_draw \<Rightarrow> backup_record list \<Rightarrow> string \<Rightarrow> backup_manifest" where
  "incremental_manifest lib d recs parent =
     \<lparr>bm_id = ''incr-'' @ bl_format lib (bd_now d), bm_created_at = bd_now d, bm_backup_type = IncrementalBackup,
      bm_collections = bl_hash_order lib (seen_collections recs), bm_record_counts = record_counts recs,
      bm_compressed_size = 0, bm_checksum = [], bm_parent_id = Some parent,
      bm_cursor = Some (bl_rfc3339 lib (bd_now d))\<rparr>"

definition create_incremental_backup ::
  "backup_lib \<Rightarrow> backup_draw \<Rightarrow> 's backup_backend \<Rightarrow> backup_record list \<Rightarrow> string \<Rightarrow> string \<Rightarrow> backup_argon2
     \<Rightarrow> (string, 's, backup_manifest) action" where
  "create_incremental_backup lib d be recs parent passphrase p =
     (let draft = incremental_manifest lib d recs parent in
      s_bind (s_check (seal_archive lib d passphrase p \<lparr>bar_manifest = draft, bar_records = recs\<rparr>))
        (store_backup lib be draft))"

section \<open>Restoring (\<open>engine.rs\<close>)\<close>

definition checksum_error :: "string \<Rightarrow> string \<Rightarrow> string" where
  "checksum_error expected actual =
     ''backup integrity check failed: checksum mismatch (expected '' @ expected @ '', got '' @ actual @ '')''"

definition open_archive ::
  "backup_lib \<Rightarrow> string \<Rightarrow> backup_argon2 \<Rightarrow> string \<Rightarrow> (string, backup_archive) result" where
  "open_archive lib passphrase p payload =
     (if length payload < salt_length then Inl ''backup payload too short: missing salt''
      else r_bind (backup_derive_key lib passphrase (take salt_length payload) p) (\<lambda>key.
           r_bind (backup_decrypt lib (drop salt_length payload) key) (\<lambda>compressed.
           r_bind (decompress lib compressed) (bl_archive_from_slice lib))))"

definition restored :: "backup_record list \<Rightarrow> backup_record list \<times> restore_result" where
  "restored recs =
     (recs, \<lparr>rr_records_restored = record_counts recs, rr_total_restored = length recs,
        rr_integrity_verified = True\<rparr>)"

definition restore_full ::
  "backup_lib \<Rightarrow> 's backup_backend \<Rightarrow> string \<Rightarrow> string \<Rightarrow> backup_argon2
     \<Rightarrow> (string, 's, backup_record list \<times> restore_result) action" where
  "restore_full lib be i passphrase p =
     s_bind (bb_get be (enc_key i)) (\<lambda>payload.
     s_bind (bb_get be (manifest_key i)) (\<lambda>js.
     s_bind (s_check (bl_manifest_from_slice lib js)) (\<lambda>m.
     if bl_sha256_hex lib payload \<noteq> bm_checksum m
     then s_fail (checksum_error (bm_checksum m) (bl_sha256_hex lib payload))
     else s_bind (s_check (open_archive lib passphrase p payload))
            (\<lambda>archive. s_return (restored (bar_records archive))))))"

definition restore_partial ::
  "backup_lib \<Rightarrow> 's backup_backend \<Rightarrow> string \<Rightarrow> string list \<Rightarrow> string \<Rightarrow> backup_argon2
     \<Rightarrow> (string, 's, backup_record list \<times> restore_result) action" where
  "restore_partial lib be i cols passphrase p =
     s_bind (restore_full lib be i passphrase p)
       (\<lambda>(recs, _). s_return (restored (filter (\<lambda>r. br_collection r \<in> set cols) recs)))"

section \<open>Retention (\<open>retention.rs\<close>)\<close>

text \<open>Instants are nanoseconds.\<close>

definition nanos_per_day :: int where
  "nanos_per_day = 86400 * 1000000000"

definition age_cutoff :: "retention_policy \<Rightarrow> int \<Rightarrow> int option" where
  "age_cutoff policy now = map_option (\<lambda>days. now - int days * nanos_per_day) (rp_retention_days policy)"

definition newest_first :: "backup_manifest \<Rightarrow> backup_manifest \<Rightarrow> bool" where
  "newest_first a b \<longleftrightarrow> bm_created_at b < bm_created_at a"

fun enforce_sorted ::
  "'s backup_backend \<Rightarrow> retention_policy \<Rightarrow> int option \<Rightarrow> nat \<Rightarrow> nat \<Rightarrow> backup_manifest list \<Rightarrow> (string, 's, nat) action" where
  "enforce_sorted be policy cutoff i deleted [] = s_return deleted"
| "enforce_sorted be policy cutoff i deleted (m # ms) =
     (if rp_max_count policy \<le> i \<or> (case cutoff of Some c \<Rightarrow> bm_created_at m < c | None \<Rightarrow> False)
      then s_bind (bb_delete be (enc_key (bm_id m))) (\<lambda>_.
           s_bind (bb_delete be (manifest_key (bm_id m))) (\<lambda>_.
           enforce_sorted be policy cutoff (i + 1) (deleted + 1) ms))
      else enforce_sorted be policy cutoff (i + 1) deleted ms)"

definition enforce_retention ::
  "'s backup_backend \<Rightarrow> int \<Rightarrow> backup_manifest list \<Rightarrow> retention_policy \<Rightarrow> (string, 's, nat) action" where
  "enforce_retention be now manifests policy =
     enforce_sorted be policy (age_cutoff policy now) 0 0 (sort_by newest_first manifests)"

section \<open>The local directory (\<open>backend/local.rs\<close>)\<close>

type_synonym path = "string list"

text \<open>
  The components of a path, as \<open>std::path\<close> reads it: empty and \<open>.\<close> components vanish, except a leading
  \<open>.\<close> of a relative path.
\<close>

definition path_parts :: "string \<Rightarrow> path" where
  "path_parts p =
     (let cs = filter (\<lambda>c. c \<noteq> []) (split_on (CHR ''/'') p) in
      if starts_with p ''/'' then ''/'' # filter (\<lambda>c. c \<noteq> ''.'') cs
      else take 1 cs @ filter (\<lambda>c. c \<noteq> ''.'') (drop 1 cs))"

type_synonym local_fs = "path \<rightharpoonup> string"

text \<open>
  The failures of the operating system: creating a directory, writing (with what a failed write leaves in
  the file), reading a file that is there, looking at a path, removing a file; and the directories.
\<close>

record local_os =
  lo_mkdir :: "path \<Rightarrow> local_fs \<Rightarrow> string option"
  lo_write :: "path \<Rightarrow> string \<Rightarrow> local_fs \<Rightarrow> (string \<times> string option) option"
  lo_read :: "path \<Rightarrow> local_fs \<Rightarrow> string option"
  lo_stat :: "path \<Rightarrow> local_fs \<Rightarrow> string option"
  lo_remove :: "path \<Rightarrow> local_fs \<Rightarrow> string option"
  lo_is_dir :: "path \<Rightarrow> local_fs \<Rightarrow> bool"

definition full_path :: "string \<Rightarrow> string \<Rightarrow> (string, path) result" where
  "full_path base key =
     (if contains_str key ''..'' \<or> starts_with key ''/'' \<or> starts_with key [backslash]
      then Inl ''invalid backup key: path traversal detected''
      else let p = path_parts (path_join base key) in
        if take (length (path_parts base)) p \<noteq> path_parts base
        then Inl ''invalid backup key: resolved path outside base directory''
        else Inr p)"

definition local_put :: "local_os \<Rightarrow> string \<Rightarrow> string \<Rightarrow> string \<Rightarrow> (string, local_fs, unit) action" where
  "local_put os base key d =
     s_bind (s_check (full_path base key)) (\<lambda>p st.
       case (if p \<noteq> [] then lo_mkdir os (butlast p) st else None) of
         Some e \<Rightarrow> (Inl e, st)
       | None \<Rightarrow> (case lo_write os p d st of
            Some (e, left) \<Rightarrow> (Inl e, st(p := left))
          | None \<Rightarrow> (Inr (), st(p \<mapsto> d))))"

definition not_found :: string where
  "not_found = ''No such file or directory (os error 2)''"

definition local_get :: "local_os \<Rightarrow> string \<Rightarrow> string \<Rightarrow> (string, local_fs, string) action" where
  "local_get os base key =
     s_bind (s_check (full_path base key)) (\<lambda>p. s_get (\<lambda>st.
       case lo_read os p st of Some e \<Rightarrow> Inl e | None \<Rightarrow> ok_or (st p) not_found))"

definition try_exists :: "local_os \<Rightarrow> path \<Rightarrow> local_fs \<Rightarrow> (string, bool) result" where
  "try_exists os p st =
     (case lo_stat os p st of Some e \<Rightarrow> Inl e | None \<Rightarrow> Inr (st p \<noteq> None \<or> lo_is_dir os p st))"

definition local_delete :: "local_os \<Rightarrow> string \<Rightarrow> string \<Rightarrow> (string, local_fs, bool) action" where
  "local_delete os base key =
     s_bind (s_check (full_path base key)) (\<lambda>p st.
       if try_exists os p st = Inr True
       then (case lo_remove os p st of Some e \<Rightarrow> (Inl e, st) | None \<Rightarrow> (Inr True, st(p := None)))
       else (Inr False, st))"

definition local_exists :: "local_os \<Rightarrow> string \<Rightarrow> string \<Rightarrow> (string, local_fs, bool) action" where
  "local_exists os base key = s_bind (s_check (full_path base key)) (\<lambda>p. s_get (try_exists os p))"

definition local_backend :: "local_os \<Rightarrow> string \<Rightarrow> local_fs backup_backend" where
  "local_backend os base =
     \<lparr>bb_put = local_put os base, bb_get = local_get os base, bb_delete = local_delete os base,
      bb_exists = local_exists os base\<rparr>"

end
