(* ===== verification/Backup_Props.thy ===== *)
theory Backup_Props
  imports Backup
begin

text \<open>
  What the backup plugin promises: a backup that was created can be restored to the records it was made
  of, and retention removes the old backups and nothing else. Both are proved for any backend that keeps
  what it is given, the contract \<open>backup_store\<close>, and reach the local directory through its
  interpretation.
\<close>

section \<open>Keys\<close>

lemma backup_keys [simp]:
  "enc_key i = enc_key j \<longleftrightarrow> i = j" "manifest_key i = manifest_key j \<longleftrightarrow> i = j"
  by (simp_all add: enc_key_def manifest_key_def)

lemma enc_key_not_manifest [simp]: "enc_key i \<noteq> manifest_key j" "manifest_key j \<noteq> enc_key i"
proof -
  have "last (enc_key i) \<noteq> last (manifest_key j)" by (simp add: enc_key_def manifest_key_def)
  then show "enc_key i \<noteq> manifest_key j" "manifest_key j \<noteq> enc_key i" by metis+
qed

section \<open>The contract of a backend\<close>

locale backup_store =
  fixes be :: "'s backup_backend" and content :: "'s \<Rightarrow> string \<Rightarrow> string option" and usable :: "string \<Rightarrow> bool"
  assumes put_ok: "usable k \<Longrightarrow> usable j \<Longrightarrow> bb_put be k d st = (Inr u, st')
      \<Longrightarrow> content st' j = (if j = k then Some d else content st j)"
    and get_ok: "usable k \<Longrightarrow> content st k = Some d \<Longrightarrow> bb_get be k st = (Inr d, st)"
    and delete_ok: "usable k \<Longrightarrow> usable j \<Longrightarrow> bb_delete be k st = (Inr b, st')
      \<Longrightarrow> content st' j = (if j = k then None else content st j)"
begin

lemma stored:
  assumes "store_backup lib be draft sealed st = (Inr m, st')"
    and "usable (enc_key (bm_id draft))" "usable (manifest_key (bm_id draft))"
  shows "m = draft\<lparr>bm_compressed_size := snd sealed, bm_checksum := bl_sha256_hex lib (fst sealed)\<rparr>"
    and "content st' (enc_key (bm_id draft)) = Some (fst sealed)"
    and "\<exists>js. bl_manifest_to_vec lib m = Inr js \<and> content st' (manifest_key (bm_id draft)) = Some js"
    and "usable k \<Longrightarrow> k \<noteq> enc_key (bm_id draft) \<Longrightarrow> k \<noteq> manifest_key (bm_id draft) \<Longrightarrow> content st' k = content st k"
proof -
  obtain st1 js u1 u2 where "bb_put be (enc_key (bm_id draft)) (fst sealed) st = (Inr u1, st1)"
    and js: "bl_manifest_to_vec lib m = Inr js"
    and "bb_put be (manifest_key (bm_id draft)) js st1 = (Inr u2, st')"
    and m: "m = draft\<lparr>bm_compressed_size := snd sealed, bm_checksum := bl_sha256_hex lib (fst sealed)\<rparr>"
    using assms(1) by (auto simp: store_backup_def Let_def s_bind_ok s_check_def s_return_def)
  note puts = put_ok [OF assms(2) _ this(1)] put_ok [OF assms(3) _ this(3)]
  show "m = draft\<lparr>bm_compressed_size := snd sealed, bm_checksum := bl_sha256_hex lib (fst sealed)\<rparr>" by (fact m)
  show "content st' (enc_key (bm_id draft)) = Some (fst sealed)" using puts assms(2) by simp
  show "\<exists>js. bl_manifest_to_vec lib m = Inr js \<and> content st' (manifest_key (bm_id draft)) = Some js"
    using puts assms(3) js by simp
  show "content st' k = content st k"
    if "usable k" "k \<noteq> enc_key (bm_id draft)" "k \<noteq> manifest_key (bm_id draft)"
    using puts [OF that(1)] that(2, 3) by simp
qed

lemma restores:
  assumes "usable (enc_key i)" "usable (manifest_key i)" "content st (enc_key i) = Some payload"
    and "content st (manifest_key i) = Some js" "bl_manifest_from_slice lib js = Inr m"
    and "bm_checksum m = bl_sha256_hex lib payload"
  shows "restore_full lib be i pass p st =
    (map_sum id (\<lambda>archive. restored (bar_records archive)) (open_archive lib pass p payload), st)"
  using assms get_ok [OF assms(1, 3)] get_ok [OF assms(2, 4)]
  by (cases "open_archive lib pass p payload") (simp_all add: restore_full_def s_bind_def s_check_def s_return_def)

text \<open>The positions a pass over the sorted manifests deletes.\<close>

lemma pass_deletes:
  assumes "enforce_sorted be policy cutoff i deleted ms st = (Inr n, st')"
    and "list_all (\<lambda>m. usable (enc_key (bm_id m)) \<and> usable (manifest_key (bm_id m))) ms"
    and "usable k"
  defines "doomed \<equiv> \<lambda>j m. rp_max_count policy \<le> j \<or> (case cutoff of Some c \<Rightarrow> bm_created_at m < c | None \<Rightarrow> False)"
  shows "content st' k =
      (if \<exists>j < length ms. doomed (i + j) (ms ! j) \<and> k \<in> {enc_key (bm_id (ms ! j)), manifest_key (bm_id (ms ! j))}
       then None else content st k)
    \<and> n = deleted + card {j. j < length ms \<and> doomed (i + j) (ms ! j)}"
  using assms(1, 2)
proof (induction ms arbitrary: i deleted st)
  case Nil
  then show ?case by (simp add: s_return_def)
next
  case (Cons m ms)
  have below: "{j. j < length (m # ms) \<and> doomed (i + j) ((m # ms) ! j)} =
      (if doomed i m then {0} else {}) \<union> Suc ` {j. j < length ms \<and> doomed (Suc i + j) (ms ! j)}"
    (is "?all = ?parts")
  proof (rule set_eqI)
    fix x
    show "x \<in> ?all \<longleftrightarrow> x \<in> ?parts" by (cases x) auto
  qed
  have count: "card {j. j < length (m # ms) \<and> doomed (i + j) ((m # ms) ! j)} =
      (if doomed i m then 1 else 0) + card {j. j < length ms \<and> doomed (Suc i + j) (ms ! j)}"
    unfolding below by (subst card_Un_disjoint) (auto simp: card_image)
  let ?keys = "\<lambda>m. {enc_key (bm_id m), manifest_key (bm_id m)}"
  have split: "(\<exists>j < length (m # ms). doomed (i + j) ((m # ms) ! j) \<and> k \<in> ?keys ((m # ms) ! j)) \<longleftrightarrow>
      doomed i m \<and> k \<in> ?keys m \<or> (\<exists>j < length ms. doomed (Suc i + j) (ms ! j) \<and> k \<in> ?keys (ms ! j))"
    by (auto simp: less_Suc_eq_0_disj)
  define later where "later \<longleftrightarrow> (\<exists>j < length ms. doomed (Suc i + j) (ms ! j) \<and> k \<in> ?keys (ms ! j))"
  have rest: "list_all (\<lambda>m. usable (enc_key (bm_id m)) \<and> usable (manifest_key (bm_id m))) ms"
    using Cons.prems(2) by simp
  show ?case
  proof (cases "doomed i m")
    case True
    then obtain b1 b2 st1 st2 where d: "bb_delete be (enc_key (bm_id m)) st = (Inr b1, st1)"
      "bb_delete be (manifest_key (bm_id m)) st1 = (Inr b2, st2)"
      and r: "enforce_sorted be policy cutoff (Suc i) (Suc deleted) ms st2 = (Inr n, st')"
      using Cons.prems(1) by (auto simp: doomed_def s_bind_ok)
    from Cons.prems(2) have u: "usable (enc_key (bm_id m))" "usable (manifest_key (bm_id m))" by simp_all
    have "content st2 k = (if k \<in> {enc_key (bm_id m), manifest_key (bm_id m)} then None else content st k)"
      using delete_ok [OF u(1) assms(3) d(1)] delete_ok [OF u(2) assms(3) d(2)] by auto
    moreover note Cons.IH [OF r rest, folded later_def]
    ultimately show ?thesis unfolding count split later_def [symmetric] using True by auto
  next
    case False
    then have r: "enforce_sorted be policy cutoff (Suc i) deleted ms st = (Inr n, st')"
      using Cons.prems(1) by (auto simp: doomed_def)
    from Cons.IH [OF r rest, folded later_def] show ?thesis
      unfolding count split later_def [symmetric] using False by simp
  qed
qed

end

section \<open>The local directory keeps the contract\<close>

text \<open>A key that names a file of the directory itself, on a machine whose reads and looks succeed.\<close>

definition calm :: "local_os \<Rightarrow> bool" where
  "calm os \<longleftrightarrow> (\<forall>p st. lo_read os p st = None \<and> lo_stat os p st = None)"

definition plain_key :: "string \<Rightarrow> bool" where
  "plain_key k \<longleftrightarrow> k \<noteq> [] \<and> k \<noteq> ''.'' \<and> CHR ''/'' \<notin> set k \<and> \<not> contains_str k ''..'' \<and> \<not> starts_with k [backslash]"

definition file_at :: "string \<Rightarrow> local_fs \<Rightarrow> string \<Rightarrow> string option" where
  "file_at base st k = st (path_parts base @ [k])"

lemma path_parts_join:
  assumes "k \<noteq> []" "k \<noteq> ''.''" "CHR ''/'' \<notin> set k"
  shows "path_parts (path_join base k) = path_parts base @ [k]"
proof -
  let ?parts = "\<lambda>p. filter (\<lambda>c. c \<noteq> []) (split_on (CHR ''/'') p)"
  have k: "?parts (CHR ''/'' # k) = [k]" "?parts k = [k]" using assms by (simp_all add: split_on_absent)
  have rel: "\<not> starts_with k ''/''" using assms(3) by (auto simp: starts_with_iff)
  have "?parts (path_join base k) = ?parts base @ [k] \<and> (starts_with (path_join base k) ''/'' \<longleftrightarrow> starts_with base ''/'')"
  proof (cases "base = [] \<or> ends_with base ''/''")
    case True
    then consider "base = []" | a where "base = a @ ''/''" by (auto simp: ends_with_iff)
    then show ?thesis
    proof cases
      case 2
      then show ?thesis using rel assms split_on_append [of _ a k] split_on_append [of _ a "[]"]
        by (cases a) (auto simp: path_join_def ends_with_iff starts_with_iff split_on_absent)
    qed (use rel k in \<open>simp add: path_join_def starts_with_iff\<close>)
  next
    case False
    then show ?thesis using rel assms split_on_append [of _ base k]
      by (cases base) (auto simp: path_join_def starts_with_iff split_on_absent)
  qed
  then show ?thesis using assms(2) by (cases "?parts base") (auto simp: path_parts_def Let_def)
qed

lemma full_path_plain: "plain_key k \<Longrightarrow> full_path base k = Inr (path_parts base @ [k])"
  by (auto simp: plain_key_def full_path_def path_parts_join starts_with_iff)

interpretation local_dir: backup_store "local_backend os base" "file_at base" "\<lambda>k. calm os \<and> plain_key k" for os base
proof
  fix k j d st st' and u :: unit
  assume "calm os \<and> plain_key k" "calm os \<and> plain_key j" "bb_put (local_backend os base) k d st = (Inr u, st')"
  then show "file_at base st' j = (if j = k then Some d else file_at base st j)"
    by (auto simp: local_backend_def local_put_def full_path_plain file_at_def split: option.splits prod.splits)
next
  fix k d st
  assume "calm os \<and> plain_key k" "file_at base st k = Some d"
  then show "bb_get (local_backend os base) k st = (Inr d, st)"
    by (simp add: local_backend_def local_get_def full_path_plain file_at_def calm_def s_get_def ok_or_def)
next
  fix k j b st st'
  assume "calm os \<and> plain_key k" "calm os \<and> plain_key j" "bb_delete (local_backend os base) k st = (Inr b, st')"
  then show "file_at base st' j = (if j = k then None else file_at base st j)"
    by (auto simp: local_backend_def local_delete_def full_path_plain file_at_def calm_def try_exists_def
        split: option.splits if_splits)
qed

text \<open>Identifiers as the engine forms them make plain keys.\<close>

definition id_text :: "string \<Rightarrow> bool" where
  "id_text i \<longleftrightarrow> i \<noteq> [] \<and> CHR ''/'' \<notin> set i \<and> CHR ''.'' \<notin> set i \<and> hd i \<noteq> backslash"

lemma no_dots: "CHR ''.'' \<notin> set s \<Longrightarrow> contains_str (s @ t) ''..'' = contains_str t ''..''"
  by (induction s) (auto simp: starts_with_iff)

lemma plain_ids:
  assumes "id_text i"
  shows "plain_key (enc_key i)" "plain_key (manifest_key i)"
proof -
  have "\<not> contains_str (enc_key i) ''..''" "\<not> contains_str (manifest_key i) ''..''"
    using assms by (simp_all add: id_text_def enc_key_def manifest_key_def no_dots starts_with_def)
  then show "plain_key (enc_key i)" "plain_key (manifest_key i)"
    using assms by (cases i; simp add: id_text_def plain_key_def enc_key_def manifest_key_def starts_with_def)+
qed

section \<open>A created backup restores\<close>

text \<open>Documented behaviour of serde and flate2: what was written reads back.\<close>

definition backup_lib_correct :: "backup_lib \<Rightarrow> bool" where
  "backup_lib_correct lib \<longleftrightarrow> aead_correct (bl_crypto lib) \<and>
     (\<forall>a js. bl_archive_to_vec lib a = Inr js \<longrightarrow> bl_archive_from_slice lib js = Inr a) \<and>
     (\<forall>m js. bl_manifest_to_vec lib m = Inr js \<longrightarrow> bl_manifest_from_slice lib js = Inr m) \<and>
     (\<forall>d c. bl_gzip lib d = Inr c \<longrightarrow> bl_gunzip lib c = (d, None))"

lemma opened:
  assumes "backup_lib_correct lib" "length (bd_salt d) = salt_length" "length (bd_nonce d) = nonce_size"
    and "seal_archive lib d pass p archive = Inr (payload, len)"
  shows "\<exists>js. bl_archive_to_vec lib archive = Inr js \<and>
    open_archive lib pass p payload = (if length js \<le> max_decompressed_size then Inr archive else Inl bomb_error)"
proof -
  obtain js c key enc where js: "bl_archive_to_vec lib archive = Inr js" and c: "bl_gzip lib js = Inr c"
    and key: "backup_derive_key lib pass (bd_salt d) p = Inr key" "length key = key_length"
    and enc: "encrypt (bl_crypto lib) (bd_nonce d) key c = Inr enc" and payload: "payload = bd_salt d @ enc"
    using assms(4) by (auto simp: seal_archive_def backup_encrypt_def r_bind_eq_Inr map_err_eq_Inr split: if_splits)
  have "decrypt (bl_crypto lib) key enc = Inr c"
    using decrypt_encrypt [OF _ assms(3) enc] assms(1) by (simp add: backup_lib_correct_def)
  then show ?thesis
    using assms(1, 2) js c key payload
    by (simp add: open_archive_def backup_decrypt_def decompress_def backup_lib_correct_def map_err_def)
qed

lemma created:
  assumes "create_full_backup lib d be recs pass p st = (Inr m, st')"
  shows "\<exists>sealed. seal_archive lib d pass p \<lparr>bar_manifest = full_manifest lib d recs, bar_records = recs\<rparr> = Inr sealed \<and>
    store_backup lib be (full_manifest lib d recs) sealed st = (Inr m, st')"
  using assms by (auto simp: create_full_backup_def Let_def s_bind_ok s_check_def)

lemma record_counts_spec:
  "map_of (record_counts recs) c =
     (let n = length (filter (\<lambda>r. br_collection r = c) recs) in if n = 0 then None else Some n)"
proof -
  have "map_of (fold count_collection recs al) c =
    (let n = length (filter (\<lambda>r. br_collection r = c) recs) in
     if n = 0 then map_of al c else Some (case map_of al c of None \<Rightarrow> n | Some k \<Rightarrow> k + n))" for al
    by (induction recs arbitrary: al)
      (auto simp: count_collection_def map_of_map_default Let_def split: option.splits)
  then show ?thesis by (simp add: record_counts_def Let_def)
qed

text \<open>
  C11: a full backup of the records, once created in a local directory, restores to exactly these records
  in their order, under the same passphrase and parameters: the checksum agrees, the salt and the
  nonce are found in the payload, the counts reported are the number of records of every collection and
  nothing else in the directory has changed. The one exception is an archive whose JSON text is
  longer than 256 MiB: it is created without an error and can never be restored.
\<close>

theorem backup_restores:
  assumes "backup_lib_correct lib" "length (bd_salt d) = salt_length" "length (bd_nonce d) = nonce_size"
    and "id_text (''full-'' @ bl_format lib (bd_now d))" "calm os"
    and "create_full_backup lib d (local_backend os base) recs pass p st = (Inr m, st')"
  shows "\<exists>js. bl_archive_to_vec lib \<lparr>bar_manifest = full_manifest lib d recs, bar_records = recs\<rparr> = Inr js \<and>
     restore_full lib (local_backend os base) (bm_id m) pass p st' =
       (if length js \<le> max_decompressed_size
        then (Inr (recs, \<lparr>rr_records_restored = record_counts recs, rr_total_restored = length recs,
                rr_integrity_verified = True\<rparr>), st')
        else (Inl bomb_error, st')) \<and>
     (\<forall>c. map_of (record_counts recs) c =
        (let n = length (filter (\<lambda>r. br_collection r = c) recs) in if n = 0 then None else Some n)) \<and>
     (\<forall>k. plain_key k \<longrightarrow> k \<noteq> enc_key (bm_id m) \<longrightarrow> k \<noteq> manifest_key (bm_id m) \<longrightarrow>
        file_at base st' k = file_at base st k)"
proof -
  let ?draft = "full_manifest lib d recs"
  obtain payload len where s: "seal_archive lib d pass p \<lparr>bar_manifest = ?draft, bar_records = recs\<rparr> = Inr (payload, len)"
    and st: "store_backup lib (local_backend os base) ?draft (payload, len) st = (Inr m, st')"
    using created [OF assms(6)] by auto
  have i: "bm_id ?draft = ''full-'' @ bl_format lib (bd_now d)" by (simp add: full_manifest_def)
  have plain: "calm os \<and> plain_key (enc_key (bm_id ?draft))" "calm os \<and> plain_key (manifest_key (bm_id ?draft))"
    using plain_ids [OF assms(4)] assms(5) by (simp_all only: i simp_thms)
  note stored = local_dir.stored [OF st plain]
  from stored(3) obtain mjs where mjs: "bl_manifest_to_vec lib m = Inr mjs"
    "file_at base st' (manifest_key (bm_id ?draft)) = Some mjs" by blast
  have "bl_manifest_from_slice lib mjs = Inr m" using assms(1) mjs(1) by (simp add: backup_lib_correct_def)
  note restores = local_dir.restores [OF plain stored(2) [simplified] mjs(2) this]
  obtain js where js: "bl_archive_to_vec lib \<lparr>bar_manifest = ?draft, bar_records = recs\<rparr> = Inr js"
    "open_archive lib pass p payload = (if length js \<le> max_decompressed_size
       then Inr \<lparr>bar_manifest = ?draft, bar_records = recs\<rparr> else Inl bomb_error)"
    using opened [OF assms(1-3) s] by blast
  have m: "bm_id m = bm_id ?draft" "bm_checksum m = bl_sha256_hex lib payload" using stored(1) by simp_all
  have "restore_full lib (local_backend os base) (bm_id m) pass p st' =
       (if length js \<le> max_decompressed_size then (Inr (restored recs), st') else (Inl bomb_error, st'))"
    unfolding m(1) restores [OF m(2)] js(2) by simp
  then show ?thesis using js(1) stored(4) assms(5) by (simp add: restored_def record_counts_spec m(1))
qed

text \<open>A closed instance: one record in one collection, on a machine without failures.\<close>

definition quiet_os :: local_os where
  "quiet_os = \<lparr>lo_mkdir = (\<lambda>_ _. None), lo_write = (\<lambda>_ _ _. None), lo_read = (\<lambda>_ _. None), lo_stat = (\<lambda>_ _. None),
     lo_remove = (\<lambda>_ _. None), lo_is_dir = (\<lambda>_ _. False)\<rparr>"

definition sample_record :: backup_record where
  "sample_record = \<lparr>br_id = ''rec-1'', br_plugin_id = ''todos'', br_collection = ''tasks'', br_data = JNull,
     br_version = 1, br_user_id = None, br_household_id = None, br_created_at = 0, br_updated_at = 0\<rparr>"

definition sample_manifest :: backup_manifest where
  "sample_manifest = \<lparr>bm_id = ''full-20260322'', bm_created_at = 7, bm_backup_type = FullBackup,
     bm_collections = [''tasks''], bm_record_counts = [(''tasks'', 1)], bm_compressed_size = 0,
     bm_checksum = [], bm_parent_id = None, bm_cursor = Some ''2026''\<rparr>"

definition sample_final :: backup_manifest where
  "sample_final = sample_manifest\<lparr>bm_compressed_size := 7, bm_checksum := ''sum''\<rparr>"

definition sample_archive :: backup_archive where
  "sample_archive = \<lparr>bar_manifest = sample_manifest, bar_records = [sample_record]\<rparr>"

definition sample_backup_lib :: backup_lib where
  "sample_backup_lib =
     \<lparr>bl_crypto = sample_lib,
      bl_archive_to_vec = (\<lambda>a. if a = sample_archive then Inr ''archive'' else Inl ''unsupported''),
      bl_archive_from_slice = (\<lambda>b. if b = ''archive'' then Inr sample_archive else Inl ''unsupported''),
      bl_manifest_to_vec = (\<lambda>m. if m = sample_final then Inr ''manifest'' else Inl ''unsupported''),
      bl_manifest_from_slice = (\<lambda>b. if b = ''manifest'' then Inr sample_final else Inl ''unsupported''),
      bl_gzip = Inr, bl_gunzip = (\<lambda>c. (c, None)), bl_sha256_hex = (\<lambda>_. ''sum''),
      bl_format = (\<lambda>_. ''20260322''), bl_rfc3339 = (\<lambda>_. ''2026''), bl_hash_order = (\<lambda>cs. cs)\<rparr>"

definition sample_draw :: backup_draw where
  "sample_draw = \<lparr>bd_now = 7, bd_salt = ''sixteen byte str'', bd_nonce = ''twelve bytes''\<rparr>"

lemma sample_backup_lib_correct: "backup_lib_correct sample_backup_lib"
  using sample_lib_laws(1) by (simp add: backup_lib_correct_def sample_backup_lib_def split: if_splits)

lemma sample_full_manifest: "full_manifest sample_backup_lib sample_draw [sample_record] = sample_manifest"
  by (simp add: full_manifest_def sample_backup_lib_def sample_draw_def sample_manifest_def seen_collections_def
      record_counts_def count_collection_def sample_record_def)

lemma sample_archive_text: "bl_archive_to_vec sample_backup_lib sample_archive = Inr ''archive''"
  by (simp add: sample_backup_lib_def)

theorem backup_restores_witness:
  "\<exists>m st'. create_full_backup sample_backup_lib sample_draw (local_backend quiet_os ''/b'') [sample_record]
       ''a 16 byte phrase'' default_backup_argon2 Map.empty = (Inr m, st') \<and>
     restore_full sample_backup_lib (local_backend quiet_os ''/b'') (bm_id m) ''a 16 byte phrase'' default_backup_argon2 st' =
       (Inr ([sample_record], \<lparr>rr_records_restored = [(''tasks'', 1)], rr_total_restored = 1,
          rr_integrity_verified = True\<rparr>), st')"
proof -
  let ?lib = sample_backup_lib and ?be = "local_backend quiet_os ''/b''"
  have i: "id_text ''full-20260322''" by (simp add: id_text_def)
  have "\<exists>payload. seal_archive ?lib sample_draw ''a 16 byte phrase'' default_backup_argon2 sample_archive = Inr (payload, 7)"
    by (simp add: seal_archive_def backup_derive_key_def backup_encrypt_def encrypt_def sample_backup_lib_def
        sample_lib_def sample_draw_def key_length_def)
  moreover have "\<exists>m st'. store_backup ?lib ?be sample_manifest (payload, 7) Map.empty = (Inr m, st')" for payload
    using plain_ids [OF i]
    by (simp add: store_backup_def s_bind_def s_check_def s_return_def sample_backup_lib_def sample_final_def
        local_backend_def local_put_def quiet_os_def full_path_plain)
      (simp add: sample_manifest_def full_path_plain s_bind_def s_check_def s_return_def)
  ultimately have "\<exists>m st'. create_full_backup ?lib sample_draw ?be [sample_record] ''a 16 byte phrase''
      default_backup_argon2 Map.empty = (Inr m, st')"
    unfolding create_full_backup_def Let_def sample_full_manifest sample_archive_def [symmetric] by auto
  then obtain m st' where c: "create_full_backup ?lib sample_draw ?be [sample_record] ''a 16 byte phrase''
      default_backup_argon2 Map.empty = (Inr m, st')" by blast
  have "length (bd_salt sample_draw) = salt_length" "length (bd_nonce sample_draw) = nonce_size"
    "id_text (''full-'' @ bl_format ?lib (bd_now sample_draw))" "calm quiet_os"
    using i by (simp_all add: sample_draw_def salt_length_def nonce_size_def sample_backup_lib_def calm_def quiet_os_def)
  from backup_restores [OF sample_backup_lib_correct this c, unfolded sample_full_manifest
      sample_archive_def [symmetric] sample_archive_text]
  have "restore_full ?lib ?be (bm_id m) ''a 16 byte phrase'' default_backup_argon2 st' =
       (Inr ([sample_record], \<lparr>rr_records_restored = record_counts [sample_record], rr_total_restored = 1,
          rr_integrity_verified = True\<rparr>), st')"
    by (simp add: max_decompressed_size_def)
  with c show ?thesis by (auto simp: record_counts_def count_collection_def sample_record_def)
qed

section \<open>Retention\<close>

interpretation newest: strict_weak_order newest_first
  by unfold_locales (auto simp: newest_first_def)

text \<open>What the policy keeps, without an order: fewer than \<open>max_count\<close> backups are newer, and it is not too old.\<close>

definition kept_by :: "retention_policy \<Rightarrow> int \<Rightarrow> backup_manifest list \<Rightarrow> backup_manifest \<Rightarrow> bool" where
  "kept_by policy now ms m \<longleftrightarrow>
     length (filter (\<lambda>x. bm_created_at m < bm_created_at x) ms) < rp_max_count policy \<and>
     (case rp_retention_days policy of Some days \<Rightarrow> now - int days * nanos_per_day \<le> bm_created_at m | None \<Rightarrow> True)"

lemma strictly_sorted:
  assumes "sorted_wrt (\<lambda>a b. \<not> newest_first b a) xs" "distinct (map bm_created_at xs)"
  shows "sorted_wrt (\<lambda>a b. bm_created_at b < bm_created_at a) xs"
  using assms
proof (induction xs)
  case (Cons x xs)
  have "bm_created_at y < bm_created_at x" if "y \<in> set xs" for y
  proof -
    have "bm_created_at y \<noteq> bm_created_at x" using Cons.prems(2) that by (metis distinct.simps(2) image_eqI list.set_map list.simps(9))
    moreover have "\<not> newest_first y x" using Cons.prems(1) that by simp
    ultimately show ?thesis by (simp add: newest_first_def)
  qed
  then show ?case using Cons by simp
qed simp

lemma newest_sorted:
  assumes "distinct (map bm_created_at ms)"
  shows "sorted_wrt (\<lambda>a b. bm_created_at b < bm_created_at a) (sort_by newest_first ms)"
proof (rule strictly_sorted [OF newest.sorted_sort_by])
  have "mset (map bm_created_at (sort_by newest_first ms)) = mset (map bm_created_at ms)" by simp
  with assms show "distinct (map bm_created_at (sort_by newest_first ms))" by (metis mset_eq_imp_distinct_iff)
qed

lemma position_newer:
  assumes "sorted_wrt (\<lambda>a b. bm_created_at b < bm_created_at a) xs" "j < length xs"
  shows "length (filter (\<lambda>x. bm_created_at (xs ! j) < bm_created_at x) xs) = j"
  using assms
proof (induction xs arbitrary: j)
  case (Cons x xs)
  show ?case
  proof (cases j)
    case 0
    then show ?thesis using Cons.prems by (fastforce simp: filter_empty_conv)
  next
    case (Suc i)
    then show ?thesis using Cons by auto
  qed
qed simp

lemma kept_position:
  assumes "distinct (map bm_created_at ms)" "j < length ms"
  defines "xs \<equiv> sort_by newest_first ms"
  shows "kept_by policy now ms (xs ! j) \<longleftrightarrow>
    \<not> (rp_max_count policy \<le> 0 + j \<or>
       (case age_cutoff policy now of Some c \<Rightarrow> bm_created_at (xs ! j) < c | None \<Rightarrow> False))"
proof -
  have len: "length xs = length ms" by (metis mset_sort_by size_mset xs_def)
  have "mset (filter P xs) = mset (filter P ms)" for P by (simp add: xs_def)
  then have "length (filter P ms) = length (filter P xs)" for P by (metis size_mset)
  moreover have "length (filter (\<lambda>x. bm_created_at (xs ! j) < bm_created_at x) xs) = j"
    using position_newer [OF newest_sorted [OF assms(1)]] assms(2) len by (simp add: xs_def)
  ultimately show ?thesis by (auto simp: kept_by_def age_cutoff_def split: option.splits)
qed

text \<open>
  C24: enforcing a retention policy in a local directory deletes exactly the backups the policy does not
  keep. Of the manifests given (with distinct identifiers and instants, in any order), a backup keeps
  its archive and its manifest when fewer than \<open>max_count\<close> of them are newer and it is within
  \<open>retention_days\<close>; of every other backup both files are gone; the number returned is the number of
  the deleted backups; and no other file of the directory changes.
\<close>

theorem retention_exact:
  assumes "distinct (map bm_created_at ms)" "distinct (map bm_id ms)" "list_all (\<lambda>m. id_text (bm_id m)) ms" "calm os"
    and "enforce_retention (local_backend os base) now ms policy st = (Inr n, st')"
  shows "(\<forall>m \<in> set ms. \<forall>k \<in> {enc_key (bm_id m), manifest_key (bm_id m)}.
       file_at base st' k = (if kept_by policy now ms m then file_at base st k else None)) \<and>
     n = length (filter (\<lambda>m. \<not> kept_by policy now ms m) ms) \<and>
     (\<forall>k. plain_key k \<and> (\<forall>m \<in> set ms. k \<noteq> enc_key (bm_id m) \<and> k \<noteq> manifest_key (bm_id m)) \<longrightarrow>
        file_at base st' k = file_at base st k)"
proof -
  define xs where "xs = sort_by newest_first ms"
  have mset: "mset xs = mset ms" and set: "set xs = set ms" by (simp_all add: xs_def)
  then have len: "length xs = length ms" by (metis size_mset)
  have ids: "distinct (map bm_id xs)" using assms(2) mset by (metis mset_eq_imp_distinct_iff mset_map)
  have usable: "list_all (\<lambda>m. (calm os \<and> plain_key (enc_key (bm_id m))) \<and> (calm os \<and> plain_key (manifest_key (bm_id m)))) xs"
    using assms(3, 4) plain_ids by (simp add: list_all_iff set)
  let ?gone = "\<lambda>m. \<not> kept_by policy now ms m"
  note kept = kept_position [OF assms(1), folded xs_def]
  note pass = local_dir.pass_deletes [OF assms(5) [unfolded enforce_retention_def, folded xs_def] usable]
  have files: "file_at base st' k =
      (if \<exists>m \<in> set xs. ?gone m \<and> k \<in> {enc_key (bm_id m), manifest_key (bm_id m)} then None else file_at base st k)"
    if "plain_key k" for k
  proof -
    have "(\<exists>j < length xs. ?gone (xs ! j) \<and> k \<in> {enc_key (bm_id (xs ! j)), manifest_key (bm_id (xs ! j))}) \<longleftrightarrow>
      (\<exists>m \<in> set xs. ?gone m \<and> k \<in> {enc_key (bm_id m), manifest_key (bm_id m)})"
      by (metis in_set_conv_nth)
    then show ?thesis using pass [of k] that assms(4) kept len by (simp cong: conj_cong)
  qed
  have "calm os \<and> plain_key ''x''" using assms(4) by (simp add: plain_key_def starts_with_def)
  note conjunct2 [OF pass [OF this]]
  moreover have "j < length xs \<and> (rp_max_count policy \<le> 0 + j \<or>
      (case age_cutoff policy now of Some c \<Rightarrow> bm_created_at (xs ! j) < c | None \<Rightarrow> False)) \<longleftrightarrow>
      j < length xs \<and> ?gone (xs ! j)" for j
    unfolding len using kept [of j policy now] by (cases "j < length ms") simp_all
  ultimately have "n = card {j. j < length xs \<and> ?gone (xs ! j)}" by (simp only: add_0)
  then have "n = length (filter ?gone xs)" unfolding length_filter_conv_card .
  moreover have "mset (filter ?gone xs) = mset (filter ?gone ms)" by (simp only: mset_filter mset)
  ultimately have count: "n = length (filter ?gone ms)" using size_mset by metis
  have same: "m' = m" if "m \<in> set xs" "m' \<in> set xs" "bm_id m' = bm_id m" for m m'
    using inj_onD [OF conjunct2 [OF ids [unfolded distinct_map]], of m' m] that by blast
  have "file_at base st' k = (if kept_by policy now ms m then file_at base st k else None)"
    if m: "m \<in> set ms" and k: "k \<in> {enc_key (bm_id m), manifest_key (bm_id m)}" for m k
  proof -
    have "(\<exists>m' \<in> set xs. ?gone m' \<and> k \<in> {enc_key (bm_id m'), manifest_key (bm_id m')}) \<longleftrightarrow> ?gone m"
    proof
      assume "\<exists>m' \<in> set xs. ?gone m' \<and> k \<in> {enc_key (bm_id m'), manifest_key (bm_id m')}"
      then obtain m' where m': "m' \<in> set xs" "?gone m'" "k \<in> {enc_key (bm_id m'), manifest_key (bm_id m')}" by blast
      with k have "bm_id m' = bm_id m" by auto
      then show "?gone m" using m' m same set by metis
    next
      assume "?gone m"
      then show "\<exists>m' \<in> set xs. ?gone m' \<and> k \<in> {enc_key (bm_id m'), manifest_key (bm_id m')}" using k m set by blast
    qed
    moreover have "plain_key k" using k usable m set by (auto simp: list_all_iff)
    ultimately show ?thesis using files [of k] by (simp only:) simp
  qed
  moreover have "file_at base st' k = file_at base st k"
    if "plain_key k" "\<forall>m \<in> set ms. k \<noteq> enc_key (bm_id m) \<and> k \<noteq> manifest_key (bm_id m)" for k
  proof -
    have "\<not> (\<exists>m \<in> set xs. ?gone m \<and> k \<in> {enc_key (bm_id m), manifest_key (bm_id m)})"
      using that(2) by (simp add: set)
    then show ?thesis using files [OF that(1)] by (simp only: if_False)
  qed
  ultimately show ?thesis using count by blast
qed

definition stamped :: "string \<Rightarrow> int \<Rightarrow> backup_manifest" where
  "stamped i t = sample_manifest\<lparr>bm_id := i, bm_created_at := t\<rparr>"

theorem retention_exact_witness:
  "let ms = [stamped ''full-1'' 10, stamped ''full-3'' 30, stamped ''full-2'' 20];
       st = [path_parts ''/b'' @ [enc_key ''full-1''] \<mapsto> ''a'', path_parts ''/b'' @ [enc_key ''full-3''] \<mapsto> ''c''];
       r = enforce_retention (local_backend quiet_os ''/b'') 0 ms \<lparr>rp_max_count = 2, rp_retention_days = None\<rparr> st
   in fst r = Inr 1 \<and> file_at ''/b'' (snd r) (enc_key ''full-1'') = None \<and>
      file_at ''/b'' (snd r) (enc_key ''full-3'') = Some ''c''"
proof -
  let ?ms = "[stamped ''full-1'' 10, stamped ''full-3'' 30, stamped ''full-2'' 20]"
  let ?policy = "\<lparr>rp_max_count = 2, rp_retention_days = None\<rparr>"
  let ?st = "[path_parts ''/b'' @ [enc_key ''full-1''] \<mapsto> ''a'', path_parts ''/b'' @ [enc_key ''full-3''] \<mapsto> ''c'']"
  have ids: "distinct (map bm_created_at ?ms)" "distinct (map bm_id ?ms)" "list_all (\<lambda>m. id_text (bm_id m)) ?ms"
    by (simp_all add: stamped_def id_text_def)
  have calm: "calm quiet_os" by (simp add: calm_def quiet_os_def)
  have "plain_key (enc_key ''full-1'')" "plain_key (manifest_key ''full-1'')"
    by (rule plain_ids; simp add: id_text_def)+
  then obtain n st' where r: "enforce_retention (local_backend quiet_os ''/b'') 0 ?ms ?policy ?st = (Inr n, st')"
    by (simp add: enforce_retention_def sort_by_simps newest_first_def stamped_def age_cutoff_def
        local_backend_def local_delete_def full_path_plain quiet_os_def try_exists_def s_bind_def s_check_def s_return_def
        split: if_splits)
  have "file_at ''/b'' st' (enc_key ''full-1'') = None \<and> file_at ''/b'' st' (enc_key ''full-3'') = Some ''c'' \<and> n = 1"
    using retention_exact [OF ids calm r] by (simp add: kept_by_def stamped_def file_at_def)
  with r show ?thesis by simp
qed

end
