(* ===== verification/Vcard.thy ===== *)
theory Vcard
  imports Json
begin

text \<open>
  Contacts as vCards: the text utilities of \<open>packages/dav-utils/src/text.rs\<close> and \<open>vcard.rs\<close>, the canonical contact
  of \<open>packages/types/src/contacts.rs\<close> and the CardDAV serialiser \<open>plugins/engine/api-carddav/src/serializer.rs\<close>,
  line folding included. Texts are UTF-8 bytes; \<open>utf8_chars\<close> gives their characters. The Unicode case
  tables, the revision format and fresh UUIDs are the fields of \<open>vcard_lib\<close>.
\<close>

section \<open>Characters and lines of a text\<close>

abbreviation cr :: char where "cr \<equiv> CHR 0x0D"
abbreviation lf :: char where "lf \<equiv> CHR 0x0A"
abbreviation tab :: char where "tab \<equiv> CHR 0x09"

definition is_continuation :: "char \<Rightarrow> bool" where
  "is_continuation c \<longleftrightarrow> 128 \<le> (of_char c :: nat) \<and> (of_char c :: nat) < 192"

fun utf8_chars :: "string \<Rightarrow> string list" where
  "utf8_chars [] = []"
| "utf8_chars (b # s) =
     (if s \<noteq> [] \<and> is_continuation (hd s)
      then (case utf8_chars s of g # gs \<Rightarrow> (b # g) # gs | [] \<Rightarrow> [[b]])
      else [b] # utf8_chars s)"

definition is_whitespace :: "string \<Rightarrow> bool" where
  "is_whitespace g \<longleftrightarrow> g \<noteq> [] \<and> ws_prefix g = length g"

definition trim :: "string \<Rightarrow> string" where
  "trim s = concat (rev (dropWhile is_whitespace (rev (dropWhile is_whitespace (utf8_chars s)))))"

fun replace_crlf :: "string \<Rightarrow> string" where
  "replace_crlf (a # b # s) = (if a = cr \<and> b = lf then lf # replace_crlf s else a # replace_crlf (b # s))"
| "replace_crlf s = s"

text \<open>\<open>str::lines\<close>: an unterminated last line keeps its carriage return, an empty one does not exist.\<close>

definition strip_cr :: "string \<Rightarrow> string" where
  "strip_cr l = (if ends_with l [cr] then butlast l else l)"

definition str_lines :: "string \<Rightarrow> string list" where
  "str_lines s =
     (let ps = split_on lf s in
      map strip_cr (butlast ps) @ (if last ps = [] then [] else [last ps]))"

text \<open>\<open>str::split_once\<close> on a character.\<close>

definition split_once :: "char \<Rightarrow> string \<Rightarrow> (string \<times> string) option" where
  "split_once c s = (case splitn2 c s of [a, b] \<Rightarrow> Some (a, b) | _ \<Rightarrow> None)"

definition eq_ignore_ascii_case :: "string \<Rightarrow> string \<Rightarrow> bool" where
  "eq_ignore_ascii_case a b \<longleftrightarrow> map ascii_upper a = map ascii_upper b"

section \<open>Text utilities (\<open>dav-utils/src/text.rs\<close>, \<open>vcard.rs\<close>)\<close>

definition unfold_line :: "string \<Rightarrow> string \<Rightarrow> string" where
  "unfold_line line result =
     (if starts_with line '' '' \<or> starts_with line [tab] then result @ tl line
      else (if result = [] then [] else result @ [lf]) @ line)"

definition unfold_lines :: "string \<Rightarrow> string" where
  "unfold_lines raw = fold unfold_line (str_lines (replace_char cr [lf] (replace_crlf raw))) []"

fun decode_escaped_value :: "string \<Rightarrow> string" where
  "decode_escaped_value [] = []"
| "decode_escaped_value [c] = [c]"
| "decode_escaped_value (c # d # s) =
     (if c = backslash then
        (if d = CHR ''n'' then lf # decode_escaped_value s
         else if d = CHR '','' \<or> d = CHR '';'' \<or> d = backslash then d # decode_escaped_value s
         else backslash # decode_escaped_value (d # s))
      else c # decode_escaped_value (d # s))"

definition non_empty :: "string \<Rightarrow> string option" where
  "non_empty s = (let t = trim s in if t = [] then None else Some (decode_escaped_value t))"

definition escape_value :: "string \<Rightarrow> string" where
  "escape_value s =
     replace_char lf [backslash, CHR ''n''] (replace_char (CHR '';'') [backslash, CHR '';'']
       (replace_char (CHR '','') [backslash, CHR '','']
         (replace_char backslash [backslash, backslash] s)))"

section \<open>Contacts (\<open>types/src/contacts.rs\<close>)\<close>

datatype contact_info_type = InfoHome | InfoWork | InfoOther

datatype phone_type = PhoneMobile | PhoneHome | PhoneWork | PhoneFax | PhoneOther

record contact_name =
  cn_given :: string
  cn_family :: string
  cn_prefix :: "string option"
  cn_suffix :: "string option"
  cn_middle :: "string option"

record contact_email =
  ce_address :: string
  ce_email_type :: "contact_info_type option"
  ce_primary :: "bool option"

record contact_phone =
  ct_number :: string
  ct_phone_type :: "phone_type option"
  ct_primary :: "bool option"

record contact_address =
  ca_street :: "string option"
  ca_city :: "string option"
  ca_region :: "string option"
  ca_postal_code :: "string option"
  ca_country :: "string option"
  ca_address_type :: "contact_info_type option"

record contact =
  co_id :: string
  co_name :: contact_name
  co_emails :: "contact_email list"
  co_phones :: "contact_phone list"
  co_addresses :: "contact_address list"
  co_organization :: "string option"
  co_title :: "string option"
  co_birthday :: "int option"
  co_photo_url :: "string option"
  co_notes :: "string option"
  co_groups :: "string list"
  co_source :: string
  co_source_id :: string
  co_extensions :: "json option"
  co_created_at :: int
  co_updated_at :: int

section \<open>Serialisation (\<open>serializer.rs\<close>)\<close>

record vcard_lib =
  vl_upper :: "string \<Rightarrow> string"
  vl_lower :: "string \<Rightarrow> string"
  vl_format_rev :: "int \<Rightarrow> string"
  vl_uid :: string
  vl_id :: string
  vl_now :: int

fun contact_info_type_to_vcard :: "contact_info_type \<Rightarrow> string" where
  "contact_info_type_to_vcard InfoHome = ''HOME''"
| "contact_info_type_to_vcard InfoWork = ''WORK''"
| "contact_info_type_to_vcard InfoOther = ''OTHER''"

fun phone_type_to_vcard :: "phone_type \<Rightarrow> string" where
  "phone_type_to_vcard PhoneMobile = ''CELL''"
| "phone_type_to_vcard PhoneHome = ''HOME''"
| "phone_type_to_vcard PhoneWork = ''WORK''"
| "phone_type_to_vcard PhoneFax = ''FAX''"
| "phone_type_to_vcard PhoneOther = ''OTHER''"

definition parse_contact_info_type :: "string \<Rightarrow> contact_info_type" where
  "parse_contact_info_type s = (if s = ''home'' then InfoHome else if s = ''work'' then InfoWork else InfoOther)"

definition parse_phone_type :: "string \<Rightarrow> phone_type" where
  "parse_phone_type s =
     (if s = ''mobile'' \<or> s = ''cell'' then PhoneMobile else if s = ''home'' then PhoneHome
      else if s = ''work'' then PhoneWork else if s = ''fax'' then PhoneFax else PhoneOther)"

definition opt_list :: "'a option \<Rightarrow> 'a list" where
  "opt_list x = (case x of Some a \<Rightarrow> [a] | None \<Rightarrow> [])"

definition or_empty :: "string option \<Rightarrow> string" where
  "or_empty x = (case x of Some s \<Rightarrow> s | None \<Rightarrow> [])"

definition display_name :: "contact_name \<Rightarrow> string" where
  "display_name n =
     join '' '' (opt_list (cn_prefix n) @ [cn_given n] @ opt_list (cn_middle n) @ [cn_family n] @ opt_list (cn_suffix n))"

definition name_line :: "contact_name \<Rightarrow> string" where
  "name_line n =
     ''N:'' @ join '';'' (map escape_value
       [cn_family n, cn_given n, or_empty (cn_middle n), or_empty (cn_prefix n), or_empty (cn_suffix n)])"

definition email_line :: "contact_email \<Rightarrow> string" where
  "email_line e =
     ''EMAIL'' @ (case ce_email_type e of Some t \<Rightarrow> '';TYPE='' @ contact_info_type_to_vcard t | None \<Rightarrow> [])
       @ (if ce_primary e = Some True then '';PREF=1'' else []) @ '':'' @ ce_address e"

definition phone_line :: "contact_phone \<Rightarrow> string" where
  "phone_line p =
     ''TEL'' @ (case ct_phone_type p of Some t \<Rightarrow> '';TYPE='' @ phone_type_to_vcard t | None \<Rightarrow> [])
       @ '':'' @ ct_number p"

definition address_line :: "contact_address \<Rightarrow> string" where
  "address_line a =
     ''ADR:'' @ join '';'' [[], [], or_empty (ca_street a), or_empty (ca_city a), or_empty (ca_region a),
       or_empty (ca_postal_code a), or_empty (ca_country a)]"

definition vcard_lines :: "vcard_lib \<Rightarrow> contact \<Rightarrow> string list" where
  "vcard_lines lib c =
     [''BEGIN:VCARD'', ''VERSION:4.0'', ''UID:'' @ co_source_id c,
      ''FN:'' @ escape_value (display_name (co_name c)), name_line (co_name c)]
     @ map email_line (co_emails c) @ map phone_line (co_phones c) @ map address_line (co_addresses c)
     @ map (\<lambda>org. ''ORG:'' @ escape_value org) (opt_list (co_organization c))
     @ [''REV:'' @ vl_format_rev lib (co_updated_at c), ''END:VCARD'']"

text \<open>The loop over the characters of a long line: the chunk being filled, and whether it is the first.\<close>

fun fold_chars :: "bool \<Rightarrow> string \<Rightarrow> string list \<Rightarrow> string" where
  "fold_chars first chunk [] =
     (if chunk = [] then [] else (if first then [] else [cr, lf, CHR '' '']) @ chunk)"
| "fold_chars first chunk (ch # chs) =
     (if (if first then 75 else 74) < length chunk + length ch
      then (if first then [] else [cr, lf, CHR '' '']) @ chunk @ fold_chars False ch chs
      else fold_chars first (chunk @ ch) chs)"

definition fold_line :: "string \<Rightarrow> string" where
  "fold_line line = (if length line \<le> 75 then line else fold_chars True [] (utf8_chars line))"

definition contact_to_vcard :: "vcard_lib \<Rightarrow> contact \<Rightarrow> string" where
  "contact_to_vcard lib c = join [cr, lf] (map fold_line (vcard_lines lib c))"

section \<open>Parsing (\<open>serializer.rs\<close>)\<close>

definition parse_property_name :: "string \<Rightarrow> string \<times> (string \<times> string) list" where
  "parse_property_name p =
     (case split_on (CHR '';'') p of
        name # params \<Rightarrow> (name, map (\<lambda>q. case split_once (CHR ''='') q of Some kv \<Rightarrow> kv | None \<Rightarrow> (''TYPE'', q)) params)
      | [] \<Rightarrow> ([], []))"

definition extract_type_param :: "vcard_lib \<Rightarrow> (string \<times> string) list \<Rightarrow> string option" where
  "extract_type_param lib params =
     map_option (\<lambda>(k, v). vl_lower lib (hd (split_on (CHR '','') v)))
       (find (\<lambda>(k, v). eq_ignore_ascii_case k ''TYPE'') params)"

definition is_preferred :: "(string \<times> string) list \<Rightarrow> bool" where
  "is_preferred params =
     list_ex (\<lambda>(k, v). eq_ignore_ascii_case k ''PREF'' \<or>
       (eq_ignore_ascii_case k ''TYPE'' \<and>
        list_ex (\<lambda>part. eq_ignore_ascii_case (trim part) ''pref'') (split_on (CHR '','') v))) params"

text \<open>What the loop over the lines collects.\<close>

record vcard_fields =
  vf_given :: string
  vf_family :: string
  vf_middle :: "string option"
  vf_prefix :: "string option"
  vf_suffix :: "string option"
  vf_emails :: "contact_email list"
  vf_phones :: "contact_phone list"
  vf_addresses :: "contact_address list"
  vf_organization :: "string option"
  vf_source_id :: string

definition no_fields :: vcard_fields where
  "no_fields = \<lparr>vf_given = [], vf_family = [], vf_middle = None, vf_prefix = None, vf_suffix = None, vf_emails = [],
     vf_phones = [], vf_addresses = [], vf_organization = None, vf_source_id = []\<rparr>"

definition nth_or_empty :: "string list \<Rightarrow> nat \<Rightarrow> string" where
  "nth_or_empty ps i = (if i < length ps then ps ! i else [])"

definition or_keep :: "string \<Rightarrow> string option \<Rightarrow> string option" where
  "or_keep s old = (if s = [] then old else Some s)"

definition parse_name :: "string \<Rightarrow> vcard_fields \<Rightarrow> vcard_fields" where
  "parse_name v f =
     (let part = (\<lambda>i. decode_escaped_value (nth_or_empty (split_on (CHR '';'') v) i)) in
      f\<lparr>vf_family := part 0, vf_given := part 1, vf_middle := or_keep (part 2) (vf_middle f),
        vf_prefix := or_keep (part 3) (vf_prefix f), vf_suffix := or_keep (part 4) (vf_suffix f)\<rparr>)"

definition parse_address :: "string \<Rightarrow> contact_address" where
  "parse_address v =
     (let part = (\<lambda>i. non_empty (nth_or_empty (split_on (CHR '';'') v) i)) in
      \<lparr>ca_street = part 2, ca_city = part 3, ca_region = part 4, ca_postal_code = part 5, ca_country = part 6,
       ca_address_type = None\<rparr>)"

definition has_part :: "contact_address \<Rightarrow> bool" where
  "has_part a \<longleftrightarrow> ca_street a \<noteq> None \<or> ca_city a \<noteq> None \<or> ca_region a \<noteq> None \<or> ca_postal_code a \<noteq> None \<or> ca_country a \<noteq> None"

definition parse_property ::
  "vcard_lib \<Rightarrow> string \<Rightarrow> (string \<times> string) list \<Rightarrow> string \<Rightarrow> vcard_fields \<Rightarrow> vcard_fields" where
  "parse_property lib name params v f =
     (if name = ''N'' then parse_name v f
      else if name = ''EMAIL'' then
        f\<lparr>vf_emails := vf_emails f @
          [\<lparr>ce_address = v, ce_email_type = map_option parse_contact_info_type (extract_type_param lib params),
            ce_primary = (if is_preferred params then Some True else None)\<rparr>]\<rparr>
      else if name = ''TEL'' then
        f\<lparr>vf_phones := vf_phones f @
          [\<lparr>ct_number = v, ct_phone_type = map_option parse_phone_type (extract_type_param lib params),
            ct_primary = None\<rparr>]\<rparr>
      else if name = ''ADR'' then
        (let a = parse_address v in if has_part a then f\<lparr>vf_addresses := vf_addresses f @ [a]\<rparr> else f)
      else if name = ''ORG'' then
        f\<lparr>vf_organization := or_keep (decode_escaped_value (hd (split_on (CHR '';'') v))) (vf_organization f)\<rparr>
      else if name = ''UID'' then f\<lparr>vf_source_id := v\<rparr>
      else f)"

definition parse_line :: "vcard_lib \<Rightarrow> string \<Rightarrow> vcard_fields \<Rightarrow> vcard_fields" where
  "parse_line lib raw f =
     (case split_once (CHR '':'') (trim raw) of
        None \<Rightarrow> f
      | Some (prop, v) \<Rightarrow>
          (case parse_property_name prop of (name, params) \<Rightarrow> parse_property lib (vl_upper lib name) params v f))"

text \<open>The fall-back when the name is missing: the first \<open>FN\<close> line, split at its first space.\<close>

definition fn_value :: "string \<Rightarrow> string option" where
  "fn_value raw =
     (case split_once (CHR '':'') (trim raw) of
        None \<Rightarrow> None
      | Some (prop, v) \<Rightarrow> if eq_ignore_ascii_case (fst (parse_property_name prop)) ''FN'' then Some v else None)"

definition name_from_fn :: "string list \<Rightarrow> vcard_fields \<Rightarrow> vcard_fields" where
  "name_from_fn lines f =
     (case List.map_filter fn_value lines of
        [] \<Rightarrow> f
      | v # _ \<Rightarrow> (let parts = splitn2 (CHR '' '') (decode_escaped_value v) in
           f\<lparr>vf_given := nth_or_empty parts 0, vf_family := nth_or_empty parts 1\<rparr>))"

definition name_or_unnamed :: "vcard_fields \<Rightarrow> vcard_fields" where
  "name_or_unnamed f = (if vf_given f = [] \<and> vf_family f = [] then f\<lparr>vf_given := ''(unnamed)''\<rparr> else f)"

definition vcard_to_contact :: "vcard_lib \<Rightarrow> string \<Rightarrow> (string, contact) result" where
  "vcard_to_contact lib data =
     (let lines = str_lines (unfold_lines data) in
      if \<not> list_ex (\<lambda>l. eq_ignore_ascii_case (trim l) ''BEGIN:VCARD'') lines \<or>
         \<not> list_ex (\<lambda>l. eq_ignore_ascii_case (trim l) ''END:VCARD'') lines
      then Inl ''invalid vCard: missing BEGIN:VCARD or END:VCARD''
      else
        let f0 = fold (parse_line lib) lines no_fields;
            f1 = (if vf_given f0 = [] \<and> vf_family f0 = [] then name_from_fn lines f0 else f0);
            f = name_or_unnamed f1 in
        Inr \<lparr>co_id = vl_id lib,
          co_name = \<lparr>cn_given = vf_given f, cn_family = vf_family f, cn_prefix = vf_prefix f,
            cn_suffix = vf_suffix f, cn_middle = vf_middle f\<rparr>,
          co_emails = vf_emails f, co_phones = vf_phones f, co_addresses = vf_addresses f,
          co_organization = vf_organization f, co_title = None, co_birthday = None, co_photo_url = None,
          co_notes = None, co_groups = [], co_source = ''carddav-api'',
          co_source_id = (if vf_source_id f = [] then vl_uid lib else vf_source_id f),
          co_extensions = None, co_created_at = vl_now lib, co_updated_at = vl_now lib\<rparr>)"

end
