(* ===== verification/Vcard_Props.thy ===== *)
theory Vcard_Props
  imports Vcard
begin

text \<open>
  The texts the CardDAV server writes are read back: escaping and unescaping, folding and unfolding, and
  the whole contact.
\<close>

section \<open>Escaping\<close>

definition escape_char :: "char \<Rightarrow> string" where
  "escape_char c = (if c = lf then [backslash, CHR ''n''] else if c \<in> {backslash, CHR '','', CHR '';''} then [backslash, c] else [c])"

lemma escape_value_eq: "escape_value s = concat (map escape_char s)"
  by (induction s) (auto simp: escape_value_def escape_char_def)

lemma decode_escape_char: "decode_escaped_value (escape_char c @ t) = c # decode_escaped_value t"
  by (cases t) (auto simp: escape_char_def)

lemma decode_escape [simp]: "decode_escaped_value (escape_value s) = s"
  by (induction s) (simp_all add: escape_value_eq decode_escape_char)

lemma escape_value_lines: "lf \<notin> set (escape_value s)" "cr \<in> set (escape_value s) \<longleftrightarrow> cr \<in> set s"
  by (auto simp: escape_value_eq escape_char_def split: if_splits)

section \<open>Joined lines\<close>

lemma join_Cons: "join sep (x # xs) = x @ concat (map ((@) sep) xs)"
  by (induction xs arbitrary: x) simp_all

lemma join_join: "list_all (\<lambda>xs. xs \<noteq> []) xss \<Longrightarrow> join sep (map (join sep) xss) = join sep (concat xss)"
proof (induction xss)
  case (Cons xs xss)
  then obtain x t where xs: "xs = x # t" by (cases xs) auto
  show ?case
  proof (cases xss)
    case (Cons ys yss)
    then obtain y u where ys: "concat xss = y # u" using Cons.prems by (cases ys) auto
    have "join sep (map (join sep) (xs # xss)) = join sep xs @ sep @ join sep (concat xss)"
      using Cons Cons.IH Cons.prems by simp
    then show ?thesis unfolding xs by (simp add: ys join_Cons)
  qed simp
qed simp

lemma split_on_join: "list_all (\<lambda>x. c \<notin> set x) (x # xs) \<Longrightarrow> split_on c (join [c] (x # xs)) = x # xs"
  by (induction xs arbitrary: x) (simp_all add: split_on_absent split_on_append_sep)

text \<open>Lines without line ends.\<close>

abbreviation one_line :: "string \<Rightarrow> bool" where
  "one_line l \<equiv> cr \<notin> set l \<and> lf \<notin> set l"

lemma str_lines_join:
  assumes "list_all (\<lambda>l. one_line l \<and> l \<noteq> []) ls"
  shows "str_lines (join [lf] ls) = ls" "str_lines (join [cr, lf] ls) = ls"
proof -
  have keep: "map strip_cr xs = xs" if "list_all one_line xs" for xs
    using that by (induction xs) (auto simp: strip_cr_def ends_with_iff)
  have strip: "strip_cr (x @ [cr]) = x" for x by (simp add: strip_cr_def)
  show "str_lines (join [lf] ls) = ls"
  proof (cases ls)
    case (Cons x xs)
    have "split_on lf (join [lf] ls) = ls" using assms split_on_join [of lf x xs] Cons by (auto simp: list_all_iff)
    moreover have "map strip_cr (butlast ls) = butlast ls"
      by (rule keep) (use assms in \<open>auto simp: list_all_iff dest: in_set_butlastD\<close>)
    moreover have "last ls \<noteq> []" using assms Cons last_in_set [of ls] by (auto simp: list_all_iff)
    ultimately show ?thesis using Cons by (simp add: str_lines_def Let_def)
  qed (simp add: str_lines_def)
  show "str_lines (join [cr, lf] ls) = ls"
    using assms
  proof (induction ls)
    case (Cons x xs)
    then show ?case
    proof (cases xs)
      case Nil
      then show ?thesis using Cons.prems by (simp add: str_lines_def split_on_absent Let_def)
    next
      case (Cons y ys)
      let ?t = "join [cr, lf] xs"
      have "split_on lf ((x @ [cr]) @ lf # ?t) = (x @ [cr]) # split_on lf ?t"
        by (rule split_on_append_sep) (use Cons.prems in auto)
      then have "split_on lf (join [cr, lf] (x # xs)) = (x @ [cr]) # split_on lf ?t" using Cons by simp
      moreover have "split_on lf ?t \<noteq> []" by (cases ?t) (auto split: list.splits)
      ultimately show ?thesis using Cons.IH Cons.prems by (auto simp: str_lines_def Let_def strip split: if_splits)
    qed
  qed (simp add: str_lines_def)
qed

lemma replace_crlf_Cons: "cr \<noteq> a \<Longrightarrow> replace_crlf (a # s) = a # replace_crlf s"
  by (cases s) auto

lemma normalised:
  assumes "list_all one_line ls"
  shows "replace_char cr [lf] (replace_crlf (join [cr, lf] ls)) = join [lf] ls"
proof -
  have same: "replace_char cr [lf] s = s" if "cr \<notin> set s" for s using that by (induction s) auto
  have skip: "replace_crlf (p @ t) = p @ replace_crlf t" if "cr \<notin> set p" for p t
    using that by (induction p) (simp_all add: replace_crlf_Cons)
  have "replace_crlf (join [cr, lf] ls) = join [lf] ls"
    using assms
  proof (induction ls rule: induct_list012)
    case (2 s)
    then show ?case using skip [of s "[]"] by simp
  qed (simp_all add: skip)
  moreover have "cr \<notin> set (join [lf] ls)" using assms by (induction ls rule: induct_list012) auto
  ultimately show ?thesis using same by simp
qed

section \<open>UTF-8\<close>

definition utf8_char :: "string \<Rightarrow> bool" where
  "utf8_char g \<longleftrightarrow> g \<noteq> [] \<and> length g \<le> 4 \<and> list_all is_continuation (tl g) \<and>
     (if length g = 1 then (of_char (hd g) :: nat) < 128 else 192 \<le> (of_char (hd g) :: nat))"

definition utf8_ok :: "string \<Rightarrow> bool" where
  "utf8_ok s \<longleftrightarrow> list_all utf8_char (utf8_chars s)"

lemma utf8_char_hd: "utf8_char g \<Longrightarrow> g \<noteq> [] \<and> \<not> is_continuation (hd g)"
  by (auto simp: utf8_char_def is_continuation_def split: if_splits)

lemma concat_utf8_chars [simp]: "concat (utf8_chars s) = s"
  by (induction s) (auto split: list.splits)

lemma utf8_chars_Nil [simp]: "utf8_chars s = [] \<longleftrightarrow> s = []"
  by (metis concat.simps(1) concat_utf8_chars utf8_chars.simps(1))

lemma utf8_chars_append:
  assumes "t = [] \<or> \<not> is_continuation (hd t)"
  shows "utf8_chars (s @ t) = utf8_chars s @ utf8_chars t"
proof (induction s)
  case (Cons b s)
  then show ?case using assms
    by (cases s) (auto split: list.splits)
qed simp

lemma utf8_ok_hd: "utf8_ok t \<Longrightarrow> t = [] \<or> \<not> is_continuation (hd t)"
proof (cases "utf8_chars t")
  case (Cons g gs)
  assume "utf8_ok t"
  then have "utf8_char g" by (simp add: utf8_ok_def Cons)
  moreover have "t = g @ concat gs" using Cons concat_utf8_chars [of t] by simp
  ultimately show ?thesis using utf8_char_hd [of g] by auto
qed simp

lemma utf8_chars_append_ok: "utf8_ok t \<Longrightarrow> utf8_chars (s @ t) = utf8_chars s @ utf8_chars t"
  using utf8_chars_append utf8_ok_hd by blast

lemma utf8_ok_append [intro]: "utf8_ok s \<Longrightarrow> utf8_ok t \<Longrightarrow> utf8_ok (s @ t)"
  by (simp add: utf8_ok_def utf8_chars_append_ok)

lemma utf8_chars_char:
  assumes "utf8_char g"
  shows "utf8_chars g = [g]"
proof -
  have "list_all is_continuation t \<Longrightarrow> utf8_chars (b # t) = [b # t]" for b t
    by (induction t arbitrary: b) auto
  then show ?thesis using assms by (cases g) (auto simp: utf8_char_def)
qed

lemma utf8_induct [consumes 1, case_names Nil char]:
  assumes "utf8_ok s" "P []" "\<And>g s. utf8_char g \<Longrightarrow> utf8_ok s \<Longrightarrow> P s \<Longrightarrow> P (g @ s)"
  shows "P s"
proof -
  have "list_all utf8_char gs \<Longrightarrow> utf8_ok (concat gs) \<and> P (concat gs)" for gs
  proof (induction gs)
    case (Cons g gs)
    then have "utf8_ok g" by (simp add: utf8_ok_def utf8_chars_char)
    then show ?case using Cons assms(3) by auto
  qed (simp add: utf8_ok_def assms(2))
  from this [of "utf8_chars s"] show ?thesis using assms(1) by (simp add: utf8_ok_def)
qed

lemma utf8_ascii: "list_all (\<lambda>c. (of_char c :: nat) < 128) s \<Longrightarrow> utf8_chars s = map (\<lambda>c. [c]) s \<and> utf8_ok s"
proof (induction s)
  case (Cons b s)
  then have "\<not> (s \<noteq> [] \<and> is_continuation (hd s))" by (cases s) (auto simp: is_continuation_def)
  then show ?case using Cons by (auto simp: utf8_ok_def utf8_char_def)
qed (simp add: utf8_ok_def)

lemma utf8_ok_blank: "utf8_ok s \<Longrightarrow> utf8_ok (CHR '' '' # s)"
  using utf8_ok_append [of "'' ''" s] utf8_ascii [of "'' ''"] by simp

lemma utf8_ok_char: "utf8_char g \<Longrightarrow> utf8_ok g"
  by (simp add: utf8_ok_def utf8_chars_char)

section \<open>Folding\<close>

text \<open>The physical lines of a folded line.\<close>

fun physical_from :: "bool \<Rightarrow> string \<Rightarrow> string list \<Rightarrow> string list" where
  "physical_from first chunk [] = (if chunk = [] then [] else [(if first then [] else '' '') @ chunk])"
| "physical_from first chunk (ch # chs) =
     (if (if first then 75 else 74) < length chunk + length ch
      then ((if first then [] else '' '') @ chunk) # physical_from False ch chs
      else physical_from first (chunk @ ch) chs)"

definition physical :: "string \<Rightarrow> string list" where
  "physical l = (if length l \<le> 75 then [l] else physical_from True [] (utf8_chars l))"

lemma fold_chars_rest: "fold_chars False chunk chs = concat (map ((@) [cr, lf]) (physical_from False chunk chs))"
  by (induction chs arbitrary: chunk) simp_all

lemma fold_chars_first: "fold_chars True chunk chs = join [cr, lf] (physical_from True chunk chs)"
proof (induction chs arbitrary: chunk)
  case (Cons ch chs)
  then show ?case by (simp add: join_Cons fold_chars_rest del: join.simps)
qed simp

lemma fold_line_physical: "fold_line l = join [cr, lf] (physical l)"
  by (simp add: fold_line_def physical_def fold_chars_first)

definition clean_line :: "string \<Rightarrow> bool" where
  "clean_line l \<longleftrightarrow> l \<noteq> [] \<and> one_line l \<and> hd l \<notin> {CHR '' '', tab} \<and> utf8_ok l"

lemma unfold_start:
  "l \<noteq> [] \<Longrightarrow> hd l \<notin> {CHR '' '', tab} \<Longrightarrow> unfold_line l acc = (if acc = [] then [] else acc @ [lf]) @ l"
  by (cases l) (auto simp: unfold_line_def starts_with_def)

lemma unfold_rest: "fold unfold_line (physical_from False chunk chs) acc = acc @ chunk @ concat chs"
  by (induction chs arbitrary: chunk acc) (simp_all add: unfold_line_def starts_with_def)

lemma unfold_first:
  assumes "chunk @ concat chs \<noteq> []" "hd (chunk @ concat chs) \<notin> {CHR '' '', tab}" "list_all utf8_char chs"
  shows "fold unfold_line (physical_from True chunk chs) acc = (if acc = [] then [] else acc @ [lf]) @ chunk @ concat chs"
  using assms
proof (induction chs arbitrary: chunk)
  case Nil
  then show ?case by (simp add: unfold_start)
next
  case (Cons ch chs)
  have "length ch \<le> 4" using Cons.prems(3) by (simp add: utf8_char_def)
  then have "chunk \<noteq> []" if "75 < length chunk + length ch" using that by auto
  then show ?case using Cons.prems Cons.IH [of "chunk @ ch"]
    by (cases "75 < length chunk + length ch") (simp_all add: unfold_rest unfold_start)
qed

lemma unfold_physical:
  assumes "clean_line l"
  shows "fold unfold_line (physical l) acc = (if acc = [] then [] else acc @ [lf]) @ l"
proof (cases "length l \<le> 75")
  case True
  then show ?thesis using assms by (simp add: physical_def clean_line_def unfold_start)
next
  case False
  then show ?thesis using assms unfold_first [of "[]" "utf8_chars l" acc]
    by (auto simp: physical_def clean_line_def utf8_ok_def)
qed

lemma append_eq_Cons: "(@) [c] = (#) c"
  by (simp add: fun_eq_iff)

lemma unfold_all:
  assumes "list_all clean_line ls"
  shows "fold unfold_line (concat (map physical ls)) acc =
    (if acc = [] then join [lf] ls else acc @ concat (map ((#) lf) ls))"
  using assms
proof (induction ls arbitrary: acc)
  case (Cons l ls)
  have "l \<noteq> []" using Cons.prems by (simp add: clean_line_def)
  then show ?case using Cons by (simp add: unfold_physical join_Cons append_eq_Cons)
qed simp

lemma physical_from_lines:
  assumes "list_all utf8_char chs" "utf8_ok chunk" "one_line chunk" "list_all one_line chs" "length chunk \<le> (if first then 75 else 74)"
    and "chs \<noteq> [] \<or> chunk \<noteq> []"
  shows "physical_from first chunk chs \<noteq> [] \<and> list_all (\<lambda>p. one_line p \<and> p \<noteq> [] \<and> length p \<le> 75 \<and> utf8_ok p) (physical_from first chunk chs)"
  using assms
proof (induction chs arbitrary: first chunk)
  case (Cons ch chs)
  have ch: "length ch \<le> 4" "ch \<noteq> []" using Cons.prems(1) by (auto simp: utf8_char_def)
  have ok: "utf8_ok ch" "utf8_ok (chunk @ ch)" "utf8_ok (CHR '' '' # chunk)"
    using Cons.prems(1, 2) by (auto simp: utf8_ok_char utf8_ok_blank)
  show ?case
  proof (cases "(if first then 75 else 74) < length chunk + length ch")
    case True
    then have "chunk \<noteq> []" using ch by (auto split: if_splits)
    then show ?thesis using True ch ok Cons.prems Cons.IH [of ch False] by (auto split: if_splits)
  next
    case False
    then show ?thesis using ch ok Cons.prems Cons.IH [of "chunk @ ch" first] by (auto split: if_splits)
  qed
qed (auto simp: utf8_ok_blank)

lemma physical_lines:
  assumes "clean_line l"
  shows "physical l \<noteq> []" "list_all (\<lambda>p. one_line p \<and> p \<noteq> [] \<and> length p \<le> 75 \<and> utf8_ok p) (physical l)"
proof -
  have "list_all one_line (utf8_chars l)"
  proof (unfold list_all_iff, intro ballI)
    fix g assume "g \<in> set (utf8_chars l)"
    then have "set g \<subseteq> set (concat (utf8_chars l))" by (auto simp del: concat_utf8_chars)
    then show "one_line g" using assms by (auto simp: clean_line_def)
  qed
  then show "physical l \<noteq> []" "list_all (\<lambda>p. one_line p \<and> p \<noteq> [] \<and> length p \<le> 75 \<and> utf8_ok p) (physical l)"
    using assms physical_from_lines [of "utf8_chars l" "[]" True]
    by (auto simp: physical_def clean_line_def utf8_ok_def)
qed

lemma folded_text:
  assumes "list_all clean_line ls"
  defines "ps \<equiv> concat (map physical ls)"
  shows "join [cr, lf] (map fold_line ls) = join [cr, lf] ps"
    and "list_all (\<lambda>p. one_line p \<and> p \<noteq> [] \<and> length p \<le> 75 \<and> utf8_ok p) ps"
proof -
  have "list_all (\<lambda>xs. xs \<noteq> []) (map physical ls)"
    using assms(1) physical_lines(1) by (simp add: list_all_iff)
  moreover have "map fold_line ls = map (join [cr, lf]) (map physical ls)" by (simp add: fold_line_physical)
  ultimately show "join [cr, lf] (map fold_line ls) = join [cr, lf] ps" unfolding ps_def by (simp only: join_join)
  show "list_all (\<lambda>p. one_line p \<and> p \<noteq> [] \<and> length p \<le> 75 \<and> utf8_ok p) ps"
    using assms(1) physical_lines(2) by (auto simp: ps_def list_all_iff)
qed

lemma unfold_folded:
  assumes "list_all clean_line ls"
  shows "str_lines (unfold_lines (join [cr, lf] (map fold_line ls))) = ls"
proof -
  let ?ps = "concat (map physical ls)"
  have one: "list_all one_line ?ps" "list_all (\<lambda>l. one_line l \<and> l \<noteq> []) ?ps"
    using folded_text(2) [OF assms] by (auto simp: list_all_iff)
  have "unfold_lines (join [cr, lf] ?ps) = fold unfold_line ?ps []"
    unfolding unfold_lines_def normalised [OF one(1)] str_lines_join(1) [OF one(2)] ..
  moreover have "list_all (\<lambda>l. one_line l \<and> l \<noteq> []) ls" using assms by (auto simp: list_all_iff clean_line_def)
  ultimately show ?thesis unfolding folded_text(1) [OF assms] using unfold_all [OF assms, of "[]"] str_lines_join(1)
    by simp
qed

text \<open>
  Folding is undone by unfolding. A document made of any lines that are not empty, contain no line
  end and do not begin with a blank is written as physical lines of at most 75 octets, none of which
  splits a UTF-8 character, and unfolding it gives exactly these lines back.
\<close>

theorem folding_round_trip:
  assumes "list_all clean_line ls"
  shows "str_lines (unfold_lines (join [cr, lf] (map fold_line ls))) = ls \<and>
    list_all (\<lambda>p. length p \<le> 75 \<and> utf8_ok p) (str_lines (join [cr, lf] (map fold_line ls)))"
proof -
  have "list_all (\<lambda>l. one_line l \<and> l \<noteq> []) (concat (map physical ls))"
    using folded_text(2) [OF assms] by (auto simp: list_all_iff)
  then show ?thesis
    using unfold_folded [OF assms] folded_text [OF assms] by (simp add: str_lines_join(2) list_all_iff)
qed

theorem folding_round_trip_witness:
  "str_lines (unfold_lines (join [cr, lf] (map fold_line [''FN:a'', ''X:'' @ replicate 90 (CHR ''y'')]))) =
   [''FN:a'', ''X:'' @ replicate 90 (CHR ''y'')]"
proof (rule conjunct1 [OF folding_round_trip])
  have "list_all (\<lambda>c. (of_char c :: nat) < 128) (''X:'' @ replicate 90 (CHR ''y''))" by (simp add: list_all_iff)
  then have "utf8_ok (''X:'' @ replicate 90 (CHR ''y''))" "utf8_ok ''FN:a''" using utf8_ascii utf8_ascii [of "''FN:a''"] by auto
  then show "list_all clean_line [''FN:a'', ''X:'' @ replicate 90 (CHR ''y'')]" by (simp add: clean_line_def)
qed

section \<open>Trimmed lines\<close>

definition ends_plain :: "string \<Rightarrow> bool" where
  "ends_plain v \<longleftrightarrow> v = [] \<or> \<not> is_whitespace (last (utf8_chars v))"

definition trimmed :: "string \<Rightarrow> bool" where
  "trimmed s \<longleftrightarrow> s \<noteq> [] \<and> \<not> is_whitespace (hd (utf8_chars s)) \<and> \<not> is_whitespace (last (utf8_chars s))"

lemma trim_trimmed: "trimmed s \<Longrightarrow> trim s = s"
proof -
  assume t: "trimmed s"
  then obtain g gs where g: "utf8_chars s = g # gs" by (cases "utf8_chars s") (auto simp: trimmed_def)
  have "dropWhile is_whitespace (utf8_chars s) = utf8_chars s" using t g by (simp add: trimmed_def)
  moreover have "dropWhile is_whitespace (rev (utf8_chars s)) = rev (utf8_chars s)"
    using t by (cases "utf8_chars s" rule: rev_cases) (simp_all add: trimmed_def)
  ultimately show ?thesis by (simp add: trim_def)
qed

abbreviation ascii :: "string \<Rightarrow> bool" where
  "ascii s \<equiv> list_all (\<lambda>c. (of_char c :: nat) < 128) s"

lemma is_whitespace_ascii: "is_whitespace [c] \<longleftrightarrow> (9 \<le> (of_char c :: nat) \<and> (of_char c :: nat) \<le> 13) \<or> of_char c = (32 :: nat)"
  by (simp add: is_whitespace_def ws_prefix_def Let_def)

lemma trimmed_line:
  assumes "ascii p" "p \<noteq> []" "\<not> is_whitespace [hd p]" "utf8_ok v" "ends_plain v"
  shows "trimmed (p @ CHR '':'' # v)"
proof -
  have c: "utf8_chars (p @ CHR '':'' # v) = map (\<lambda>c. [c]) (p @ '':'') @ utf8_chars v"
    using utf8_chars_append_ok [OF assms(4), of "p @ '':''"] utf8_ascii [of "p @ '':''"] assms(1) by simp
  have "\<not> is_whitespace '':''" by (simp add: is_whitespace_ascii)
  then have "\<not> is_whitespace (last (utf8_chars (p @ CHR '':'' # v)))"
    unfolding c using assms(5) by (auto simp: ends_plain_def)
  moreover have "hd (utf8_chars (p @ CHR '':'' # v)) = [hd p]" unfolding c using assms(2) by (cases p) auto
  ultimately show ?thesis using assms(3) by (simp add: trimmed_def)
qed

lemma trim_ascii:
  assumes "ascii s" "s \<noteq> []" "\<not> is_whitespace [hd s]" "\<not> is_whitespace [last s]"
  shows "trim s = s"
proof (rule trim_trimmed)
  have "utf8_chars s = map (\<lambda>c. [c]) s" using utf8_ascii [OF assms(1)] by blast
  then show "trimmed s" using assms(2-4) by (simp add: trimmed_def hd_map last_map)
qed

lemma escape_append: "escape_value (a @ b) = escape_value a @ escape_value b"
  by (simp add: escape_value_eq)

lemma escape_char_utf8:
  assumes "utf8_char g"
  shows "utf8_ok (escape_value g)" "\<not> is_whitespace g \<Longrightarrow> ends_plain (escape_value g)" "escape_value g \<noteq> []"
proof -
  obtain c t where g: "g = c # t" using assms by (cases g) (auto simp: utf8_char_def)
  have "utf8_ok (escape_value g) \<and> (\<not> is_whitespace g \<longrightarrow> ends_plain (escape_value g)) \<and> escape_value g \<noteq> []"
  proof (cases "t = []")
    case True
    then have "ascii (escape_value g)" "escape_value g = escape_char c"
      using assms g by (auto simp: utf8_char_def escape_value_eq escape_char_def)
    then show ?thesis using utf8_ascii [of "escape_value g"] True g
      by (auto simp: ends_plain_def escape_char_def is_whitespace_ascii)
  next
    case False
    then have "\<forall>b \<in> set g. 128 \<le> (of_char b :: nat)"
      using assms g by (auto simp: utf8_char_def is_continuation_def list_all_iff)
    then have "escape_char b = [b]" if "b \<in> set g" for b using that by (auto simp: escape_char_def)
    then have "escape_value g = g" unfolding escape_value_eq by (simp cong: map_cong)
    then show ?thesis using assms utf8_chars_char [OF assms] utf8_char_hd [OF assms]
      by (simp add: utf8_ok_char ends_plain_def)
  qed
  then show "utf8_ok (escape_value g)" "\<not> is_whitespace g \<Longrightarrow> ends_plain (escape_value g)" "escape_value g \<noteq> []"
    by blast+
qed

lemma utf8_ok_escape: "utf8_ok s \<Longrightarrow> utf8_ok (escape_value s)"
proof (induction rule: utf8_induct)
  case Nil
  then show ?case by (simp add: escape_value_eq utf8_ok_def)
next
  case (char g s)
  then show ?case using utf8_ok_append escape_char_utf8(1) by (simp add: escape_append)
qed

lemma ends_plain_append: "utf8_ok v \<Longrightarrow> v \<noteq> [] \<Longrightarrow> ends_plain (p @ v) = ends_plain v"
  by (simp add: ends_plain_def utf8_chars_append_ok)

lemma ends_plain_escape:
  assumes "utf8_ok s" "ends_plain s"
  shows "ends_plain (escape_value s)"
proof (cases "utf8_chars s" rule: rev_cases)
  case (snoc gs g)
  then have g: "utf8_char g" "\<not> is_whitespace g" using assms by (auto simp: utf8_ok_def ends_plain_def)
  have "s = concat gs @ g" using snoc concat_utf8_chars [of s] by simp
  then show ?thesis
    using ends_plain_append [OF escape_char_utf8(1) [OF g(1)] escape_char_utf8(3) [OF g(1)]]
      escape_char_utf8(2) [OF g] by (simp add: escape_append)
qed (use assms in \<open>simp add: escape_value_eq ends_plain_def\<close>)

section \<open>Property lines\<close>

text \<open>The Unicode case tables agree with ASCII on ASCII.\<close>

definition case_tables :: "vcard_lib \<Rightarrow> bool" where
  "case_tables lib \<longleftrightarrow>
     (\<forall>s. ascii s \<longrightarrow> vl_upper lib s = map ascii_upper s \<and> vl_lower lib s = map ascii_lower s)"

definition head_char :: "char \<Rightarrow> bool" where
  "head_char c \<longleftrightarrow> c \<noteq> CHR '':'' \<and> 33 \<le> (of_char c :: nat) \<and> (of_char c :: nat) < 128"

definition prop_head :: "string \<Rightarrow> bool" where
  "prop_head p \<longleftrightarrow> p \<noteq> [] \<and> list_all head_char p"

lemma prop_head_ascii:
  assumes "prop_head p"
  shows "ascii p" "p \<noteq> []" "\<not> is_whitespace [hd p]" "CHR '':'' \<notin> set p"
proof -
  show "p \<noteq> []" using assms by (simp add: prop_head_def)
  then have "head_char (hd p)" using assms by (simp add: prop_head_def list_all_iff)
  then show "\<not> is_whitespace [hd p]" by (simp add: head_char_def is_whitespace_ascii)
  show "ascii p" using assms by (simp add: prop_head_def head_char_def list_all_iff)
  show "CHR '':'' \<notin> set p" using assms by (auto simp: prop_head_def head_char_def list_all_iff)
qed

definition value_ok :: "string \<Rightarrow> bool" where
  "value_ok v \<longleftrightarrow> utf8_ok v \<and> one_line v \<and> ends_plain v"

lemma clean_head:
  assumes "prop_head p" "utf8_ok v" "one_line v"
  shows "clean_line (p @ CHR '':'' # v)"
proof -
  have "ascii (p @ '':'')" using prop_head_ascii(1) [OF assms(1)] by simp
  then have "utf8_ok (p @ '':'')" using utf8_ascii by blast
  then have ok: "utf8_ok ((p @ '':'') @ v)" using assms(2) by (rule utf8_ok_append)
  have all: "\<forall>c \<in> set p. head_char c" and p: "p \<noteq> []" using assms(1) by (simp_all add: prop_head_def list_all_iff)
  have "\<not> head_char cr" "\<not> head_char lf" "\<not> head_char (CHR '' '')" "\<not> head_char tab"
    by (simp_all add: head_char_def)
  then have "one_line p" "hd p \<noteq> CHR '' ''" "hd p \<noteq> tab" using all hd_in_set [OF p] by metis+
  then show ?thesis using ok p assms(3) by (simp add: clean_line_def)
qed

lemma clean_prop: "prop_head p \<Longrightarrow> value_ok v \<Longrightarrow> clean_line (p @ CHR '':'' # v)"
  by (simp add: clean_head value_ok_def)

lemma parse_prop:
  assumes "prop_head p" "value_ok v"
  shows "parse_line lib (p @ CHR '':'' # v) f =
    (case parse_property_name p of (name, params) \<Rightarrow> parse_property lib (vl_upper lib name) params v f)"
proof -
  have "trim (p @ CHR '':'' # v) = p @ CHR '':'' # v"
    using trim_trimmed [OF trimmed_line] prop_head_ascii [OF assms(1)] assms(2) by (simp add: value_ok_def)
  then show ?thesis using prop_head_ascii(4) [OF assms(1)]
    by (simp add: parse_line_def split_once_def splitn2_present)
qed

lemma value_ok_escape: "utf8_ok v \<Longrightarrow> cr \<notin> set v \<Longrightarrow> ends_plain v \<Longrightarrow> value_ok (escape_value v)"
  by (simp add: value_ok_def utf8_ok_escape ends_plain_escape escape_value_lines)

lemma value_ok_ascii: "list_all is_ascii_alphanumeric v \<Longrightarrow> value_ok v"
proof -
  assume a: "list_all is_ascii_alphanumeric v"
  have c: "48 \<le> (of_char c :: nat) \<and> (of_char c :: nat) < 128" if "is_ascii_alphanumeric c" for c
    using that by (auto simp: is_ascii_alphanumeric_def is_ascii_alphabetic_def is_ascii_digit_def less_eq_char_def)
  have "ascii v" using a c by (simp add: list_all_iff)
  moreover have "\<not> is_ascii_alphanumeric cr" "\<not> is_ascii_alphanumeric lf"
    by (simp_all add: is_ascii_alphanumeric_def is_ascii_alphabetic_def is_ascii_digit_def less_eq_char_def)
  then have "one_line v" using a by (auto simp: list_all_iff)
  moreover have "ends_plain v"
  proof (cases v rule: rev_cases)
    case (snoc w d)
    then have "utf8_chars v = map (\<lambda>c. [c]) w @ [[d]]" "48 \<le> (of_char d :: nat)"
      using utf8_ascii [OF \<open>ascii v\<close>] a c [of d] by simp_all
    then show ?thesis by (simp add: ends_plain_def is_whitespace_ascii)
  qed (simp add: ends_plain_def)
  ultimately show ?thesis using utf8_ascii by (simp add: value_ok_def)
qed

section \<open>The contact\<close>

text \<open>Texts that survive: UTF-8, no carriage return, and for the parts of a structured value no semicolon.\<close>

definition part_ok :: "string \<Rightarrow> bool" where
  "part_ok v \<longleftrightarrow> utf8_ok v \<and> cr \<notin> set v \<and> CHR '';'' \<notin> set v"

definition opt_part_ok :: "string option \<Rightarrow> bool" where
  "opt_part_ok x = (case x of Some v \<Rightarrow> v \<noteq> [] \<and> part_ok v | None \<Rightarrow> True)"

definition name_ok :: "contact_name \<Rightarrow> bool" where
  "name_ok n \<longleftrightarrow> (cn_given n \<noteq> [] \<or> cn_family n \<noteq> []) \<and> part_ok (cn_given n) \<and> part_ok (cn_family n) \<and>
     opt_part_ok (cn_middle n) \<and> opt_part_ok (cn_prefix n) \<and> opt_part_ok (cn_suffix n) \<and>
     ends_plain (or_empty (cn_suffix n))"

definition raw_part_ok :: "string option \<Rightarrow> bool" where
  "raw_part_ok x =
     (case x of Some v \<Rightarrow> part_ok v \<and> trimmed v \<and> lf \<notin> set v \<and> backslash \<notin> set v | None \<Rightarrow> True)"

definition address_ok :: "contact_address \<Rightarrow> bool" where
  "address_ok a \<longleftrightarrow> has_part a \<and> ca_address_type a = None \<and> raw_part_ok (ca_street a) \<and> raw_part_ok (ca_city a) \<and>
     raw_part_ok (ca_region a) \<and> raw_part_ok (ca_postal_code a) \<and> raw_part_ok (ca_country a)"

definition contact_ok :: "contact \<Rightarrow> bool" where
  "contact_ok c \<longleftrightarrow> name_ok (co_name c) \<and> co_source_id c \<noteq> [] \<and> value_ok (co_source_id c) \<and>
     list_all (\<lambda>e. value_ok (ce_address e) \<and> ce_primary e \<noteq> Some False) (co_emails c) \<and>
     list_all (\<lambda>p. value_ok (ct_number p) \<and> ct_primary p = None) (co_phones c) \<and>
     list_all address_ok (co_addresses c) \<and>
     (case co_organization c of Some v \<Rightarrow> v \<noteq> [] \<and> part_ok v \<and> ends_plain v | None \<Rightarrow> True)"

lemma semicolon_escape: "CHR '';'' \<in> set (escape_value v) \<longleftrightarrow> CHR '';'' \<in> set v"
  by (induction v) (simp_all add: escape_value_eq escape_char_def)

definition capitals :: "string \<Rightarrow> bool" where
  "capitals p \<longleftrightarrow> p \<noteq> [] \<and> list_all (\<lambda>c. 65 \<le> (of_char c :: nat) \<and> (of_char c :: nat) \<le> 90) p"

lemma upper_head: "case_tables lib \<Longrightarrow> capitals p \<Longrightarrow> vl_upper lib p = p"
proof -
  assume t: "case_tables lib" and p: "capitals p"
  then have "ascii p" by (auto simp: capitals_def list_all_iff)
  moreover have "ascii_upper c = c" if "c \<in> set p" for c
    using p that by (auto simp: capitals_def list_all_iff ascii_upper_def less_eq_char_def)
  ultimately show ?thesis using t by (simp add: case_tables_def map_idI)
qed

lemma parse_property_name_join:
  assumes "list_all (\<lambda>q. CHR '';'' \<notin> set q) (name # map (\<lambda>(k, v). k @ CHR ''='' # v) ps)"
    and "list_all (\<lambda>(k, v). CHR ''='' \<notin> set k) ps"
  shows "parse_property_name (join '';'' (name # map (\<lambda>(k, v). k @ CHR ''='' # v) ps)) = (name, ps)"
proof -
  have "split_once (CHR ''='') (k @ CHR ''='' # v) = Some (k, v)" if "(k, v) \<in> set ps" for k v
    using assms(2) that by (auto simp: split_once_def splitn2_present list_all_iff)
  then have "map ((\<lambda>q. case split_once (CHR ''='') q of Some kv \<Rightarrow> kv | None \<Rightarrow> (''TYPE'', q)) \<circ> (\<lambda>(k, v). k @ CHR ''='' # v)) ps = ps"
    by (intro map_idI) (auto split: prod.splits)
  then show ?thesis unfolding parse_property_name_def split_on_join [OF assms(1)] by simp
qed

definition type_params :: "string option \<Rightarrow> (string \<times> string) list" where
  "type_params t = (case t of Some v \<Rightarrow> [(''TYPE'', v)] | None \<Rightarrow> [])"

definition head_of :: "string \<Rightarrow> (string \<times> string) list \<Rightarrow> string" where
  "head_of name ps = join '';'' (name # map (\<lambda>(k, v). k @ CHR ''='' # v) ps)"

lemma list_all_join: "list_all P sep \<Longrightarrow> list_all (list_all P) xs \<Longrightarrow> list_all P (join sep xs)"
  by (induction xs rule: induct_list012) simp_all

lemma prop_head_of:
  assumes "name \<noteq> []" "list_all head_char name" "list_all (\<lambda>(k, v). list_all head_char k \<and> list_all head_char v) ps"
  shows "prop_head (head_of name ps)"
proof -
  have sep: "head_char (CHR '';'')" "head_char (CHR ''='')" by (simp_all add: head_char_def)
  then have "list_all (list_all head_char) (map (\<lambda>(k, v). k @ CHR ''='' # v) ps)"
    using assms(3) by (induction ps) auto
  then have "list_all head_char (join '';'' (name # map (\<lambda>(k, v). k @ CHR ''='' # v) ps))"
    using assms(2) sep by (intro list_all_join) simp_all
  then show ?thesis using assms(1) by (simp add: prop_head_def head_of_def join_Cons)
qed

lemma info_label:
  "list_all head_char (contact_info_type_to_vcard t)" "CHR '';'' \<notin> set (contact_info_type_to_vcard t)"
  "CHR '','' \<notin> set (contact_info_type_to_vcard t)" "ascii (contact_info_type_to_vcard t)"
  by (cases t; simp add: head_char_def)+

lemma label_cases:
  "map ascii_lower ''HOME'' = ''home''" "map ascii_lower ''WORK'' = ''work''" "map ascii_lower ''OTHER'' = ''other''"
  "map ascii_lower ''CELL'' = ''cell''" "map ascii_lower ''FAX'' = ''fax''" "map ascii_upper ''pref'' = ''PREF''"
  "map ascii_upper ''HOME'' = ''HOME''" "map ascii_upper ''WORK'' = ''WORK''" "map ascii_upper ''OTHER'' = ''OTHER''"
  by code_simp+

lemma info_lower: "parse_contact_info_type (map ascii_lower (contact_info_type_to_vcard t)) = t"
  by (cases t; simp only: contact_info_type_to_vcard.simps label_cases parse_contact_info_type_def; simp)

lemma info_not_pref: "\<not> eq_ignore_ascii_case (trim (contact_info_type_to_vcard t)) ''pref''"
proof -
  have "trim (contact_info_type_to_vcard t) = contact_info_type_to_vcard t"
    by (cases t) (simp_all add: trim_ascii is_whitespace_ascii)
  then show ?thesis
    by (cases t; simp only: contact_info_type_to_vcard.simps label_cases eq_ignore_ascii_case_def; simp)
qed

lemma phone_label:
  "list_all head_char (phone_type_to_vcard t)" "CHR '';'' \<notin> set (phone_type_to_vcard t)"
  "CHR '','' \<notin> set (phone_type_to_vcard t)" "ascii (phone_type_to_vcard t)"
  by (cases t; simp add: head_char_def)+

lemma phone_lower: "parse_phone_type (map ascii_lower (phone_type_to_vcard t)) = t"
  by (cases t; simp only: phone_type_to_vcard.simps label_cases parse_phone_type_def; simp)

lemma eq_ignore_simps [simp]:
  "eq_ignore_ascii_case ''TYPE'' ''TYPE''" "\<not> eq_ignore_ascii_case ''PREF'' ''TYPE''"
  "eq_ignore_ascii_case ''PREF'' ''PREF''" "\<not> eq_ignore_ascii_case ''TYPE'' ''PREF''"
  by (simp_all add: eq_ignore_ascii_case_def ascii_upper_def less_eq_char_def)

lemma extracted_type:
  assumes "case_tables lib" "\<And>v. t = Some v \<Longrightarrow> ascii v \<and> CHR '','' \<notin> set v" "\<not> list_ex (\<lambda>(k, v). eq_ignore_ascii_case k ''TYPE'') ps"
  shows "extract_type_param lib (type_params t @ ps) = map_option (map ascii_lower) t"
proof (cases t)
  case None
  then show ?thesis using assms(3) by (auto simp: extract_type_param_def type_params_def find_None_iff list_ex_iff)
next
  case (Some v)
  then show ?thesis using assms(1) assms(2) [OF Some]
    by (simp add: extract_type_param_def type_params_def split_on_absent case_tables_def)
qed

lemma email_parsed:
  assumes "case_tables lib" "value_ok (ce_address e)" "ce_primary e \<noteq> Some False"
  shows "clean_line (email_line e) \<and> parse_line lib (email_line e) f = f\<lparr>vf_emails := vf_emails f @ [e]\<rparr>"
proof -
  define ps where "ps = type_params (map_option contact_info_type_to_vcard (ce_email_type e))
    @ (if ce_primary e = Some True then [(''PREF'', ''1'')] else [])"
  have line: "email_line e = head_of ''EMAIL'' ps @ CHR '':'' # ce_address e"
    by (simp add: email_line_def head_of_def ps_def type_params_def split: option.splits)
  have "parse_property_name (head_of ''EMAIL'' ps) = (''EMAIL'', ps)"
    unfolding head_of_def by (rule parse_property_name_join) (auto simp: ps_def type_params_def info_label split: option.splits)
  moreover have "prop_head (head_of ''EMAIL'' ps)"
    by (rule prop_head_of) (auto simp: ps_def type_params_def info_label head_char_def split: option.splits)
  moreover have "vl_upper lib ''EMAIL'' = ''EMAIL''"
    by (rule upper_head [OF assms(1)]) (simp add: capitals_def)
  moreover have "map_option parse_contact_info_type (extract_type_param lib ps) = ce_email_type e"
    unfolding ps_def by (subst extracted_type [OF assms(1)]) (auto simp: info_label info_lower option.map_comp option.map_ident comp_def split: if_splits)
  moreover have "is_preferred ps \<longleftrightarrow> ce_primary e = Some True"
    by (auto simp: is_preferred_def ps_def type_params_def split_on_absent info_label info_not_pref split: option.splits)
  then have "ce_primary e = (if is_preferred ps then Some True else None)" using assms(3) by (cases "ce_primary e") auto
  ultimately show ?thesis unfolding line
    using clean_prop [OF _ assms(2)] parse_prop [OF _ assms(2)]
    by (simp add: parse_property_def)
qed

lemma phone_parsed:
  assumes "case_tables lib" "value_ok (ct_number p)" "ct_primary p = None"
  shows "clean_line (phone_line p) \<and> parse_line lib (phone_line p) f = f\<lparr>vf_phones := vf_phones f @ [p]\<rparr>"
proof -
  define ps where "ps = type_params (map_option phone_type_to_vcard (ct_phone_type p))"
  have line: "phone_line p = head_of ''TEL'' ps @ CHR '':'' # ct_number p"
    by (simp add: phone_line_def head_of_def ps_def type_params_def split: option.splits)
  have "parse_property_name (head_of ''TEL'' ps) = (''TEL'', ps)"
    unfolding head_of_def by (rule parse_property_name_join) (auto simp: ps_def type_params_def phone_label split: option.splits)
  moreover have "prop_head (head_of ''TEL'' ps)"
    by (rule prop_head_of) (auto simp: ps_def type_params_def phone_label head_char_def split: option.splits)
  moreover have "vl_upper lib ''TEL'' = ''TEL''"
    by (rule upper_head [OF assms(1)]) (simp add: capitals_def)
  moreover have "map_option parse_phone_type (extract_type_param lib (ps @ [])) = ct_phone_type p"
    unfolding ps_def by (subst extracted_type [OF assms(1)])
      (auto simp: phone_label phone_lower option.map_comp option.map_ident comp_def)
  ultimately show ?thesis unfolding line
    using clean_prop [OF _ assms(2)] parse_prop [OF _ assms(2)] assms(3)
    by (auto simp: parse_property_def)
qed

text \<open>Lines without parameters.\<close>

lemma plain_parsed:
  assumes "case_tables lib" "capitals p" "value_ok v"
  shows "clean_line (p @ CHR '':'' # v)" "parse_line lib (p @ CHR '':'' # v) f = parse_property lib p [] v f"
proof -
  have "CHR '';'' \<notin> set p" using assms(2) by (auto simp: capitals_def list_all_iff)
  then have "parse_property_name p = (p, [])" by (simp add: parse_property_name_def split_on_absent)
  moreover have head: "prop_head p" using assms(2) by (auto simp: capitals_def prop_head_def head_char_def list_all_iff)
  ultimately show "clean_line (p @ CHR '':'' # v)" "parse_line lib (p @ CHR '':'' # v) f = parse_property lib p [] v f"
    using clean_prop [OF head assms(3)] parse_prop [OF head assms(3)] upper_head [OF assms(1, 2)] by simp_all
qed

lemma utf8_ok_join: "utf8_ok sep \<Longrightarrow> list_all utf8_ok xs \<Longrightarrow> utf8_ok (join sep xs)"
  by (induction xs rule: induct_list012) (auto simp: utf8_ok_def utf8_chars_append_ok)

lemma semicolon_ok: "utf8_ok '';''" "ends_plain '';''"
  using utf8_ascii [of "'';''"] by (simp_all add: ends_plain_def is_whitespace_ascii)

lemma value_ok_join:
  assumes "list_all (\<lambda>x. utf8_ok x \<and> one_line x) (x # xs @ [y])" "ends_plain y"
  shows "value_ok (join '';'' (x # xs @ [y]))"
proof -
  have j: "join '';'' (x # xs @ [y]) = (x @ concat (map ((@) '';'') xs) @ '';'') @ y" by (simp add: join_Cons)
  have "utf8_ok (join '';'' (x # xs @ [y]))"
    using assms(1) semicolon_ok by (intro utf8_ok_join) (auto simp: list_all_iff)
  moreover have "one_line (join '';'' (x # xs @ [y]))" unfolding j using assms(1) by (auto simp: list_all_iff)
  moreover have "ends_plain (join '';'' (x # xs @ [y]))"
  proof (cases "y = []")
    case True
    show ?thesis unfolding j using True ends_plain_append [OF semicolon_ok(1)] semicolon_ok(2)
      by (metis append.assoc append_Nil2 list.distinct(1))
  next
    case False
    then show ?thesis unfolding j
      using ends_plain_append [of y "x @ concat (map ((@) '';'') xs) @ '';''"] assms by simp
  qed
  ultimately show ?thesis by (simp add: value_ok_def)
qed

lemma decode_plain: "backslash \<notin> set s \<Longrightarrow> decode_escaped_value s = s"
  by (induction s rule: decode_escaped_value.induct) auto

lemma raw_part:
  assumes "raw_part_ok x"
  shows "non_empty (or_empty x) = x" "utf8_ok (or_empty x)" "one_line (or_empty x)" "CHR '';'' \<notin> set (or_empty x)"
    "ends_plain (or_empty x)"
proof -
  have "non_empty (or_empty x) = x \<and> utf8_ok (or_empty x) \<and> one_line (or_empty x) \<and> CHR '';'' \<notin> set (or_empty x) \<and>
    ends_plain (or_empty x)"
  proof (cases x)
    case None
    then show ?thesis by (simp add: or_empty_def non_empty_def trim_def utf8_ok_def ends_plain_def)
  next
    case (Some v)
    then have "trim v = v" "v \<noteq> []" "ends_plain v" using assms trim_trimmed [of v]
      by (auto simp: raw_part_ok_def trimmed_def ends_plain_def)
    then show ?thesis using assms Some
      by (simp add: raw_part_ok_def or_empty_def non_empty_def part_ok_def decode_plain Let_def)
  qed
  then show "non_empty (or_empty x) = x" "utf8_ok (or_empty x)" "one_line (or_empty x)" "CHR '';'' \<notin> set (or_empty x)"
    "ends_plain (or_empty x)" by blast+
qed

lemma address_parsed:
  assumes "case_tables lib" "address_ok a"
  shows "clean_line (address_line a) \<and> parse_line lib (address_line a) f = f\<lparr>vf_addresses := vf_addresses f @ [a]\<rparr>"
proof -
  let ?parts = "[[], [], or_empty (ca_street a), or_empty (ca_city a), or_empty (ca_region a),
       or_empty (ca_postal_code a), or_empty (ca_country a)]"
  have raw: "raw_part_ok (ca_street a)" "raw_part_ok (ca_city a)" "raw_part_ok (ca_region a)"
    "raw_part_ok (ca_postal_code a)" "raw_part_ok (ca_country a)" using assms(2) by (simp_all add: address_ok_def)
  have "split_on (CHR '';'') (join '';'' ?parts) = ?parts"
    by (rule split_on_join) (simp add: raw [THEN raw_part(4)])
  then have "parse_address (join '';'' ?parts) = a"
    using assms(2) by (simp add: parse_address_def Let_def nth_or_empty_def raw [THEN raw_part(1)] address_ok_def)
  moreover have "value_ok (join '';'' ?parts)"
    using value_ok_join [of "[]" "butlast (tl ?parts)" "last ?parts"] raw [THEN raw_part(2)] raw [THEN raw_part(3)]
      raw_part(5) [OF raw(5)] by (simp add: utf8_ok_def)
  moreover have "capitals ''ADR''" by (simp add: capitals_def)
  ultimately show ?thesis using plain_parsed [OF assms(1), of "''ADR''"] assms(2)
    by (simp add: address_line_def parse_property_def Let_def address_ok_def del: join.simps)
qed

lemma opt_part:
  assumes "opt_part_ok x"
  shows "utf8_ok (or_empty x)" "cr \<notin> set (or_empty x)" "CHR '';'' \<notin> set (or_empty x)" "or_keep (or_empty x) None = x"
  using assms
  by (cases x; simp add: opt_part_ok_def or_empty_def part_ok_def or_keep_def utf8_ok_def)+

lemma name_parsed:
  assumes "case_tables lib" "name_ok n" "vf_middle f = None" "vf_prefix f = None" "vf_suffix f = None"
  shows "clean_line (name_line n) \<and> parse_line lib (name_line n) f =
    f\<lparr>vf_family := cn_family n, vf_given := cn_given n, vf_middle := cn_middle n, vf_prefix := cn_prefix n,
      vf_suffix := cn_suffix n\<rparr>"
proof -
  let ?parts = "[cn_family n, cn_given n, or_empty (cn_middle n), or_empty (cn_prefix n), or_empty (cn_suffix n)]"
  have parts: "part_ok (cn_family n)" "part_ok (cn_given n)"
    and opts: "opt_part_ok (cn_middle n)" "opt_part_ok (cn_prefix n)" "opt_part_ok (cn_suffix n)"
    and suffix: "ends_plain (or_empty (cn_suffix n))" using assms(2) by (simp_all add: name_ok_def)
  have utf8: "list_all utf8_ok ?parts" and cr: "list_all (\<lambda>x. cr \<notin> set x) ?parts"
    and semi: "list_all (\<lambda>x. CHR '';'' \<notin> set x) ?parts"
    using parts opts [THEN opt_part(1)] opts [THEN opt_part(2)] opts [THEN opt_part(3)] by (simp_all add: part_ok_def)
  have "split_on (CHR '';'') (join '';'' (map escape_value ?parts)) = map escape_value ?parts"
    unfolding list.map by (rule split_on_join) (use semi in \<open>simp add: semicolon_escape\<close>)
  then have "parse_name (join '';'' (map escape_value ?parts)) f =
    f\<lparr>vf_family := cn_family n, vf_given := cn_given n, vf_middle := cn_middle n, vf_prefix := cn_prefix n,
      vf_suffix := cn_suffix n\<rparr>"
    using assms(3-5) by (simp add: parse_name_def Let_def nth_or_empty_def opts [THEN opt_part(4)])
  moreover have "value_ok (join '';'' (map escape_value ?parts))"
    using value_ok_join [of "escape_value (cn_family n)" "map escape_value (butlast (tl ?parts))" "escape_value (last ?parts)"]
      utf8 cr suffix by (simp add: utf8_ok_escape escape_value_lines ends_plain_escape)
  moreover have "capitals ''N''" by (simp add: capitals_def)
  ultimately show ?thesis using plain_parsed [OF assms(1), of "''N''"]
    by (simp add: name_line_def parse_property_def del: join.simps list.map)
qed

lemma display_name_ok:
  assumes "name_ok n"
  shows "utf8_ok (display_name n)" "cr \<notin> set (display_name n)"
proof -
  let ?parts = "opt_list (cn_prefix n) @ [cn_given n] @ opt_list (cn_middle n) @ [cn_family n] @ opt_list (cn_suffix n)"
  have opt: "list_all part_ok (opt_list x)" if "opt_part_ok x" for x
    using that by (cases x) (simp_all add: opt_list_def opt_part_ok_def)
  then have "list_all part_ok ?parts" using assms by (simp add: name_ok_def)
  then have parts: "list_all utf8_ok ?parts" "list_all (list_all (\<lambda>c. c \<noteq> cr)) ?parts"
    by (auto simp: part_ok_def list_all_iff)
  have "utf8_ok '' ''" using utf8_ok_blank [of "[]"] by (simp add: utf8_ok_def)
  from utf8_ok_join [OF this parts(1)] show "utf8_ok (display_name n)" by (simp add: display_name_def)
  have "list_all (\<lambda>c. c \<noteq> cr) (display_name n)"
    unfolding display_name_def by (rule list_all_join [OF _ parts(2)]) simp
  then show "cr \<notin> set (display_name n)" by (auto simp: list_all_iff)
qed

text \<open>Trimming a property line never reaches its colon.\<close>

lemma trim_keeps_head:
  assumes "prop_head p" "utf8_ok v"
  shows "\<exists>w. trim (p @ CHR '':'' # v) = p @ CHR '':'' # w"
proof -
  let ?pre = "map (\<lambda>c. [c]) (p @ '':'')"
  have "ascii (p @ '':'')" using prop_head_ascii(1) [OF assms(1)] by simp
  then have c: "utf8_chars (p @ CHR '':'' # v) = ?pre @ utf8_chars v"
    using utf8_chars_append_ok [OF assms(2), of "p @ '':''"] utf8_ascii by simp
  have front: "dropWhile is_whitespace (?pre @ utf8_chars v) = ?pre @ utf8_chars v"
    using prop_head_ascii(2, 3) [OF assms(1)] by (cases p) auto
  have "\<not> is_whitespace '':''" by (simp add: is_whitespace_ascii)
  then have "dropWhile is_whitespace (rev ?pre) = rev ?pre" by simp
  then have "\<exists>ws. rev (dropWhile is_whitespace (rev (utf8_chars v) @ rev ?pre)) = ?pre @ ws"
    by (cases "\<forall>g \<in> set (rev (utf8_chars v)). is_whitespace g") (simp_all add: dropWhile_append)
  then obtain ws where "trim (p @ CHR '':'' # v) = concat (?pre @ ws)" unfolding trim_def c front rev_append by metis
  then show ?thesis by (simp add: concat_map_singleton)
qed

lemma ignored_line:
  assumes "case_tables lib" "capitals p" "utf8_ok v" "one_line v" "p \<notin> {''N'', ''EMAIL'', ''TEL'', ''ADR'', ''ORG'', ''UID''}"
  shows "clean_line (p @ CHR '':'' # v) \<and> parse_line lib (p @ CHR '':'' # v) f = f"
proof -
  have head: "prop_head p" using assms(2) by (auto simp: capitals_def prop_head_def head_char_def list_all_iff)
  obtain w where "trim (p @ CHR '':'' # v) = p @ CHR '':'' # w" using trim_keeps_head [OF head assms(3)] by blast
  moreover have "CHR '';'' \<notin> set p" using assms(2) by (auto simp: capitals_def list_all_iff)
  ultimately show ?thesis
    using clean_head [OF head assms(3, 4)] prop_head_ascii(4) [OF head] upper_head [OF assms(1, 2)] assms(5)
    by (simp add: parse_line_def split_once_def splitn2_present parse_property_name_def split_on_absent parse_property_def)
qed

section \<open>The whole document\<close>

text \<open>What a list of lines does to the fields, when each of its lines is clean.\<close>

lemma emails_parsed:
  assumes "case_tables lib" "list_all (\<lambda>e. value_ok (ce_address e) \<and> ce_primary e \<noteq> Some False) es"
  shows "list_all clean_line (map email_line es) \<and>
    fold (parse_line lib) (map email_line es) f = f\<lparr>vf_emails := vf_emails f @ es\<rparr>"
  using assms(2) by (induction es arbitrary: f) (simp_all add: email_parsed [OF assms(1)])

lemma phones_parsed:
  assumes "case_tables lib" "list_all (\<lambda>p. value_ok (ct_number p) \<and> ct_primary p = None) ps"
  shows "list_all clean_line (map phone_line ps) \<and>
    fold (parse_line lib) (map phone_line ps) f = f\<lparr>vf_phones := vf_phones f @ ps\<rparr>"
  using assms(2) by (induction ps arbitrary: f) (simp_all add: phone_parsed [OF assms(1)])

lemma addresses_parsed:
  assumes "case_tables lib" "list_all address_ok as"
  shows "list_all clean_line (map address_line as) \<and>
    fold (parse_line lib) (map address_line as) f = f\<lparr>vf_addresses := vf_addresses f @ as\<rparr>"
  using assms(2) by (induction as arbitrary: f) (simp_all add: address_parsed [OF assms(1)])

lemma organization_parsed:
  assumes "case_tables lib" "vf_organization f = None"
    and "case org of Some v \<Rightarrow> v \<noteq> [] \<and> part_ok v \<and> ends_plain v | None \<Rightarrow> True"
  defines "ls \<equiv> map (\<lambda>v. ''ORG:'' @ escape_value v) (opt_list org)"
  shows "list_all clean_line ls \<and> fold (parse_line lib) ls f = f\<lparr>vf_organization := org\<rparr>"
proof (cases org)
  case (Some v)
  have ok: "value_ok (escape_value v)" and semi: "CHR '';'' \<notin> set (escape_value v)" and v: "v \<noteq> []"
    using assms(3) Some by (simp_all add: part_ok_def value_ok_escape semicolon_escape)
  have "capitals ''ORG''" by (simp add: capitals_def)
  from plain_parsed [OF assms(1) this ok] semi v show ?thesis
    by (simp add: ls_def Some opt_list_def parse_property_def split_on_absent or_keep_def)
qed (use assms(2) in \<open>simp add: ls_def opt_list_def\<close>)

lemma fixed_lines:
  assumes "case_tables lib" "list_all is_ascii_alphanumeric r"
  shows "clean_line ''BEGIN:VCARD'' \<and> parse_line lib ''BEGIN:VCARD'' f = f"
    "clean_line ''VERSION:4.0'' \<and> parse_line lib ''VERSION:4.0'' f = f"
    "clean_line ''END:VCARD'' \<and> parse_line lib ''END:VCARD'' f = f"
    "clean_line (''REV:'' @ r) \<and> parse_line lib (''REV:'' @ r) f = f"
proof -
  have "capitals ''BEGIN''" "capitals ''VERSION''" "capitals ''END''" "capitals ''REV''" by (simp_all add: capitals_def)
  moreover have "utf8_ok ''VCARD''" "utf8_ok ''4.0''" using utf8_ascii [of "''VCARD''"] utf8_ascii [of "''4.0''"] by simp_all
  moreover have "utf8_ok r" "one_line r" using value_ok_ascii [OF assms(2)] by (simp_all add: value_ok_def)
  ultimately show "clean_line ''BEGIN:VCARD'' \<and> parse_line lib ''BEGIN:VCARD'' f = f"
    "clean_line ''VERSION:4.0'' \<and> parse_line lib ''VERSION:4.0'' f = f"
    "clean_line ''END:VCARD'' \<and> parse_line lib ''END:VCARD'' f = f"
    "clean_line (''REV:'' @ r) \<and> parse_line lib (''REV:'' @ r) f = f"
    using ignored_line [OF assms(1), of "''BEGIN''" "''VCARD''" f] ignored_line [OF assms(1), of "''VERSION''" "''4.0''" f]
      ignored_line [OF assms(1), of "''END''" "''VCARD''" f] ignored_line [OF assms(1), of "''REV''" r f] by simp_all
qed

lemma fields_parsed:
  assumes "case_tables lib" "contact_ok c" "list_all is_ascii_alphanumeric (vl_format_rev lib (co_updated_at c))"
  shows "list_all clean_line (vcard_lines lib c) \<and>
    fold (parse_line lib) (vcard_lines lib c) no_fields =
      \<lparr>vf_given = cn_given (co_name c), vf_family = cn_family (co_name c), vf_middle = cn_middle (co_name c),
       vf_prefix = cn_prefix (co_name c), vf_suffix = cn_suffix (co_name c), vf_emails = co_emails c,
       vf_phones = co_phones c, vf_addresses = co_addresses c, vf_organization = co_organization c,
       vf_source_id = co_source_id c\<rparr>"
proof -
  have name: "name_ok (co_name c)" using assms(2) by (simp add: contact_ok_def)
  have "capitals ''FN''" "capitals ''UID''" by (simp_all add: capitals_def)
  moreover have "utf8_ok (escape_value (display_name (co_name c)))" "one_line (escape_value (display_name (co_name c)))"
    using display_name_ok [OF name] by (simp_all add: utf8_ok_escape escape_value_lines)
  ultimately have heads: "clean_line (''FN:'' @ escape_value (display_name (co_name c)))"
    "parse_line lib (''FN:'' @ escape_value (display_name (co_name c))) f = f"
    "clean_line (''UID:'' @ co_source_id c)" "parse_line lib (''UID:'' @ co_source_id c) f = f\<lparr>vf_source_id := co_source_id c\<rparr>" for f
    using ignored_line [OF assms(1), of "''FN''"] plain_parsed [OF assms(1), of "''UID''" "co_source_id c"] assms(2)
    by (simp_all add: contact_ok_def parse_property_def)
  note fixed = fixed_lines [OF assms(1, 3)]
  have "clean_line (name_line (co_name c))"
    using name_parsed [OF assms(1) name, of no_fields] by (simp add: no_fields_def)
  moreover have "list_all clean_line (map (\<lambda>v. ''ORG:'' @ escape_value v) (opt_list (co_organization c)))"
    using organization_parsed [OF assms(1), of no_fields] assms(2) by (simp add: no_fields_def contact_ok_def)
  ultimately show ?thesis
    using assms(2) unfolding vcard_lines_def contact_ok_def
    by (simp add: no_fields_def fixed [simplified] heads [simplified] name_parsed [OF assms(1)] emails_parsed [OF assms(1)]
        phones_parsed [OF assms(1)] addresses_parsed [OF assms(1)] organization_parsed [OF assms(1), simplified])
qed

text \<open>
  C10: a contact written as a vCard and read back is the same contact: parsing the folded vCard gives the same
  name, e-mail addresses, phone numbers, postal addresses, organisation and source identifier, in the same
  order; the fields a vCard does not carry come back empty, and the identifier and the time stamps are fresh.
  The contact must be one that the format can hold (\<open>contact_ok\<close>): texts are UTF-8 without carriage returns, and
  parts of the name, of an address and the organisation have no semicolon; there is a given or a family name
  and a source identifier; optional texts are absent rather than empty; values that are written without
  escaping (addresses, numbers, the source identifier) are single lines, address parts trimmed and without
  backslash; the last value of a line does not end in white space; and what the writer drops is absent (the type
  of an address, the preference of a phone, a preference that is false). The case tables agree with ASCII, and
  the revision time is written in letters and digits.
\<close>

theorem contact_round_trip:
  assumes "case_tables lib" "contact_ok c" "list_all is_ascii_alphanumeric (vl_format_rev lib (co_updated_at c))"
  shows "vcard_to_contact lib (contact_to_vcard lib c) =
    Inr (c\<lparr>co_id := vl_id lib, co_title := None, co_birthday := None, co_photo_url := None, co_notes := None,
      co_groups := [], co_source := ''carddav-api'', co_extensions := None,
      co_created_at := vl_now lib, co_updated_at := vl_now lib\<rparr>)"
proof -
  note parsed = fields_parsed [OF assms]
  have lines: "str_lines (unfold_lines (contact_to_vcard lib c)) = vcard_lines lib c"
    unfolding contact_to_vcard_def by (rule unfold_folded [OF conjunct1 [OF parsed]])
  have trims: "trim ''BEGIN:VCARD'' = ''BEGIN:VCARD''" "trim ''END:VCARD'' = ''END:VCARD''"
    by (rule trim_ascii; simp add: is_whitespace_ascii)+
  have mem: "''BEGIN:VCARD'' \<in> set (vcard_lines lib c)" "''END:VCARD'' \<in> set (vcard_lines lib c)"
    by (simp_all only: vcard_lines_def set_append list.set Un_iff insert_iff simp_thms)
  have frame: "list_ex (\<lambda>l. eq_ignore_ascii_case (trim l) ''BEGIN:VCARD'') (vcard_lines lib c)"
    "list_ex (\<lambda>l. eq_ignore_ascii_case (trim l) ''END:VCARD'') (vcard_lines lib c)"
    unfolding list_ex_iff
    by (rule bexI [OF _ mem(1)], simp only: trims eq_ignore_ascii_case_def)
      (rule bexI [OF _ mem(2)], simp only: trims eq_ignore_ascii_case_def)
  have "\<not> (cn_given (co_name c) = [] \<and> cn_family (co_name c) = [])" "co_source_id c \<noteq> []"
    using assms(2) by (simp_all add: contact_ok_def name_ok_def)
  then show ?thesis
    unfolding vcard_to_contact_def lines Let_def conjunct2 [OF parsed] name_or_unnamed_def
    by (simp only: frame vcard_fields.select_convs simp_thms if_False) simp
qed

definition sample_vcard_lib :: vcard_lib where
  "sample_vcard_lib = \<lparr>vl_upper = map ascii_upper, vl_lower = map ascii_lower, vl_format_rev = (\<lambda>_. ''20260321T100000Z''),
     vl_uid = ''uid'', vl_id = ''new'', vl_now = 5\<rparr>"

definition sample_contact :: contact where
  "sample_contact =
     \<lparr>co_id = ''c1'', co_name = \<lparr>cn_given = ''Ann, the 2nd'', cn_family = ''Lee'', cn_prefix = Some ''Dr'', cn_suffix = None,
        cn_middle = None\<rparr>,
      co_emails = [\<lparr>ce_address = ''ann@x.org'', ce_email_type = Some InfoWork, ce_primary = Some True\<rparr>],
      co_phones = [\<lparr>ct_number = ''+1'', ct_phone_type = Some PhoneFax, ct_primary = None\<rparr>], co_addresses = [],
      co_organization = None, co_title = None, co_birthday = None, co_photo_url = None, co_notes = None, co_groups = [],
      co_source = ''carddav-api'', co_source_id = ''u-1'', co_extensions = None, co_created_at = 5, co_updated_at = 5\<rparr>"

theorem contact_round_trip_witness:
  "vcard_to_contact sample_vcard_lib (contact_to_vcard sample_vcard_lib sample_contact) = Inr (sample_contact\<lparr>co_id := ''new''\<rparr>)"
proof -
  have "case_tables sample_vcard_lib" by (simp add: case_tables_def sample_vcard_lib_def)
  moreover have "ends_plain v \<and> utf8_ok v" if "v \<in> {[], ''u-1'', ''ann@x.org'', ''+1'', ''Ann, the 2nd'', ''Lee'', ''Dr''}" for v
  proof -
    have "ascii v" using that by auto
    then show ?thesis using utf8_ascii [of v] that by (auto simp: ends_plain_def is_whitespace_ascii)
  qed
  then have "contact_ok sample_contact"
    by (simp add: contact_ok_def sample_contact_def name_ok_def part_ok_def opt_part_ok_def or_empty_def value_ok_def)
  moreover have "list_all is_ascii_alphanumeric (vl_format_rev sample_vcard_lib (co_updated_at sample_contact))"
    by (simp add: sample_vcard_lib_def is_ascii_alphanumeric_def is_ascii_alphabetic_def is_ascii_digit_def less_eq_char_def)
  ultimately have "vcard_to_contact sample_vcard_lib (contact_to_vcard sample_vcard_lib sample_contact) =
    Inr (sample_contact\<lparr>co_id := vl_id sample_vcard_lib, co_title := None, co_birthday := None, co_photo_url := None,
      co_notes := None, co_groups := [], co_source := ''carddav-api'', co_extensions := None,
      co_created_at := vl_now sample_vcard_lib, co_updated_at := vl_now sample_vcard_lib\<rparr>)"
    by (rule contact_round_trip)
  then show ?thesis by (simp add: sample_vcard_lib_def sample_contact_def)
qed

end
