(* ===== verification/Spec2Isabelle.thy ===== *)
theory Spec2Isabelle
  imports Lifecycle Loader_Props Jobs Event_Bus Scheduler System_Steps Schema_Versioning Plugin_System Migration_Props
    Index_Migration Conflict Legacy_Props Sync_Props Auth_Props Backup_Props Vcard_Props
begin

text \<open>
  Verification of the Life Engine core (a personal data server in Rust): its workflow engine, its plugin host, its
  storage layer, the replication between instances, authentication, backups and the contact serialiser.

  \<^bold>\<open>The program and its parts.\<close> A request reaches a transport, which authenticates it and hands it to the workflow
  engine. The engine looks up a workflow by its trigger (an endpoint, an event or a schedule) and runs its steps, each of
  which is the call of a plugin with a message. A plugin is a WASM module: everything it can reach, it reaches through
  host functions that were injected for the capabilities it was approved for. Data ends up in the table \<open>plugin_data\<close> of a
  SQLite database. Three interfaces write to it: the storage context with its document adapter (the built-in
  \<open>system.crud\<close> steps), the plugin-facing backend (the storage host functions, API keys) and the record adapter of the
  application (federation). Plugin migrations rewrite its rows, the backup plugin archives records.

  \<^bold>\<open>Conventions.\<close> A Rust \<open>Result\<close> is a sum with the error on the left (\<open>Inl\<close>), every early return and panic is a value.
  Stateful code passes its state explicitly: an operation is an \<open>action\<close>, a function from a state to a result and the next
  state, written with the combinators \<open>s_bind\<close>, \<open>s_return\<close>, \<open>s_fail\<close>, \<open>s_check\<close>, \<open>s_get\<close> and \<open>s_each\<close>. Concurrent tasks are
  interleaved by inductive step relations. Strings are byte strings in UTF-8, 64-bit integers are words or carry their
  bounds where they can overflow; whether a build checks overflow is a parameter. Libraries outside the repository
  (SQLite, JSON and TOML text, JSON Schema, cryptography, HTTP, JWT, TLS, WASM, cron, semver, gzip, random ids, the clock,
  the file system, the order of a hash map) are fields of environment records that the definitions take as an argument; what a
  theorem needs of them is a named hypothesis, shown to be satisfiable by a witness on a concrete instance. A database may
  fail any statement.

  \<^bold>\<open>Foundations.\<close>
  \<^item> \<open>Prelude\<close>: results, byte strings and the functions of the Rust standard library the code uses, the state calculus, stable
    sorting. Locale \<open>state_order\<close>: a preorder on states that operations respect is respected by their compositions
    (\<open>moves_intros\<close>); nearly all frame properties below are interpretations of it. Locale \<open>strict_weak_order\<close>: sorting.
  \<^item> \<open>Json\<close>: JSON values with objects ordered by key; locale \<open>string_map\<close> for the laws of the object operations.
  \<^item> \<open>Engine_Error\<close>: severities, the error trait, plugin errors (\<open>traits/src/error.rs\<close>, \<open>plugin-system/src/error.rs\<close>).
  \<^item> \<open>Crypto\<close>: framing of ciphertexts, keys per credential and domain, tags (\<open>crypto/src\<close>), with their round trips.

  \<^bold>\<open>Workflow engine\<close> (\<open>packages/workflow-engine/src\<close>).
  \<^item> \<open>Workflow_Types\<close> (\<open>types.rs\<close>, \<open>error.rs\<close>, \<open>types/src/pipeline.rs\<close>), \<open>Executor\<close> and \<open>Executor_Props\<close> (\<open>executor.rs\<close>):
    conditions, validation, the error strategies of a step, lists of steps with branches, whole runs. Shown: the log agrees
    with the exit, the schedule of retries, fatal errors halt, validated runs start and end on valid messages. Locale
    \<open>pipeline_host\<close>: what every plugin call keeps, every run keeps.
  \<^item> \<open>Jobs\<close> (the asynchronous half of \<open>executor.rs\<close>): the job registry and the background tasks as \<open>exec_step\<close>; the
    concurrency limit and the life cycle of jobs hold under every interleaving.
  \<^item> \<open>Loader\<close> and \<open>Loader_Props\<close> (\<open>loader.rs\<close>, \<open>triggers/mod.rs\<close>): exactly the well-formed directories are loaded.
  \<^item> \<open>Event_Bus\<close> (\<open>event_bus.rs\<close>, \<open>lib.rs\<close>): emission with loop prevention, endpoint requests.
  \<^item> \<open>Scheduler\<close> (\<open>scheduler.rs\<close>): the loops as \<open>sched_step\<close>; runs of a synchronous workflow do not overlap.
  \<^item> \<open>System_Steps\<close> (\<open>system_steps.rs\<close>, executors of \<open>apps/core/src/main.rs\<close>): the CRUD handler as a \<open>pipeline_host\<close> over the
    storage context.
  \<^item> \<open>Migration_Manifest\<close>, \<open>Migration\<close>, \<open>Migration_Props\<close> (\<open>migration/\<close>, with \<open>storage-sqlite/src/migration/\<close>): manifests, version
    ranges, a whole run with quarantine, log and backup. Shown: accepted entries lead to the newest version, a run leaves
    nothing behind and touches nothing else, its backup restores the database; and where the version column is in conflict
    with optimistic locking.

  \<^bold>\<open>Plugin system\<close> (\<open>packages/plugin-system/src\<close>).
  \<^item> \<open>Lifecycle\<close> (\<open>lifecycle.rs\<close>), \<open>Capability\<close> (\<open>capability.rs\<close>), \<open>Manifest\<close> (\<open>manifest.rs\<close>): the state machine and its invariant,
    approval, parsing and validation.
  \<^item> \<open>Host_Functions\<close>, \<open>Host_Props\<close> (\<open>host_functions/\<close>, \<open>injection.rs\<close>): every function a plugin can call; whatever it calls, it stays
    in its sandbox. Locale \<open>plugin_storage\<close> is the contract of the backend, interpreted on \<open>sqlite_backend\<close>.
  \<^item> \<open>Plugin_System\<close> (\<open>discovery.rs\<close>, \<open>loader.rs\<close>, \<open>runtime.rs\<close>, \<open>execute.rs\<close>): from a directory to running plugins; a workflow over
    loaded plugins reaches no row of a plugin that is not loaded, by the interpretation \<open>hosted\<close> of \<open>pipeline_host\<close>.

  \<^bold>\<open>Storage\<close> (\<open>packages/traits/src\<close>, \<open>packages/storage-sqlite/src\<close>).
  \<^item> \<open>Storage_Types\<close> (\<open>storage.rs\<close>, \<open>blob.rs\<close>, \<open>storage_router.rs\<close>): adapters as records of operations, the router with its
    deadlines. Locale \<open>document_store\<close> is the contract of a document adapter.
  \<^item> \<open>Index_Hints\<close>, \<open>Schema_Registry\<close>, \<open>Schema_Versioning\<close> (\<open>index_hints.rs\<close>, \<open>schema.rs\<close>, \<open>schema_versioning.rs\<close>): validation of
    writes, and that compatible changes are the additive ones of an independent inductive specification.
  \<^item> \<open>Sqlite_Filter\<close>, \<open>Sqlite_Document\<close>, \<open>Sqlite_Props\<close> (\<open>document.rs\<close>, \<open>schema.rs\<close>): query text, merge patches, every operation.
    Locales \<open>row_order\<close> and \<open>row_writes\<close> carry unique ids and frames through the operations; the adapter is interpreted as a
    \<open>document_store\<close>.
  \<^item> \<open>Storage_Context\<close>, \<open>Context_Props\<close> (\<open>storage_context.rs\<close>): capabilities, scoping, system fields, encrypted credentials, audit.
  \<^item> \<open>Sqlite_Backend\<close>, \<open>Backend_Props\<close> (\<open>backend.rs\<close>, \<open>validation.rs\<close>, \<open>credentials.rs\<close>, \<open>audit.rs\<close>, rekey in \<open>lib.rs\<close>): optimistic
    concurrency, scoped access, key rotation.
  \<^item> \<open>Index_Migration\<close> (\<open>migration/executor.rs\<close>): creation of indexes is idempotent.
  \<^item> \<open>Legacy_Storage\<close>, \<open>Legacy_Props\<close> (\<open>legacy.rs\<close>, \<open>traits/src/legacy_storage.rs\<close>): the record adapter of the application.

  \<^bold>\<open>Application, authentication and plugins.\<close>
  \<^item> \<open>Conflict\<close> (\<open>apps/core/src/conflict.rs\<close>): the field merge is a three-way merge.
  \<^item> \<open>Sync\<close>, \<open>Sync_Props\<close> (\<open>apps/core/src/sync_primitives.rs\<close>, \<open>federation.rs\<close>): pulls from a peer. Locales \<open>confined_store\<close> and
    \<open>versioned_store\<close> are the contracts of the adapter below, both interpreted on the record adapter.
  \<^item> \<open>Auth\<close>, \<open>Auth_Props\<close> (\<open>packages/auth/src\<close>, \<open>transport-rest/src/middleware/auth.rs\<close>): what is forwarded is authenticated, failed
    attempts are bounded under concurrent requests (\<open>lim_step\<close>), what an accepted API key stands for.
  \<^item> \<open>Backup\<close>, \<open>Backup_Props\<close> (\<open>plugins/engine/backup/src\<close>): backups restore, retention is exact. Locale \<open>backup_store\<close> is the
    contract of a backend, interpreted on the local directory.
  \<^item> \<open>Vcard\<close>, \<open>Vcard_Props\<close> (\<open>plugins/engine/api-carddav/src/serializer.rs\<close>, \<open>dav-utils/src/text.rs\<close>, \<open>types/src/contacts.rs\<close>): contacts
    survive writing and reading, folding at 75 octets is undone by unfolding.

  \<^bold>\<open>Bounds, fuel and termination.\<close> All operations are total; recursion that is not structural has a termination proof (steps
  with branches, nested schemas, merge patches, index texts). The one use of fuel is the client \<open>follow\<close> that asks for page
  after page: one page more than there are rows is proved to be enough, for every page limit but zero. The scheduler, the
  background tasks, the limiter of failed attempts and the federation store run for ever; they are step relations and their
  properties invariants of all reachable states. A WASM module is a well-founded tree of host calls, because the runtime
  stops it after a time limit. The theorem on cursors needs fewer than \<open>2\<^sup>6\<^sup>3\<close> rows, the ones on record versions and
  migrations versions below \<open>2\<^sup>6\<^sup>3\<close>. Row versions of the plugin-facing backend are unbounded integers.

  \<^bold>\<open>Not modelled.\<close> Log macros. Opening a database, its key and its DDL, and the evaluation of query text, which are SQLite's; watch
  channels, which only hand on events. The routers and listeners of the transports and the HTTP routes of the application, the
  connectors for mail, calendars and contacts, webhooks, the remote backup backends and full-text search: their
  behaviour is that of web frameworks, remote services and libraries. CalDAV and the protocol half of CardDAV, which build XML
  and read calendars with third-party parsers. The native plugin host of the application with its signatures and the legacy
  providers of authentication, which stand beside the packages modelled here. Configuration, households, identity
  credentials and the credential store of the application, export and blob files, which the modelled parts do not depend on.
  The plugin SDK and code of tests.
\<close>

end
